(* ===== verification/Prelude.thy ===== *)
theory Prelude
  imports Main "HOL-Library.Word" "HOL-Library.Multiset"
begin

text \<open>
  The vocabulary every component of the development shares: Go's error values, the three ways a
  Go call can end (it returns, it panics, it blocks for ever), cancellation contexts, the
  fixed-width integers, the string functions of the standard library that the program uses, and
  generic lemmas on lists and options.

  The collection \<open>go_simps\<close> holds the equations that evaluate calls; component theories add
  their own unfolding rules to it.
\<close>

named_theorems go_simps \<open>evaluation of Go calls\<close>

section \<open>Errors\<close>

text \<open>
  A Go error is a sentinel value (\<open>sql.ErrNoRows\<close>, \<open>redis.Nil\<close>), a formatted
  message (\<open>errors.New\<close>, \<open>fmt.Errorf\<close> with \<open>%s\<close> or \<open>%v\<close>), or a message
  that wraps another error (\<open>fmt.Errorf\<close> with \<open>%w\<close>).
\<close>

datatype error = Sentinel string | Errorf string | Wrapf string error

fun Error :: "error \<Rightarrow> string" where
  "Error (Sentinel m) = m"
| "Error (Errorf m) = m"
| "Error (Wrapf m e) = m @ Error e"

fun errors_Is :: "error \<Rightarrow> error \<Rightarrow> bool" where
  "errors_Is (Wrapf m e) t = (Wrapf m e = t \<or> errors_Is e t)"
| "errors_Is e t = (e = t)"

definition ErrNoRows :: error where
  "ErrNoRows = Sentinel ''sql: no rows in result set''"

definition RedisNil :: error where
  "RedisNil = Sentinel ''redis: nil''"

section \<open>Outcomes of calls\<close>

text \<open>
  \<open>Returns v\<close> is a normal return; \<open>Panics w\<close> and \<open>Blocks w\<close> carry the state the call
  left behind when it panicked or went to sleep for good. \<open>Next\<close> and \<open>Stop\<close> are the two
  ways one iteration of a loop ends.
\<close>

datatype ('a, 'w) go = Returns 'a | Panics 'w | Blocks 'w

datatype ('s, 'r) loop = Next 's | Stop 'r

fun map_go :: "('a \<Rightarrow> 'b) \<Rightarrow> ('v \<Rightarrow> 'w) \<Rightarrow> ('a, 'v) go \<Rightarrow> ('b, 'w) go" where
  "map_go f g (Returns a) = Returns (f a)"
| "map_go f g (Panics w) = Panics (g w)"
| "map_go f g (Blocks w) = Blocks (g w)"

text \<open>Sequencing: the rest runs only when the first call returns.\<close>

definition go_bind :: "('a, 'w) go \<Rightarrow> ('a \<Rightarrow> ('b, 'w) go) \<Rightarrow> ('b, 'w) go" where
  "go_bind r f = (case r of Returns a \<Rightarrow> f a | Panics w \<Rightarrow> Panics w | Blocks w \<Rightarrow> Blocks w)"

text \<open>Every state a call can leave behind satisfies a property.\<close>

fun go_all :: "('a \<Rightarrow> bool) \<Rightarrow> ('w \<Rightarrow> bool) \<Rightarrow> ('a, 'w) go \<Rightarrow> bool" where
  "go_all P Q (Returns a) = P a"
| "go_all P Q (Panics w) = Q w"
| "go_all P Q (Blocks w) = Q w"

section \<open>Contexts\<close>

text \<open>
  A \<open>context.Context\<close> is seen by the program only when it polls \<open>Done\<close>. The schedule of
  answers is arbitrary: \<open>c i\<close> is what the \<open>i\<close>-th poll from now on sees, \<open>None\<close> while
  the context is live and \<open>Some e\<close> (with \<open>e\<close> the value of \<open>Err\<close>) once it is done.
\<close>

type_synonym 'a schedule = "nat \<Rightarrow> 'a"
type_synonym gocontext = "error option schedule"

definition poll :: "'a schedule \<Rightarrow> 'a" where
  "poll c = c 0"

definition advance :: "'a schedule \<Rightarrow> 'a schedule" where
  "advance c = (\<lambda>i. c (Suc i))"

definition Background :: gocontext where
  "Background = (\<lambda>_. None)"

section \<open>Fixed-width integers\<close>

definition go_uint64 :: "int \<Rightarrow> int" where
  "go_uint64 x = x mod 2 ^ 64"

definition go_int64 :: "int \<Rightarrow> int" where
  "go_int64 x = (x + 2 ^ 63) mod 2 ^ 64 - 2 ^ 63"

definition go_int32 :: "int \<Rightarrow> int" where
  "go_int32 x = (x + 2 ^ 31) mod 2 ^ 32 - 2 ^ 31"

section \<open>Strings\<close>

text \<open>\<open>strings.HasPrefix\<close>, \<open>strings.Contains\<close>, \<open>strings.ToLower\<close> (on the ASCII
  range) and \<open>strings.Join\<close>.\<close>

fun strings_HasPrefix :: "string \<Rightarrow> string \<Rightarrow> bool" where
  "strings_HasPrefix s [] = True"
| "strings_HasPrefix [] (p # ps) = False"
| "strings_HasPrefix (c # s) (p # ps) = (c = p \<and> strings_HasPrefix s ps)"

fun strings_Contains :: "string \<Rightarrow> string \<Rightarrow> bool" where
  "strings_Contains [] p = (p = [])"
| "strings_Contains (c # s) p = (strings_HasPrefix (c # s) p \<or> strings_Contains s p)"

definition char_ToLower :: "char \<Rightarrow> char" where
  "char_ToLower c = (let n = of_char c :: nat in if 65 \<le> n \<and> n \<le> 90 then char_of (n + 32) else c)"

definition strings_ToLower :: "string \<Rightarrow> string" where
  "strings_ToLower s = map char_ToLower s"

fun strings_Join :: "string list \<Rightarrow> string \<Rightarrow> string" where
  "strings_Join [] sep = []"
| "strings_Join [s] sep = s"
| "strings_Join (s # t # ss) sep = s @ sep @ strings_Join (t # ss) sep"

definition quoted :: "string \<Rightarrow> string" where
  "quoted s = CHR 0x27 # s @ [CHR 0x27]"

section \<open>Lists that are used as sets\<close>

text \<open>Linear membership test and the append that keeps a list free of duplicates.\<close>

fun slice_contains :: "'a list \<Rightarrow> 'a \<Rightarrow> bool" where
  "slice_contains [] y = False"
| "slice_contains (x # xs) y = (if x = y then True else slice_contains xs y)"

definition append_new :: "'a list \<Rightarrow> 'a \<Rightarrow> 'a list" where
  "append_new xs y = (if slice_contains xs y then xs else xs @ [y])"

section \<open>Lemmas\<close>

lemma poll_Background [simp]: "poll Background = None"
  by (simp add: poll_def Background_def)

lemma advance_Background [simp]: "advance Background = Background"
  by (simp add: advance_def Background_def)

lemma ErrNoRows_neq_RedisNil [simp]: "ErrNoRows \<noteq> RedisNil" "RedisNil \<noteq> ErrNoRows"
  by (simp_all add: ErrNoRows_def RedisNil_def)

lemma errors_Is_refl [simp]: "errors_Is e e"
  by (cases e) simp_all

lemma errors_Is_Wrapf [simp]: "errors_Is e t \<Longrightarrow> errors_Is (Wrapf m e) t"
  by simp

lemma errors_Is_Errorf_ErrNoRows [simp]: "\<not> errors_Is (Errorf m) ErrNoRows"
  by (simp add: ErrNoRows_def)

lemma go_uint64_range [simp]: "0 \<le> go_uint64 x" "go_uint64 x < 2 ^ 64"
  by (simp_all add: go_uint64_def)

lemma go_uint64_id: "0 \<le> x \<Longrightarrow> x < 2 ^ 64 \<Longrightarrow> go_uint64 x = x"
  by (simp add: go_uint64_def)

lemma go_int64_id: "- (2 ^ 63) \<le> x \<Longrightarrow> x < 2 ^ 63 \<Longrightarrow> go_int64 x = x"
  by (simp add: go_int64_def)

lemma go_int64_range: "- (2 ^ 63) \<le> go_int64 x" "go_int64 x < 2 ^ 63"
proof -
  have "0 \<le> (x + 2 ^ 63) mod 2 ^ 64" and "(x + 2 ^ 63) mod 2 ^ 64 < 2 ^ 63 + 2 ^ 63" by simp_all
  then show "- (2 ^ 63) \<le> go_int64 x" and "go_int64 x < 2 ^ 63"
    unfolding go_int64_def by linarith+
qed

lemma strings_HasPrefix_append [simp]: "strings_HasPrefix (p @ s) p"
  by (induction p) simp_all

lemma strings_HasPrefix_iff: "strings_HasPrefix s p \<longleftrightarrow> (\<exists>r. s = p @ r)"
  by (induction s p rule: strings_HasPrefix.induct) auto

lemma strings_Contains_iff: "strings_Contains s p \<longleftrightarrow> (\<exists>u v. s = u @ p @ v)"
proof (induction s p rule: strings_Contains.induct)
  case (2 c s p)
  have "(\<exists>u v. c # s = u @ p @ v) \<longleftrightarrow> (\<exists>v. c # s = p @ v) \<or> (\<exists>u v. s = u @ p @ v)"
    by (metis append_Cons append_Nil list.inject neq_Nil_conv)
  with 2 show ?case by (simp add: strings_HasPrefix_iff)
qed simp

lemma slice_contains_iff [simp]: "slice_contains xs y \<longleftrightarrow> y \<in> set xs"
  by (induction xs) auto

lemma set_append_new [simp]: "set (append_new xs y) = insert y (set xs)"
  by (auto simp: append_new_def)

lemma distinct_append_new [simp]: "distinct xs \<Longrightarrow> distinct (append_new xs y)"
  by (simp add: append_new_def)

lemma append_new_idem [simp]: "append_new (append_new xs y) y = append_new xs y"
  by (simp add: append_new_def)

lemma prefix_append_new: "\<exists>zs. append_new xs y = xs @ zs"
  by (simp add: append_new_def)

lemma map_go_Returns_iff: "map_go f g r = Returns b \<longleftrightarrow> (\<exists>a. r = Returns a \<and> b = f a)"
  by (cases r) auto

lemma go_all_map_go [simp]: "go_all P Q (map_go f g r) = go_all (\<lambda>a. P (f a)) (\<lambda>w. Q (g w)) r"
  by (cases r) simp_all

lemma go_bind_simps [simp]:
  "go_bind (Returns a) f = f a" "go_bind (Panics w) f = Panics w" "go_bind (Blocks w) f = Blocks w"
  by (simp_all add: go_bind_def)

lemma go_all_bind [simp]: "go_all P Q (go_bind r f) = go_all (\<lambda>a. go_all P Q (f a)) Q r"
  by (cases r) simp_all

lemma go_bind_Returns_iff: "go_bind r f = Returns b \<longleftrightarrow> (\<exists>a. r = Returns a \<and> f a = Returns b)"
  by (cases r) auto

lemma go_bind_assoc: "go_bind (go_bind r f) g = go_bind r (\<lambda>a. go_bind (f a) g)"
  by (cases r) simp_all

lemma go_all_mono:
  "go_all P Q r \<Longrightarrow> (\<And>a. P a \<Longrightarrow> P' a) \<Longrightarrow> (\<And>w. Q w \<Longrightarrow> Q' w) \<Longrightarrow> go_all P' Q' r"
  by (cases r) auto

lemma find_Some_mem: "List.find P xs = Some x \<Longrightarrow> x \<in> set xs \<and> P x"
  by (induction xs) (auto split: if_splits)

lemma mset_concat_perm: "mset xs = mset ys \<Longrightarrow> mset (concat (map f xs)) = mset (concat (map f ys))"
  by (metis mset_concat mset_map map_map sum_mset_sum_list)

end
