(* ===== verification/Machine.thy ===== *)
theory Machine
  imports Prelude
begin

text \<open>
  Package \<open>machine\<close> (src/pkg/machine): the generic state machine that drives the unpacking of
  a contract. The record \<open>StateMachine\<close> is the struct, one definition per method follows in the
  order of machine.go, and the \<open>for\<close> loop of \<open>Process\<close> is a partial function over one loop
  iteration, \<open>process_iter\<close>. A nil map is \<open>None\<close>: reading it finds nothing, writing to it
  panics. The mutex is a flag: locking a mutex that the same goroutine holds blocks for ever.
  The type variable \<open>'d\<close> is the carried data with everything reachable from it.
\<close>

section \<open>Types\<close>

type_synonym State = string
type_synonym Action = string

record 'd Handler =
  h_Enter :: "('d \<Rightarrow> ('d \<times> error option, 'd) go) option"
  h_Process :: "('d \<Rightarrow> (State \<times> 'd \<times> error option, 'd) go) option"
  h_Exit :: "('d \<Rightarrow> ('d \<times> error option, 'd) go) option"

record 'd StateMachine =
  sm_ctx :: gocontext
  currentState :: State
  finalState :: State
  errorState :: State
  states :: "(State \<rightharpoonup> 'd Handler) option"
  transitions :: "(State \<rightharpoonup> (Action \<rightharpoonup> State)) option"
  sm_data :: 'd
  processedStates :: "State list"
  sm_history :: "State list"
  paused :: bool
  mu :: bool

type_synonym ('r, 'd) sm_call = "'d StateMachine \<Rightarrow> ('r \<times> 'd StateMachine, 'd StateMachine) go"

definition map_lookup :: "('k \<rightharpoonup> 'v) option \<Rightarrow> 'k \<Rightarrow> 'v option" where
  "map_lookup m k = (case m of None \<Rightarrow> None | Some f \<Rightarrow> f k)"

section \<open>Operations\<close>

text \<open>\<open>mu.Lock(); defer mu.Unlock()\<close> around a method body: the deferred unlock also runs when
  the body panics.\<close>

definition locked :: "('r, 'd) sm_call \<Rightarrow> ('r, 'd) sm_call" where
  "locked body sm =
     (if mu sm then Blocks sm
      else (case body (sm\<lparr>mu := True\<rparr>) of
              Returns (r, s) \<Rightarrow> Returns (r, s\<lparr>mu := False\<rparr>)
            | Panics s \<Rightarrow> Panics (s\<lparr>mu := False\<rparr>)
            | Blocks s \<Rightarrow> Blocks s))"

definition NewStateMachine :: "gocontext \<Rightarrow> State \<Rightarrow> 'd \<Rightarrow> 'd StateMachine" where
  "NewStateMachine c initialState d =
     \<lparr>sm_ctx = c, currentState = initialState, finalState = '''', errorState = '''',
      states = Some Map.empty, transitions = Some Map.empty, sm_data = d,
      processedStates = [initialState], sm_history = [initialState],
      paused = False, mu = False\<rparr>"

definition RegisterState :: "State \<Rightarrow> 'd Handler \<Rightarrow> (unit, 'd) sm_call" where
  "RegisterState st h = locked (\<lambda>sm.
     case states sm of
       None \<Rightarrow> Panics sm
     | Some m \<Rightarrow> Returns ((), sm\<lparr>states := Some (m(st \<mapsto> h))\<rparr>))"

definition RegisterFinalState :: "State \<Rightarrow> (error option, 'd) sm_call" where
  "RegisterFinalState st = locked (\<lambda>sm. Returns (None, sm\<lparr>finalState := st\<rparr>))"

definition RegisterErrorState :: "State \<Rightarrow> (error option, 'd) sm_call" where
  "RegisterErrorState st = locked (\<lambda>sm.
     if map_lookup (states sm) st = None
     then Returns (Some (Errorf (''handler for error state '' @ quoted st @ '' is not registered'')), sm)
     else Returns (None, sm\<lparr>errorState := st\<rparr>))"

definition RegisterTransition :: "State \<Rightarrow> Action \<Rightarrow> State \<Rightarrow> (error option, 'd) sm_call" where
  "RegisterTransition from act to = locked (\<lambda>sm.
     if map_lookup (states sm) from = None
     then Returns (Some (Errorf (''handler for source state '' @ quoted from @ '' is not registered'')), sm)
     else if map_lookup (states sm) to = None
     then Returns (Some (Errorf (''handler for destination state '' @ quoted to @ '' from '' @ quoted from
            @ '' is not registered'')), sm)
     else (case transitions sm of
             None \<Rightarrow> Panics sm
           | Some t \<Rightarrow>
               let inner = (case t from of None \<Rightarrow> Map.empty | Some a \<Rightarrow> a)
               in Returns (None, sm\<lparr>transitions := Some (t(from \<mapsto> inner(act \<mapsto> to)))\<rparr>)))"

definition transition :: "State \<Rightarrow> (error option, 'd) sm_call" where
  "transition nextState = locked (\<lambda>sm.
     Returns (None, sm\<lparr>processedStates := processedStates sm @ [nextState],
                       sm_history := sm_history sm @ [nextState],
                       currentState := nextState\<rparr>))"

definition Trigger :: "Action \<Rightarrow> (error option, 'd) sm_call" where
  "Trigger act = locked (\<lambda>sm.
     if paused sm then Returns (Some (Errorf ''state machine is paused''), sm)
     else
       (case Option.bind (map_lookup (transitions sm) (currentState sm)) (\<lambda>a. a act) of
          None \<Rightarrow> Returns (Some (Errorf (''invalid transition from state '' @ currentState sm
                    @ '' with action '' @ act)), sm)
        | Some nextState \<Rightarrow>
            (case transition nextState sm of
               Returns (Some err, sm') \<Rightarrow>
                 if errorState sm' \<noteq> '''' then transition (errorState sm') sm'
                 else Returns (Some err, sm')
             | r \<Rightarrow> r)))"

text \<open>The branch every failure inside \<open>Process\<close> takes: move to the error state if there is
  one, otherwise hand the error to the caller.\<close>

definition fail_with :: "error \<Rightarrow> (error option, 'd) sm_call" where
  "fail_with err sm =
     (if errorState sm \<noteq> '''' then transition (errorState sm) sm else Returns (Some err, sm))"

text \<open>An optional \<open>Enter\<close> or \<open>Exit\<close> callback; a callback that is nil is skipped.\<close>

definition run_callback ::
  "('d \<Rightarrow> ('d \<times> error option, 'd) go) option \<Rightarrow> (error option, 'd) sm_call" where
  "run_callback cb sm =
     (case cb of
        None \<Rightarrow> Returns (None, sm)
      | Some f \<Rightarrow> map_go (\<lambda>(d, e). (e, sm\<lparr>sm_data := d\<rparr>)) (\<lambda>d. sm\<lparr>sm_data := d\<rparr>) (f (sm_data sm)))"

text \<open>\<open>nextState, sm.data, err = handler.Process(sm.data)\<close>; calling a nil function panics.\<close>

definition run_process :: "'d Handler \<Rightarrow> (State \<times> error option, 'd) sm_call" where
  "run_process h sm =
     (case h_Process h of
        None \<Rightarrow> Panics sm
      | Some f \<Rightarrow> map_go (\<lambda>(n, d, e). ((n, e), sm\<lparr>sm_data := d\<rparr>)) (\<lambda>d. sm\<lparr>sm_data := d\<rparr>) (f (sm_data sm)))"

text \<open>The end of an iteration: move to the next state and stop when it is the final one.\<close>

definition finish_iter ::
  "State \<Rightarrow> 'd StateMachine
   \<Rightarrow> ('d StateMachine, (error option \<times> 'd StateMachine, 'd StateMachine) go) loop" where
  "finish_iter nextState sm =
     (case transition nextState sm of
        Returns (Some err, sm') \<Rightarrow> Stop (fail_with err sm')
      | Returns (None, sm') \<Rightarrow>
          if nextState = finalState sm' then Stop (Returns (None, sm')) else Next sm'
      | r \<Rightarrow> Stop r)"

text \<open>One iteration of the loop of \<open>Process\<close>, stage by stage: the exit callback, the
  process callback with the check of the state it asks for, the enter callback, and the guards
  before them.\<close>

definition iter_exit ::
  "'d Handler \<Rightarrow> State \<Rightarrow> 'd StateMachine
   \<Rightarrow> ('d StateMachine, (error option \<times> 'd StateMachine, 'd StateMachine) go) loop" where
  "iter_exit handler nextState sm =
     (case run_callback (h_Exit handler) sm of
        Returns (Some err, sm') \<Rightarrow> Stop (fail_with err sm')
      | Returns (None, sm') \<Rightarrow> finish_iter nextState sm'
      | Panics s \<Rightarrow> Stop (Panics s)
      | Blocks s \<Rightarrow> Stop (Blocks s))"

definition iter_process ::
  "'d Handler \<Rightarrow> 'd StateMachine
   \<Rightarrow> ('d StateMachine, (error option \<times> 'd StateMachine, 'd StateMachine) go) loop" where
  "iter_process handler sm =
     (case run_process handler sm of
        Returns ((nextState, Some err), sm') \<Rightarrow> Stop (fail_with err sm')
      | Returns ((nextState, None), sm') \<Rightarrow>
          if map_lookup (states sm') nextState = None \<and> nextState \<noteq> finalState sm' \<and> nextState \<noteq> ''''
          then Stop (fail_with (Errorf (''invalid next state: '' @ nextState)) sm')
          else iter_exit handler nextState sm'
      | Panics s \<Rightarrow> Stop (Panics s)
      | Blocks s \<Rightarrow> Stop (Blocks s))"

definition iter_enter ::
  "'d Handler \<Rightarrow> 'd StateMachine
   \<Rightarrow> ('d StateMachine, (error option \<times> 'd StateMachine, 'd StateMachine) go) loop" where
  "iter_enter handler sm =
     (case run_callback (h_Enter handler) sm of
        Returns (Some err, sm') \<Rightarrow> Stop (fail_with err sm')
      | Returns (None, sm') \<Rightarrow> iter_process handler sm'
      | Panics s \<Rightarrow> Stop (Panics s)
      | Blocks s \<Rightarrow> Stop (Blocks s))"

definition process_iter ::
  "'d StateMachine
   \<Rightarrow> ('d StateMachine, (error option \<times> 'd StateMachine, 'd StateMachine) go) loop" where
  "process_iter sm =
     (if mu sm then Stop (Blocks sm)
      else if paused sm then Stop (Returns (Some (Errorf ''state machine is paused''), sm))
      else if currentState sm = finalState sm then Stop (Returns (None, sm))
      else
        (case map_lookup (states sm) (currentState sm) of
           None \<Rightarrow> Stop (Returns (Some (Errorf (''invalid state: '' @ currentState sm)), sm))
         | Some handler \<Rightarrow>
             (let sm' = sm\<lparr>sm_ctx := advance (sm_ctx sm)\<rparr>
              in case poll (sm_ctx sm) of
                   Some cerr \<Rightarrow> Stop (Returns (Some cerr, sm'))
                 | None \<Rightarrow> iter_enter handler sm')))"

text \<open>The loop. \<open>None\<close> is a loop that never ends.\<close>

partial_function (option) Process ::
  "'d StateMachine \<Rightarrow> (error option \<times> 'd StateMachine, 'd StateMachine) go option" where
  "Process sm = (case process_iter sm of Next sm' \<Rightarrow> Process sm' | Stop r \<Rightarrow> Some r)"

definition GetCurrentState :: "(State, 'd) sm_call" where
  "GetCurrentState = locked (\<lambda>sm. Returns (currentState sm, sm))"

definition GetProcessedStates :: "(State list, 'd) sm_call" where
  "GetProcessedStates = locked (\<lambda>sm. Returns (processedStates sm, sm))"

definition GetHistory :: "(State list, 'd) sm_call" where
  "GetHistory = locked (\<lambda>sm. Returns (sm_history sm, sm))"

definition Pause :: "(unit, 'd) sm_call" where
  "Pause = locked (\<lambda>sm. Returns ((), sm\<lparr>paused := True\<rparr>))"

definition Resume :: "(unit, 'd) sm_call" where
  "Resume = locked (\<lambda>sm. Returns ((), sm\<lparr>paused := False\<rparr>))"

text \<open>\<open>Timeout\<close> only sleeps: it takes no lock and changes nothing.\<close>

definition Timeout :: "nat \<Rightarrow> (unit, 'd) sm_call" where
  "Timeout duration = (\<lambda>sm. Returns ((), sm))"

text \<open>\<open>Destroy\<close> drops the maps, the lists and the data; \<open>nil_data\<close> is the nil interface
  value of type \<open>Data\<close>.\<close>

definition Destroy :: "'d \<Rightarrow> (unit, 'd) sm_call" where
  "Destroy nil_data = locked (\<lambda>sm.
     Returns ((), sm\<lparr>states := None, transitions := None, sm_data := nil_data,
                     processedStates := [], sm_history := []\<rparr>))"

section \<open>Step relation\<close>

text \<open>
  The machine seen from outside. Every exported method is a call that a goroutine may make, and \<open>left_in\<close> is the machine
  it leaves behind, also when it panics (and the panic is recovered) or never returns. The loop of \<open>Process\<close> makes one iteration;
  the calls of other goroutines come between iterations.
\<close>

datatype 'd sm_method =
    RegisterState_call State "'d Handler"
  | RegisterFinalState_call State
  | RegisterErrorState_call State
  | RegisterTransition_call State Action State
  | Trigger_call Action
  | GetCurrentState_call
  | GetProcessedStates_call
  | GetHistory_call
  | Pause_call
  | Resume_call
  | Timeout_call nat
  | Destroy_call 'd

definition left_in :: "('r \<times> 'd StateMachine, 'd StateMachine) go \<Rightarrow> 'd StateMachine" where
  "left_in r = (case r of Returns (x, sm) \<Rightarrow> sm | Panics sm \<Rightarrow> sm | Blocks sm \<Rightarrow> sm)"

fun after_call :: "'d sm_method \<Rightarrow> 'd StateMachine \<Rightarrow> 'd StateMachine" where
  "after_call (RegisterState_call st h) sm = left_in (RegisterState st h sm)"
| "after_call (RegisterFinalState_call st) sm = left_in (RegisterFinalState st sm)"
| "after_call (RegisterErrorState_call st) sm = left_in (RegisterErrorState st sm)"
| "after_call (RegisterTransition_call from act to) sm = left_in (RegisterTransition from act to sm)"
| "after_call (Trigger_call act) sm = left_in (Trigger act sm)"
| "after_call GetCurrentState_call sm = left_in (GetCurrentState sm)"
| "after_call GetProcessedStates_call sm = left_in (GetProcessedStates sm)"
| "after_call GetHistory_call sm = left_in (GetHistory sm)"
| "after_call Pause_call sm = left_in (Pause sm)"
| "after_call Resume_call sm = left_in (Resume sm)"
| "after_call (Timeout_call duration) sm = left_in (Timeout duration sm)"
| "after_call (Destroy_call nil_data) sm = left_in (Destroy nil_data sm)"

inductive sm_step :: "'d StateMachine \<Rightarrow> 'd StateMachine \<Rightarrow> bool" where
  iter: "process_iter sm = Next sm' \<Longrightarrow> sm_step sm sm'"
| halt: "process_iter sm = Stop r \<Longrightarrow> sm_step sm (left_in r)"
| called: "sm_step sm (after_call m sm)"

inductive sm_reachable :: "State \<Rightarrow> 'd StateMachine \<Rightarrow> bool" for s0 where
  new: "sm_reachable s0 (NewStateMachine c s0 d)"
| step: "sm_reachable s0 sm \<Longrightarrow> sm_step sm sm' \<Longrightarrow> sm_reachable s0 sm'"

text \<open>The state that an action leads to from the current one.\<close>

definition applicable :: "Action \<Rightarrow> 'd StateMachine \<Rightarrow> State option" where
  "applicable act sm = Option.bind (map_lookup (transitions sm) (currentState sm)) (\<lambda>a. a act)"

text \<open>The bookkeeping invariant: the two lists agree; they start in the initial state and end in the current one, and are
  empty once the machine was destroyed; the mutex is held only by a \<open>Trigger\<close> that found its transition.\<close>

definition sm_inv :: "State \<Rightarrow> 'd StateMachine \<Rightarrow> bool" where
  "sm_inv s0 sm \<longleftrightarrow> processedStates sm = sm_history sm
     \<and> (if states sm = None then sm_history sm = []
        else sm_history sm \<noteq> [] \<and> hd (sm_history sm) = s0 \<and> last (sm_history sm) = currentState sm)
     \<and> (mu sm \<longrightarrow> \<not> paused sm \<and> (\<exists>act. applicable act sm \<noteq> None))"

definition entered :: "State \<Rightarrow> 'd StateMachine \<Rightarrow> 'd StateMachine" where
  "entered n sm = sm\<lparr>processedStates := processedStates sm @ [n],
                     sm_history := sm_history sm @ [n], currentState := n\<rparr>"

text \<open>What an iteration that starts in \<open>sm\<close> can lead to.\<close>

inductive iter_shape ::
  "'d StateMachine \<Rightarrow> ('d StateMachine, (error option \<times> 'd StateMachine, 'd StateMachine) go) loop \<Rightarrow> bool"
  for sm where
  go_on: "n \<noteq> finalState sm \<Longrightarrow> states sm \<noteq> None \<Longrightarrow> iter_shape sm (Next (entered n (sm\<lparr>sm_ctx := c, sm_data := d\<rparr>)))"
| returned: "iter_shape sm (Stop (Returns (e, sm\<lparr>sm_ctx := c, sm_data := d\<rparr>)))"
| finished: "states sm \<noteq> None \<Longrightarrow> iter_shape sm (Stop (Returns (None, entered n (sm\<lparr>sm_ctx := c, sm_data := d\<rparr>))))"
| panicked: "iter_shape sm (Stop (Panics (sm\<lparr>sm_ctx := c, sm_data := d\<rparr>)))"
| blocked: "iter_shape sm (Stop (Blocks (sm\<lparr>sm_ctx := c, sm_data := d\<rparr>)))"

inductive_cases iter_shape_NextE: "iter_shape sm (Next sm')"
inductive_cases iter_shape_StopE: "iter_shape sm (Stop r)"

text \<open>Two small machines on which the properties below are evaluated.\<close>

definition trigger_example :: "nat StateMachine" where
  "trigger_example = (NewStateMachine Background ''a'' 0)\<lparr>transitions := Some [''a'' \<mapsto> [''go'' \<mapsto> ''b'']]\<rparr>"

definition swallow_handler :: "nat Handler" where
  "swallow_handler =
     \<lparr>h_Enter = Some (\<lambda>d. Returns (d + 1, None)), h_Process = Some (\<lambda>d. Returns (''b'', d + 1, Some (Errorf ''boom''))), h_Exit = None\<rparr>"

definition swallow_example :: "nat StateMachine" where
  "swallow_example = (NewStateMachine Background ''a'' 0)
     \<lparr>states := Some [''a'' \<mapsto> swallow_handler], errorState := ''error'', finalState := ''done''\<rparr>"

section \<open>Lemmas\<close>

lemma map_lookup_simps [simp]:
  "map_lookup None k = None" "map_lookup (Some m) k = m k"
  by (simp_all add: map_lookup_def)

lemma entered_simps [simp]:
  "currentState (entered n sm) = n" "finalState (entered n sm) = finalState sm"
  "errorState (entered n sm) = errorState sm" "states (entered n sm) = states sm"
  "sm_data (entered n sm) = sm_data sm" "sm_ctx (entered n sm) = sm_ctx sm"
  "mu (entered n sm) = mu sm" "paused (entered n sm) = paused sm"
  "sm_history (entered n sm) = sm_history sm @ [n]"
  "processedStates (entered n sm) = processedStates sm @ [n]"
  by (simp_all add: entered_def)

lemma transition_free [simp]: "\<not> mu sm \<Longrightarrow> transition n sm = Returns (None, entered n sm)"
  by (simp add: transition_def locked_def entered_def)

lemma fail_with_free:
  "\<not> mu sm \<Longrightarrow> fail_with e sm =
     (if errorState sm \<noteq> [] then Returns (None, entered (errorState sm) sm) else Returns (Some e, sm))"
  by (simp add: fail_with_def)

lemma finish_iter_free:
  "\<not> mu sm \<Longrightarrow> finish_iter n sm =
     (if n = finalState sm then Stop (Returns (None, entered n sm)) else Next (entered n sm))"
  by (simp add: finish_iter_def)

lemma left_in_simps [simp]: "left_in (Returns (x, sm)) = sm" "left_in (Panics sm) = sm" "left_in (Blocks sm) = sm"
  by (simp_all add: left_in_def)

text \<open>A callback changes only the data.\<close>

lemma run_callback_left: "\<exists>d. left_in (run_callback cb sm) = sm\<lparr>sm_data := d\<rparr>"
proof (cases cb)
  case None
  then show ?thesis by (intro exI [of _ "sm_data sm"]) (simp add: run_callback_def)
next
  case (Some f)
  then show ?thesis by (cases "f (sm_data sm)") (auto simp: run_callback_def left_in_def)
qed

lemma run_process_left: "\<exists>d. left_in (run_process h sm) = sm\<lparr>sm_data := d\<rparr>"
proof (cases "h_Process h")
  case None
  then show ?thesis by (intro exI [of _ "sm_data sm"]) (simp add: run_process_def)
next
  case (Some f)
  then show ?thesis by (cases "f (sm_data sm)") (auto simp: run_process_def left_in_def)
qed

subsection \<open>The control skeleton of one iteration\<close>

text \<open>Whatever the handlers do, an iteration changes only the context, the data and the
  bookkeeping of at most one entered state.\<close>

lemma iter_shape_data:
  assumes "iter_shape (sm\<lparr>sm_ctx := c, sm_data := d\<rparr>) r"
  shows "iter_shape sm r"
  using assms
proof cases
  case (go_on n d' c')
  then show ?thesis using iter_shape.go_on [where sm = sm and n = n and c = c' and d = d'] by simp
next
  case (returned e d' c')
  then show ?thesis using iter_shape.returned [where sm = sm and e = e and c = c' and d = d'] by simp
next
  case (finished n d' c')
  then show ?thesis using iter_shape.finished [where sm = sm and n = n and c = c' and d = d'] by simp
next
  case (panicked d' c')
  then show ?thesis using iter_shape.panicked [where sm = sm and c = c' and d = d'] by simp
next
  case (blocked d' c')
  then show ?thesis using iter_shape.blocked [where sm = sm and c = c' and d = d'] by simp
qed

lemma iter_shape_sm_data: "iter_shape (sm\<lparr>sm_data := d\<rparr>) r \<Longrightarrow> iter_shape sm r"
  using iter_shape_data [where sm = sm and c = "sm_ctx sm" and d = d and r = r] by simp

lemma iter_shape_ended: "iter_shape sm (Stop (Panics (sm\<lparr>sm_data := d\<rparr>)))" "iter_shape sm (Stop (Blocks (sm\<lparr>sm_data := d\<rparr>)))"
  using iter_shape.panicked [where sm = sm and c = "sm_ctx sm" and d = d] iter_shape.blocked [where sm = sm and c = "sm_ctx sm" and d = d]
  by simp_all

lemma iter_shape_fail_with: "\<not> mu sm \<Longrightarrow> states sm \<noteq> None \<Longrightarrow> iter_shape sm (Stop (fail_with e (sm\<lparr>sm_data := d\<rparr>)))"
  using iter_shape.returned [where sm = sm and e = "Some e" and c = "sm_ctx sm" and d = d]
    iter_shape.finished [where sm = sm and n = "errorState sm" and c = "sm_ctx sm" and d = d]
  by (simp add: fail_with_free)

lemma iter_shape_finish: "\<not> mu sm \<Longrightarrow> states sm \<noteq> None \<Longrightarrow> iter_shape sm (finish_iter n (sm\<lparr>sm_data := d\<rparr>))"
  using iter_shape.go_on [where sm = sm and n = n and c = "sm_ctx sm" and d = d]
    iter_shape.finished [where sm = sm and n = n and c = "sm_ctx sm" and d = d]
  by (auto simp: finish_iter_free)

lemmas iter_shape_ends = iter_shape_ended iter_shape_fail_with iter_shape_finish

lemma iter_shape_exit: "\<not> mu sm \<Longrightarrow> states sm \<noteq> None \<Longrightarrow> iter_shape sm (iter_exit h n (sm\<lparr>sm_data := d\<rparr>))"
  using run_callback_left [of "h_Exit h" "sm\<lparr>sm_data := d\<rparr>"]
  by (auto simp: iter_exit_def iter_shape_ends simp del: not_None_eq split: go.splits option.splits)

lemma iter_shape_process: "\<not> mu sm \<Longrightarrow> states sm \<noteq> None \<Longrightarrow> iter_shape sm (iter_process h (sm\<lparr>sm_data := d\<rparr>))"
  using run_process_left [of h "sm\<lparr>sm_data := d\<rparr>"]
  by (auto simp: iter_process_def iter_shape_ends iter_shape_exit split: go.splits option.splits
      simp del: append_Cons not_None_eq)

lemma iter_shape_enter: "\<not> mu sm \<Longrightarrow> states sm \<noteq> None \<Longrightarrow> iter_shape sm (iter_enter h sm)"
  using run_callback_left [of "h_Enter h" sm]
  by (auto simp: iter_enter_def iter_shape_ends iter_shape_process simp del: not_None_eq split: go.splits option.splits)

lemma process_iter_shape: "iter_shape sm (process_iter sm)"
proof (cases "mu sm")
  case True
  then show ?thesis using iter_shape_ended(2) [of sm "sm_data sm"] by (simp add: process_iter_def)
next
  case False
  let ?sm = "sm\<lparr>sm_ctx := advance (sm_ctx sm)\<rparr>"
  have ret: "iter_shape sm (Stop (Returns (e, sm)))" for e
    using iter_shape.returned [where sm = sm and e = e and c = "sm_ctx sm" and d = "sm_data sm"]
    by simp
  have ret': "iter_shape sm (Stop (Returns (e, ?sm)))" for e
    using iter_shape.returned [where sm = sm and e = e and c = "advance (sm_ctx sm)" and d = "sm_data sm"]
    by simp
  have "iter_shape ?sm (iter_enter h ?sm)" if "states sm \<noteq> None" for h
    using False that by (simp add: iter_shape_enter)
  then have "iter_shape sm (iter_enter h ?sm)" if "states sm \<noteq> None" for h
    using that iter_shape_data [where sm = sm and c = "advance (sm_ctx sm)" and d = "sm_data sm"] by simp
  moreover have "states sm \<noteq> None" if "map_lookup (states sm) k = Some h" for k h
    using that by (cases "states sm") simp_all
  ultimately show ?thesis using False ret ret'
    by (simp add: process_iter_def Let_def split: option.splits)
qed

subsection \<open>The bookkeeping invariant\<close>

lemma sm_inv_new: "sm_inv s0 (NewStateMachine c s0 d)"
  by (simp add: sm_inv_def NewStateMachine_def)

lemma sm_inv_entered: "sm_inv s0 sm \<Longrightarrow> states sm \<noteq> None \<Longrightarrow> \<not> mu sm \<Longrightarrow> sm_inv s0 (entered n (sm\<lparr>sm_ctx := c, sm_data := d\<rparr>))"
  by (simp add: sm_inv_def)

lemma sm_inv_ctx_data: "sm_inv s0 sm \<Longrightarrow> sm_inv s0 (sm\<lparr>sm_ctx := c, sm_data := d\<rparr>)"
  by (simp add: sm_inv_def applicable_def)

text \<open>Nothing changes a machine whose mutex is held.\<close>

lemma held_call: "mu sm \<Longrightarrow> after_call m sm = sm"
  by (cases m) (simp_all add: RegisterState_def RegisterFinalState_def RegisterErrorState_def RegisterTransition_def Trigger_def
      GetCurrentState_def GetProcessedStates_def GetHistory_def Pause_def Resume_def Timeout_def Destroy_def locked_def)

lemma held_step: "sm_step sm sm' \<Longrightarrow> mu sm \<Longrightarrow> sm' = sm"
  by (erule sm_step.cases) (auto simp: held_call process_iter_def)

text \<open>The calls of a free machine.\<close>

lemma Trigger_left:
  assumes "\<not> mu sm"
  shows "left_in (Trigger act sm) = (if \<not> paused sm \<and> applicable act sm \<noteq> None then sm\<lparr>mu := True\<rparr> else sm)"
  using assms by (auto simp: Trigger_def locked_def transition_def applicable_def split: option.splits)

lemma sm_inv_held: "sm_inv s0 sm \<Longrightarrow> \<not> paused sm \<Longrightarrow> applicable act sm \<noteq> None \<Longrightarrow> sm_inv s0 (sm\<lparr>mu := True\<rparr>)"
  by (auto simp: sm_inv_def applicable_def)

lemma free_call: "\<not> mu sm \<Longrightarrow> sm_inv s0 sm \<Longrightarrow> sm_inv s0 (after_call m sm)"
proof (cases m)
  case (Trigger_call act)
  assume "\<not> mu sm" "sm_inv s0 sm"
  with Trigger_call show ?thesis using sm_inv_held [of s0 sm act] by (simp add: Trigger_left)
qed (auto simp: RegisterState_def RegisterFinalState_def RegisterErrorState_def RegisterTransition_def GetCurrentState_def
    GetProcessedStates_def GetHistory_def Pause_def Resume_def Timeout_def Destroy_def locked_def sm_inv_def Let_def split: option.splits)

lemma sm_step_inv: "sm_step sm sm' \<Longrightarrow> sm_inv s0 sm \<Longrightarrow> sm_inv s0 sm'"
proof (cases "mu sm")
  case False
  assume "sm_step sm sm'" and "sm_inv s0 sm"
  then show ?thesis
  proof (induction rule: sm_step.induct)
    case (iter sm sm')
    then show ?case
      using process_iter_shape [of sm] by (auto elim!: iter_shape_NextE intro!: sm_inv_entered simp: process_iter_def split: if_splits)
  next
    case (halt sm r)
    show ?case
    proof (cases "mu sm")
      case True
      with halt show ?thesis using held_step sm_step.halt by metis
    next
      case False
      with halt process_iter_shape [of sm] show ?thesis
        by (auto elim!: iter_shape_StopE intro!: sm_inv_entered sm_inv_ctx_data simp del: not_None_eq)
    qed
  next
    case (called sm m)
    then show ?case using free_call held_call by metis
  qed
qed (use held_step in blast)

lemma sm_reachable_inv: "sm_reachable s0 sm \<Longrightarrow> sm_inv s0 sm"
  by (induction rule: sm_reachable.induct) (auto intro: sm_inv_new sm_step_inv)

subsection \<open>Reasoning about the loop\<close>

lemma Process_Stop: "process_iter sm = Stop r \<Longrightarrow> Process sm = Some r"
  by (simp add: Process.simps)

lemma Process_Next: "process_iter sm = Next sm' \<Longrightarrow> Process sm = Process sm'"
  by (subst Process.simps) simp

text \<open>A loop invariant \<open>I\<close> that gives \<open>Q\<close> for whatever an iteration stops with gives \<open>Q\<close>
  for the result of the loop.\<close>

lemma Process_rule:
  assumes run: "Process sm = Some r" and "I sm"
    and keep: "\<And>s s'. I s \<Longrightarrow> process_iter s = Next s' \<Longrightarrow> I s'"
    and stop: "\<And>s r. I s \<Longrightarrow> process_iter s = Stop r \<Longrightarrow> Q r"
  shows "Q r"
proof -
  have "I sm \<longrightarrow> Q r"
  proof (rule Process.raw_induct [where P = "\<lambda>sm r. I sm \<longrightarrow> Q r", OF _ run])
    fix f :: "'a StateMachine \<Rightarrow> (error option \<times> 'a StateMachine, 'a StateMachine) go option" and s r
    assume IH: "\<And>s r. f s = Some r \<Longrightarrow> I s \<longrightarrow> Q r"
      and eq: "(case process_iter s of Next s' \<Rightarrow> f s' | Stop r \<Rightarrow> Some r) = Some r"
    show "I s \<longrightarrow> Q r"
    proof (cases "process_iter s")
      case (Next s')
      with eq IH keep show ?thesis by auto
    next
      case (Stop r')
      with eq stop show ?thesis by auto
    qed
  qed
  with \<open>I sm\<close> show ?thesis by simp
qed

text \<open>A measure that every continuing iteration decreases makes the loop return.\<close>

lemma Process_terminates:
  assumes "I sm"
    and "\<And>s s'. I s \<Longrightarrow> process_iter s = Next s' \<Longrightarrow> I s' \<and> m s' < (m s :: nat)"
  shows "\<exists>r. Process sm = Some r"
  using assms(1)
proof (induction "m sm" arbitrary: sm rule: less_induct)
  case less
  show ?case
  proof (cases "process_iter sm")
    case (Next s')
    with less assms(2) have "\<exists>r. Process s' = Some r" by blast
    with Next show ?thesis by (simp add: Process_Next)
  next
    case (Stop r)
    then show ?thesis by (simp add: Process_Stop)
  qed
qed

text \<open>An iteration through a handler whose enter and exit callbacks pass the data through.\<close>

definition plain_handler :: "'d Handler \<Rightarrow> ('d \<Rightarrow> (State \<times> 'd \<times> error option, 'd) go) \<Rightarrow> bool" where
  "plain_handler h g \<longleftrightarrow> (\<forall>f \<in> {h_Enter h, h_Exit h}. f = Some (\<lambda>d. Returns (d, None))) \<and> h_Process h = Some g"

lemma process_iter_plain:
  assumes "\<not> mu sm" "\<not> paused sm" "currentState sm \<noteq> finalState sm"
    and "map_lookup (states sm) (currentState sm) = Some h" and "plain_handler h g"
    and "poll (sm_ctx sm) = None"
  shows "process_iter sm =
    (let sm1 = sm\<lparr>sm_ctx := advance (sm_ctx sm)\<rparr> in
     case g (sm_data sm) of
       Returns (n, d, Some e) \<Rightarrow> Stop (fail_with e (sm1\<lparr>sm_data := d\<rparr>))
     | Returns (n, d, None) \<Rightarrow>
         if map_lookup (states sm) n = None \<and> n \<noteq> finalState sm \<and> n \<noteq> []
         then Stop (fail_with (Errorf (''invalid next state: '' @ n)) (sm1\<lparr>sm_data := d\<rparr>))
         else finish_iter n (sm1\<lparr>sm_data := d\<rparr>)
     | Panics d \<Rightarrow> Stop (Panics (sm1\<lparr>sm_data := d\<rparr>))
     | Blocks d \<Rightarrow> Stop (Blocks (sm1\<lparr>sm_data := d\<rparr>)))"
  using assms
  by (auto simp: process_iter_def plain_handler_def iter_enter_def iter_process_def iter_exit_def
      run_callback_def run_process_def Let_def split: go.splits option.splits)

subsection \<open>Handler tables\<close>

text \<open>
  The interface between the machine and a client that fills its handler table: if every callback
  of the table keeps an invariant of the carried data, on every way a callback can end, then so
  does \<open>Process\<close>.
\<close>

locale handler_table =
  fixes H :: "State \<rightharpoonup> 'd Handler"
    and I :: "'d \<Rightarrow> bool"
  assumes enter_keeps: "H s = Some h \<Longrightarrow> h_Enter h = Some f \<Longrightarrow> I d \<Longrightarrow> go_all (\<lambda>(d', e). I d') I (f d)"
    and process_keeps: "H s = Some h \<Longrightarrow> h_Process h = Some g \<Longrightarrow> I d \<Longrightarrow> go_all (\<lambda>(n, d', e). I d') I (g d)"
    and exit_keeps: "H s = Some h \<Longrightarrow> h_Exit h = Some f \<Longrightarrow> I d \<Longrightarrow> go_all (\<lambda>(d', e). I d') I (f d)"
begin

definition good :: "'d StateMachine \<Rightarrow> bool" where
  "good sm \<longleftrightarrow> states sm = Some H \<and> I (sm_data sm)"

definition good_result :: "(error option \<times> 'd StateMachine, 'd StateMachine) go \<Rightarrow> bool" where
  "good_result r \<longleftrightarrow> go_all (\<lambda>(e, sm). good sm) good r"

definition good_iter ::
  "('d StateMachine, (error option \<times> 'd StateMachine, 'd StateMachine) go) loop \<Rightarrow> bool" where
  "good_iter r \<longleftrightarrow> (case r of Next sm \<Rightarrow> good sm | Stop x \<Rightarrow> good_result x)"

lemma good_entered [simp]: "good (entered n sm) = good sm"
  by (simp add: good_def)

lemma good_transition: "good sm \<Longrightarrow> good_result (transition n sm)"
  by (simp add: good_result_def good_def transition_def locked_def)

lemma good_fail_with: "good sm \<Longrightarrow> good_result (fail_with e sm)"
  by (simp add: fail_with_def good_transition) (simp add: good_result_def)

lemma good_callback:
  assumes "good sm" and "\<And>f d. cb = Some f \<Longrightarrow> I d \<Longrightarrow> go_all (\<lambda>(d', e). I d') I (f d)"
  shows "good_result (run_callback cb sm)"
proof (cases cb)
  case None
  with assms(1) show ?thesis by (simp add: run_callback_def good_result_def)
next
  case (Some f)
  with assms have "go_all (\<lambda>(d', e). I d') I (f (sm_data sm))" by (simp add: good_def)
  with Some assms(1) show ?thesis
    by (auto simp: run_callback_def good_result_def good_def case_prod_unfold elim!: go_all_mono)
qed

lemma good_process:
  assumes "good sm" and "H s = Some h"
  shows "go_all (\<lambda>(r, sm'). good sm') good (run_process h sm)"
proof (cases "h_Process h")
  case None
  with assms(1) show ?thesis by (simp add: run_process_def)
next
  case (Some g)
  with assms have "go_all (\<lambda>(n, d', e). I d') I (g (sm_data sm))"
    by (auto simp: good_def intro: process_keeps)
  with Some assms(1) show ?thesis
    by (auto simp: run_process_def good_def case_prod_unfold elim!: go_all_mono)
qed

lemma good_finish: "good sm \<Longrightarrow> good_iter (finish_iter n sm)"
  using good_transition [of sm n]
  by (auto simp: finish_iter_def good_iter_def good_result_def good_fail_with [unfolded good_result_def]
      split: go.splits option.splits)

lemma good_exit:
  assumes "good sm" and "H s = Some h"
  shows "good_iter (iter_exit h n sm)"
proof -
  have "good_result (run_callback (h_Exit h) sm)"
    using assms exit_keeps by (blast intro: good_callback)
  with good_fail_with good_finish show ?thesis
    by (auto simp: iter_exit_def good_iter_def good_result_def split: go.splits option.splits)
qed

lemma good_iter_process:
  assumes "good sm" and "H s = Some h"
  shows "good_iter (iter_process h sm)"
  using good_process [OF assms] good_fail_with good_exit [OF _ assms(2)]
  by (auto simp: iter_process_def good_iter_def split: go.splits option.splits)
     (auto simp: good_result_def)

lemma good_enter:
  assumes "good sm" and "H s = Some h"
  shows "good_iter (iter_enter h sm)"
proof -
  have "good_result (run_callback (h_Enter h) sm)"
    using assms enter_keeps by (blast intro: good_callback)
  with good_fail_with good_iter_process [OF _ assms(2)] show ?thesis
    by (auto simp: iter_enter_def good_iter_def good_result_def split: go.splits option.splits)
qed

lemma good_process_iter: "good sm \<Longrightarrow> good_iter (process_iter sm)"
  using good_enter [of "sm\<lparr>sm_ctx := advance (sm_ctx sm)\<rparr>" "currentState sm"]
  by (auto simp: process_iter_def Let_def good_iter_def good_result_def good_def split: option.splits)

theorem Process_keeps: "Process sm = Some r \<Longrightarrow> good sm \<Longrightarrow> good_result r"
  by (erule Process_rule [where I = good])
     (use good_process_iter in \<open>fastforce simp: good_iter_def\<close>)+

end

section \<open>Properties\<close>

text \<open>C17. In every state a machine can reach, whatever its handlers do and whatever exported methods other goroutines call between
  its iterations, the list of processed states and the history agree. They start in the initial state and end in the current
  state, unless \<open>Destroy\<close> was called, and then they are empty for good. The mutex is free, unless a \<open>Trigger\<close> has found a
  transition from the current state of a machine that was not paused, and then nothing ever changes the machine again.\<close>

theorem machine_bookkeeping:
  assumes "sm_reachable s0 sm"
  shows "processedStates sm = sm_history sm
     \<and> (if states sm = None then sm_history sm = []
        else sm_history sm \<noteq> [] \<and> hd (sm_history sm) = s0 \<and> last (sm_history sm) = currentState sm)
     \<and> (mu sm \<longrightarrow> \<not> paused sm \<and> (\<exists>act. applicable act sm \<noteq> None) \<and> (\<forall>sm'. sm_step\<^sup>*\<^sup>* sm sm' \<longrightarrow> sm' = sm))"
proof -
  have "sm' = sm" if "sm_step\<^sup>*\<^sup>* sm sm'" "mu sm" for sm'
    using that by (induction rule: rtranclp_induct) (auto dest: held_step)
  then show ?thesis using sm_reachable_inv [OF assms] by (simp add: sm_inv_def)
qed

theorem machine_bookkeeping_witness:
  "(let sm = after_call (Trigger_call ''go'') (after_call (RegisterTransition_call ''a'' ''go'' ''a'')
       (after_call (RegisterState_call ''a'' swallow_handler) (NewStateMachine Background ''a'' 0))) in
     sm_reachable ''a'' sm \<and> processedStates sm = sm_history sm \<and> hd (sm_history sm) = ''a'' \<and> mu sm \<and> \<not> paused sm)
   \<and> (let sm = after_call (Destroy_call 0) (NewStateMachine Background ''a'' (0::nat)) in sm_reachable ''a'' sm \<and> sm_history sm = [])"
proof -
  let ?new = "NewStateMachine Background ''a'' (0::nat)"
  let ?sm = "after_call (Trigger_call ''go'') (after_call (RegisterTransition_call ''a'' ''go'' ''a'') (after_call (RegisterState_call ''a'' swallow_handler) ?new))"
  let ?gone = "after_call (Destroy_call 0) ?new"
  have r: "sm_reachable ''a'' ?sm" "sm_reachable ''a'' ?gone"
    by (intro sm_reachable.step [OF _ sm_step.called] sm_reachable.new)+
  have "mu ?sm" "states ?sm \<noteq> None" "states ?gone = None"
    by (simp_all add: RegisterState_def RegisterTransition_def Trigger_def Destroy_def locked_def transition_def NewStateMachine_def)
  with machine_bookkeeping [OF r(1)] machine_bookkeeping [OF r(2)] r show ?thesis unfolding Let_def by presburger
qed

text \<open>C26. \<open>Trigger\<close> on a machine that is not paused, for an action that has a transition from the
  current state, never returns: it holds the mutex while \<open>transition\<close> tries to take it again.
  Go's mutexes are not reentrant, so the call blocks for ever and leaves the mutex held.\<close>

theorem Trigger_deadlocks:
  assumes "\<not> mu sm" and "\<not> paused sm"
    and "map_lookup (transitions sm) (currentState sm) = Some a" and "a act = Some n"
  shows "Trigger act sm = Blocks (sm\<lparr>mu := True\<rparr>)"
  using assms by (simp add: Trigger_def locked_def transition_def)

theorem Trigger_deadlocks_witness:
  "Trigger ''go'' trigger_example = Blocks (trigger_example\<lparr>mu := True\<rparr>)"
  by (rule Trigger_deadlocks [where a = "[''go'' \<mapsto> ''b'']" and n = "''b''"])
     (simp_all add: trigger_example_def NewStateMachine_def)

text \<open>C25. When an error state is registered and the process callback of a handler fails, after its enter callback, if it has one,
  has passed, \<open>Process\<close> returns no error: it enters the error state and stops there, so the error is lost to the
  caller and the handler of the error state is not run.\<close>

theorem Process_swallows_errors:
  assumes "\<not> mu sm" and "\<not> paused sm" and "currentState sm \<noteq> finalState sm"
    and "poll (sm_ctx sm) = None" and "errorState sm \<noteq> []"
    and "map_lookup (states sm) (currentState sm) = Some h"
    and "case h_Enter h of None \<Rightarrow> d0 = sm_data sm | Some enter \<Rightarrow> enter (sm_data sm) = Returns (d0, None)"
    and "h_Process h = Some f" and "f d0 = Returns (n, d, Some e)"
  shows "Process sm = Some (Returns (None,
           entered (errorState sm) (sm\<lparr>sm_ctx := advance (sm_ctx sm), sm_data := d\<rparr>)))"
  using assms
  by (intro Process_Stop)
     (auto simp: process_iter_def iter_enter_def iter_process_def run_callback_def run_process_def
        fail_with_free split: option.splits)

theorem Process_swallows_errors_witness:
  "Process swallow_example = Some (Returns (None, entered ''error'' (swallow_example\<lparr>sm_data := 2\<rparr>)))"
  using Process_swallows_errors [where sm = swallow_example and h = swallow_handler
      and f = "\<lambda>d. Returns (''b'', d + 1, Some (Errorf ''boom''))" and n = "''b''" and d = 2 and ?d0.0 = 1
      and e = "Errorf ''boom''"]
  by (simp add: swallow_example_def swallow_handler_def NewStateMachine_def)

end
