(* ===== verification/Go_Std.thy ===== *)
theory Go_Std
  imports Prelude
begin

text \<open>
  The parts of Go's standard library that the program's encodings rest on: decimal conversion of
  \<open>big.Int\<close> (\<open>String\<close>, \<open>SetString\<close> in base 10), its big-endian bytes (\<open>Bytes\<close>,
  \<open>SetBytes\<close>), its gob form (\<open>GobEncode\<close>, \<open>GobDecode\<close>), Euclidean division
  (\<open>Div\<close>) and truncation (\<open>Uint64\<close>, \<open>Int64\<close>), \<open>base64.URLEncoding\<close>, and
  \<open>filepath.Join\<close>. Each encoder comes with its round trip.
\<close>

section \<open>Decimal notation\<close>

definition digit :: "nat \<Rightarrow> char" where
  "digit d = char_of (48 + d)"

fun nat_digits :: "nat \<Rightarrow> string" where
  "nat_digits n = (if n < 10 then [digit n] else nat_digits (n div 10) @ [digit (n mod 10)])"

declare nat_digits.simps [simp del]

definition big_String :: "int \<Rightarrow> string" where
  "big_String x = (if x < 0 then CHR ''-'' # nat_digits (nat (- x)) else nat_digits (nat x))"

fun parse_digits :: "nat \<Rightarrow> string \<Rightarrow> nat option" where
  "parse_digits acc [] = Some acc"
| "parse_digits acc (c # cs) =
     (let k = of_char c :: nat
      in if 48 \<le> k \<and> k \<le> 57 then parse_digits (10 * acc + (k - 48)) cs else None)"

definition parse_nat :: "string \<Rightarrow> nat option" where
  "parse_nat s = (if s = [] then None else parse_digits 0 s)"

definition big_SetString :: "string \<Rightarrow> int option" where
  "big_SetString s =
     (case s of
        [] \<Rightarrow> None
      | c # cs \<Rightarrow>
          if c = CHR ''-'' then map_option (\<lambda>n. - int n) (parse_nat cs)
          else if c = CHR ''+'' then map_option int (parse_nat cs)
          else map_option int (parse_nat s))"

section \<open>Bytes\<close>

type_synonym byte = "8 word"

fun be_bytes :: "nat \<Rightarrow> byte list" where
  "be_bytes n = (if n = 0 then [] else be_bytes (n div 256) @ [word_of_nat (n mod 256)])"

declare be_bytes.simps [simp del]

definition be_value :: "byte list \<Rightarrow> nat" where
  "be_value bs = foldl (\<lambda>a b. 256 * a + unat b) 0 bs"

definition big_Bytes :: "int \<Rightarrow> byte list" where
  "big_Bytes x = be_bytes (nat \<bar>x\<bar>)"

definition big_SetBytes :: "byte list \<Rightarrow> int" where
  "big_SetBytes bs = int (be_value bs)"

definition GobEncode :: "int \<Rightarrow> byte list" where
  "GobEncode x = (if x < 0 then 3 else 2) # big_Bytes x"

definition GobDecode :: "byte list \<Rightarrow> error + int" where
  "GobDecode buf =
     (case buf of
        [] \<Rightarrow> Inr 0
      | b # bs \<Rightarrow>
          if unat b div 2 \<noteq> 1 then Inl (Errorf ''Int.GobDecode: encoding version not supported'')
          else Inr (if unat b mod 2 = 1 then - big_SetBytes bs else big_SetBytes bs))"

section \<open>Truncation and Euclidean division\<close>

text \<open>\<open>Uint64\<close> and \<open>Int64\<close> of a number that does not fit keep the low 64 bits of its
  magnitude.\<close>

definition big_Uint64 :: "int \<Rightarrow> int" where
  "big_Uint64 x = \<bar>x\<bar> mod 2 ^ 64"

definition big_Int64 :: "int \<Rightarrow> int" where
  "big_Int64 x = (let v = go_int64 \<bar>x\<bar> in if x < 0 then go_int64 (- v) else v)"

definition big_Div :: "int \<Rightarrow> int \<Rightarrow> int" where
  "big_Div x y = sgn y * (x div \<bar>y\<bar>)"

section \<open>Base64, URL alphabet, padded\<close>

definition b64_chr :: "nat \<Rightarrow> char" where
  "b64_chr n =
     (if n < 26 then char_of (65 + n) else if n < 52 then char_of (71 + n)
      else if n < 62 then char_of (n - 4) else if n = 62 then CHR ''-'' else CHR ''_'')"

definition b64_val :: "char \<Rightarrow> nat option" where
  "b64_val c =
     (let k = of_char c :: nat
      in if 65 \<le> k \<and> k \<le> 90 then Some (k - 65)
         else if 97 \<le> k \<and> k \<le> 122 then Some (k - 71)
         else if 48 \<le> k \<and> k \<le> 57 then Some (k + 4)
         else if k = 45 then Some 62 else if k = 95 then Some 63 else None)"

fun b64_encode :: "byte list \<Rightarrow> string" where
  "b64_encode [] = []"
| "b64_encode [a] =
     [b64_chr (unat a div 4), b64_chr (unat a mod 4 * 16), CHR ''='', CHR ''='']"
| "b64_encode [a, b] =
     [b64_chr (unat a div 4), b64_chr (unat a mod 4 * 16 + unat b div 16),
      b64_chr (unat b mod 16 * 4), CHR ''='']"
| "b64_encode (a # b # c # bs) =
     b64_chr (unat a div 4) # b64_chr (unat a mod 4 * 16 + unat b div 16)
     # b64_chr (unat b mod 16 * 4 + unat c div 64) # b64_chr (unat c mod 64) # b64_encode bs"

definition b64_quantum :: "nat \<Rightarrow> nat \<Rightarrow> nat \<Rightarrow> nat \<Rightarrow> byte list" where
  "b64_quantum a b c d =
     [word_of_nat (a * 4 + b div 16), word_of_nat (b mod 16 * 16 + c div 4),
      word_of_nat (c mod 4 * 64 + d)]"

fun b64_groups :: "string \<Rightarrow> byte list option" where
  "b64_groups [] = Some []"
| "b64_groups (p # q # r # s # cs) =
     (case (b64_val p, b64_val q) of
        (Some a, Some b) \<Rightarrow>
          if r = CHR ''='' then
            (if s = CHR ''='' \<and> cs = [] then Some (take 1 (b64_quantum a b 0 0)) else None)
          else
            (case b64_val r of
               None \<Rightarrow> None
             | Some c \<Rightarrow>
                 if s = CHR ''='' then (if cs = [] then Some (take 2 (b64_quantum a b c 0)) else None)
                 else
                   (case (b64_val s, b64_groups cs) of
                      (Some d, Some bs) \<Rightarrow> Some (b64_quantum a b c d @ bs)
                    | _ \<Rightarrow> None))
      | _ \<Rightarrow> None)"
| "b64_groups cs = None"

text \<open>\<open>DecodeString\<close> skips carriage returns and line feeds.\<close>

definition b64_decode :: "string \<Rightarrow> error + byte list" where
  "b64_decode s =
     (case b64_groups (filter (\<lambda>c. c \<noteq> CHR 0x0A \<and> c \<noteq> CHR 0x0D) s) of
        None \<Rightarrow> Inl (Errorf ''illegal base64 data'')
      | Some bs \<Rightarrow> Inr bs)"

section \<open>File paths\<close>

text \<open>\<open>filepath.Clean\<close> on a Unix system: empty and \<open>.\<close> elements are dropped and a
  \<open>..\<close> element removes the one before it.\<close>

fun path_split :: "string \<Rightarrow> string list" where
  "path_split [] = [[]]"
| "path_split (c # cs) =
     (if c = CHR ''/'' then [] # path_split cs
      else (case path_split cs of [] \<Rightarrow> [[c]] | p # ps \<Rightarrow> (c # p) # ps))"

fun clean_elems :: "bool \<Rightarrow> string list \<Rightarrow> string list \<Rightarrow> string list" where
  "clean_elems rooted stack [] = rev stack"
| "clean_elems rooted stack (p # ps) =
     (if p = [] \<or> p = ''.'' then clean_elems rooted stack ps
      else if p = ''..'' then
        (case stack of
           [] \<Rightarrow> clean_elems rooted (if rooted then [] else [p]) ps
         | q # qs \<Rightarrow> clean_elems rooted (if q = ''..'' then p # stack else qs) ps)
      else clean_elems rooted (p # stack) ps)"

definition filepath_Clean :: "string \<Rightarrow> string" where
  "filepath_Clean p =
     (let rooted = (case p of [] \<Rightarrow> False | c # _ \<Rightarrow> c = CHR ''/'');
          s = strings_Join (clean_elems rooted [] (path_split p)) ''/''
      in if rooted then CHR ''/'' # s else if s = [] then ''.'' else s)"

definition filepath_Join :: "string list \<Rightarrow> string" where
  "filepath_Join elems =
     (let es = dropWhile (\<lambda>e. e = []) elems
      in if es = [] then [] else filepath_Clean (strings_Join es ''/''))"

definition path_elem :: "string \<Rightarrow> bool" where
  "path_elem p \<longleftrightarrow> p \<noteq> [] \<and> p \<noteq> ''.'' \<and> p \<noteq> ''..'' \<and> CHR ''/'' \<notin> set p"

section \<open>Lemmas\<close>

subsection \<open>Decimal notation\<close>

lemma of_char_digit [simp]: "d < 10 \<Longrightarrow> (of_char (digit d) :: nat) = 48 + d"
  by (simp add: digit_def)

lemma digit_inject: "d < 10 \<Longrightarrow> e < 10 \<Longrightarrow> digit d = digit e \<Longrightarrow> d = e"
  by (metis add_left_cancel of_char_digit)

lemma nat_digits_neq_Nil [simp]: "nat_digits n \<noteq> []"
  by (subst nat_digits.simps) simp

lemma nat_digits_chars: "c \<in> set (nat_digits n) \<Longrightarrow> 48 \<le> (of_char c :: nat) \<and> (of_char c :: nat) \<le> 57"
proof (induction n rule: nat_digits.induct)
  case (1 n)
  show ?case
  proof (cases "n < 10")
    case True
    with "1.prems" show ?thesis by (subst (asm) nat_digits.simps) auto
  next
    case False
    with 1 show ?thesis by (subst (asm) nat_digits.simps) auto
  qed
qed

lemma parse_digits_append:
  "parse_digits acc (xs @ ys) = Option.bind (parse_digits acc xs) (\<lambda>a. parse_digits a ys)"
  by (induction acc xs rule: parse_digits.induct) (simp_all add: Let_def)

lemma parse_nat_digits: "parse_digits 0 (nat_digits n) = Some n"
proof (induction n rule: nat_digits.induct)
  case (1 n)
  show ?case
  proof (cases "n < 10")
    case True
    then show ?thesis by (simp add: nat_digits.simps [of n] Let_def)
  next
    case False
    with 1 show ?thesis by (simp add: nat_digits.simps [of n] parse_digits_append Let_def)
  qed
qed

lemma parse_nat_nat_digits [simp]: "parse_nat (nat_digits n) = Some n"
  by (simp add: parse_nat_def parse_nat_digits)

lemma hd_nat_digits:
  "nat_digits n = c # cs \<Longrightarrow> c \<noteq> CHR ''-'' \<and> c \<noteq> CHR ''+'' \<and> c \<noteq> CHR ''/'' \<and> c \<noteq> CHR ''.''"
  using nat_digits_chars [of c n] by auto

lemma big_SetString_String [simp]: "big_SetString (big_String x) = Some x"
proof (cases "x < 0")
  case True
  then show ?thesis by (simp add: big_String_def big_SetString_def)
next
  case False
  obtain c cs where *: "nat_digits (nat x) = c # cs"
    by (cases "nat_digits (nat x)") auto
  have "parse_nat (c # cs) = Some (nat x)" by (simp flip: *)
  with False hd_nat_digits [OF *] show ?thesis
    by (simp add: big_String_def big_SetString_def *)
qed

lemma big_String_inject [simp]: "big_String x = big_String y \<longleftrightarrow> x = y"
  by (metis big_SetString_String option.inject)

lemma big_String_chars: "c \<in> set (big_String x) \<Longrightarrow> c \<noteq> CHR ''/'' \<and> c \<noteq> CHR ''.''"
  by (auto simp: big_String_def dest: nat_digits_chars split: if_splits)

lemma big_String_neq_Nil [simp]: "big_String x \<noteq> []"
  by (simp add: big_String_def)

subsection \<open>Bytes\<close>

lemma be_value_snoc [simp]: "be_value (bs @ [b]) = 256 * be_value bs + unat b"
  by (simp add: be_value_def)

lemma unat_byte_of_nat [simp]: "unat (word_of_nat (n mod 256) :: byte) = n mod 256"
  by (simp add: unat_of_nat)

lemma be_value_be_bytes [simp]: "be_value (be_bytes n) = n"
proof (induction n rule: be_bytes.induct)
  case (1 n)
  show ?case
  proof (cases "n = 0")
    case True
    then show ?thesis by (simp add: be_bytes.simps be_value_def)
  next
    case False
    with 1 show ?thesis by (subst be_bytes.simps) simp
  qed
qed

lemma big_SetBytes_Bytes: "big_SetBytes (big_Bytes x) = \<bar>x\<bar>"
  by (simp add: big_SetBytes_def big_Bytes_def)

lemma GobDecode_GobEncode [simp]: "GobDecode (GobEncode x) = Inr x"
  by (simp add: GobDecode_def GobEncode_def big_SetBytes_Bytes)

subsection \<open>Truncation and division\<close>

lemma big_Uint64_id: "0 \<le> x \<Longrightarrow> x < 2 ^ 64 \<Longrightarrow> big_Uint64 x = x"
  by (simp add: big_Uint64_def)

lemma big_Uint64_range [simp]: "0 \<le> big_Uint64 x" "big_Uint64 x < 2 ^ 64"
  by (simp_all add: big_Uint64_def)

lemma big_Int64_id: "0 \<le> x \<Longrightarrow> x < 2 ^ 63 \<Longrightarrow> big_Int64 x = x"
  by (simp add: big_Int64_def go_int64_id)

lemma big_Div_pos: "0 < y \<Longrightarrow> big_Div x y = x div y"
  by (simp add: big_Div_def)

subsection \<open>Base64\<close>

lemma b64_val_chr [simp]: "n < 64 \<Longrightarrow> b64_val (b64_chr n) = Some n"
  by (auto simp: b64_val_def b64_chr_def Let_def)

lemma b64_chr_neq: "n < 64 \<Longrightarrow> b64_chr n \<noteq> CHR ''='' \<and> b64_chr n \<noteq> CHR 0x0A \<and> b64_chr n \<noteq> CHR 0x0D"
proof -
  assume "n < 64"
  then have "b64_val (b64_chr n) \<noteq> None" by simp
  moreover have "b64_val (CHR ''='') = None" "b64_val (CHR 0x0A) = None" "b64_val (CHR 0x0D) = None"
    by (simp_all add: b64_val_def)
  ultimately show ?thesis by auto
qed

lemma byte_bounds [simp]:
  "unat (x :: byte) < 256" "unat x div 4 < 64" "unat x div 16 < 16" "unat x div 64 < 4"
proof -
  show "unat x < 256" using unsigned_less [of x, where 'a = nat] by simp
  then show "unat x div 4 < 64" "unat x div 16 < 16" "unat x div 64 < 4"
    by (simp_all add: less_mult_imp_div_less)
qed

lemma b64_bounds [simp]:
  "x mod 4 * 16 < (64 :: nat)" "x mod 4 * 16 + unat (b :: byte) div 16 < 64"
  "x mod 16 * 4 < 64" "x mod 16 * 4 + unat b div 64 < 64"
proof -
  have "x mod 4 < 4" "x mod 16 < 16" by simp_all
  moreover have "unat b div 16 < 16" "unat b div 64 < 4" by simp_all
  ultimately show "x mod 4 * 16 < (64 :: nat)" "x mod 4 * 16 + unat (b :: byte) div 16 < 64"
    "x mod 16 * 4 < 64" "x mod 16 * 4 + unat b div 64 < 64"
    by linarith+
qed

lemma b64_quantum_bytes:
  "b64_quantum (unat a div 4) (unat a mod 4 * 16 + unat b div 16)
     (unat b mod 16 * 4 + unat c div 64) (unat c mod 64) = [a, b, c :: byte]"
proof -
  have "(unat a mod 4 * 16 + unat b div 16) div 16 = unat a mod 4"
    and "(unat a mod 4 * 16 + unat b div 16) mod 16 = unat b div 16"
    and "(unat b mod 16 * 4 + unat c div 64) div 4 = unat b mod 16"
    and "(unat b mod 16 * 4 + unat c div 64) mod 4 = unat c div 64"
    by (simp_all add: div_add1_eq)
  then have "b64_quantum (unat a div 4) (unat a mod 4 * 16 + unat b div 16)
     (unat b mod 16 * 4 + unat c div 64) (unat c mod 64)
     = [word_of_nat (unat a div 4 * 4 + unat a mod 4), word_of_nat (unat b div 16 * 16 + unat b mod 16),
        word_of_nat (unat c div 64 * 64 + unat c mod 64)]"
    unfolding b64_quantum_def by presburger
  then show ?thesis by (simp only: div_mult_mod_eq) simp
qed

lemma b64_groups_encode [simp]: "b64_groups (b64_encode bs) = Some bs"
proof (induction bs rule: b64_encode.induct)
  case (2 a)
  have "take 1 (b64_quantum (unat a div 4) (unat a mod 4 * 16) 0 0) = [a]"
    using b64_quantum_bytes [of a 0 0] by (simp add: b64_quantum_def)
  then show ?case by simp
next
  case (3 a b)
  have "take 2 (b64_quantum (unat a div 4) (unat a mod 4 * 16 + unat b div 16) (unat b mod 16 * 4) 0) = [a, b]"
    using b64_quantum_bytes [of a b 0] by (simp add: b64_quantum_def)
  then show ?case using b64_chr_neq [of "unat b mod 16 * 4"] by simp
next
  case (4 a b c bs)
  then show ?case
    using b64_chr_neq [of "unat b mod 16 * 4 + unat c div 64"] b64_chr_neq [of "unat c mod 64"]
      b64_quantum_bytes [of a b c] by simp
qed simp

lemma b64_encode_chars: "c \<in> set (b64_encode bs) \<Longrightarrow> c \<noteq> CHR 0x0A \<and> c \<noteq> CHR 0x0D"
  by (induction bs rule: b64_encode.induct) (auto simp: b64_chr_neq)

lemma b64_decode_encode [simp]: "b64_decode (b64_encode bs) = Inr bs"
proof -
  have "filter (\<lambda>c. c \<noteq> CHR 0x0A \<and> c \<noteq> CHR 0x0D) (b64_encode bs) = b64_encode bs"
    using b64_encode_chars by (auto intro: filter_True)
  then show ?thesis by (simp add: b64_decode_def)
qed

subsection \<open>File paths\<close>

lemma path_split_neq_Nil [simp]: "path_split s \<noteq> []"
  by (cases s) (auto split: list.splits)

lemma path_split_elem: "CHR ''/'' \<notin> set p \<Longrightarrow> path_split p = [p]"
  by (induction p) auto

lemma path_split_append: "CHR ''/'' \<notin> set p \<Longrightarrow> path_split (p @ CHR ''/'' # s) = p # path_split s"
  by (induction p) auto

lemma path_split_Join:
  "es \<noteq> [] \<Longrightarrow> list_all (\<lambda>p. CHR ''/'' \<notin> set p) es \<Longrightarrow> path_split (strings_Join es ''/'') = es"
  by (induction es "''/''" rule: strings_Join.induct) (auto simp: path_split_elem path_split_append)

lemma strings_Join_inject:
  assumes "es \<noteq> []" "fs \<noteq> []" "list_all (\<lambda>p. CHR ''/'' \<notin> set p) es" "list_all (\<lambda>p. CHR ''/'' \<notin> set p) fs"
    and "strings_Join es ''/'' = strings_Join fs ''/''"
  shows "es = fs"
  using assms by (metis path_split_Join)

lemma clean_elems_id: "list_all path_elem es \<Longrightarrow> clean_elems r st es = rev st @ es"
  by (induction es arbitrary: st) (auto simp: path_elem_def)

lemma path_elem_no_slash: "list_all path_elem es \<Longrightarrow> list_all (\<lambda>p. CHR ''/'' \<notin> set p) es"
  by (induction es) (auto simp: path_elem_def)

lemma strings_Join_Cons: "\<exists>r. strings_Join (e # es) sep = e @ r"
  by (cases es) auto

lemma filepath_Join_elems:
  assumes "es \<noteq> []" and "list_all path_elem es"
  shows "filepath_Join es = strings_Join es ''/''"
proof -
  from assms obtain e es' where es: "es = e # es'" by (cases es) auto
  with assms(2) have e: "path_elem e" by simp
  obtain r where r: "strings_Join es ''/'' = e @ r" using strings_Join_Cons es by metis
  have "path_split (strings_Join es ''/'') = es"
    using assms by (simp add: path_split_Join path_elem_no_slash)
  then have "filepath_Clean (strings_Join es ''/'') = strings_Join es ''/''"
    using e r assms(2) by (cases e) (auto simp: filepath_Clean_def path_elem_def clean_elems_id)
  moreover have "dropWhile (\<lambda>e. e = []) es = es"
    using e es by (simp add: path_elem_def)
  ultimately show ?thesis using assms(1) by (simp add: filepath_Join_def)
qed

lemma path_elem_big_String [simp]: "path_elem (big_String x)"
  using big_String_chars [of _ x] by (force simp: path_elem_def)

end
