(* ===== verification/Models.thy ===== *)
theory Models
  imports Machine Go_Std
begin

text \<open>
  Package \<open>models\<close> (src/pkg/models) with its column types (src/pkg/models/types), and the table
  \<open>contracts\<close> of src/migrations/sqlite3/contracts.sql that its SQL statements work on. A row is
  a record of column values, the table is the list of its rows with the AUTOINCREMENT sequence,
  and the engine may fail any statement: \<open>db_faults\<close> is an arbitrary schedule of such failures.
  go-ethereum's hex functions and solgo's JSON helpers are the fields of the parameter
  \<open>codec\<close>.
\<close>

section \<open>Third-party encodings\<close>

type_synonym Hash = "256 word"
type_synonym Address = "160 word"
type_synonym gotime = nat

record codec =
  addr_Hex :: "Address \<Rightarrow> string"
  HexToAddress :: "string \<Rightarrow> Address"
  IsHexAddress :: "string \<Rightarrow> bool"
  hash_Hex :: "Hash \<Rightarrow> string"
  HexToHash :: "string \<Rightarrow> Hash"
  Bytes2Hex :: "byte list \<Rightarrow> string"
  Hex2Bytes :: "string \<Rightarrow> byte list"
  ToJSON_strings :: "string list \<Rightarrow> error + string"
  FromJSON_strings :: "string \<Rightarrow> error + string list"
  ToJSON_addresses :: "Address list \<Rightarrow> error + string"
  FromJSON_addresses :: "string \<Rightarrow> error + Address list"

text \<open>The documented behaviour of these functions that the program relies on: what an encoder
  writes, the matching decoder reads back.\<close>

definition codec_documented :: "codec \<Rightarrow> bool" where
  "codec_documented cd \<longleftrightarrow>
     (\<forall>a. HexToAddress cd (addr_Hex cd a) = a) \<and> (\<forall>h. HexToHash cd (hash_Hex cd h) = h)
     \<and> (\<forall>b. Hex2Bytes cd (Bytes2Hex cd b) = b)
     \<and> (\<forall>xs. \<exists>s. ToJSON_strings cd xs = Inr s \<and> FromJSON_strings cd s = Inr xs)
     \<and> (\<forall>xs. \<exists>s. ToJSON_addresses cd xs = Inr s \<and> FromJSON_addresses cd s = Inr xs)"

section \<open>Column types\<close>

text \<open>The driver values that \<open>database/sql\<close> passes to a \<open>Scan\<close> method.\<close>

datatype sqlval = VInt64 int | VUint64 int | VString string | VBytes string | VBool bool | VTime gotime | VNull

text \<open>A type assertion \<open>value.(string)\<close> panics on any other dynamic type.\<close>

definition assert_string :: "sqlval \<Rightarrow> (string, unit) go" where
  "assert_string v = (case v of VString s \<Rightarrow> Returns s | _ \<Rightarrow> Panics ())"

definition Address_Scan :: "codec \<Rightarrow> sqlval \<Rightarrow> (Address, unit) go" where
  "Address_Scan cd v = map_go (HexToAddress cd) (\<lambda>u. u) (assert_string v)"

definition Address_Value :: "codec \<Rightarrow> Address \<Rightarrow> sqlval" where
  "Address_Value cd a = VString (addr_Hex cd a)"

definition Hash_Scan :: "codec \<Rightarrow> sqlval \<Rightarrow> (Hash, unit) go" where
  "Hash_Scan cd v = map_go (HexToHash cd) (\<lambda>u. u) (assert_string v)"

definition Hash_Value :: "codec \<Rightarrow> Hash \<Rightarrow> sqlval" where
  "Hash_Value cd h = VString (hash_Hex cd h)"

definition Bytecode_Scan :: "codec \<Rightarrow> sqlval \<Rightarrow> (byte list, unit) go" where
  "Bytecode_Scan cd v = map_go (Hex2Bytes cd) (\<lambda>u. u) (assert_string v)"

definition Bytecode_ToHex :: "codec \<Rightarrow> byte list \<Rightarrow> string" where
  "Bytecode_ToHex cd b = Bytes2Hex cd b"

definition Bytecode_Value :: "codec \<Rightarrow> byte list \<Rightarrow> sqlval" where
  "Bytecode_Value cd b = VString (Bytes2Hex cd b)"

definition Addresses_Scan :: "codec \<Rightarrow> sqlval \<Rightarrow> (error + Address list, unit) go" where
  "Addresses_Scan cd v = map_go (FromJSON_addresses cd) (\<lambda>u. u) (assert_string v)"

definition Addresses_Value :: "codec \<Rightarrow> Address list \<Rightarrow> error + sqlval" where
  "Addresses_Value cd xs = map_sum id VString (ToJSON_addresses cd xs)"

definition Addresses_StringArray :: "codec \<Rightarrow> Address list \<Rightarrow> string list" where
  "Addresses_StringArray cd xs = map (addr_Hex cd) xs"

definition Standards_Scan :: "codec \<Rightarrow> sqlval \<Rightarrow> (error + string list, unit) go" where
  "Standards_Scan cd v = map_go (FromJSON_strings cd) (\<lambda>u. u) (assert_string v)"

definition Standards_Value :: "codec \<Rightarrow> string list \<Rightarrow> error + sqlval" where
  "Standards_Value cd xs = map_sum id VString (ToJSON_strings cd xs)"

definition Standards_StringArray :: "(string \<Rightarrow> string) \<Rightarrow> string list \<Rightarrow> string list" where
  "Standards_StringArray standard_String xs = map standard_String xs"

definition States_Scan :: "codec \<Rightarrow> sqlval \<Rightarrow> (error + State list, unit) go" where
  "States_Scan cd v = map_go (FromJSON_strings cd) (\<lambda>u. u) (assert_string v)"

definition States_Value :: "codec \<Rightarrow> State list \<Rightarrow> error + sqlval" where
  "States_Value cd xs = map_sum id VString (ToJSON_strings cd xs)"

definition States_StringArray :: "State list \<Rightarrow> string list" where
  "States_StringArray xs = map (\<lambda>s. s) xs"

definition BigInt_Scan :: "sqlval \<Rightarrow> error + int" where
  "BigInt_Scan v =
     (case v of
        VInt64 x \<Rightarrow> Inr x
      | VUint64 x \<Rightarrow> Inr x
      | VString s \<Rightarrow>
          (case big_SetString s of None \<Rightarrow> Inl (Errorf ''BigInt.Scan: invalid string'') | Some x \<Rightarrow> Inr x)
      | VBytes s \<Rightarrow>
          (case big_SetString s of None \<Rightarrow> Inl (Errorf ''BigInt.Scan: invalid byte slice'') | Some x \<Rightarrow> Inr x)
      | _ \<Rightarrow> Inl (Errorf ''BigInt.Scan: unsupported type''))"

text \<open>The wrappers embed the value they are given and have its methods.\<close>

definition NewAddress :: "Address \<Rightarrow> Address" where [simp]: "NewAddress h = h"

definition NewHash :: "Hash \<Rightarrow> Hash" where [simp]: "NewHash h = h"

definition NewBigInt :: "int \<Rightarrow> int" where [simp]: "NewBigInt bi = bi"

text \<open>\<open>BigInt.Value\<close> hands the receiver itself to the driver, a pointer that is none of the types a driver takes
  (\<open>driver.IsValue\<close>).\<close>

datatype driver_value = Column sqlval | BigInt_pointer int

definition BigInt_Value :: "int \<Rightarrow> error + driver_value" where
  "BigInt_Value bi = Inr (BigInt_pointer bi)"

fun driver_IsValue :: "driver_value \<Rightarrow> bool" where
  "driver_IsValue (Column (VUint64 x)) = False"
| "driver_IsValue (Column v) = True"
| "driver_IsValue (BigInt_pointer bi) = False"

lemma BigInt_Value_refused: "BigInt_Value bi = Inr v \<Longrightarrow> \<not> driver_IsValue v"
  by (auto simp: BigInt_Value_def)

section \<open>The contract model\<close>

record Contract =
  c_Id :: int
  c_NetworkId :: int
  c_BlockNumber :: int
  c_BlockHash :: Hash
  c_TransactionHash :: Hash
  c_Address :: Address
  c_Name :: string
  c_Standards :: "string list"
  c_Proxy :: bool
  c_License :: string
  c_CompilerVersion :: string
  c_SolgoVersion :: string
  c_Optimized :: bool
  c_OptimizationRuns :: int
  c_EVMVersion :: string
  c_ABI :: string
  c_Verified :: bool
  c_SourcesProvider :: string
  c_VerificationProvider :: string
  c_ExecutionBytecode :: "byte list"
  c_Bytecode :: "byte list"
  c_SafetyState :: string
  c_SourceAvailable :: bool
  c_SelfDestructed :: bool
  c_ProxyImplementations :: "Address list"
  c_CompletedStates :: "State list"
  c_FailedStates :: "State list"
  c_Processed :: bool
  c_Partial :: bool
  c_CreatedAt :: gotime
  c_UpdatedAt :: gotime

definition ContractKeyPrefix :: string where
  "ContractKeyPrefix = ''contract:entry''"

definition EncodeCursor :: "Contract \<Rightarrow> string" where
  "EncodeCursor c = b64_encode (GobEncode (c_Id c))"

definition DecodeCursor :: "string \<Rightarrow> error + int" where
  "DecodeCursor encodedCursor =
     (case b64_decode encodedCursor of
        Inl err \<Rightarrow> Inl err
      | Inr decodedBytes \<Rightarrow>
          (case GobDecode decodedBytes of Inl err \<Rightarrow> Inl err | Inr decoded \<Rightarrow> Inr decoded))"

definition GetKey :: "codec \<Rightarrow> Contract \<Rightarrow> string" where
  "GetKey cd c =
     strings_Join [ContractKeyPrefix, big_String (c_NetworkId c), addr_Hex cd (c_Address c)] ''-''"

definition IsCompleted :: "Contract \<Rightarrow> bool" where
  "IsCompleted c \<longleftrightarrow> c_Processed c \<and> \<not> c_Partial c"

section \<open>The table\<close>

record row =
  r_id :: int
  r_network_id :: int
  r_block_number :: int
  r_block_hash :: string
  r_transaction_hash :: string
  r_address :: string
  r_name :: string
  r_standards :: string
  r_proxy :: bool
  r_license :: string
  r_compiler_version :: string
  r_solgo_version :: string
  r_optimized :: bool
  r_optimization_runs :: int
  r_evm_version :: string
  r_abi :: string
  r_verified :: bool
  r_sources_provider :: string
  r_verification_provider :: string
  r_execution_bytecode :: string
  r_bytecode :: string
  r_source_available :: bool
  r_safety_state :: string
  r_self_destructed :: bool
  r_proxy_implementations :: string
  r_completed_states :: string
  r_failed_states :: string
  r_processed :: bool
  r_partial :: bool
  r_created_at :: gotime
  r_updated_at :: gotime

record contracts_db =
  db_rows :: "row list"
  db_seq :: int
  db_faults :: "error option schedule"

type_synonym dbkey = "int \<times> int \<times> string"

definition row_key :: "row \<Rightarrow> dbkey" where
  "row_key r = (r_network_id r, r_block_number r, r_address r)"

text \<open>One statement sent to the engine: the schedule says whether the engine fails it.\<close>

definition db_poll :: "contracts_db \<Rightarrow> error option \<times> contracts_db" where
  "db_poll db = (poll (db_faults db), db\<lparr>db_faults := advance (db_faults db)\<rparr>)"

text \<open>\<open>database/sql\<close> refuses unsigned arguments with the high bit set.\<close>

definition uint64_args_ok :: "int list \<Rightarrow> bool" where
  "uint64_args_ok xs = list_all (\<lambda>x. x < 2 ^ 63) xs"

definition uint64_arg_error :: error where
  "uint64_arg_error = Errorf ''sql: converting argument type: uint64 values with high bit set are not supported''"

definition unique_error :: error where
  "unique_error = Errorf (''constraint failed: UNIQUE constraint failed: contracts.network_id, ''
     @ ''contracts.block_number, contracts.address (2067)'')"

definition full_error :: error where
  "full_error = Errorf ''database or disk is full (13)''"

text \<open>\<open>SELECT ... WHERE network_id = ? AND block_number = ? AND address = ?\<close> and the
  \<open>INSERT\<close> and \<open>UPDATE ... WHERE id = ?\<close> statements under the table's constraints.\<close>

definition db_find :: "contracts_db \<Rightarrow> dbkey \<Rightarrow> row option" where
  "db_find db k = List.find (\<lambda>r. row_key r = k) (db_rows db)"

definition exec_insert :: "row \<Rightarrow> contracts_db \<Rightarrow> error option \<times> contracts_db" where
  "exec_insert r db =
     (if row_key r \<in> row_key ` set (db_rows db) then (Some unique_error, db)
      else if 2 ^ 63 - 1 \<le> db_seq db then (Some full_error, db)
      else (None, db\<lparr>db_rows := db_rows db @ [r\<lparr>r_id := db_seq db + 1\<rparr>], db_seq := db_seq db + 1\<rparr>))"

definition exec_update :: "row \<Rightarrow> int \<Rightarrow> contracts_db \<Rightarrow> error option \<times> contracts_db" where
  "exec_update r i db =
     (if i \<in> r_id ` set (db_rows db)
         \<and> row_key r \<in> row_key ` {x \<in> set (db_rows db). r_id x \<noteq> i}
      then (Some unique_error, db)
      else (None, db\<lparr>db_rows :=
              map (\<lambda>x. if r_id x = i then r\<lparr>r_id := i, r_created_at := r_created_at x\<rparr> else x)
                (db_rows db)\<rparr>))"

section \<open>Reading and writing contracts\<close>

text \<open>The destination list of \<open>row.Scan\<close> and the conversions after it, in the order of the
  code.\<close>

definition scan_row :: "codec \<Rightarrow> row \<Rightarrow> error + Contract" where
  "scan_row cd r =
     (case FromJSON_strings cd (r_standards r) of
        Inl err \<Rightarrow> Inl (Wrapf ''failure to decode standards into contract: '' err)
      | Inr standards \<Rightarrow>
     (case FromJSON_addresses cd (r_proxy_implementations r) of
        Inl err \<Rightarrow> Inl (Wrapf ''failure to decode proxy implementations into contract: '' err)
      | Inr impls \<Rightarrow>
     (case FromJSON_strings cd (r_completed_states r) of
        Inl err \<Rightarrow> Inl (Wrapf ''failure to decode completed states into contract: '' err)
      | Inr completed \<Rightarrow>
     (case FromJSON_strings cd (r_failed_states r) of
        Inl err \<Rightarrow> Inl (Wrapf ''failure to decode completed states into contract: '' err)
      | Inr failed \<Rightarrow>
          Inr \<lparr>c_Id = r_id r, c_NetworkId = r_network_id r, c_BlockNumber = r_block_number r,
            c_BlockHash = HexToHash cd (r_block_hash r),
            c_TransactionHash = HexToHash cd (r_transaction_hash r),
            c_Address = HexToAddress cd (r_address r), c_Name = r_name r, c_Standards = standards,
            c_Proxy = r_proxy r, c_License = r_license r, c_CompilerVersion = r_compiler_version r,
            c_SolgoVersion = r_solgo_version r, c_Optimized = r_optimized r,
            c_OptimizationRuns = r_optimization_runs r, c_EVMVersion = r_evm_version r,
            c_ABI = r_abi r, c_Verified = r_verified r, c_SourcesProvider = r_sources_provider r,
            c_VerificationProvider = r_verification_provider r,
            c_ExecutionBytecode = Hex2Bytes cd (r_execution_bytecode r),
            c_Bytecode = Hex2Bytes cd (r_bytecode r), c_SafetyState = r_safety_state r,
            c_SourceAvailable = r_source_available r, c_SelfDestructed = r_self_destructed r,
            c_ProxyImplementations = impls, c_CompletedStates = completed,
            c_FailedStates = failed, c_Processed = r_processed r, c_Partial = r_partial r,
            c_CreatedAt = r_created_at r, c_UpdatedAt = r_updated_at r\<rparr>))))"

definition query_error :: "error \<Rightarrow> error" where
  "query_error err =
     (if errors_Is err ErrNoRows then err
      else Errorf (''error querying contract by unique index: '' @ Error err))"

definition GetContractByUniqueIndex ::
  "codec \<Rightarrow> int \<Rightarrow> int \<Rightarrow> Address \<Rightarrow> contracts_db \<Rightarrow> (error + Contract) \<times> contracts_db" where
  "GetContractByUniqueIndex cd networkId blockNumber address db =
     (let n = big_Uint64 networkId; b = big_Uint64 blockNumber; (fault, db') = db_poll db in
      (if \<not> uint64_args_ok [n, b] then Inl (query_error uint64_arg_error)
       else case fault of
         Some err \<Rightarrow> Inl (query_error err)
       | None \<Rightarrow>
           (case db_find db (n, b, addr_Hex cd address) of
              None \<Rightarrow> Inl (query_error ErrNoRows)
            | Some r \<Rightarrow> scan_row cd r), db'))"

text \<open>Without the block number several rows can match; \<open>scan_order\<close> is the order in which the
  engine visits the table.\<close>

definition GetContractByAddress ::
  "codec \<Rightarrow> (row list \<Rightarrow> row list) \<Rightarrow> int \<Rightarrow> Address \<Rightarrow> contracts_db
   \<Rightarrow> (error + Contract) \<times> contracts_db" where
  "GetContractByAddress cd scan_order networkId address db =
     (let n = big_Uint64 networkId; (fault, db') = db_poll db in
      (if \<not> uint64_args_ok [n] then Inl (query_error uint64_arg_error)
       else case fault of
         Some err \<Rightarrow> Inl (query_error err)
       | None \<Rightarrow>
           (case List.find (\<lambda>r. r_network_id r = n \<and> r_address r = addr_Hex cd address)
                   (scan_order (db_rows db)) of
              None \<Rightarrow> Inl (query_error ErrNoRows)
            | Some r \<Rightarrow> scan_row cd r), db'))"

text \<open>An ignored encoding error leaves nil bytes, hence the empty string.\<close>

definition json_or_empty :: "error + string \<Rightarrow> string" where
  "json_or_empty j = (case j of Inl _ \<Rightarrow> [] | Inr s \<Rightarrow> s)"

definition contract_row :: "codec \<Rightarrow> Contract \<Rightarrow> string \<Rightarrow> row" where
  "contract_row cd c failedStates =
     \<lparr>r_id = 0, r_network_id = big_Uint64 (c_NetworkId c), r_block_number = big_Uint64 (c_BlockNumber c),
      r_block_hash = hash_Hex cd (c_BlockHash c), r_transaction_hash = hash_Hex cd (c_TransactionHash c),
      r_address = addr_Hex cd (c_Address c), r_name = c_Name c,
      r_standards = json_or_empty (ToJSON_strings cd (c_Standards c)), r_proxy = c_Proxy c,
      r_license = c_License c, r_compiler_version = c_CompilerVersion c,
      r_solgo_version = c_SolgoVersion c, r_optimized = c_Optimized c,
      r_optimization_runs = c_OptimizationRuns c, r_evm_version = c_EVMVersion c, r_abi = c_ABI c,
      r_verified = c_Verified c, r_sources_provider = c_SourcesProvider c,
      r_verification_provider = c_VerificationProvider c,
      r_execution_bytecode = Bytes2Hex cd (c_ExecutionBytecode c),
      r_bytecode = Bytes2Hex cd (c_Bytecode c), r_source_available = c_SourceAvailable c,
      r_safety_state = c_SafetyState c, r_self_destructed = c_SelfDestructed c,
      r_proxy_implementations = json_or_empty (ToJSON_addresses cd (c_ProxyImplementations c)),
      r_completed_states = json_or_empty (ToJSON_strings cd (c_CompletedStates c)),
      r_failed_states = failedStates, r_processed = c_Processed c, r_partial = c_Partial c,
      r_created_at = c_CreatedAt c, r_updated_at = c_UpdatedAt c\<rparr>"

definition contract_args_ok :: "Contract \<Rightarrow> bool" where
  "contract_args_ok c =
     uint64_args_ok [big_Uint64 (c_NetworkId c), big_Uint64 (c_BlockNumber c), c_OptimizationRuns c]"

definition SaveContract :: "codec \<Rightarrow> Contract \<Rightarrow> contracts_db \<Rightarrow> error option \<times> contracts_db" where
  "SaveContract cd contract db =
     (case db_poll db of
        (Some err, db1) \<Rightarrow> (Some (Errorf (''error preparing insert statement: '' @ Error err)), db1)
      | (None, db1) \<Rightarrow>
          (case ToJSON_strings cd (c_FailedStates contract) of
             Inl fsErr \<Rightarrow> (Some (Wrapf ''error casting failed states to json: '' fsErr), db1)
           | Inr failedStates \<Rightarrow>
               (let (fault, db2) = db_poll db1;
                    (err, db3) =
                      (if \<not> contract_args_ok contract then (Some uint64_arg_error, db2)
                       else if fault \<noteq> None then (fault, db2)
                       else exec_insert (contract_row cd contract failedStates) db2)
                in (map_option (\<lambda>e. Errorf (''error executing insert statement: '' @ Error e)) err, db3))))"

definition UpdateContract :: "codec \<Rightarrow> Contract \<Rightarrow> contracts_db \<Rightarrow> error option \<times> contracts_db" where
  "UpdateContract cd contract db =
     (case db_poll db of
        (Some err, db1) \<Rightarrow> (Some (Errorf (''error preparing update statement: '' @ Error err)), db1)
      | (None, db1) \<Rightarrow>
          (case ToJSON_strings cd (c_FailedStates contract) of
             Inl fsErr \<Rightarrow> (Some (Wrapf ''error casting failed states to json: '' fsErr), db1)
           | Inr failedStates \<Rightarrow>
               (let (fault, db2) = db_poll db1;
                    (err, db3) =
                      (if \<not> contract_args_ok contract then (Some uint64_arg_error, db2)
                       else if fault \<noteq> None then (fault, db2)
                       else exec_update (contract_row cd contract failedStates) (c_Id contract) db2)
                in (map_option (\<lambda>e. Errorf (''error executing update statement: '' @ Error e)) err, db3))))"

section \<open>Invariant\<close>

text \<open>The table's constraints: ids are positive, at most the sequence and unique, and so are the
  keys.\<close>

definition db_wf :: "contracts_db \<Rightarrow> bool" where
  "db_wf db \<longleftrightarrow> distinct (map r_id (db_rows db)) \<and> distinct (map row_key (db_rows db))
     \<and> 0 \<le> db_seq db \<and> (\<forall>r \<in> set (db_rows db). 1 \<le> r_id r \<and> r_id r \<le> db_seq db)"

definition empty_db :: contracts_db where
  "empty_db = \<lparr>db_rows = [], db_seq = 0, db_faults = Background\<rparr>"

text \<open>An encoding with the documented behaviour, and a contract, on which the properties are
  evaluated: numbers in decimal, lists with an end mark after every element.\<close>

fun mark_encode :: "string list \<Rightarrow> string" where
  "mark_encode [] = []"
| "mark_encode (x # xs) = concat (map (\<lambda>c. [CHR ''c'', c]) x) @ [CHR ''e''] @ mark_encode xs"

fun mark_decode :: "string \<Rightarrow> string \<Rightarrow> string list" where
  "mark_decode acc [] = []"
| "mark_decode acc [e] = [acc]"
| "mark_decode acc (m # c # cs) =
     (if m = CHR ''c'' then mark_decode (acc @ [c]) cs else acc # mark_decode [] (c # cs))"

definition plain_number :: "string \<Rightarrow> int" where
  "plain_number s = (case big_SetString s of None \<Rightarrow> 0 | Some x \<Rightarrow> x)"

definition plain_codec :: codec where
  "plain_codec =
     \<lparr>addr_Hex = (\<lambda>a. big_String (uint a)), HexToAddress = (\<lambda>s. word_of_int (plain_number s)),
      IsHexAddress = (\<lambda>s. big_SetString s \<noteq> None),
      hash_Hex = (\<lambda>h. big_String (uint h)), HexToHash = (\<lambda>s. word_of_int (plain_number s)),
      Bytes2Hex = b64_encode, Hex2Bytes = (\<lambda>s. case b64_decode s of Inl _ \<Rightarrow> [] | Inr b \<Rightarrow> b),
      ToJSON_strings = (\<lambda>xs. Inr (mark_encode xs)), FromJSON_strings = (\<lambda>s. Inr (mark_decode [] s)),
      ToJSON_addresses = (\<lambda>xs. Inr (mark_encode (map (\<lambda>a. big_String (uint a)) xs))),
      FromJSON_addresses = (\<lambda>s. Inr (map (\<lambda>x. word_of_int (plain_number x)) (mark_decode [] s)))\<rparr>"

definition example_contract :: Contract where
  "example_contract =
     \<lparr>c_Id = 0, c_NetworkId = 1, c_BlockNumber = 17, c_BlockHash = 3, c_TransactionHash = 4,
      c_Address = 5, c_Name = ''Token'', c_Standards = [], c_Proxy = False, c_License = ''MIT'',
      c_CompilerVersion = ''0.8'', c_SolgoVersion = ''0.3'', c_Optimized = True,
      c_OptimizationRuns = 200, c_EVMVersion = ''paris'', c_ABI = '''', c_Verified = True,
      c_SourcesProvider = ''etherscan'', c_VerificationProvider = '''', c_ExecutionBytecode = [1, 2],
      c_Bytecode = [3], c_SafetyState = ''unknown'', c_SourceAvailable = True,
      c_SelfDestructed = False, c_ProxyImplementations = [], c_CompletedStates = [''discover''],
      c_FailedStates = [], c_Processed = True, c_Partial = False, c_CreatedAt = 7, c_UpdatedAt = 0\<rparr>"

section \<open>Lemmas\<close>

subsection \<open>The table\<close>

lemma db_poll_simps [simp]:
  "db_rows (snd (db_poll db)) = db_rows db" "db_seq (snd (db_poll db)) = db_seq db"
  "db_faults (snd (db_poll db)) = advance (db_faults db)" "fst (db_poll db) = poll (db_faults db)"
  by (simp_all add: db_poll_def)

lemma db_wf_faults [simp]: "db_wf (db\<lparr>db_faults := f\<rparr>) = db_wf db"
  by (simp add: db_wf_def)

lemma db_find_faults [simp]: "db_find (db\<lparr>db_faults := f\<rparr>) = db_find db"
  by (simp add: db_find_def fun_eq_iff)

lemma db_wf_empty [simp]: "db_wf empty_db"
  by (simp add: db_wf_def empty_db_def)

lemma find_None_iff_key: "List.find (\<lambda>r. f r = k) xs = None \<longleftrightarrow> k \<notin> f ` set xs"
  by (auto simp: find_None_iff)

lemma find_append: "List.find P (xs @ ys) = (case List.find P xs of None \<Rightarrow> List.find P ys | Some x \<Rightarrow> Some x)"
  by (induction xs) auto

lemma find_distinct_key:
  "distinct (map f xs) \<Longrightarrow> x \<in> set xs \<Longrightarrow> List.find (\<lambda>y. f y = f x) xs = Some x"
  by (induction xs) (auto simp: rev_image_eqI)

lemma find_distinct_iff:
  "distinct (map f xs) \<Longrightarrow> List.find (\<lambda>y. f y = k) xs = Some x \<longleftrightarrow> x \<in> set xs \<and> f x = k"
  by (auto dest: find_Some_mem simp: find_distinct_key)

lemma db_find_iff: "db_wf db \<Longrightarrow> db_find db k = Some r \<longleftrightarrow> r \<in> set (db_rows db) \<and> row_key r = k"
  by (simp add: db_find_def db_wf_def find_distinct_iff)

lemma row_key_id [simp]: "row_key (r\<lparr>r_id := i\<rparr>) = row_key r" "row_key (r\<lparr>r_created_at := t\<rparr>) = row_key r"
  by (simp_all add: row_key_def)

lemma exec_insert_wf: "db_wf db \<Longrightarrow> db_wf (snd (exec_insert r db))"
  by (auto simp: exec_insert_def db_wf_def)

lemma exec_insert_find:
  "exec_insert r db = (None, db') \<Longrightarrow>
     db_find db (row_key r) = None \<and> db_find db' = (db_find db)(row_key r \<mapsto> r\<lparr>r_id := db_seq db + 1\<rparr>)"
proof -
  assume "exec_insert r db = (None, db')"
  then have new: "row_key r \<notin> row_key ` set (db_rows db)"
    and db': "db_rows db' = db_rows db @ [r\<lparr>r_id := db_seq db + 1\<rparr>]"
    by (auto simp: exec_insert_def split: if_splits)
  from new have free: "db_find db (row_key r) = None"
    by (simp add: db_find_def find_None_iff_key)
  have "db_find db' k = ((db_find db)(row_key r \<mapsto> r\<lparr>r_id := db_seq db + 1\<rparr>)) k" for k
    using free by (simp add: db_find_def db' find_append split: option.splits)
  with free show ?thesis by blast
qed

lemma exec_insert_err: "exec_insert r db = (Some e, db') \<Longrightarrow> db' = db"
  by (auto simp: exec_insert_def split: if_splits)

lemma distinct_map_update:
  assumes "distinct (map f xs)" and "distinct (map g xs)"
    and "\<And>x. f x = i \<Longrightarrow> g (u x) = k" and "i \<in> f ` set xs \<Longrightarrow> k \<notin> g ` {x \<in> set xs. f x \<noteq> i}"
  shows "distinct (map (\<lambda>x. g (if f x = i then u x else x)) xs)"
proof -
  have "inj_on (\<lambda>x. g (if f x = i then u x else x)) (set xs)"
  proof (rule inj_onI)
    fix x y
    assume xy: "x \<in> set xs" "y \<in> set xs"
      and eq: "g (if f x = i then u x else x) = g (if f y = i then u y else y)"
    have inj: "inj_on f (set xs)" "inj_on g (set xs)"
      using assms(1,2) by (simp_all add: distinct_map)
    consider "f x = i" "f y = i" | "f x \<noteq> i" "f y \<noteq> i" | "f x = i" "f y \<noteq> i" | "f x \<noteq> i" "f y = i"
      by blast
    then show "x = y"
    proof cases
      case 1
      with xy inj(1) show ?thesis by (auto dest: inj_onD)
    next
      case 2
      with xy eq inj(2) show ?thesis by (auto dest: inj_onD)
    next
      case 3
      with eq assms(3) have "k = g y" by simp
      with 3 xy assms(4) show ?thesis by blast
    next
      case 4
      with eq assms(3) have "k = g x" by simp
      with 4 xy assms(4) show ?thesis by blast
    qed
  qed
  then show ?thesis using assms(1) by (simp add: distinct_map)
qed

lemma exec_update_wf:
  assumes "db_wf db"
  shows "db_wf (snd (exec_update r i db))"
proof (cases "i \<in> r_id ` set (db_rows db) \<and> row_key r \<in> row_key ` {x \<in> set (db_rows db). r_id x \<noteq> i}")
  case True
  with assms show ?thesis by (simp add: exec_update_def)
next
  case False
  let ?u = "\<lambda>x. r\<lparr>r_id := i, r_created_at := r_created_at x\<rparr>"
  let ?f = "\<lambda>x. if r_id x = i then ?u x else x"
  have keys: "distinct (map (\<lambda>x. row_key (?f x)) (db_rows db))"
    using assms False distinct_map_update [where f = r_id and g = row_key and u = ?u and k = "row_key r"]
    by (auto simp: db_wf_def)
  have ids: "(\<lambda>x. r_id (?f x)) = r_id" by auto
  have "db_wf (db\<lparr>db_rows := map ?f (db_rows db)\<rparr>)"
    using assms keys by (auto simp: db_wf_def o_def ids)
  with False assms show ?thesis by (simp add: exec_update_def)
qed

lemma exec_update_absent: "i \<notin> r_id ` set (db_rows db) \<Longrightarrow> exec_update r i db = (None, db)"
proof -
  assume "i \<notin> r_id ` set (db_rows db)"
  then have "map (\<lambda>x. if r_id x = i then r\<lparr>r_id := i, r_created_at := r_created_at x\<rparr> else x) (db_rows db)
      = db_rows db"
    by (intro map_idI) auto
  with \<open>i \<notin> _\<close> show ?thesis by (simp add: exec_update_def)
qed

lemma exec_update_seq [simp]: "db_seq (snd (exec_update r i db)) = db_seq db"
  by (simp add: exec_update_def)

lemma SaveContract_wf: "db_wf db \<Longrightarrow> db_wf (snd (SaveContract cd c db))"
  by (auto simp: SaveContract_def db_poll_def Let_def case_prod_unfold exec_insert_wf split: sum.splits option.splits)

lemma UpdateContract_wf: "db_wf db \<Longrightarrow> db_wf (snd (UpdateContract cd c db))"
  by (auto simp: UpdateContract_def db_poll_def Let_def case_prod_unfold exec_update_wf split: sum.splits option.splits)

lemma GetContractByUniqueIndex_db:
  "snd (GetContractByUniqueIndex cd n b a db) = db\<lparr>db_faults := advance (db_faults db)\<rparr>"
  by (simp add: GetContractByUniqueIndex_def db_poll_def Let_def)

lemma GetContractByAddress_db:
  "snd (GetContractByAddress cd so n a db) = db\<lparr>db_faults := advance (db_faults db)\<rparr>"
  by (simp add: GetContractByAddress_def db_poll_def Let_def)

lemma SaveContract_None:
  assumes "SaveContract cd c db = (None, db')"
  obtains fs where "ToJSON_strings cd (c_FailedStates c) = Inr fs" "contract_args_ok c"
    "exec_insert (contract_row cd c fs) (db\<lparr>db_faults := advance (advance (db_faults db))\<rparr>) = (None, db')"
  using assms
  by (auto simp: SaveContract_def db_poll_def Let_def case_prod_unfold prod_eq_iff
      split: sum.splits option.splits if_splits)

lemma UpdateContract_None:
  assumes "UpdateContract cd c db = (None, db')"
  obtains fs where "ToJSON_strings cd (c_FailedStates c) = Inr fs" "contract_args_ok c"
    "exec_update (contract_row cd c fs) (c_Id c) (db\<lparr>db_faults := advance (advance (db_faults db))\<rparr>) = (None, db')"
  using assms
  by (auto simp: UpdateContract_def db_poll_def Let_def case_prod_unfold prod_eq_iff
      split: sum.splits option.splits if_splits)

lemma exec_update_find:
  assumes "db_wf db" and "r \<in> set (db_rows db)" and "exec_update x (r_id r) db = (None, db')"
  shows "db_find db' (row_key x) = Some (x\<lparr>r_id := r_id r, r_created_at := r_created_at r\<rparr>)"
proof -
  have "db_wf db'" using exec_update_wf [OF assms(1), of x "r_id r"] assms(3) by simp
  moreover have "x\<lparr>r_id := r_id r, r_created_at := r_created_at r\<rparr> \<in> set (db_rows db')"
    using assms(2,3) by (auto simp: exec_update_def split: if_splits)
  ultimately show ?thesis by (simp add: db_find_iff)
qed

definition contract_key :: "codec \<Rightarrow> Contract \<Rightarrow> dbkey" where
  "contract_key cd c = (big_Uint64 (c_NetworkId c), big_Uint64 (c_BlockNumber c), addr_Hex cd (c_Address c))"

lemma row_key_contract_row [simp]: "row_key (contract_row cd c fs) = contract_key cd c"
  by (simp add: row_key_def contract_row_def contract_key_def)

lemma contract_row_created:
  "(contract_row cd c fs)\<lparr>r_id := i, r_created_at := c_CreatedAt c\<rparr> = (contract_row cd c fs)\<lparr>r_id := i\<rparr>"
  by (simp add: contract_row_def)

text \<open>After a successful write the table holds the contract's row under its key.\<close>

lemma SaveContract_find:
  assumes "SaveContract cd c db = (None, db')"
  shows "\<exists>fs i. ToJSON_strings cd (c_FailedStates c) = Inr fs \<and> contract_args_ok c
    \<and> db_find db' (contract_key cd c) = Some ((contract_row cd c fs)\<lparr>r_id := i\<rparr>)"
  using SaveContract_None [OF assms] exec_insert_find
  by (metis fun_upd_same row_key_contract_row)

lemma UpdateContract_find:
  assumes "UpdateContract cd c db = (None, db')" and "db_wf db" and "r \<in> set (db_rows db)"
    and "r_id r = c_Id c" and "r_created_at r = c_CreatedAt c"
  shows "\<exists>fs i. ToJSON_strings cd (c_FailedStates c) = Inr fs \<and> contract_args_ok c
    \<and> db_find db' (contract_key cd c) = Some ((contract_row cd c fs)\<lparr>r_id := i\<rparr>)"
proof -
  from UpdateContract_None [OF assms(1)] obtain fs where fs: "ToJSON_strings cd (c_FailedStates c) = Inr fs"
    "contract_args_ok c"
    and upd: "exec_update (contract_row cd c fs) (r_id r) (db\<lparr>db_faults := advance (advance (db_faults db))\<rparr>) = (None, db')"
    by (metis assms(4))
  from exec_update_find [OF _ _ upd] assms(2,3,5) have
    "db_find db' (contract_key cd c) = Some ((contract_row cd c fs)\<lparr>r_id := r_id r\<rparr>)"
    by (simp add: contract_row_created)
  with fs show ?thesis by blast
qed

lemma SaveContract_faults:
  "db_faults db = Background \<Longrightarrow> db_faults (snd (SaveContract cd c db)) = Background"
  by (auto simp: SaveContract_def db_poll_def Let_def case_prod_unfold exec_insert_def split: sum.splits option.splits)

lemma UpdateContract_faults:
  "db_faults db = Background \<Longrightarrow> db_faults (snd (UpdateContract cd c db)) = Background"
  by (auto simp: UpdateContract_def db_poll_def Let_def case_prod_unfold exec_update_def split: sum.splits option.splits)

lemma GetContractByUniqueIndex_find:
  assumes "GetContractByUniqueIndex cd n b a db = (Inr c, db')"
  obtains r where "db_find db (big_Uint64 n, big_Uint64 b, addr_Hex cd a) = Some r" "scan_row cd r = Inr c"
  using assms
  by (auto simp: GetContractByUniqueIndex_def Let_def case_prod_unfold split: if_splits option.splits)

lemma scan_row_id: "scan_row cd r = Inr c \<Longrightarrow> c_Id c = r_id r \<and> c_CreatedAt c = r_created_at r"
  by (auto simp: scan_row_def split: sum.splits)

subsection \<open>Stores with a unique key\<close>

text \<open>What a client of a table with a unique key relies on: a successful insert adds exactly one
  entry under a key that was free, a failed one changes nothing. Entries are then never
  overwritten by later inserts, whatever their order.\<close>

locale keyed_store =
  fixes wf :: "'s \<Rightarrow> bool"
    and lookup :: "'s \<Rightarrow> 'k \<rightharpoonup> 'v"
    and key :: "'v \<Rightarrow> 'k"
    and ins :: "'v \<Rightarrow> 's \<Rightarrow> error option \<times> 's"
    and stored :: "'v \<Rightarrow> 's \<Rightarrow> 'v"
  assumes ins_ok: "wf s \<Longrightarrow> ins v s = (None, s') \<Longrightarrow>
      wf s' \<and> lookup s (key v) = None \<and> lookup s' = (lookup s)(key v \<mapsto> stored v s)"
    and ins_err: "ins v s = (Some e, s') \<Longrightarrow> s' = s"
begin

fun ins_all :: "'v list \<Rightarrow> 's \<Rightarrow> 's" where
  "ins_all [] s = s"
| "ins_all (v # vs) s = ins_all vs (snd (ins v s))"

lemma ins_wf: "wf s \<Longrightarrow> wf (snd (ins v s))"
  using ins_ok ins_err by (cases "ins v s") (metis option.exhaust snd_conv)

lemma ins_keeps: "wf s \<Longrightarrow> lookup s k = Some x \<Longrightarrow> lookup (snd (ins v s)) k = Some x"
  using ins_ok ins_err
  by (cases "ins v s") (metis fun_upd_apply option.exhaust option.distinct(1) snd_conv)

lemma ins_twice: "wf s \<Longrightarrow> ins v s = (None, s') \<Longrightarrow> key w = key v \<Longrightarrow> \<exists>e. ins w s' = (Some e, s')"
  by (metis fun_upd_same ins_err ins_ok not_None_eq option.distinct(1) surj_pair)

lemma ins_all_keeps: "wf s \<Longrightarrow> lookup s k = Some x \<Longrightarrow> lookup (ins_all vs s) k = Some x"
  by (induction vs arbitrary: s) (simp_all add: ins_wf ins_keeps)

lemma ins_all_wf: "wf s \<Longrightarrow> wf (ins_all vs s)"
  by (induction vs arbitrary: s) (simp_all add: ins_wf)

end

interpretation contracts: keyed_store db_wf db_find row_key exec_insert
  "\<lambda>r db. r\<lparr>r_id := db_seq db + 1\<rparr>"
proof unfold_locales
  fix s v s'
  assume "db_wf s" and ins: "exec_insert v s = (None, s')"
  then have "db_wf s'" using exec_insert_wf [of s v] by simp
  with exec_insert_find [OF ins]
  show "db_wf s' \<and> db_find s (row_key v) = None
    \<and> db_find s' = (db_find s)(row_key v \<mapsto> v\<lparr>r_id := db_seq s + 1\<rparr>)" by simp
qed (rule exec_insert_err)

subsection \<open>Round trips\<close>

lemma scan_contract_row:
  assumes "codec_documented cd" and "ToJSON_strings cd (c_FailedStates c) = Inr fs"
    and "0 \<le> c_NetworkId c" "c_NetworkId c < 2 ^ 64" "0 \<le> c_BlockNumber c" "c_BlockNumber c < 2 ^ 64"
  shows "scan_row cd ((contract_row cd c fs)\<lparr>r_id := i\<rparr>) = Inr (c\<lparr>c_Id := i\<rparr>)"
proof -
  have rt: "HexToAddress cd (addr_Hex cd a) = a" "HexToHash cd (hash_Hex cd h) = h"
    "Hex2Bytes cd (Bytes2Hex cd b) = b" for a h b
    using assms(1) by (simp_all add: codec_documented_def)
  have js: "FromJSON_strings cd (json_or_empty (ToJSON_strings cd xs)) = Inr xs" for xs
    using assms(1) unfolding codec_documented_def json_or_empty_def
    by (metis sum.simps(6))
  have ja: "FromJSON_addresses cd (json_or_empty (ToJSON_addresses cd xs)) = Inr xs" for xs
    using assms(1) unfolding codec_documented_def json_or_empty_def
    by (metis sum.simps(6))
  have "FromJSON_strings cd fs = Inr (c_FailedStates c)"
    using js [of "c_FailedStates c"] assms(2) by (simp add: json_or_empty_def)
  with rt js ja assms(3-6) show ?thesis
    by (simp add: scan_row_def contract_row_def big_Uint64_id)
qed

lemma mark_decode_encode: "mark_decode acc (concat (map (\<lambda>c. [CHR ''c'', c]) x) @ CHR ''e'' # mark_encode xs)
    = (acc @ x) # (if xs = [] then [] else mark_decode [] (mark_encode xs))"
proof (induction x arbitrary: acc)
  case Nil
  show ?case
  proof (cases "mark_encode xs")
    case Nil
    then have "xs = []" by (cases xs) auto
    with Nil show ?thesis by simp
  next
    case (Cons c cs)
    then show ?thesis by (cases xs) auto
  qed
qed simp

lemma mark_roundtrip [simp]: "mark_decode [] (mark_encode xs) = xs"
  by (induction xs) (auto simp: mark_decode_encode)

lemma plain_codec_documented [simp]: "codec_documented plain_codec"
  by (simp add: codec_documented_def plain_codec_def plain_number_def o_def)

section \<open>Properties\<close>

text \<open>The pagination cursor round trip: decoding the cursor of a contract gives back its id, for
  every id, negative ones included.\<close>

theorem cursor_roundtrip: "DecodeCursor (EncodeCursor c) = Inr (c_Id c)"
  by (simp add: DecodeCursor_def EncodeCursor_def)

text \<open>A contract that \<open>SaveContract\<close> stored is what \<open>GetContractByUniqueIndex\<close> reads
  back under its network, block number and address, with the id the table assigned, provided the
  engine does not fail that query and the encodings behave as documented.\<close>

theorem save_then_get:
  assumes "codec_documented cd" and "SaveContract cd c db = (None, db')"
    and "0 \<le> c_NetworkId c" "c_NetworkId c < 2 ^ 64" "0 \<le> c_BlockNumber c" "c_BlockNumber c < 2 ^ 64"
    and "poll (db_faults db') = None"
  shows "fst (GetContractByUniqueIndex cd (c_NetworkId c) (c_BlockNumber c) (c_Address c) db')
     = Inr (c\<lparr>c_Id := db_seq db + 1\<rparr>)"
proof -
  from SaveContract_None [OF assms(2)] obtain fs where
    fs: "ToJSON_strings cd (c_FailedStates c) = Inr fs" and args: "contract_args_ok c"
    and ins: "exec_insert (contract_row cd c fs) (db\<lparr>db_faults := advance (advance (db_faults db))\<rparr>) = (None, db')"
    by metis
  have "row_key (contract_row cd c fs)
      = (big_Uint64 (c_NetworkId c), big_Uint64 (c_BlockNumber c), addr_Hex cd (c_Address c))"
    by (simp add: row_key_def contract_row_def)
  with exec_insert_find [OF ins] have
    "db_find db' (big_Uint64 (c_NetworkId c), big_Uint64 (c_BlockNumber c), addr_Hex cd (c_Address c))
      = Some ((contract_row cd c fs)\<lparr>r_id := db_seq db + 1\<rparr>)"
    by simp
  with args assms(7) scan_contract_row [OF assms(1) fs assms(3-6)] show ?thesis
    by (simp add: GetContractByUniqueIndex_def Let_def db_poll_def contract_args_ok_def uint64_args_ok_def)
qed

theorem save_then_get_witness:
  "fst (GetContractByUniqueIndex plain_codec 1 17 5
      (snd (SaveContract plain_codec example_contract empty_db))) = Inr (example_contract\<lparr>c_Id := 1\<rparr>)"
proof -
  let ?db' = "snd (SaveContract plain_codec example_contract empty_db)"
  have save: "SaveContract plain_codec example_contract empty_db = (None, ?db')"
    by (simp add: SaveContract_def plain_codec_def example_contract_def db_poll_def empty_db_def
        contract_args_ok_def uint64_args_ok_def big_Uint64_def exec_insert_def)
  have "poll (db_faults ?db') = None"
    by (simp add: SaveContract_def plain_codec_def example_contract_def db_poll_def empty_db_def
        contract_args_ok_def uint64_args_ok_def big_Uint64_def exec_insert_def)
  from save_then_get [OF plain_codec_documented save _ _ _ _ this] show ?thesis
    by (simp add: example_contract_def empty_db_def)
qed

text \<open>The table's constraints are an invariant of every write: \<open>SaveContract\<close> and
  \<open>UpdateContract\<close> keep ids and keys unique whatever they are given and wherever the engine
  fails, and inserting never changes an entry that is already there.\<close>

theorem writes_keep_constraints:
  assumes "db_wf db"
  shows "db_wf (snd (SaveContract cd c db)) \<and> db_wf (snd (UpdateContract cd c db))
     \<and> (db_find db k = Some r \<longrightarrow> db_find (snd (SaveContract cd c db)) k = Some r)"
proof -
  have "db_find (snd (exec_insert x (db\<lparr>db_faults := f\<rparr>))) k = Some r" if "db_find db k = Some r" for x f
    using that assms contracts.ins_keeps by simp
  then show ?thesis using assms SaveContract_wf UpdateContract_wf
    by (auto simp: SaveContract_def db_poll_def Let_def case_prod_unfold split: sum.splits option.splits)
qed

theorem writes_keep_constraints_witness:
  "db_wf empty_db \<and> db_wf (snd (SaveContract plain_codec example_contract empty_db))"
  using writes_keep_constraints [OF db_wf_empty] by simp

text \<open>\<open>UpdateContract\<close> with an id that is not in the table reports success and changes no row.
  This is what happens to a contract that was never loaded from the table, whose id is zero.\<close>

theorem update_of_absent_id_is_silent:
  assumes "db_wf db" and "c_Id c = 0" and "contract_args_ok c"
    and "ToJSON_strings cd (c_FailedStates c) = Inr fs"
    and "poll (db_faults db) = None" and "poll (advance (db_faults db)) = None"
  shows "fst (UpdateContract cd c db) = None
     \<and> db_rows (snd (UpdateContract cd c db)) = db_rows db"
proof -
  have "0 \<notin> r_id ` set (db_rows db)" using assms(1) by (force simp: db_wf_def)
  then show ?thesis using assms(2-6)
    by (simp add: UpdateContract_def db_poll_def Let_def exec_update_absent)
qed

theorem update_of_absent_id_is_silent_witness:
  "fst (UpdateContract plain_codec example_contract empty_db) = None
     \<and> db_rows (snd (UpdateContract plain_codec example_contract empty_db)) = []"
  using update_of_absent_id_is_silent [OF db_wf_empty, of example_contract plain_codec "[]"]
  by (simp add: example_contract_def plain_codec_def empty_db_def contract_args_ok_def
      uint64_args_ok_def big_Uint64_def)

end
