(* ===== verification/Options.thy ===== *)
theory Options
  imports Go_Std
begin

text \<open>
  Package \<open>options\<close> (src/pkg/options): the configuration structs as records, the lookups over
  them, and the global options variable. Loading the YAML files is left to the configuration
  library; \<open>loader_Load\<close> is its parameter.
\<close>

section \<open>Structs\<close>

record Logger =
  logger_Env :: string
  logger_Level :: string

record Network =
  network_Name :: string
  network_NetworkId :: int
  network_CanonicalName :: string
  network_Symbol :: string
  network_Website :: string
  network_Suspended :: bool
  network_Maintenance :: bool

record Db_options =
  db_Dialect :: string
  db_Datasource :: string
  db_MigrationDir :: string

record Queue =
  queue_Name :: string
  queue_Subject :: string
  queue_DeliveryGroup :: string

record Nats =
  nats_Enabled :: bool
  nats_Addr :: string
  nats_Queues :: "Queue list"

record Storage =
  storage_Enabled :: bool
  ContractsPath :: string
  DatabasePath :: string

record Cache_options =
  cache_Addr :: string
  cache_Password :: string
  cache_DB :: int
  cache_MaxRetries :: int
  cache_MinRetryBackoff :: int
  cache_MaxRetryBackoff :: int
  cache_DialTimeout :: int
  cache_ReadTimeout :: int
  cache_WriteTimeout :: int

record Subscriber_options =
  sub_Enabled :: bool
  sub_SubjectName :: string
  sub_Network :: string
  sub_Resumption :: bool
  sub_Type :: string
  sub_StartBlockNumber :: int
  sub_EndBlockNumber :: int

record Syncer =
  Subscribers :: "Subscriber_options list"

record Unpacker_options =
  ForceReprocess :: bool
  OtsEnabled :: bool

record Cors =
  cors_Debug :: bool
  cors_MaxAge :: int
  cors_AllowCredentials :: bool
  cors_OptionsPassthrough :: bool
  cors_AllowedOrigins :: "string list"
  cors_AllowedMethods :: "string list"
  cors_AllowedHeaders :: "string list"
  cors_ExposedHeaders :: "string list"

record GraphQLCache =
  gcache_Adapter :: string
  gcache_QueryCacheDuration :: int

record GraphQL =
  Transports :: "string list"
  graphql_Addr :: string
  graphql_Cors :: Cors
  graphql_Cache :: GraphQLCache

record Endpoint =
  endpoint_Enabled :: bool
  endpoint_Addr :: string

type_synonym Pprof_options = Endpoint
type_synonym Ipfs = Endpoint
type_synonym Rpc = Endpoint

record Options =
  OptionsPath :: string
  opt_Logger :: Logger
  opt_Networks :: "Network list"
  opt_Db :: Db_options
  opt_Nats :: Nats
  opt_Storage :: Storage
  opt_Cache :: Cache_options
  opt_Syncer :: Syncer
  opt_Unpacker :: Unpacker_options
  opt_Graphql :: GraphQL
  opt_Pprof :: Pprof_options
  opt_Ipfs :: Ipfs
  opt_Rpc :: Rpc

section \<open>Operations\<close>

definition GetSqliteDbPath :: "Options \<Rightarrow> string" where
  "GetSqliteDbPath o' = filepath_Join [DatabasePath (opt_Storage o'), db_Datasource (opt_Db o')]"

fun transport_loop :: "string list \<Rightarrow> string \<Rightarrow> bool" where
  "transport_loop [] t = False"
| "transport_loop (tr # trs) t = (if tr = t then True else transport_loop trs t)"

definition TransportEnabled :: "GraphQL \<Rightarrow> string \<Rightarrow> bool" where
  "TransportEnabled g t = transport_loop (Transports g) t"

fun queue_loop :: "Queue list \<Rightarrow> string \<Rightarrow> Queue option" where
  "queue_loop [] name = None"
| "queue_loop (q # qs) name = (if queue_Name q = name then Some q else queue_loop qs name)"

definition GetQueueByName :: "Nats \<Rightarrow> string \<Rightarrow> Queue option" where
  "GetQueueByName n name = queue_loop (nats_Queues n) name"

fun network_loop :: "Network list \<Rightarrow> int \<Rightarrow> Network option" where
  "network_loop [] i = None"
| "network_loop (n # ns) i = (if network_NetworkId n = i then Some n else network_loop ns i)"

definition GetNetworkById :: "Options \<Rightarrow> int \<Rightarrow> error + Network" where
  "GetNetworkById o' i =
     (case network_loop (opt_Networks o') (go_int64 i) of
        Some n \<Rightarrow> Inr n
      | None \<Rightarrow> Inl (Errorf (''failure to discover network by id '' @ quoted (big_String i))))"

definition Options_Validate :: "Options \<Rightarrow> error option" where
  "Options_Validate o' = None"

definition Subscriber_Validate :: "Subscriber_options \<Rightarrow> error option" where
  "Subscriber_Validate s = None"

fun subscriber_loop :: "Subscriber_options list \<Rightarrow> string \<Rightarrow> Subscriber_options option" where
  "subscriber_loop [] t = None"
| "subscriber_loop (s # ss) t = (if sub_Type s = t then Some s else subscriber_loop ss t)"

definition GetByType :: "Syncer \<Rightarrow> string \<Rightarrow> error + Subscriber_options" where
  "GetByType s t =
     (case subscriber_loop (Subscribers s) t of
        Some sub \<Rightarrow> Inr sub
      | None \<Rightarrow> Inl (Errorf (''failure to discover syncer subscriber by type: '' @ t)))"

definition NewDefaultOptions :: "(string list \<Rightarrow> error + Options) \<Rightarrow> string list \<Rightarrow> error + Options" where
  "NewDefaultOptions loader_Load paths =
     (case loader_Load paths of
        Inl err \<Rightarrow> Inl (Errorf (''failure to load default application options: '' @ Error err))
      | Inr opts \<Rightarrow> Inr opts)"

text \<open>\<open>strings.Split\<close> with the separator of \<open>PathToSlice\<close>, and \<open>strings.Trim\<close>.\<close>

fun split_on :: "char \<Rightarrow> string \<Rightarrow> string list" where
  "split_on sep [] = [[]]"
| "split_on sep (c # cs) =
     (if c = sep then [] # split_on sep cs
      else (case split_on sep cs of [] \<Rightarrow> [[c]] | p # ps \<Rightarrow> (c # p) # ps))"

definition strings_Trim :: "string \<Rightarrow> string \<Rightarrow> string" where
  "strings_Trim s cutset =
     rev (dropWhile (\<lambda>c. c \<in> set cutset) (rev (dropWhile (\<lambda>c. c \<in> set cutset) s)))"

definition PathToSlice :: "string \<Rightarrow> string list" where
  "PathToSlice path = map (\<lambda>p. strings_Trim p '''') (split_on (CHR '','') path)"

text \<open>The package variable \<open>options\<close>: \<open>None\<close> until it is set.\<close>

definition SetGlobalOptions :: "Options \<Rightarrow> Options option \<Rightarrow> Options option" where
  "SetGlobalOptions opt globals = Some opt"

definition G :: "Options option \<Rightarrow> Options option" where
  "G globals = globals"

section \<open>Lookups that return the first match\<close>

text \<open>The three lookups over configuration lists and the membership test share one contract: scan
  the list in order and stop at the first entry whose key matches.\<close>

locale first_match =
  fixes key :: "'a \<Rightarrow> 'k"
    and scan :: "'a list \<Rightarrow> 'k \<Rightarrow> 'a option"
  assumes scan_Nil: "scan [] k = None"
    and scan_Cons: "scan (x # xs) k = (if key x = k then Some x else scan xs k)"
begin

lemma scan_eq_find: "scan xs k = List.find (\<lambda>x. key x = k) xs"
  by (induction xs) (simp_all add: scan_Nil scan_Cons)

lemma scan_Some: "scan xs k = Some x \<Longrightarrow> x \<in> set xs \<and> key x = k"
  by (auto simp: scan_eq_find dest: find_Some_mem)

lemma scan_None: "scan xs k = None \<longleftrightarrow> k \<notin> key ` set xs"
  by (auto simp: scan_eq_find find_None_iff)

lemma scan_append: "scan (xs @ ys) k = (if k \<in> key ` set xs then scan xs k else scan ys k)"
  by (induction xs) (auto simp: scan_Nil scan_Cons)

lemma scan_distinct: "distinct (map key xs) \<Longrightarrow> x \<in> set xs \<Longrightarrow> scan xs (key x) = Some x"
  by (induction xs) (auto simp: scan_Cons rev_image_eqI)

lemma scan_split:
  assumes "scan xs k = Some x"
  shows "\<exists>us vs. xs = us @ x # vs \<and> key x = k \<and> k \<notin> key ` set us"
  using assms
proof (induction xs)
  case Nil
  then show ?case by (simp add: scan_Nil)
next
  case (Cons y ys)
  show ?case
  proof (cases "key y = k")
    case True
    with Cons.prems show ?thesis by (auto simp: scan_Cons intro: exI [of _ "[]"])
  next
    case False
    with Cons obtain us vs where "ys = us @ x # vs" "key x = k" "k \<notin> key ` set us"
      by (auto simp: scan_Cons)
    with False have "y # ys = (y # us) @ x # vs \<and> key x = k \<and> k \<notin> key ` set (y # us)" by auto
    then show ?thesis by blast
  qed
qed

end

interpretation queues: first_match queue_Name queue_loop
  by unfold_locales simp_all

interpretation networks: first_match network_NetworkId network_loop
  by unfold_locales simp_all

interpretation subs: first_match sub_Type subscriber_loop
  by unfold_locales simp_all

section \<open>Lemmas\<close>

lemma transport_loop_iff: "transport_loop trs t \<longleftrightarrow> t \<in> set trs"
  by (induction trs) auto

lemma TransportEnabled_iff: "TransportEnabled g t \<longleftrightarrow> t \<in> set (Transports g)"
  by (simp add: TransportEnabled_def transport_loop_iff)

lemma split_on_neq_Nil [simp]: "split_on sep s \<noteq> []"
  by (cases s) (auto split: list.splits)

lemma Join_split_on: "strings_Join (split_on sep s) [sep] = s"
proof (induction s)
  case (Cons c cs)
  obtain p ps where "split_on sep cs = p # ps" by (cases "split_on sep cs") auto
  with Cons show ?case by (cases ps) auto
qed simp

lemma strings_Trim_empty [simp]: "strings_Trim s [] = s"
  by (simp add: strings_Trim_def dropWhile_eq_self_iff)

section \<open>Properties\<close>

text \<open>\<open>GetByType\<close> returns the first configured subscriber of the requested type, and fails
  exactly when no subscriber has that type.\<close>

theorem GetByType_first_match:
  "(case GetByType s t of
      Inr sub \<Rightarrow> (\<exists>us vs. Subscribers s = us @ sub # vs \<and> sub_Type sub = t \<and> t \<notin> sub_Type ` set us)
    | Inl e \<Rightarrow> t \<notin> sub_Type ` set (Subscribers s))"
  using subs.scan_split [of "Subscribers s" t] subs.scan_None [of "Subscribers s" t]
  by (auto simp: GetByType_def split: option.splits)

text \<open>\<open>PathToSlice\<close> only splits: the comma-separated pieces are kept as they are, so joining
  them with commas gives the argument back. The empty cutset of its \<open>Trim\<close> call removes no
  white space.\<close>

theorem PathToSlice_keeps_pieces:
  "PathToSlice path = split_on (CHR '','') path \<and> strings_Join (PathToSlice path) '','' = path"
  by (simp add: PathToSlice_def Join_split_on)

end
