(* ===== verification/Descriptor.thy ===== *)
theory Descriptor
  imports Models Options
begin

text \<open>
  The data of package \<open>unpacker\<close> (src/pkg/unpacker): the state names of states.go, the
  \<open>Unpacker\<close> with its functional options (unpacker.go), the contract \<open>Descriptor\<close> with its
  methods (descriptor.go, storage.go). What the program calls of solgo and go-ethereum is a field
  of the parameter \<open>solgo\<close>; the type variable \<open>'x\<close> is the data those libraries keep to
  themselves (source files, detectors, network clients).
\<close>

section \<open>States\<close>

definition DiscoverState :: State where "DiscoverState = ''discover''"
definition MetadataState :: State where "MetadataState = ''metadata''"
definition SourceProvidersState :: State where "SourceProvidersState = ''source_providers''"
definition SourcesState :: State where "SourcesState = ''sources''"
definition ParserState :: State where "ParserState = ''parser''"
definition OpcodesState :: State where "OpcodesState = ''opcodes''"
definition AstState :: State where "AstState = ''ast''"
definition SocialState :: State where "SocialState = ''social''"
definition StandardsState :: State where "StandardsState = ''standards''"
definition ConstructorState :: State where "ConstructorState = ''constructor''"
definition FunctionSignaturesState :: State where "FunctionSignaturesState = ''function_signatures''"
definition EventSignaturesState :: State where "EventSignaturesState = ''event_signatures''"
definition TokenState :: State where "TokenState = ''token''"
definition FinalState :: State where "FinalState = ''final''"
definition ErrorState :: State where "ErrorState = ''error''"
definition DoneState :: State where "DoneState = ''done''"

definition GetStateFromString :: "string \<Rightarrow> error + State" where
  "GetStateFromString state =
     (if state = ''discover'' then Inr DiscoverState
      else if state = ''metadata'' then Inr MetadataState
      else if state = ''source_providers'' then Inr SourceProvidersState
      else if state = ''parser'' then Inr ParserState
      else if state = ''sources'' then Inr SourcesState
      else if state = ''opcodes'' then Inr OpcodesState
      else if state = ''ast'' then Inr AstState
      else if state = ''social'' then Inr SocialState
      else if state = ''standards'' then Inr StandardsState
      else if state = ''constructor'' then Inr ConstructorState
      else if state = ''function_signatures'' then Inr FunctionSignaturesState
      else if state = ''event_signatures'' then Inr EventSignaturesState
      else if state = ''token'' then Inr TokenState
      else if state = ''final'' then Inr FinalState
      else if state = ''error'' then Inr ErrorState
      else if state = ''done'' then Inr DoneState
      else Inl (Errorf (''unknown state '' @ quoted state @ '' provided'')))"

lemmas state_defs = DiscoverState_def MetadataState_def SourceProvidersState_def SourcesState_def
  ParserState_def OpcodesState_def AstState_def SocialState_def StandardsState_def
  ConstructorState_def FunctionSignaturesState_def EventSignaturesState_def TokenState_def
  FinalState_def ErrorState_def DoneState_def

section \<open>The libraries behind the unpacker\<close>

text \<open>The structs of go-ethereum and solgo, with the fields the program reads or writes.
  \<open>hd_Hash\<close> and \<open>tx_Hash\<close> are the results of the \<open>Hash\<close> methods.\<close>

record Header =
  hd_Number :: int
  hd_Hash :: Hash

record Transaction =
  tx_Hash :: Hash
  tx_To :: "Address option"

record Receipt =
  ContractAddress :: Address

record 'x cdescriptor =
  cd_Sources :: "'x option"
  cd_Name :: string
  cd_License :: string
  cd_Proxy :: bool
  cd_SourcesProvider :: string
  cd_CompilerVersion :: string
  cd_SolgoVersion :: string
  cd_Implementations :: "Address list"
  cd_Optimized :: bool
  cd_OptimizationRuns :: int
  cd_EVMVersion :: string
  cd_ABI :: string
  cd_Verified :: bool
  cd_VerificationProvider :: string
  cd_private :: 'x

record 'x contract =
  ct_descriptor :: "'x cdescriptor option"
  ct_private :: 'x

type_synonym 'x fs = "string \<Rightarrow> 'x option"

text \<open>A method of a solgo contract may change the contract, fail, panic or hang.\<close>

type_synonym ('r, 'x) solgo_call = "'x contract \<Rightarrow> ('r \<times> 'x contract, 'x contract) go"

record 'x solgo =
  network_String :: "string \<Rightarrow> string"
  ToBig :: "int \<Rightarrow> int"
  IsValid :: "(bool, 'x) solgo_call"
  DiscoverMetadata :: "(error option, 'x) solgo_call"
  DiscoverSourceCode :: "(error option, 'x) solgo_call"
  ParseContract :: "(error option, 'x) solgo_call"
  DiscoverConstructor :: "(error option, 'x) solgo_call"
  HasMetadata :: "'x cdescriptor \<Rightarrow> bool"
  HasSources :: "'x cdescriptor \<Rightarrow> bool"
  HasDetector :: "'x cdescriptor \<Rightarrow> bool"
  EntryConstructor :: "'x cdescriptor \<Rightarrow> bool option"
  DetectorSources :: "'x cdescriptor \<Rightarrow> 'x option"
  NewSourcesFromPath :: "string \<Rightarrow> string \<Rightarrow> 'x fs \<Rightarrow> error + 'x"
  WriteToDir :: "'x \<Rightarrow> string \<Rightarrow> 'x fs \<Rightarrow> error option \<times> 'x fs"
  GetName :: "'x cdescriptor \<Rightarrow> string"
  GetLicense :: "'x cdescriptor \<Rightarrow> string"
  IsOptimized :: "'x cdescriptor \<Rightarrow> bool"
  GetOptimizationRuns :: "'x cdescriptor \<Rightarrow> int"
  GetABI :: "'x cdescriptor \<Rightarrow> string"
  GetSourcesProvider :: "'x cdescriptor \<Rightarrow> string"
  IsVerified :: "'x cdescriptor \<Rightarrow> bool"
  GetVerificationProvider :: "'x cdescriptor \<Rightarrow> string"
  GetEVMVersion :: "'x cdescriptor \<Rightarrow> string"
  GetSolgoVersion :: "'x cdescriptor \<Rightarrow> string"
  GetCompilerVersion :: "'x cdescriptor \<Rightarrow> string"
  GetExecutionBytecode :: "'x cdescriptor \<Rightarrow> byte list"
  GetDeployedBytecode :: "'x cdescriptor \<Rightarrow> byte list"
  UnknownSafetyState :: string

section \<open>The unpacker and its options\<close>

text \<open>The handles of an \<open>Unpacker\<close> are pointers: \<open>None\<close> is nil.\<close>

record 'x Unpacker =
  u_ctx :: gocontext
  u_pool :: "'x option"
  u_etherscan :: "'x option"
  u_nats :: "'x option"
  u_js :: "'x option"
  u_db :: "'x option"
  u_bindManager :: "'x option"
  u_state :: "'x option"

type_synonym 'x Option = "'x Unpacker \<Rightarrow> error option \<times> 'x Unpacker"

definition WithPool :: "'x option \<Rightarrow> 'x Option" where
  "WithPool pool u = (if pool = None then (Some (Errorf ''client pool is nil''), u) else (None, u\<lparr>u_pool := pool\<rparr>))"

definition WithNats :: "'x option \<Rightarrow> 'x Option" where
  "WithNats nsConn u =
     (if nsConn = None then (Some (Errorf ''NATS connection is nil''), u) else (None, u\<lparr>u_nats := nsConn\<rparr>))"

definition WithBindingsManager :: "'x option \<Rightarrow> 'x Option" where
  "WithBindingsManager bindManager u =
     (if bindManager = None then (Some (Errorf ''bindings manager is nil''), u)
      else (None, u\<lparr>u_bindManager := bindManager\<rparr>))"

definition WithJetStreamContext :: "'x option \<Rightarrow> 'x Option" where
  "WithJetStreamContext jsCtx u = (None, u\<lparr>u_js := jsCtx\<rparr>)"

definition WithEtherScanProvider :: "'x option \<Rightarrow> 'x Option" where
  "WithEtherScanProvider etherscan u =
     (if etherscan = None then (Some (Errorf ''etherscan provider is nil''), u)
      else (None, u\<lparr>u_etherscan := etherscan\<rparr>))"

definition WithDb :: "'x option \<Rightarrow> 'x Option" where
  "WithDb d u = (if d = None then (Some (Errorf ''database is nil''), u) else (None, u\<lparr>u_db := d\<rparr>))"

definition WithStateManager :: "'x option \<Rightarrow> 'x Option" where
  "WithStateManager sm u =
     (if sm = None then (Some (Errorf ''state manager cannot be nil''), u) else (None, u\<lparr>u_state := sm\<rparr>))"

fun apply_options :: "'x Option list \<Rightarrow> 'x Unpacker \<Rightarrow> error + 'x Unpacker" where
  "apply_options [] u = Inr u"
| "apply_options (opt # opts) u =
     (case opt u of (Some err, u') \<Rightarrow> Inl err | (None, u') \<Rightarrow> apply_options opts u')"

definition NewUnpacker :: "gocontext \<Rightarrow> 'x Option list \<Rightarrow> error + 'x Unpacker" where
  "NewUnpacker c opts =
     apply_options opts \<lparr>u_ctx = c, u_pool = None, u_etherscan = None, u_nats = None, u_js = None,
       u_db = None, u_bindManager = None, u_state = None\<rparr>"

section \<open>The descriptor\<close>

record 'x Descriptor =
  d_unpacker :: "'x Unpacker"
  d_contract :: "'x contract option"
  contractModel :: "Contract option"
  d_Network :: string
  d_NetworkID :: int
  d_Addr :: Address
  d_Header :: "Header option"
  d_Tx :: "Transaction option"
  d_Receipt :: "Receipt option"
  d_nextState :: State
  completedStates :: "State list"
  failedStates :: "State list"
  d_SelfDestructed :: bool
  d_Partial :: bool
  d_Processed :: bool

definition NewDescriptor :: "'x Unpacker \<Rightarrow> string \<Rightarrow> int \<Rightarrow> Address \<Rightarrow> 'x Descriptor" where
  "NewDescriptor u network networkId addr =
     \<lparr>d_unpacker = u, d_contract = None, contractModel = None, d_Network = network, d_NetworkID = networkId,
      d_Addr = addr, d_Header = None, d_Tx = None, d_Receipt = None, d_nextState = '''',
      completedStates = [], failedStates = [], d_SelfDestructed = False, d_Partial = False,
      d_Processed = False\<rparr>"

definition GetUnpacker :: "'x Descriptor \<Rightarrow> 'x Unpacker" where
  "GetUnpacker d = d_unpacker d"

definition SetContract :: "'x contract option \<Rightarrow> 'x Descriptor \<Rightarrow> 'x Descriptor" where
  "SetContract c d = d\<lparr>d_contract := c\<rparr>"

definition GetContract :: "'x Descriptor \<Rightarrow> 'x contract option" where
  "GetContract d = d_contract d"

definition SetContractModel :: "Contract option \<Rightarrow> 'x Descriptor \<Rightarrow> 'x Descriptor" where
  "SetContractModel c d = d\<lparr>contractModel := c\<rparr>"

definition GetContractModel :: "'x Descriptor \<Rightarrow> Contract option" where
  "GetContractModel d = contractModel d"

definition GetNetwork :: "'x Descriptor \<Rightarrow> string" where
  "GetNetwork d = d_Network d"

definition GetNetworkID :: "'x Descriptor \<Rightarrow> int" where
  "GetNetworkID d = d_NetworkID d"

definition GetAddr :: "'x Descriptor \<Rightarrow> Address" where
  "GetAddr d = d_Addr d"

definition GetHeader :: "'x Descriptor \<Rightarrow> Header option" where
  "GetHeader d = d_Header d"

definition GetTransaction :: "'x Descriptor \<Rightarrow> Transaction option" where
  "GetTransaction d = d_Tx d"

definition GetReceipt :: "'x Descriptor \<Rightarrow> Receipt option" where
  "GetReceipt d = d_Receipt d"

definition HasNextState :: "'x Descriptor \<Rightarrow> bool" where
  "HasNextState d \<longleftrightarrow> d_nextState d \<noteq> ''''"

definition GetNextState :: "'x Descriptor \<Rightarrow> State" where
  "GetNextState d = d_nextState d"

definition SetNextState :: "State \<Rightarrow> 'x Descriptor \<Rightarrow> 'x Descriptor" where
  "SetNextState s d = d\<lparr>d_nextState := s\<rparr>"

definition HasCompletedState :: "'x Descriptor \<Rightarrow> State \<Rightarrow> bool" where
  "HasCompletedState d s = slice_contains (completedStates d) s"

definition GetCompletedStates :: "'x Descriptor \<Rightarrow> State list" where
  "GetCompletedStates d = completedStates d"

definition AppendCompletedState :: "State \<Rightarrow> 'x Descriptor \<Rightarrow> 'x Descriptor" where
  "AppendCompletedState s d = d\<lparr>completedStates := append_new (completedStates d) s\<rparr>"

fun AppendCompletedStates :: "State list \<Rightarrow> 'x Descriptor \<Rightarrow> 'x Descriptor" where
  "AppendCompletedStates [] d = d"
| "AppendCompletedStates (s # ss) d = AppendCompletedStates ss (AppendCompletedState s d)"

definition HasFailedState :: "'x Descriptor \<Rightarrow> State \<Rightarrow> bool" where
  "HasFailedState d s = slice_contains (failedStates d) s"

definition GetFailedStates :: "'x Descriptor \<Rightarrow> State list" where
  "GetFailedStates d = failedStates d"

definition AppendFailedState :: "State \<Rightarrow> 'x Descriptor \<Rightarrow> 'x Descriptor" where
  "AppendFailedState s d = d\<lparr>failedStates := append_new (failedStates d) s\<rparr>"

fun remove_loop :: "State \<Rightarrow> State list \<Rightarrow> State list \<Rightarrow> State list" where
  "remove_loop state acc [] = acc"
| "remove_loop state acc (s # ss) = remove_loop state (if s \<noteq> state then acc @ [s] else acc) ss"

definition RemoveFailedState :: "State \<Rightarrow> 'x Descriptor \<Rightarrow> 'x Descriptor" where
  "RemoveFailedState s d = d\<lparr>failedStates := remove_loop s [] (failedStates d)\<rparr>"

fun AppendFailedStates :: "State list \<Rightarrow> 'x Descriptor \<Rightarrow> 'x Descriptor" where
  "AppendFailedStates [] d = d"
| "AppendFailedStates (s # ss) d = AppendFailedStates ss (AppendFailedState s d)"

fun RemoveFailedStates :: "State list \<Rightarrow> 'x Descriptor \<Rightarrow> 'x Descriptor" where
  "RemoveFailedStates [] d = d"
| "RemoveFailedStates (s # ss) d = RemoveFailedStates ss (RemoveFailedState s d)"

section \<open>Storage\<close>

text \<open>\<open>None\<close> is the panic of a nil header.\<close>

definition GetStorageCachePath :: "codec \<Rightarrow> 'x solgo \<Rightarrow> 'x Descriptor \<Rightarrow> string option" where
  "GetStorageCachePath cd sg d =
     (case d_Header d of
        None \<Rightarrow> None
      | Some header \<Rightarrow>
          Some (filepath_Join
            [CHR ''_'' # strings_ToLower (network_String sg (d_Network d)), ''mainnet'', ''contracts'',
             big_String (hd_Number header), addr_Hex cd (d_Addr d)]))"

text \<open>The entry of a descriptor. The clock is read once, and a second time when there is a stored
  model; \<open>None\<close> is the panic of a nil contract, solgo descriptor, header or transaction.\<close>

definition GetContractEntry :: "'x solgo \<Rightarrow> gotime schedule \<Rightarrow> 'x Descriptor
    \<Rightarrow> (Contract \<times> gotime schedule) option" where
  "GetContractEntry sg clock d =
     (case (Option.bind (GetContract d) ct_descriptor, d_Header d, d_Tx d) of
        (Some descriptor, Some header, Some tx) \<Rightarrow>
          (let toReturn =
             \<lparr>c_Id = 0, c_NetworkId = NewBigInt (ToBig sg (d_NetworkID d)),
              c_BlockNumber = NewBigInt (hd_Number header), c_BlockHash = NewHash (hd_Hash header),
              c_TransactionHash = NewHash (tx_Hash tx), c_Address = NewAddress (GetAddr d), c_Name = GetName sg descriptor, c_Standards = [], c_Proxy = cd_Proxy descriptor,
              c_License = GetLicense sg descriptor,
              c_CompilerVersion = GetCompilerVersion sg descriptor,
              c_SolgoVersion = GetSolgoVersion sg descriptor, c_Optimized = IsOptimized sg descriptor,
              c_OptimizationRuns = GetOptimizationRuns sg descriptor,
              c_EVMVersion = strings_ToLower (GetEVMVersion sg descriptor),
              c_ABI = GetABI sg descriptor, c_Verified = IsVerified sg descriptor,
              c_SourcesProvider = GetSourcesProvider sg descriptor,
              c_VerificationProvider = GetVerificationProvider sg descriptor,
              c_ExecutionBytecode = GetExecutionBytecode sg descriptor,
              c_Bytecode = GetDeployedBytecode sg descriptor, c_SafetyState = UnknownSafetyState sg,
              c_SourceAvailable = HasSources sg descriptor, c_SelfDestructed = d_SelfDestructed d,
              c_ProxyImplementations = cd_Implementations descriptor,
              c_CompletedStates = GetCompletedStates d, c_FailedStates = GetFailedStates d,
              c_Processed = d_Processed d, c_Partial = 0 < length (GetFailedStates d),
              c_CreatedAt = poll clock, c_UpdatedAt = 0\<rparr>
           in (case GetContractModel d of
                 None \<Rightarrow> Some (toReturn, advance clock)
               | Some model \<Rightarrow>
                   Some (toReturn\<lparr>c_CreatedAt := c_CreatedAt model, c_Id := c_Id model,
                                   c_UpdatedAt := poll (advance clock)\<rparr>,
                         advance (advance clock))))
      | _ \<Rightarrow> None)"

section \<open>Instances for evaluation\<close>

text \<open>A solgo whose sources are texts: the getters read the fields, discovery always finds the
  same verified source, the file system keeps what is written to it.\<close>

definition plain_solgo :: "string solgo" where
  "plain_solgo =
     \<lparr>network_String = (\<lambda>n. n), ToBig = (\<lambda>i. i), IsValid = (\<lambda>c. Returns (True, c)),
      DiscoverMetadata = (\<lambda>c. Returns (None, c)),
      DiscoverSourceCode = (\<lambda>c. Returns (None, c\<lparr>ct_descriptor :=
          map_option (\<lambda>cd. cd\<lparr>cd_Sources := Some ''contract Token {}'', cd_Name := ''Token''\<rparr>) (ct_descriptor c)\<rparr>)),
      ParseContract = (\<lambda>c. Returns (None, c)), DiscoverConstructor = (\<lambda>c. Returns (None, c)),
      HasMetadata = (\<lambda>cd. True), HasSources = (\<lambda>cd. cd_Sources cd \<noteq> None),
      HasDetector = (\<lambda>cd. cd_Sources cd \<noteq> None), EntryConstructor = (\<lambda>cd. Some True),
      DetectorSources = cd_Sources,
      NewSourcesFromPath = (\<lambda>name p f. case f p of None \<Rightarrow> Inl (Errorf ''no such directory'') | Some s \<Rightarrow> Inr s),
      WriteToDir = (\<lambda>s p f. (None, f(p \<mapsto> s))), GetName = cd_Name, GetLicense = cd_License,
      IsOptimized = cd_Optimized, GetOptimizationRuns = cd_OptimizationRuns, GetABI = cd_ABI,
      GetSourcesProvider = cd_SourcesProvider, IsVerified = cd_Verified,
      GetVerificationProvider = cd_VerificationProvider, GetEVMVersion = cd_EVMVersion,
      GetSolgoVersion = cd_SolgoVersion, GetCompilerVersion = cd_CompilerVersion,
      GetExecutionBytecode = (\<lambda>cd. []), GetDeployedBytecode = (\<lambda>cd. []),
      UnknownSafetyState = ''unknown''\<rparr>"

definition plain_unpacker :: "string Unpacker" where
  "plain_unpacker = \<lparr>u_ctx = Background, u_pool = Some [], u_etherscan = Some [], u_nats = Some [],
     u_js = None, u_db = Some [], u_bindManager = Some [], u_state = Some []\<rparr>"

definition cache_example :: "string \<Rightarrow> string Descriptor" where
  "cache_example network =
     (NewDescriptor plain_unpacker network 1 5)\<lparr>d_Header := Some \<lparr>hd_Number = 17, hd_Hash = 3\<rparr>\<rparr>"

section \<open>Lemmas\<close>

lemma state_names [simp]:
  "DiscoverState \<noteq> []" "MetadataState \<noteq> []" "SourceProvidersState \<noteq> []" "SourcesState \<noteq> []"
  "ParserState \<noteq> []" "ConstructorState \<noteq> []" "FinalState \<noteq> []" "ErrorState \<noteq> []" "DoneState \<noteq> []"
  by (simp_all add: state_defs)

lemma state_neq [simp]:
  "DiscoverState \<noteq> MetadataState" "DiscoverState \<noteq> SourceProvidersState"
  "DiscoverState \<noteq> SourcesState" "DiscoverState \<noteq> ParserState"
  "DiscoverState \<noteq> ConstructorState" "DiscoverState \<noteq> FinalState"
  "DiscoverState \<noteq> ErrorState" "DiscoverState \<noteq> DoneState"
  "MetadataState \<noteq> DiscoverState" "MetadataState \<noteq> SourceProvidersState"
  "MetadataState \<noteq> SourcesState" "MetadataState \<noteq> ParserState"
  "MetadataState \<noteq> ConstructorState" "MetadataState \<noteq> FinalState"
  "MetadataState \<noteq> ErrorState" "MetadataState \<noteq> DoneState"
  "SourceProvidersState \<noteq> DiscoverState" "SourceProvidersState \<noteq> MetadataState"
  "SourceProvidersState \<noteq> SourcesState" "SourceProvidersState \<noteq> ParserState"
  "SourceProvidersState \<noteq> ConstructorState" "SourceProvidersState \<noteq> FinalState"
  "SourceProvidersState \<noteq> ErrorState" "SourceProvidersState \<noteq> DoneState"
  "SourcesState \<noteq> DiscoverState" "SourcesState \<noteq> MetadataState"
  "SourcesState \<noteq> SourceProvidersState" "SourcesState \<noteq> ParserState"
  "SourcesState \<noteq> ConstructorState" "SourcesState \<noteq> FinalState"
  "SourcesState \<noteq> ErrorState" "SourcesState \<noteq> DoneState"
  "ParserState \<noteq> DiscoverState" "ParserState \<noteq> MetadataState"
  "ParserState \<noteq> SourceProvidersState" "ParserState \<noteq> SourcesState"
  "ParserState \<noteq> ConstructorState" "ParserState \<noteq> FinalState"
  "ParserState \<noteq> ErrorState" "ParserState \<noteq> DoneState"
  "ConstructorState \<noteq> DiscoverState" "ConstructorState \<noteq> MetadataState"
  "ConstructorState \<noteq> SourceProvidersState" "ConstructorState \<noteq> SourcesState"
  "ConstructorState \<noteq> ParserState" "ConstructorState \<noteq> FinalState"
  "ConstructorState \<noteq> ErrorState" "ConstructorState \<noteq> DoneState"
  "FinalState \<noteq> DiscoverState" "FinalState \<noteq> MetadataState"
  "FinalState \<noteq> SourceProvidersState" "FinalState \<noteq> SourcesState"
  "FinalState \<noteq> ParserState" "FinalState \<noteq> ConstructorState"
  "FinalState \<noteq> ErrorState" "FinalState \<noteq> DoneState"
  "ErrorState \<noteq> DiscoverState" "ErrorState \<noteq> MetadataState"
  "ErrorState \<noteq> SourceProvidersState" "ErrorState \<noteq> SourcesState"
  "ErrorState \<noteq> ParserState" "ErrorState \<noteq> ConstructorState"
  "ErrorState \<noteq> FinalState" "ErrorState \<noteq> DoneState"
  "DoneState \<noteq> DiscoverState" "DoneState \<noteq> MetadataState"
  "DoneState \<noteq> SourceProvidersState" "DoneState \<noteq> SourcesState"
  "DoneState \<noteq> ParserState" "DoneState \<noteq> ConstructorState" "DoneState \<noteq> FinalState"
  "DoneState \<noteq> ErrorState"
  by (simp_all add: state_defs)

lemmas getters [simp] = GetUnpacker_def GetContract_def GetContractModel_def GetNetwork_def
  GetNetworkID_def GetAddr_def GetHeader_def GetTransaction_def GetReceipt_def GetNextState_def
  GetCompletedStates_def GetFailedStates_def

lemma remove_loop_eq: "remove_loop s acc xs = acc @ filter (\<lambda>x. x \<noteq> s) xs"
  by (induction s acc xs rule: remove_loop.induct) simp_all

lemma GetStateFromString_id: "GetStateFromString s = Inr t \<Longrightarrow> t = s"
  by (auto simp: GetStateFromString_def state_defs split: if_splits)

subsection \<open>Lists of states as sets\<close>

text \<open>The contract of the two state lists of a descriptor: what the append method adds, the test
  finds, nothing else changes, and no state is listed twice.\<close>

locale state_set =
  fixes get :: "'d \<Rightarrow> State list"
    and add :: "State \<Rightarrow> 'd \<Rightarrow> 'd"
    and has :: "'d \<Rightarrow> State \<Rightarrow> bool"
  assumes get_add: "get (add s d) = (if has d s then get d else get d @ [s])"
    and has_iff: "has d s \<longleftrightarrow> s \<in> set (get d)"
begin

lemma has_add [simp]: "has (add s d) t \<longleftrightarrow> s = t \<or> has d t"
  by (auto simp: get_add has_iff)

lemma distinct_add: "distinct (get d) \<Longrightarrow> distinct (get (add s d))"
  by (auto simp: get_add has_iff)

lemma get_fold: "set (get (fold add ss d)) = set (get d) \<union> set ss"
  by (induction ss arbitrary: d) (auto simp: get_add has_iff)

lemma distinct_fold: "distinct (get d) \<Longrightarrow> distinct (get (fold add ss d))"
  by (induction ss arbitrary: d) (auto simp: distinct_add)

lemma prefix_fold: "\<exists>zs. get (fold add ss d) = get d @ zs \<and> set zs = set ss - set (get d)"
proof (induction ss arbitrary: d)
  case (Cons s ss)
  obtain zs where "get (fold add ss (add s d)) = get (add s d) @ zs \<and> set zs = set ss - set (get (add s d))"
    using Cons by blast
  then show ?case by (cases "has d s") (auto simp: get_add has_iff)
qed simp

end

locale removable_set = state_set +
  fixes rem :: "State \<Rightarrow> 'd \<Rightarrow> 'd"
  assumes get_rem: "get (rem s d) = filter (\<lambda>x. x \<noteq> s) (get d)"
begin

lemma has_rem [simp]: "has (rem s d) t \<longleftrightarrow> s \<noteq> t \<and> has d t"
  by (auto simp: get_rem has_iff)

lemma rem_add: "\<not> has d s \<Longrightarrow> get (rem s (add s d)) = get d"
  by (auto simp: get_rem get_add has_iff filter_id_conv)

lemma get_fold_rem: "get (fold rem ss d) = filter (\<lambda>x. x \<notin> set ss) (get d)"
  by (induction ss arbitrary: d) (auto simp: get_rem intro: filter_cong)

lemma fold_rem_add: "get (fold rem ss (fold add ss d)) = filter (\<lambda>x. x \<notin> set ss) (get d)"
proof -
  obtain zs where zs: "get (fold add ss d) = get d @ zs" "set zs = set ss - set (get d)"
    using prefix_fold by blast
  then have "filter (\<lambda>x. x \<notin> set ss) zs = []" by (auto simp: filter_empty_conv)
  with zs show ?thesis by (simp add: get_fold_rem)
qed

end

interpretation completed: state_set completedStates AppendCompletedState HasCompletedState
  by unfold_locales (simp_all add: AppendCompletedState_def HasCompletedState_def append_new_def)

interpretation failed: removable_set failedStates AppendFailedState HasFailedState RemoveFailedState
  by unfold_locales
     (simp_all add: AppendFailedState_def HasFailedState_def RemoveFailedState_def append_new_def
        remove_loop_eq)

lemma AppendCompletedStates_fold: "AppendCompletedStates ss d = fold AppendCompletedState ss d"
  by (induction ss arbitrary: d) simp_all

lemma AppendFailedStates_fold: "AppendFailedStates ss d = fold AppendFailedState ss d"
  by (induction ss arbitrary: d) simp_all

lemma RemoveFailedStates_fold: "RemoveFailedStates ss d = fold RemoveFailedState ss d"
  by (induction ss arbitrary: d) simp_all

lemma descriptor_fields [simp]:
  "failedStates (AppendCompletedState s d) = failedStates d"
  "completedStates (AppendFailedState s d) = completedStates d"
  "completedStates (RemoveFailedState s d) = completedStates d"
  "d_nextState (AppendCompletedState s d) = d_nextState d"
  "d_nextState (AppendFailedState s d) = d_nextState d"
  "d_nextState (RemoveFailedState s d) = d_nextState d"
  "HasCompletedState (AppendFailedState s d) t = HasCompletedState d t"
  "HasCompletedState (RemoveFailedState s d) t = HasCompletedState d t"
  "HasFailedState (AppendCompletedState s d) t = HasFailedState d t"
  by (simp_all add: AppendCompletedState_def AppendFailedState_def RemoveFailedState_def
      HasCompletedState_def HasFailedState_def)

lemma completed_fold_failed:
  "completedStates (fold RemoveFailedState ss (fold AppendFailedState rs d)) = completedStates d"
proof -
  have "completedStates (fold AppendFailedState rs d) = completedStates d"
    by (induction rs arbitrary: d) simp_all
  moreover have "completedStates (fold RemoveFailedState ss d) = completedStates d" for d :: "'a Descriptor"
    by (induction ss arbitrary: d) simp_all
  ultimately show ?thesis by simp
qed

subsection \<open>Cache paths\<close>

lemma cache_path_elems:
  assumes "GetStorageCachePath cd sg d = Some p" and "d_Header d = Some h"
    and "CHR ''/'' \<notin> set (strings_ToLower (network_String sg (d_Network d)))"
    and "path_elem (addr_Hex cd (d_Addr d))"
  shows "p = strings_Join [CHR ''_'' # strings_ToLower (network_String sg (d_Network d)), ''mainnet'',
      ''contracts'', big_String (hd_Number h), addr_Hex cd (d_Addr d)] ''/''"
proof -
  have "list_all path_elem [CHR ''_'' # strings_ToLower (network_String sg (d_Network d)), ''mainnet'',
      ''contracts'', big_String (hd_Number h), addr_Hex cd (d_Addr d)]"
    using assms(3,4) by (simp add: path_elem_def [of "CHR ''_'' # _"] path_elem_def [of "''mainnet''"]
      path_elem_def [of "''contracts''"])
  with assms(1,2) show ?thesis by (simp add: GetStorageCachePath_def filepath_Join_elems)
qed

section \<open>Properties\<close>

text \<open>The failed-state list behaves as a set: removing states that were appended leaves the
  other states in their order, appending keeps the old list as a prefix and adds exactly the given
  states, and the list of completed states is untouched by both.\<close>

theorem failed_states_algebra:
  "failedStates (RemoveFailedStates ss (AppendFailedStates ss d))
     = filter (\<lambda>s. s \<notin> set ss) (failedStates d)
   \<and> (\<exists>zs. failedStates (AppendFailedStates ss d) = failedStates d @ zs
         \<and> set zs = set ss - set (failedStates d))
   \<and> completedStates (RemoveFailedStates ss (AppendFailedStates rs d)) = completedStates d"
  using failed.prefix_fold [of ss d]
  by (simp add: AppendFailedStates_fold RemoveFailedStates_fold failed.fold_rem_add
      completed_fold_failed)

text \<open>Sources are cached under a path that determines the contract: descriptors with the same
  cache path have the same network directory, block number and address, as long as hex addresses
  round-trip and neither they nor the network name contain a path separator.\<close>

theorem cache_path_determines_contract:
  assumes "codec_documented cd" and "\<forall>a. path_elem (addr_Hex cd a)"
    and "CHR ''/'' \<notin> set (strings_ToLower (network_String sg (d_Network d)))"
    and "CHR ''/'' \<notin> set (strings_ToLower (network_String sg (d_Network e)))"
    and "d_Header d = Some h" and "d_Header e = Some k"
    and "GetStorageCachePath cd sg d = GetStorageCachePath cd sg e"
  shows "strings_ToLower (network_String sg (d_Network d)) = strings_ToLower (network_String sg (d_Network e))
     \<and> hd_Number h = hd_Number k \<and> d_Addr d = d_Addr e"
proof -
  let ?es = "\<lambda>d h. [CHR ''_'' # strings_ToLower (network_String sg (d_Network d)), ''mainnet'',
      ''contracts'', big_String (hd_Number h), addr_Hex cd (d_Addr d)]"
  obtain p where p: "GetStorageCachePath cd sg d = Some p" "GetStorageCachePath cd sg e = Some p"
    using assms(5-7) by (simp add: GetStorageCachePath_def)
  have "strings_Join (?es d h) ''/'' = strings_Join (?es e k) ''/''"
    using cache_path_elems [OF p(1) assms(5,3)] cache_path_elems [OF p(2) assms(6,4)] assms(2) by simp
  moreover have "CHR ''/'' \<notin> set (addr_Hex cd a)" "CHR ''/'' \<notin> set (big_String x)" for a x
    using assms(2) big_String_chars [of _ x] by (auto simp: path_elem_def)
  ultimately have "?es d h = ?es e k"
    using assms(3,4) by (intro strings_Join_inject) simp_all
  then show ?thesis using assms(1) unfolding codec_documented_def by simp (metis)
qed

theorem cache_path_determines_contract_witness:
  "GetStorageCachePath plain_codec plain_solgo (cache_example ''Ethereum'') = Some ''_ethereum/mainnet/contracts/17/5''
   \<and> hd_Number (the (d_Header (cache_example ''Ethereum''))) = hd_Number (the (d_Header (cache_example ''ETHEREUM'')))
   \<and> d_Addr (cache_example ''Ethereum'') = d_Addr (cache_example ''ETHEREUM'')"
proof -
  have p: "GetStorageCachePath plain_codec plain_solgo (cache_example ''Ethereum'') = Some ''_ethereum/mainnet/contracts/17/5''"
    "GetStorageCachePath plain_codec plain_solgo (cache_example ''ETHEREUM'') = Some ''_ethereum/mainnet/contracts/17/5''"
    by code_simp+
  have "\<forall>a. path_elem (addr_Hex plain_codec a)"
    by (simp add: plain_codec_def)
  moreover have "CHR ''/'' \<notin> set (strings_ToLower (network_String plain_solgo (d_Network (cache_example ''Ethereum''))))"
    "CHR ''/'' \<notin> set (strings_ToLower (network_String plain_solgo (d_Network (cache_example ''ETHEREUM''))))"
    by code_simp+
  moreover have "d_Header (cache_example n) = Some \<lparr>hd_Number = 17, hd_Hash = 3\<rparr>" for n
    by (simp add: cache_example_def)
  moreover note cache_path_determines_contract [OF plain_codec_documented,
      of plain_solgo "cache_example ''Ethereum''" "cache_example ''ETHEREUM''"]
  ultimately show ?thesis using p by simp
qed

text \<open>An unpacker built with the options the syncer uses has every handle the handlers
  dereference: construction succeeds exactly when none of the handles is nil.\<close>

theorem NewUnpacker_handles:
  "(\<exists>u. NewUnpacker c [WithNats n, WithPool p, WithDb db, WithBindingsManager b,
        WithEtherScanProvider e, WithStateManager s] = Inr u
      \<and> u_ctx u = c \<and> u_nats u = n \<and> u_pool u = p \<and> u_db u = db \<and> u_bindManager u = b
      \<and> u_etherscan u = e \<and> u_state u = s)
   \<longleftrightarrow> None \<notin> {n, p, db, b, e, s}"
  by (auto simp: NewUnpacker_def WithNats_def WithPool_def WithDb_def WithBindingsManager_def
      WithEtherScanProvider_def WithStateManager_def)

end
