(* ===== verification/Sync_State.thy ===== *)
theory Sync_State
  imports Descriptor
begin

text \<open>
  The progress of the synchronisation and the stores behind it: package \<open>cache\<close>
  (src/pkg/cache/client.go), package \<open>state\<close> (src/pkg/state) and the wrappers of package
  \<open>db\<close> (src/pkg/db). Redis, Badger and the SQL driver are parameters: records of the client
  functions the code calls, each acting on a server state of type \<open>'r\<close>.
\<close>

section \<open>The Redis cache\<close>

record 'r redis =
  redis_Ping :: "'r \<Rightarrow> error option"
  redis_Get :: "string \<Rightarrow> 'r \<Rightarrow> (error + byte list) \<times> 'r"
  redis_Set :: "string \<Rightarrow> byte list \<Rightarrow> int \<Rightarrow> 'r \<Rightarrow> error option \<times> 'r"
  redis_Exists :: "string \<Rightarrow> 'r \<Rightarrow> (error + int) \<times> 'r"

text \<open>The documented behaviour: a successful \<open>SET\<close> without expiration stores the value under its
  key and touches no other key; a failed one touches no other key either, and whether it was executed is
  not known, for a client that times out may have been heard; \<open>GET\<close> reads without writing and
  reports an absent key as \<open>redis.Nil\<close>, \<open>EXISTS\<close> counts the key. \<open>contents\<close> is what the
  server holds.\<close>

definition redis_documented :: "'r redis \<Rightarrow> ('r \<Rightarrow> string \<rightharpoonup> byte list) \<Rightarrow> bool" where
  "redis_documented rc contents \<longleftrightarrow>
     (\<forall>k v s s'. redis_Set rc k v 0 s = (None, s') \<longrightarrow> contents s' = (contents s)(k \<mapsto> v))
     \<and> (\<forall>k v s s' e. redis_Set rc k v 0 s = (Some e, s') \<longrightarrow> contents s' = contents s \<or> contents s' = (contents s)(k \<mapsto> v))
     \<and> (\<forall>k s v s'. redis_Get rc k s = (Inr v, s') \<longrightarrow> contents s k = Some v \<and> contents s' = contents s)
     \<and> (\<forall>k s e s'. redis_Get rc k s = (Inl e, s') \<longrightarrow> contents s' = contents s \<and> (errors_Is e RedisNil \<longrightarrow> contents s k = None))
     \<and> (\<forall>k s n s'. redis_Exists rc k s = (Inr n, s') \<longrightarrow> n = (if contents s k = None then 0 else 1) \<and> contents s' = contents s)
     \<and> (\<forall>k s e s'. redis_Exists rc k s = (Inl e, s') \<longrightarrow> contents s' = contents s)"

definition ValidateOptions :: "Cache_options \<Rightarrow> error option" where
  "ValidateOptions opts =
     (if cache_Addr opts = '''' then Some (Errorf ''addr cannot be empty'')
      else if cache_DB opts < 0 then Some (Errorf ''db cannot be negative'')
      else if cache_MaxRetries opts < 0 then Some (Errorf ''max retires cannot be negative'')
      else if cache_MinRetryBackoff opts < 0 then Some (Errorf ''min retry backoff cannot be negative'')
      else if cache_MaxRetryBackoff opts < 0 then Some (Errorf ''max retry backoff cannot be negative'')
      else None)"

text \<open>\<open>New\<close> builds the client options; a duration option counts milliseconds.\<close>

record redis_Options =
  ro_Addr :: string
  ro_Password :: string
  ro_DB :: int
  ro_MaxRetries :: int
  ro_MinRetryBackoff :: int
  ro_MaxRetryBackoff :: int
  ro_DialTimeout :: int
  ro_ReadTimeout :: int
  ro_WriteTimeout :: int

definition Millisecond :: int where
  "Millisecond = 1000000"

definition cache_New :: "(redis_Options \<Rightarrow> 'r redis \<times> 'r) \<Rightarrow> Cache_options \<Rightarrow> error + ('r redis \<times> 'r)" where
  "cache_New NewClient opts =
     (let (client, srv) = NewClient
        \<lparr>ro_Addr = cache_Addr opts, ro_Password = cache_Password opts, ro_DB = cache_DB opts,
         ro_MaxRetries = cache_MaxRetries opts,
         ro_MinRetryBackoff = go_int64 (cache_MinRetryBackoff opts * Millisecond),
         ro_MaxRetryBackoff = go_int64 (cache_MaxRetryBackoff opts * Millisecond),
         ro_DialTimeout = go_int64 (cache_DialTimeout opts * Millisecond),
         ro_ReadTimeout = go_int64 (cache_ReadTimeout opts * Millisecond),
         ro_WriteTimeout = go_int64 (cache_WriteTimeout opts * Millisecond)\<rparr>
      in case ValidateOptions opts of
           Some err \<Rightarrow> Inl err
         | None \<Rightarrow> (case redis_Ping client srv of Some err \<Rightarrow> Inl err | None \<Rightarrow> Inr (client, srv)))"

definition GetClient :: "'r redis \<times> 'r \<Rightarrow> 'r redis" where [simp]:
  "GetClient r = fst r"

definition cache_Get :: "'r redis \<Rightarrow> string \<Rightarrow> 'r \<Rightarrow> (error + byte list) \<times> 'r" where
  "cache_Get rc key s =
     (case redis_Get rc key s of (Inl err, s') \<Rightarrow> (Inl err, s') | (Inr result, s') \<Rightarrow> (Inr result, s'))"

definition cache_Write :: "'r redis \<Rightarrow> string \<Rightarrow> byte list \<Rightarrow> int \<Rightarrow> 'r \<Rightarrow> error option \<times> 'r" where
  "cache_Write rc key value expiration s = redis_Set rc key value expiration s"

definition cache_Exists :: "'r redis \<Rightarrow> string \<Rightarrow> 'r \<Rightarrow> (error + bool) \<times> 'r" where
  "cache_Exists rc key s =
     (case redis_Exists rc key s of (Inl err, s') \<Rightarrow> (Inl err, s') | (Inr resp, s') \<Rightarrow> (Inr (resp = 1), s'))"

section \<open>State keys\<close>

type_synonym Key = string

definition CurrentBlockHead :: Key where
  "CurrentBlockHead = ''inspector:state:current-block-head-1''"

definition UnknownHeadBlock :: Key where
  "UnknownHeadBlock = ''unknown-head-key''"

definition LatestInspectedHeadBlock :: Key where
  "LatestInspectedHeadBlock = ''inspector:state:latest-inspected-head-block-1''"

definition LatestInspectedArchiveBlock :: Key where
  "LatestInspectedArchiveBlock = ''inspector:state:latest-inspected-archive-block-1''"

definition ArchiveStartBlockNumber :: Key where
  "ArchiveStartBlockNumber = ''inspector:state:archive-start-block-number''"

definition ArchiveEndBlockNumber :: Key where
  "ArchiveEndBlockNumber = ''inspector:state:archive-end-block-number''"

lemmas key_defs = CurrentBlockHead_def UnknownHeadBlock_def LatestInspectedHeadBlock_def
  LatestInspectedArchiveBlock_def ArchiveStartBlockNumber_def ArchiveEndBlockNumber_def

definition GetHeadBlockKeyByDirection :: "string \<Rightarrow> Key \<times> error option" where
  "GetHeadBlockKeyByDirection direction =
     (if direction = ''head'' then (LatestInspectedHeadBlock, None)
      else if direction = ''archive'' then (LatestInspectedArchiveBlock, None)
      else (UnknownHeadBlock, Some (Errorf
        (''failure to discover unknown block key by direction '' @ quoted direction))))"

section \<open>The state manager\<close>

text \<open>The fields are pointers to big integers: \<open>None\<close> is nil.\<close>

record state_descriptor =
  CurrentBlockHeadNumber :: "int option"
  sd_LatestInspectedHeadBlock :: "int option"
  sd_LatestInspectedArchiveBlock :: "int option"
  sd_StartBlockNumber :: "int option"
  sd_EndBlockNumber :: "int option"
  PercentageCompleted :: "int option"

record 'r sync_state =
  st_descriptor :: state_descriptor
  st_server :: 'r

definition state_New :: "'r \<Rightarrow> 'r sync_state" where
  "state_New srv =
     \<lparr>st_descriptor = \<lparr>CurrentBlockHeadNumber = None, sd_LatestInspectedHeadBlock = None,
        sd_LatestInspectedArchiveBlock = None, sd_StartBlockNumber = None, sd_EndBlockNumber = None,
        PercentageCompleted = None\<rparr>, st_server = srv\<rparr>"

definition SetDescriptorKey :: "Key \<Rightarrow> int option \<Rightarrow> state_descriptor \<Rightarrow> error option \<times> state_descriptor" where
  "SetDescriptorKey key value d =
     (if key = CurrentBlockHead then (None, d\<lparr>CurrentBlockHeadNumber := value\<rparr>)
      else if key = LatestInspectedHeadBlock then (None, d\<lparr>sd_LatestInspectedHeadBlock := value\<rparr>)
      else if key = LatestInspectedArchiveBlock then (None, d\<lparr>sd_LatestInspectedArchiveBlock := value\<rparr>)
      else if key = ArchiveStartBlockNumber then (None, d\<lparr>sd_StartBlockNumber := value\<rparr>)
      else if key = ArchiveEndBlockNumber then (None, d\<lparr>sd_EndBlockNumber := value\<rparr>)
      else (Some (Errorf (''failure to set unknown state descriptor key '' @ quoted key)), d))"

definition state_Set ::
  "'r redis \<Rightarrow> Key \<Rightarrow> int option \<Rightarrow> 'r sync_state \<Rightarrow> (error option \<times> 'r sync_state, 'r sync_state) go" where
  "state_Set rc key value s =
     (case SetDescriptorKey key value (st_descriptor s) of
        (Some err, d) \<Rightarrow> Returns (Some err, s\<lparr>st_descriptor := d\<rparr>)
      | (None, d) \<Rightarrow>
          (case value of
             None \<Rightarrow> Panics (s\<lparr>st_descriptor := d\<rparr>)
           | Some v \<Rightarrow>
               (case cache_Write rc key (big_Bytes v) 0 (st_server s) of
                  (err, srv) \<Rightarrow> Returns (err, s\<lparr>st_descriptor := d, st_server := srv\<rparr>))))"

definition state_Get :: "'r redis \<Rightarrow> Key \<Rightarrow> 'r sync_state \<Rightarrow> (error + int) \<times> 'r sync_state" where
  "state_Get rc key s =
     (case cache_Get rc key (st_server s) of
        (Inl err, srv) \<Rightarrow> (Inl err, s\<lparr>st_server := srv\<rparr>)
      | (Inr response, srv) \<Rightarrow> (Inr (big_SetBytes response), s\<lparr>st_server := srv\<rparr>))"

definition state_Exists :: "'r redis \<Rightarrow> Key \<Rightarrow> 'r sync_state \<Rightarrow> (error + bool) \<times> 'r sync_state" where
  "state_Exists rc key s =
     (case cache_Exists rc key (st_server s) of (r, srv) \<Rightarrow> (r, s\<lparr>st_server := srv\<rparr>))"

text \<open>One step of \<open>Load\<close>: read a key, give up on an error other than \<open>redis.Nil\<close>, otherwise
  assign what was read (nil when the key is absent).\<close>

definition load_key ::
  "'r redis \<Rightarrow> Key \<Rightarrow> (int option \<Rightarrow> state_descriptor \<Rightarrow> state_descriptor) \<Rightarrow> 'r sync_state
   \<Rightarrow> error option \<times> 'r sync_state" where
  "load_key rc key assign s =
     (case state_Get rc key s of
        (Inl err, s') \<Rightarrow>
          if \<not> errors_Is err RedisNil then (Some err, s')
          else (None, s'\<lparr>st_descriptor := assign None (st_descriptor s')\<rparr>)
      | (Inr v, s') \<Rightarrow> (None, s'\<lparr>st_descriptor := assign (Some v) (st_descriptor s')\<rparr>))"

definition and_then ::
  "error option \<times> 's \<Rightarrow> ('s \<Rightarrow> error option \<times> 's) \<Rightarrow> error option \<times> 's" where
  "and_then r f = (case r of (Some err, s) \<Rightarrow> (Some err, s) | (None, s) \<Rightarrow> f s)"

definition state_Load :: "'r redis \<Rightarrow> 'r sync_state \<Rightarrow> error option \<times> 'r sync_state" where
  "state_Load rc s =
     and_then (load_key rc CurrentBlockHead (\<lambda>v. CurrentBlockHeadNumber_update (\<lambda>_. v)) s) (\<lambda>s.
     and_then (load_key rc LatestInspectedHeadBlock (\<lambda>v. sd_LatestInspectedHeadBlock_update (\<lambda>_. v)) s) (\<lambda>s.
     and_then (load_key rc LatestInspectedArchiveBlock (\<lambda>v. sd_LatestInspectedArchiveBlock_update (\<lambda>_. v)) s) (\<lambda>s.
     and_then (load_key rc ArchiveStartBlockNumber (\<lambda>v. sd_StartBlockNumber_update (\<lambda>_. v)) s) (\<lambda>s.
              load_key rc ArchiveEndBlockNumber (\<lambda>v. sd_EndBlockNumber_update (\<lambda>_. v)) s))))"

definition state_Descriptor :: "state_descriptor \<Rightarrow> state_descriptor" where
  "state_Descriptor d =
     (case (sd_EndBlockNumber d, sd_LatestInspectedArchiveBlock d, sd_StartBlockNumber d) of
        (Some end', Some latest, Some start) \<Rightarrow>
          (let totalBlocks = end' - start; inspectedBlocks = latest - start
           in if totalBlocks \<noteq> 0
              then d\<lparr>PercentageCompleted := Some (big_Div (inspectedBlocks * 100) totalBlocks)\<rparr>
              else d\<lparr>PercentageCompleted := Some 0\<rparr>)
      | _ \<Rightarrow> d)"

text \<open>The monitor reports on every tick until its context is done; its reports are the descriptors it
  logs. The list is what the \<open>select\<close> receives.\<close>

datatype monitor_event = Ticked | CtxDone

fun state_Monitor :: "monitor_event list \<Rightarrow> 'r sync_state \<Rightarrow> state_descriptor list \<times> 'r sync_state \<times> bool" where
  "state_Monitor [] s = ([], s, False)"
| "state_Monitor (CtxDone # es) s = ([], s, True)"
| "state_Monitor (Ticked # es) s =
     (let s' = s\<lparr>st_descriptor := state_Descriptor (st_descriptor s)\<rparr>;
          (reports, s'', stopped) = state_Monitor es s'
      in (st_descriptor s' # reports, s'', stopped))"

section \<open>Badger\<close>

text \<open>The transactions of \<open>badger.DB\<close>: a read and a write of one key; \<open>value_error\<close> is the error
  of reading an item's value.\<close>

record 'b badger =
  txn_Get :: "string \<Rightarrow> 'b \<Rightarrow> error + byte list"
  value_error :: "string \<Rightarrow> 'b \<Rightarrow> error option"
  txn_Set :: "string \<Rightarrow> byte list \<Rightarrow> 'b \<Rightarrow> error + 'b"
  ErrKeyNotFound :: error
  ErrNoRewrite :: error

record 'b BadgerDB =
  bdb_ctx :: gocontext
  bdb_dbPath :: string
  bdb_db :: 'b

text \<open>Opening a database: \<open>badger_Open\<close> and \<open>opts_Dir\<close> are the library's.\<close>

definition NewBadgerDB :: "('o \<Rightarrow> error + 'b) \<Rightarrow> ('o \<Rightarrow> string) \<Rightarrow> gocontext \<Rightarrow> 'o \<Rightarrow> error + 'b BadgerDB" where
  "NewBadgerDB badger_Open opts_Dir ctx opts =
     (case badger_Open opts of
        Inl err \<Rightarrow> Inl err
      | Inr db \<Rightarrow> Inr \<lparr>bdb_ctx = ctx, bdb_dbPath = opts_Dir opts, bdb_db = db\<rparr>)"

definition BadgerDB_DB :: "'b BadgerDB \<Rightarrow> 'b" where
  "BadgerDB_DB d = bdb_db d"

definition BadgerDB_Close :: "('b \<Rightarrow> error option \<times> 'b) \<Rightarrow> 'b BadgerDB \<Rightarrow> error option \<times> 'b BadgerDB" where
  "BadgerDB_Close db_Close d = (case db_Close (bdb_db d) of (err, db) \<Rightarrow> (err, d\<lparr>bdb_db := db\<rparr>))"

definition badger_Get :: "'b badger \<Rightarrow> string \<Rightarrow> 'b \<Rightarrow> error + byte list" where
  "badger_Get bd key d =
     (case txn_Get bd key d of
        Inl err \<Rightarrow> Inl err
      | Inr value \<Rightarrow> (case value_error bd key d of Some err \<Rightarrow> Inl err | None \<Rightarrow> Inr value))"

definition badger_Write :: "'b badger \<Rightarrow> string \<Rightarrow> byte list \<Rightarrow> 'b \<Rightarrow> error option \<times> 'b" where
  "badger_Write bd key value d =
     (case txn_Set bd key value d of Inl err \<Rightarrow> (Some err, d) | Inr d' \<Rightarrow> (None, d'))"

definition badger_Exists :: "'b badger \<Rightarrow> string \<Rightarrow> 'b \<Rightarrow> bool \<times> error option" where
  "badger_Exists bd key d =
     (case txn_Get bd key d of
        Inr _ \<Rightarrow> (True, None)
      | Inl err \<Rightarrow> if err = ErrKeyNotFound bd then (False, None) else (False, Some err))"

text \<open>The collection loop runs until the library refuses to rewrite; the schedule holds what the
  successive calls of \<open>RunValueLogGC\<close> return. \<open>None\<close> is a loop that never ends.\<close>

partial_function (option) GarbageCollect :: "error \<Rightarrow> error option schedule \<Rightarrow> error option option" where
  "GarbageCollect noRewrite gc =
     (case poll gc of
        None \<Rightarrow> GarbageCollect noRewrite (advance gc)
      | Some err \<Rightarrow> if err = noRewrite then Some None else Some (Some err))"

section \<open>The SQL database\<close>

text \<open>\<open>sql_open\<close> and \<open>exec_pragma\<close> are what the driver answers; a database is the path it was
  opened with.\<close>

definition NewDB :: "(string \<Rightarrow> error + 'h) \<Rightarrow> ('h \<Rightarrow> string \<Rightarrow> error option) \<Rightarrow> Options \<Rightarrow> error + 'h" where
  "NewDB sql_open exec_pragma opts =
     (case sql_open (GetSqliteDbPath opts @ ''?cache=shared'') of
        Inl err \<Rightarrow> Inl (Wrapf (''failure to open database path: '' @ GetSqliteDbPath opts @ '' - err: '') err)
      | Inr h \<Rightarrow>
          (case exec_pragma h ''PRAGMA journal_mode=WAL;'' of
             Some err \<Rightarrow> Inl (Wrapf ''failed to set database to WAL mode: '' err)
           | None \<Rightarrow> Inr h))"

definition GetDatasource :: "Options \<Rightarrow> string" where
  "GetDatasource opts = db_Datasource (opt_Db opts)"

definition GetDialect :: "Options \<Rightarrow> string" where
  "GetDialect opts = db_Dialect (opt_Db opts)"

section \<open>Instances for evaluation\<close>

definition plain_redis :: "(string \<rightharpoonup> byte list) redis" where
  "plain_redis =
     \<lparr>redis_Ping = (\<lambda>_. None), redis_Get = (\<lambda>k s. (case s k of None \<Rightarrow> Inl RedisNil | Some v \<Rightarrow> Inr v, s)),
      redis_Set = (\<lambda>k v _ s. (None, s(k \<mapsto> v))), redis_Exists = (\<lambda>k s. (Inr (if s k = None then 0 else 1), s))\<rparr>"

text \<open>A server that refuses to write.\<close>

definition read_only_redis :: "(string \<rightharpoonup> byte list) redis" where
  "read_only_redis = plain_redis\<lparr>redis_Set := (\<lambda>k v _ s. (Some (Errorf ''READONLY''), s))\<rparr>"

section \<open>Lemmas\<close>

text \<open>The documented behaviour, call by call.\<close>

lemma documented_Set:
  assumes "redis_documented rc contents" and "redis_Set rc k v 0 s = (e, s')"
  shows "contents s' = (contents s)(k \<mapsto> v) \<or> e \<noteq> None \<and> contents s' = contents s"
proof (cases e)
  case None
  have "\<forall>k v s s'. redis_Set rc k v 0 s = (None, s') \<longrightarrow> contents s' = (contents s)(k \<mapsto> v)"
    using assms(1) by (simp add: redis_documented_def)
  with assms(2) None show ?thesis by blast
next
  case (Some err)
  have "\<forall>k v s s' e. redis_Set rc k v 0 s = (Some e, s') \<longrightarrow> contents s' = contents s \<or> contents s' = (contents s)(k \<mapsto> v)"
    using assms(1) by (simp add: redis_documented_def)
  with assms(2) Some show ?thesis by blast
qed

lemma documented_Get:
  assumes "redis_documented rc contents" and "redis_Get rc k s = (r, s')"
  shows "contents s' = contents s
    \<and> (case r of Inr v \<Rightarrow> contents s k = Some v | Inl e \<Rightarrow> errors_Is e RedisNil \<longrightarrow> contents s k = None)"
proof (cases r)
  case (Inl e)
  have "\<forall>k s e s'. redis_Get rc k s = (Inl e, s') \<longrightarrow> contents s' = contents s \<and> (errors_Is e RedisNil \<longrightarrow> contents s k = None)"
    using assms(1) unfolding redis_documented_def by (elim conjE)
  with assms(2) Inl show ?thesis by simp
next
  case (Inr v)
  have "\<forall>k s v s'. redis_Get rc k s = (Inr v, s') \<longrightarrow> contents s k = Some v \<and> contents s' = contents s"
    using assms(1) unfolding redis_documented_def by (elim conjE)
  with assms(2) Inr show ?thesis by simp
qed

lemma documented_Exists:
  assumes "redis_documented rc contents" and "redis_Exists rc k s = (r, s')"
  shows "contents s' = contents s \<and> (case r of Inr n \<Rightarrow> n = (if contents s k = None then 0 else 1) | Inl e \<Rightarrow> True)"
proof (cases r)
  case (Inl e)
  have "\<forall>k s e s'. redis_Exists rc k s = (Inl e, s') \<longrightarrow> contents s' = contents s"
    using assms(1) unfolding redis_documented_def by (elim conjE)
  with assms(2) Inl show ?thesis by simp
next
  case (Inr n)
  have "\<forall>k s n s'. redis_Exists rc k s = (Inr n, s') \<longrightarrow> n = (if contents s k = None then 0 else 1) \<and> contents s' = contents s"
    using assms(1) unfolding redis_documented_def by (elim conjE)
  with assms(2) Inr show ?thesis by simp
qed

lemma plain_redis_documented: "redis_documented plain_redis (\<lambda>s. s)"
  by (auto simp: redis_documented_def plain_redis_def split: option.splits)

lemma key_neqs [simp]: "distinct [CurrentBlockHead, LatestInspectedHeadBlock, LatestInspectedArchiveBlock,
    ArchiveStartBlockNumber, ArchiveEndBlockNumber, UnknownHeadBlock]"
  by (simp add: key_defs)

lemma state_Get_reads:
  assumes "redis_documented rc contents" and "state_Get rc k s = (r, s')"
  shows "contents (st_server s') = contents (st_server s) \<and> st_descriptor s' = st_descriptor s
    \<and> (case r of Inr v \<Rightarrow> map_option big_SetBytes (contents (st_server s) k) = Some v
        | Inl e \<Rightarrow> errors_Is e RedisNil \<longrightarrow> contents (st_server s) k = None)"
proof (cases "redis_Get rc k (st_server s)")
  case (Pair x srv)
  have "contents srv = contents (st_server s) \<and> (case x of Inr v \<Rightarrow> contents (st_server s) k = Some v
      | Inl e \<Rightarrow> errors_Is e RedisNil \<longrightarrow> contents (st_server s) k = None)"
    using assms(1) Pair unfolding redis_documented_def by (cases x) auto
  with assms(2) Pair show ?thesis
    by (auto simp: state_Get_def cache_Get_def split: sum.splits)
qed

lemma state_Set_writes:
  assumes "redis_documented rc contents" and "state_Set rc k (Some v) s = Returns (e, s')"
  shows "contents (st_server s') \<in> {(contents (st_server s))(k \<mapsto> big_Bytes v)} \<union> (if e = None then {} else {contents (st_server s)})
    \<and> st_descriptor s' = snd (SetDescriptorKey k (Some v) (st_descriptor s))"
proof (cases "fst (SetDescriptorKey k (Some v) (st_descriptor s))")
  case (Some err)
  with assms(2) show ?thesis by (auto simp: state_Set_def split: prod.splits)
next
  case None
  obtain x srv where x: "redis_Set rc k (big_Bytes v) 0 (st_server s) = (x, srv)" by fastforce
  from documented_Set [OF assms(1) this] x assms(2) None show ?thesis
    by (auto simp: state_Set_def cache_Write_def split: prod.splits)
qed

subsection \<open>The fields of the state\<close>

text \<open>Each step of \<open>Load\<close> fills one field: reading the field gives what was assigned.\<close>

locale state_field =
  fixes field :: "state_descriptor \<Rightarrow> int option"
    and assign :: "int option \<Rightarrow> state_descriptor \<Rightarrow> state_descriptor"
  assumes field_assign: "field (assign v d) = v"
begin

lemma load_key_field:
  assumes "redis_documented rc contents" and "load_key rc k assign s = (None, s')"
  shows "contents (st_server s') = contents (st_server s)
    \<and> st_descriptor s' = assign (map_option big_SetBytes (contents (st_server s) k)) (st_descriptor s)
    \<and> field (st_descriptor s') = map_option big_SetBytes (contents (st_server s) k)"
proof (cases "state_Get rc k s")
  case (Pair r t)
  from state_Get_reads [OF assms(1) Pair] assms(2) Pair show ?thesis
    by (cases r) (auto simp: load_key_def field_assign split: if_splits)
qed

end

interpretation head_field: state_field CurrentBlockHeadNumber "\<lambda>v. CurrentBlockHeadNumber_update (\<lambda>_. v)"
  by unfold_locales simp

interpretation inspected_head_field: state_field sd_LatestInspectedHeadBlock "\<lambda>v. sd_LatestInspectedHeadBlock_update (\<lambda>_. v)"
  by unfold_locales simp

interpretation inspected_archive_field:
  state_field sd_LatestInspectedArchiveBlock "\<lambda>v. sd_LatestInspectedArchiveBlock_update (\<lambda>_. v)"
  by unfold_locales simp

interpretation start_field: state_field sd_StartBlockNumber "\<lambda>v. sd_StartBlockNumber_update (\<lambda>_. v)"
  by unfold_locales simp

interpretation end_field: state_field sd_EndBlockNumber "\<lambda>v. sd_EndBlockNumber_update (\<lambda>_. v)"
  by unfold_locales simp

lemma and_then_None: "and_then r f = (None, s') \<Longrightarrow> \<exists>s. r = (None, s) \<and> f s = (None, s')"
  by (auto simp: and_then_def split: prod.splits option.splits)

lemma Load_fields:
  assumes "redis_documented rc contents" and "state_Load rc s = (None, s')"
  shows "CurrentBlockHeadNumber (st_descriptor s') = map_option big_SetBytes (contents (st_server s) CurrentBlockHead)
    \<and> sd_LatestInspectedHeadBlock (st_descriptor s') = map_option big_SetBytes (contents (st_server s) LatestInspectedHeadBlock)
    \<and> sd_LatestInspectedArchiveBlock (st_descriptor s') = map_option big_SetBytes (contents (st_server s) LatestInspectedArchiveBlock)
    \<and> sd_StartBlockNumber (st_descriptor s') = map_option big_SetBytes (contents (st_server s) ArchiveStartBlockNumber)
    \<and> sd_EndBlockNumber (st_descriptor s') = map_option big_SetBytes (contents (st_server s) ArchiveEndBlockNumber)
    \<and> contents (st_server s') = contents (st_server s)"
  using assms(2) unfolding state_Load_def
  by (auto dest!: and_then_None head_field.load_key_field [OF assms(1)] inspected_head_field.load_key_field [OF assms(1)]
      inspected_archive_field.load_key_field [OF assms(1)] start_field.load_key_field [OF assms(1)]
      end_field.load_key_field [OF assms(1)])

lemma GarbageCollect_first:
  "gc n = Some err \<Longrightarrow> \<forall>i < n. gc i = None \<Longrightarrow> GarbageCollect nr gc = Some (if err = nr then None else Some err)"
proof (induction n arbitrary: gc)
  case 0
  then show ?case by (subst GarbageCollect.simps) (simp add: poll_def)
next
  case (Suc n)
  then have "gc 0 = None" by auto
  with Suc(1) [of "advance gc"] Suc(2,3) show ?case
    by (subst GarbageCollect.simps) (auto simp: poll_def advance_def)
qed

lemma GarbageCollect_returns: "GarbageCollect nr gc = Some r \<Longrightarrow> \<exists>i. gc i \<noteq> None"
proof (erule GarbageCollect.raw_induct [where P = "\<lambda>nr gc r. \<exists>i. gc i \<noteq> None", rotated])
  fix f :: "error \<Rightarrow> error option schedule \<Rightarrow> error option option" and nr gc r
  assume IH: "\<And>nr gc r. f nr gc = Some r \<Longrightarrow> \<exists>i. gc i \<noteq> None"
    and eq: "(case poll gc of None \<Rightarrow> f nr (advance gc)
      | Some err \<Rightarrow> if err = nr then Some None else Some (Some err)) = Some r"
  show "\<exists>i. gc i \<noteq> None"
  proof (cases "poll gc")
    case None
    with IH eq have "\<exists>i. advance gc i \<noteq> None" by auto
    then show ?thesis by (auto simp: advance_def)
  qed (auto simp: poll_def)
qed

section \<open>Properties\<close>

text \<open>Progress that was stored is read back: after a successful \<open>Set\<close> a successful
  \<open>Get\<close> of the same key returns the absolute value of the number (the sign is not stored, block
  numbers have none), and every other key still reads as before.\<close>

theorem state_set_then_get:
  assumes "redis_documented rc contents" and "state_Set rc k (Some v) s = Returns (None, s1)"
    and "state_Get rc k s1 = (Inr w, s2)" and "k' \<noteq> k"
  shows "w = \<bar>v\<bar> \<and> contents (st_server s1) k' = contents (st_server s) k'"
  using state_Set_writes [OF assms(1,2)] state_Get_reads [OF assms(1,3)] assms(4)
  by (auto simp: big_SetBytes_Bytes)

theorem state_set_then_get_witness:
  "fst (state_Get plain_redis CurrentBlockHead
     (case state_Set plain_redis CurrentBlockHead (Some 65537) (state_New Map.empty) of Returns (_, s) \<Rightarrow> s | Panics s \<Rightarrow> s | Blocks s \<Rightarrow> s))
   = Inr \<bar>65537\<bar>"
proof -
  obtain s1 where s1: "state_Set plain_redis CurrentBlockHead (Some 65537) (state_New Map.empty) = Returns (None, s1)"
    by (simp add: state_Set_def SetDescriptorKey_def cache_Write_def plain_redis_def)
  obtain w s2 where g: "state_Get plain_redis CurrentBlockHead s1 = (Inr w, s2)"
    using state_Set_writes [OF plain_redis_documented s1]
    by (auto simp: state_Get_def cache_Get_def plain_redis_def split: option.splits)
  from state_set_then_get [OF plain_redis_documented s1 g, of UnknownHeadBlock] s1 g show ?thesis
    by (simp add: key_defs)
qed

text \<open>A restart recovers the progress: when loading succeeds, each of the five numbers is what the
  server holds under its key, and absent keys give nil.\<close>

theorem Load_recovers:
  assumes "redis_documented rc contents" and "state_Load rc (state_New srv) = (None, s)"
  shows "CurrentBlockHeadNumber (st_descriptor s) = map_option big_SetBytes (contents srv CurrentBlockHead)
    \<and> sd_LatestInspectedHeadBlock (st_descriptor s) = map_option big_SetBytes (contents srv LatestInspectedHeadBlock)
    \<and> sd_LatestInspectedArchiveBlock (st_descriptor s) = map_option big_SetBytes (contents srv LatestInspectedArchiveBlock)
    \<and> sd_StartBlockNumber (st_descriptor s) = map_option big_SetBytes (contents srv ArchiveStartBlockNumber)
    \<and> sd_EndBlockNumber (st_descriptor s) = map_option big_SetBytes (contents srv ArchiveEndBlockNumber)"
  using Load_fields [OF assms] by (simp add: state_New_def)

theorem Load_recovers_witness:
  "\<exists>s. state_Load plain_redis (state_New [LatestInspectedArchiveBlock \<mapsto> [1, 0]]) = (None, s)
     \<and> sd_LatestInspectedArchiveBlock (st_descriptor s) = Some 256 \<and> sd_EndBlockNumber (st_descriptor s) = None"
proof -
  obtain s where s: "state_Load plain_redis (state_New [LatestInspectedArchiveBlock \<mapsto> [1, 0]]) = (None, s)"
    by (simp add: state_Load_def load_key_def state_Get_def cache_Get_def plain_redis_def and_then_def key_defs state_New_def)
  with Load_recovers [OF plain_redis_documented s] show ?thesis
    by (simp add: big_SetBytes_def be_value_def key_defs)
qed

text \<open>The memory runs ahead of the store: when the write to the cache fails, \<open>Set\<close> reports the
  error but has already changed the number in memory, while the server may have kept its contents.\<close>

theorem state_set_failed_write:
  assumes "redis_documented rc contents" and "state_Set rc LatestInspectedArchiveBlock (Some v) s = Returns (Some e, s')"
  shows "sd_LatestInspectedArchiveBlock (st_descriptor s') = Some v
    \<and> contents (st_server s') \<in> {contents (st_server s), (contents (st_server s))(LatestInspectedArchiveBlock \<mapsto> big_Bytes v)}"
  using state_Set_writes [OF assms] by (auto simp: SetDescriptorKey_def key_defs)

theorem state_set_failed_write_witness:
  "\<exists>s'. state_Set read_only_redis LatestInspectedArchiveBlock (Some 5) (state_New Map.empty) = Returns (Some (Errorf ''READONLY''), s')
     \<and> sd_LatestInspectedArchiveBlock (st_descriptor s') = Some 5"
proof -
  have doc: "redis_documented read_only_redis (\<lambda>s. s)"
    using plain_redis_documented by (simp add: redis_documented_def read_only_redis_def)
  obtain s' where "state_Set read_only_redis LatestInspectedArchiveBlock (Some 5) (state_New Map.empty) = Returns (Some (Errorf ''READONLY''), s')"
    by (simp add: state_Set_def SetDescriptorKey_def cache_Write_def read_only_redis_def key_defs)
  with state_set_failed_write [OF doc this] show ?thesis by blast
qed



text \<open>C40. Value-log garbage collection returns exactly when one of the library's calls reports an error,
  and then returns no error if the first such report is that nothing was rewritten and the report itself
  otherwise; if every call succeeds the loop never ends.\<close>

theorem GarbageCollect_returns_iff:
  "GarbageCollect nr gc = (if \<forall>i. gc i = None then None
     else (let n = LEAST i. gc i \<noteq> None in Some (if gc n = Some nr then None else gc n)))"
proof (cases "\<forall>i. gc i = None")
  case True
  then show ?thesis using GarbageCollect_returns [of nr gc] by (cases "GarbageCollect nr gc") auto
next
  case False
  let ?n = "LEAST i. gc i \<noteq> None"
  from False obtain j where "gc j \<noteq> None" by auto
  then have "gc ?n \<noteq> None" by (rule LeastI)
  then obtain err where err: "gc ?n = Some err" by auto
  have "\<forall>i < ?n. gc i = None" using not_less_Least by blast
  from GarbageCollect_first [OF err this, of nr] False err show ?thesis by (auto simp: Let_def)
qed

end
