(* ===== verification/Handlers.thy ===== *)
theory Handlers
  imports Descriptor
begin

text \<open>
  The handlers of the unpacking state machine (src/pkg/unpacker/discover.go, metadata.go,
  providers.go, sources.go, parser.go, constructor.go, final.go and error.go). The machine carries
  a pointer to the descriptor; \<open>data\<close> is the descriptor together with everything the handlers
  reach beyond it: the contracts table, the file system and the clock. Every handler is a function of
  the environment \<open>env\<close> (the libraries, the unpacker, the global options) and the data.

  A call through a nil pointer panics. The arguments of a log call are evaluated before the call
  whatever the log level is, so they can panic too; the messages themselves are not modelled.
\<close>

record 'x env =
  e_codec :: codec
  e_solgo :: "'x solgo"
  e_unpacker :: "'x Unpacker"
  e_options :: "Options option"

record 'x data =
  dt_descriptor :: "'x Descriptor"
  dt_db :: contracts_db
  dt_files :: "'x fs"
  dt_clock :: "gotime schedule"

type_synonym 'x callback = "'x data \<Rightarrow> ('x data \<times> error option, 'x data) go"
type_synonym 'x process = "'x data \<Rightarrow> (State \<times> 'x data \<times> error option, 'x data) go"

definition upd :: "('x Descriptor \<Rightarrow> 'x Descriptor) \<Rightarrow> 'x data \<Rightarrow> 'x data" where
  "upd f d = d\<lparr>dt_descriptor := f (dt_descriptor d)\<rparr>"

section \<open>Shared parts of the handlers\<close>

text \<open>The solgo descriptor of the descriptor's contract; \<open>None\<close> when the contract or its
  descriptor is nil.\<close>

definition cdescriptor_of :: "'x Descriptor \<Rightarrow> 'x cdescriptor option" where
  "cdescriptor_of d = Option.bind (GetContract d) ct_descriptor"

definition set_cdescriptor :: "'x cdescriptor \<Rightarrow> 'x Descriptor \<Rightarrow> 'x Descriptor" where
  "set_cdescriptor cdesc d = d\<lparr>d_contract := map_option (\<lambda>c. c\<lparr>ct_descriptor := Some cdesc\<rparr>) (d_contract d)\<rparr>"

text \<open>A log call with the block number and the transaction hash, without and with the sources
  provider of the solgo descriptor.\<close>

definition log_block :: "'x data \<Rightarrow> ('x data, 'x data) go" where
  "log_block d =
     (if d_Header (dt_descriptor d) = None \<or> d_Tx (dt_descriptor d) = None then Panics d else Returns d)"

definition log_provider :: "'x data \<Rightarrow> ('x data, 'x data) go" where
  "log_provider d = (if cdescriptor_of (dt_descriptor d) = None then Panics d else log_block d)"

text \<open>A method call on the descriptor's contract, which panics when the contract is nil.\<close>

definition call_contract :: "('r, 'x) solgo_call \<Rightarrow> 'x data \<Rightarrow> ('r \<times> 'x data, 'x data) go" where
  "call_contract m d =
     (case GetContract (dt_descriptor d) of
        None \<Rightarrow> Panics d
      | Some c \<Rightarrow>
          map_go (\<lambda>(r, c'). (r, upd (SetContract (Some c')) d)) (\<lambda>c'. upd (SetContract (Some c')) d) (m c))"

text \<open>The dependency check every handler but the first starts with: go back to discovery and come
  to the metadata state from there.\<close>

definition need_discovery :: "'x data \<Rightarrow> (State \<times> 'x data \<times> error option, 'x data) go" where
  "need_discovery d = Returns (DiscoverState, upd (SetNextState MetadataState) d, None)"

text \<open>\<open>filepath.Join(options.G().Storage.ContractsPath, descriptor.GetStorageCachePath())\<close>.\<close>

definition sources_path :: "'x env \<Rightarrow> 'x Descriptor \<Rightarrow> string option" where
  "sources_path env d =
     Option.bind (e_options env) (\<lambda>opts.
       map_option (\<lambda>p. filepath_Join [ContractsPath (opt_Storage opts), p])
         (GetStorageCachePath (e_codec env) (e_solgo env) d))"

section \<open>Discovery\<close>

definition discover_Enter :: "'x callback" where
  "discover_Enter d = Returns (d, None)"

definition discover_error :: "'x env \<Rightarrow> string \<Rightarrow> 'x data \<Rightarrow> (State \<times> 'x data \<times> error option, 'x data) go" where
  "discover_error env what d =
     Returns (ErrorState, d, Some (Errorf (''contract '' @ addr_Hex (e_codec env) (GetAddr (dt_descriptor d))
       @ '' does not have provided associated contract creation '' @ what)))"

definition discover_validate :: "'x env \<Rightarrow> 'x data \<Rightarrow> ('x data, 'x data) go" where
  "discover_validate env d =
     (if GetContract (dt_descriptor d) = None then Returns d
      else map_go (\<lambda>(valid, d'). upd (\<lambda>x. x\<lparr>d_SelfDestructed := (valid = False)\<rparr>) d') (\<lambda>d'. d')
             (call_contract (IsValid (e_solgo env)) d))"

definition discover_finish :: "'x data \<Rightarrow> (State \<times> 'x data \<times> error option, 'x data) go" where
  "discover_finish d =
     (if HasNextState (dt_descriptor d)
      then Returns (GetNextState (dt_descriptor d), upd (SetNextState '''') d, None)
      else Returns (MetadataState, d, None))"

definition discover_lookup :: "'x env \<Rightarrow> Header \<Rightarrow> 'x process" where
  "discover_lookup env header d =
     (let desc = dt_descriptor d;
          (res, db') = GetContractByUniqueIndex (e_codec env) (ToBig (e_solgo env) (d_NetworkID desc))
                         (hd_Number header) (GetAddr desc) (dt_db d);
          d1 = d\<lparr>dt_db := db'\<rparr>
      in case res of
           Inl err \<Rightarrow>
             (if \<not> errors_Is err ErrNoRows
              then go_bind (log_provider d1) (\<lambda>d2. Returns (ErrorState, d2, Some err))
              else discover_finish (upd (AppendCompletedState DiscoverState) (upd (SetContractModel None) d1)))
         | Inr contract \<Rightarrow>
             (let d2 = upd (SetContractModel (Some contract)) d1
              in if IsCompleted contract
                 then (case e_options env of
                         None \<Rightarrow> Panics d2
                       | Some opts \<Rightarrow>
                           if \<not> ForceReprocess (opt_Unpacker opts) then Returns (DoneState, d2, None)
                           else discover_finish (upd (AppendCompletedState DiscoverState) d2))
                 else discover_finish (upd (AppendCompletedState DiscoverState) d2)))"

definition discover_Process :: "'x env \<Rightarrow> 'x process" where
  "discover_Process env d =
     (case GetHeader (dt_descriptor d) of
        None \<Rightarrow> discover_error env ''block'' d
      | Some header \<Rightarrow>
          if GetTransaction (dt_descriptor d) = None then discover_error env ''transaction'' d
          else if GetReceipt (dt_descriptor d) = None then discover_error env ''transaction receipt'' d
          else go_bind (discover_validate env d) (\<lambda>d1.
                 if u_db (e_unpacker env) = None then Panics d1 else discover_lookup env header d1))"

definition discover_Exit :: "'x callback" where
  "discover_Exit d = Returns (d, None)"

definition NewDiscoverContractHandler :: "'x env \<Rightarrow> 'x data Handler" where
  "NewDiscoverContractHandler env =
     \<lparr>h_Enter = Some discover_Enter, h_Process = Some (discover_Process env), h_Exit = Some discover_Exit\<rparr>"

section \<open>Metadata\<close>

definition metadata_Enter :: "'x callback" where
  "metadata_Enter d = Returns (d, None)"

definition metadata_discover :: "'x env \<Rightarrow> 'x data \<Rightarrow> ('x data, 'x data) go" where
  "metadata_discover env d =
     go_bind (call_contract (DiscoverMetadata (e_solgo env)) d) (\<lambda>(err, d1).
       case err of
         None \<Rightarrow> Returns d1
       | Some e \<Rightarrow>
           go_bind (if \<not> strings_Contains (Error e) ''provided bytecode slice is smaller than the length''
                    then log_block d1 else Returns d1)
             (\<lambda>d2. Returns (upd (AppendFailedState MetadataState) d2)))"

definition metadata_Process :: "'x env \<Rightarrow> 'x process" where
  "metadata_Process env d =
     (if \<not> HasCompletedState (dt_descriptor d) DiscoverState
      then Returns (DiscoverState, upd (SetNextState MetadataState) d, None)
      else (case GetContract (dt_descriptor d) of
              None \<Rightarrow> Panics d
            | Some contract \<Rightarrow>
                go_bind
                  (case ct_descriptor contract of
                     None \<Rightarrow> Returns d
                   | Some cdesc \<Rightarrow>
                       if \<not> d_SelfDestructed (dt_descriptor d) \<and> \<not> HasMetadata (e_solgo env) cdesc
                       then metadata_discover env d else Returns d)
                  (\<lambda>d1. Returns (SourceProvidersState,
                     (if \<not> HasFailedState (dt_descriptor d1) MetadataState
                      then upd (AppendCompletedState MetadataState) d1 else d1), None))))"

definition metadata_Exit :: "'x callback" where
  "metadata_Exit d = Returns (d, None)"

definition NewMetadataContractHandler :: "'x env \<Rightarrow> 'x data Handler" where
  "NewMetadataContractHandler env =
     \<lparr>h_Enter = Some metadata_Enter, h_Process = Some (metadata_Process env), h_Exit = Some metadata_Exit\<rparr>"

section \<open>Source providers\<close>

definition providers_Enter :: "'x callback" where
  "providers_Enter d = Returns (d, None)"

text \<open>The fields of the stored model that replace a call to an external provider.\<close>

definition load_model :: "Contract \<Rightarrow> 'x \<Rightarrow> 'x cdescriptor \<Rightarrow> 'x cdescriptor" where
  "load_model cmodel sources cdesc =
     cdesc\<lparr>cd_Sources := Some sources, cd_Name := c_Name cmodel, cd_License := c_License cmodel,
       cd_Proxy := c_Proxy cmodel, cd_SourcesProvider := c_SourcesProvider cmodel,
       cd_CompilerVersion := c_CompilerVersion cmodel, cd_SolgoVersion := c_SolgoVersion cmodel,
       cd_Implementations := c_ProxyImplementations cmodel, cd_Optimized := c_Optimized cmodel,
       cd_OptimizationRuns := c_OptimizationRuns cmodel, cd_EVMVersion := c_EVMVersion cmodel,
       cd_ABI := c_ABI cmodel, cd_Verified := c_Verified cmodel,
       cd_VerificationProvider := c_VerificationProvider cmodel\<rparr>"

definition providers_cached :: "'x env \<Rightarrow> 'x cdescriptor \<Rightarrow> 'x data \<Rightarrow> ('x data, 'x data) go" where
  "providers_cached env cdesc d =
     (case GetContractModel (dt_descriptor d) of
        None \<Rightarrow> Returns d
      | Some cmodel \<Rightarrow>
          if \<not> HasSources (e_solgo env) cdesc \<and> c_SourceAvailable cmodel \<and> length (c_Name cmodel) \<noteq> 0
          then (case sources_path env (dt_descriptor d) of
                  None \<Rightarrow> Panics d
                | Some sourcesPath \<Rightarrow>
                    (case NewSourcesFromPath (e_solgo env) (c_Name cmodel) sourcesPath (dt_files d) of
                       Inl err \<Rightarrow> log_block d
                     | Inr sources \<Rightarrow>
                         Returns (upd (RemoveFailedState SourceProvidersState)
                           (upd (set_cdescriptor (load_model cmodel sources cdesc)) d))))
          else Returns d)"

definition providers_remote :: "'x env \<Rightarrow> 'x data \<Rightarrow> ('x data, 'x data) go" where
  "providers_remote env d =
     (case cdescriptor_of (dt_descriptor d) of
        None \<Rightarrow> Panics d
      | Some cdesc \<Rightarrow>
          if \<not> HasSources (e_solgo env) cdesc
          then go_bind (call_contract (DiscoverSourceCode (e_solgo env)) d) (\<lambda>(err, d1).
                 case err of
                   Some e \<Rightarrow>
                     if \<not> strings_Contains (Error e) ''contract source code not verified''
                     then log_block d1 else Returns d1
                 | None \<Rightarrow> Returns (upd (RemoveFailedState SourceProvidersState) d1))
          else Returns d)"

definition providers_Process :: "'x env \<Rightarrow> 'x process" where
  "providers_Process env d =
     (if \<not> HasCompletedState (dt_descriptor d) DiscoverState then need_discovery d
      else (case cdescriptor_of (dt_descriptor d) of
              None \<Rightarrow> Panics d
            | Some cdesc \<Rightarrow>
                go_bind (providers_cached env cdesc d) (\<lambda>d1.
                go_bind (providers_remote env d1) (\<lambda>d2.
                  Returns (SourcesState,
                    (if \<not> HasFailedState (dt_descriptor d2) SourceProvidersState
                     then upd (AppendCompletedState SourceProvidersState) d2 else d2), None)))))"

definition providers_Exit :: "'x callback" where
  "providers_Exit d = Returns (d, None)"

definition NewProvidersContractHandler :: "'x env \<Rightarrow> 'x data Handler" where
  "NewProvidersContractHandler env =
     \<lparr>h_Enter = Some providers_Enter, h_Process = Some (providers_Process env), h_Exit = Some providers_Exit\<rparr>"

section \<open>Sources\<close>

definition sources_Enter :: "'x callback" where
  "sources_Enter d = Returns (d, None)"

definition sources_Process :: "'x env \<Rightarrow> 'x process" where
  "sources_Process env d =
     (if \<not> HasCompletedState (dt_descriptor d) DiscoverState then need_discovery d
      else Returns (ParserState,
        (if \<not> HasFailedState (dt_descriptor d) SourcesState
         then upd (AppendCompletedState SourcesState) d else d), None))"

definition sources_Exit :: "'x callback" where
  "sources_Exit d = Returns (d, None)"

definition NewSourcesContractHandler :: "'x env \<Rightarrow> 'x data Handler" where
  "NewSourcesContractHandler env =
     \<lparr>h_Enter = Some sources_Enter, h_Process = Some (sources_Process env), h_Exit = Some sources_Exit\<rparr>"

section \<open>Parser\<close>

definition parser_Enter :: "'x callback" where
  "parser_Enter d = Returns (d, None)"

definition parser_parse :: "'x env \<Rightarrow> 'x data \<Rightarrow> ('x data, 'x data) go" where
  "parser_parse env d =
     go_bind (call_contract (ParseContract (e_solgo env)) d) (\<lambda>(err, d1).
       case err of
         Some e \<Rightarrow>
           go_bind (if \<not> strings_Contains (Error e) ''not supported compiler version''
                    then log_provider d1 else Returns d1)
             (\<lambda>d2. Returns (upd (AppendFailedState ParserState) d2))
       | None \<Rightarrow>
           Returns (upd (AppendCompletedState ParserState) (upd (RemoveFailedState ParserState) d1)))"

definition parser_Process :: "'x env \<Rightarrow> 'x process" where
  "parser_Process env d =
     (if \<not> HasCompletedState (dt_descriptor d) DiscoverState then need_discovery d
      else (case cdescriptor_of (dt_descriptor d) of
              None \<Rightarrow> Panics d
            | Some cdesc \<Rightarrow>
                go_bind (if HasSources (e_solgo env) cdesc then parser_parse env d else Returns d) (\<lambda>d1.
                  Returns (ConstructorState,
                    (if \<not> HasFailedState (dt_descriptor d1) ParserState
                     then upd (AppendCompletedState ParserState) d1 else d1), None))))"

definition parser_Exit :: "'x callback" where
  "parser_Exit d = Returns (d, None)"

definition NewParserContractHandler :: "'x env \<Rightarrow> 'x data Handler" where
  "NewParserContractHandler env =
     \<lparr>h_Enter = Some parser_Enter, h_Process = Some (parser_Process env), h_Exit = Some parser_Exit\<rparr>"

section \<open>Constructor\<close>

definition constructor_Enter :: "'x callback" where
  "constructor_Enter d = Returns (d, None)"

text \<open>\<open>EntryConstructor\<close> is the chain of accessors from the detector to the constructor of the
  entry contract: whether it ends in a constructor, or the panic of a nil pointer on the way.\<close>

definition constructor_discover :: "'x env \<Rightarrow> 'x cdescriptor \<Rightarrow> 'x data \<Rightarrow> ('x data, 'x data) go" where
  "constructor_discover env cdesc d =
     (if HasDetector (e_solgo env) cdesc
      then (case EntryConstructor (e_solgo env) cdesc of
              None \<Rightarrow> Panics d
            | Some False \<Rightarrow> Returns d
            | Some True \<Rightarrow>
                go_bind (call_contract (DiscoverConstructor (e_solgo env)) d) (\<lambda>(err, d1).
                  if err = None then Returns d1 else log_block d1))
      else Returns d)"

definition constructor_Process :: "'x env \<Rightarrow> 'x process" where
  "constructor_Process env d =
     (if GetContract (dt_descriptor d) = None then Panics d
      else if \<not> HasCompletedState (dt_descriptor d) DiscoverState then need_discovery d
      else (case cdescriptor_of (dt_descriptor d) of
              None \<Rightarrow> Panics d
            | Some cdesc \<Rightarrow>
                go_bind (constructor_discover env cdesc d) (\<lambda>d1. Returns (FinalState, d1, None))))"

definition constructor_Exit :: "'x callback" where
  "constructor_Exit d = Returns (d, None)"

definition NewConstructorContractHandler :: "'x env \<Rightarrow> 'x data Handler" where
  "NewConstructorContractHandler env =
     \<lparr>h_Enter = Some constructor_Enter, h_Process = Some (constructor_Process env),
      h_Exit = Some constructor_Exit\<rparr>"

section \<open>Final\<close>

definition final_Enter :: "'x callback" where
  "final_Enter d = Returns (d, None)"

text \<open>Writing the entry: a failed statement is logged and marks the final state as failed.\<close>

definition final_failed :: "'x data \<Rightarrow> ('x data, 'x data) go" where
  "final_failed d = go_bind (log_provider d) (\<lambda>d1. Returns (upd (AppendFailedState FinalState) d1))"

definition final_update :: "'x env \<Rightarrow> Contract \<Rightarrow> 'x data \<Rightarrow> ('x data, 'x data) go" where
  "final_update env entry d =
     (case UpdateContract (e_codec env) entry (dt_db d) of
        (err, db') \<Rightarrow>
          if err = None then Returns (d\<lparr>dt_db := db'\<rparr>) else final_failed (d\<lparr>dt_db := db'\<rparr>))"

definition final_store :: "'x env \<Rightarrow> Contract \<Rightarrow> 'x data \<Rightarrow> ('x data, 'x data) go" where
  "final_store env entry d =
     (if u_db (e_unpacker env) = None then Panics d
      else if GetContractModel (dt_descriptor d) = None
      then (case SaveContract (e_codec env) entry (dt_db d) of
              (None, db') \<Rightarrow> Returns (d\<lparr>dt_db := db'\<rparr>)
            | (Some err, db') \<Rightarrow>
                if strings_Contains (Error err) ''UNIQUE constraint failed''
                then final_update env entry (d\<lparr>dt_db := db'\<rparr>)
                else final_failed (d\<lparr>dt_db := db'\<rparr>))
      else final_update env entry d)"

definition final_sources :: "'x env \<Rightarrow> 'x cdescriptor \<Rightarrow> 'x data \<Rightarrow> ('x data, 'x data) go" where
  "final_sources env cdesc d =
     (if HasSources (e_solgo env) cdesc \<and> \<not> HasFailedState (dt_descriptor d) FinalState
      then (case (sources_path env (dt_descriptor d), DetectorSources (e_solgo env) cdesc) of
              (Some sourcesPath, Some sources) \<Rightarrow>
                (case WriteToDir (e_solgo env) sources sourcesPath (dt_files d) of
                   (err, files') \<Rightarrow>
                     if err = None then Returns (d\<lparr>dt_files := files'\<rparr>)
                     else final_failed (d\<lparr>dt_files := files'\<rparr>))
            | _ \<Rightarrow> Panics d)
      else Returns d)"

definition final_Process :: "'x env \<Rightarrow> 'x process" where
  "final_Process env d =
     (if GetContract (dt_descriptor d) = None then Panics d
      else if \<not> HasCompletedState (dt_descriptor d) DiscoverState then need_discovery d
      else
        (let d1 = upd (\<lambda>x. x\<lparr>d_Processed := True\<rparr>) d
         in case (GetContractEntry (e_solgo env) (dt_clock d1) (dt_descriptor d1),
                  cdescriptor_of (dt_descriptor d1)) of
              (Some (entry, clock'), Some cdesc) \<Rightarrow>
                go_bind (final_store env entry (d1\<lparr>dt_clock := clock'\<rparr>)) (\<lambda>d2.
                go_bind (final_sources env cdesc d2) (\<lambda>d3.
                  Returns (DoneState,
                    (if \<not> HasFailedState (dt_descriptor d3) FinalState
                     then upd (AppendCompletedState FinalState) d3 else d3), None)))
            | _ \<Rightarrow> Panics d1))"

definition final_Exit :: "'x callback" where
  "final_Exit d = Returns (d, None)"

definition NewFinalContractHandler :: "'x env \<Rightarrow> 'x data Handler" where
  "NewFinalContractHandler env =
     \<lparr>h_Enter = Some final_Enter, h_Process = Some (final_Process env), h_Exit = Some final_Exit\<rparr>"

section \<open>Error\<close>

definition error_Enter :: "'x callback" where
  "error_Enter d = Returns (d, None)"

definition error_Process :: "'x env \<Rightarrow> 'x process" where
  "error_Process env d = go_bind (log_provider d) (\<lambda>d1. Returns (DoneState, d1, None))"

definition error_Exit :: "'x callback" where
  "error_Exit d = Returns (d, None)"

definition NewErrorContractHandler :: "'x env \<Rightarrow> 'x data Handler" where
  "NewErrorContractHandler env =
     \<lparr>h_Enter = Some error_Enter, h_Process = Some (error_Process env), h_Exit = Some error_Exit\<rparr>"

section \<open>How the data evolves\<close>

text \<open>The invariant of the carried data: the table keeps its constraints and no state is listed
  twice.\<close>

definition data_ok :: "'x data \<Rightarrow> bool" where
  "data_ok d \<longleftrightarrow> db_wf (dt_db d) \<and> distinct (completedStates (dt_descriptor d))
     \<and> distinct (failedStates (dt_descriptor d))"

text \<open>What a descriptor is about.\<close>

definition identity :: "'x Descriptor \<Rightarrow> string \<times> int \<times> Address \<times> Header option \<times> Transaction option \<times> Receipt option" where
  "identity d = (d_Network d, d_NetworkID d, d_Addr d, d_Header d, d_Tx d, d_Receipt d)"

text \<open>Every step of a handler keeps the invariant and the identity of the contract, forgets no
  completed state and never shrinks the table.\<close>

definition evolves :: "'x data \<Rightarrow> 'x data \<Rightarrow> bool" where
  "evolves d d' \<longleftrightarrow> (data_ok d \<longrightarrow> data_ok d') \<and> identity (dt_descriptor d') = identity (dt_descriptor d)
     \<and> set (completedStates (dt_descriptor d)) \<subseteq> set (completedStates (dt_descriptor d'))
     \<and> length (db_rows (dt_db d)) \<le> length (db_rows (dt_db d'))"

lemma evolves_refl [simp]: "evolves d d"
  by (simp add: evolves_def)

lemma evolves_trans: "evolves d d' \<Longrightarrow> evolves d' d'' \<Longrightarrow> evolves d d''"
  unfolding evolves_def by (metis dual_order.trans)

lemma upd_simps [simp]:
  "dt_descriptor (upd f d) = f (dt_descriptor d)" "dt_db (upd f d) = dt_db d"
  "dt_files (upd f d) = dt_files d" "dt_clock (upd f d) = dt_clock d"
  by (simp_all add: upd_def)

lemma setters [simp]:
  "completedStates (SetContract c x) = completedStates x" "failedStates (SetContract c x) = failedStates x"
  "d_nextState (SetContract c x) = d_nextState x" "identity (SetContract c x) = identity x"
  "completedStates (SetNextState s x) = completedStates x" "failedStates (SetNextState s x) = failedStates x"
  "d_nextState (SetNextState s x) = s" "identity (SetNextState s x) = identity x"
  "completedStates (SetContractModel m x) = completedStates x" "failedStates (SetContractModel m x) = failedStates x"
  "d_nextState (SetContractModel m x) = d_nextState x" "identity (SetContractModel m x) = identity x"
  "completedStates (set_cdescriptor cdesc x) = completedStates x" "failedStates (set_cdescriptor cdesc x) = failedStates x"
  "d_nextState (set_cdescriptor cdesc x) = d_nextState x" "identity (set_cdescriptor cdesc x) = identity x"
  "identity (AppendCompletedState s x) = identity x" "identity (AppendFailedState s x) = identity x"
  "identity (RemoveFailedState s x) = identity x" "identity (x\<lparr>d_Processed := b\<rparr>) = identity x"
  "identity (x\<lparr>d_SelfDestructed := b\<rparr>) = identity x"
  by (simp_all add: SetContract_def SetNextState_def SetContractModel_def set_cdescriptor_def identity_def
      AppendCompletedState_def AppendFailedState_def RemoveFailedState_def)

lemma setters_contract [simp]:
  "d_contract (SetContract c x) = c" "d_contract (SetNextState s x) = d_contract x"
  "d_contract (SetContractModel m x) = d_contract x"
  "d_contract (AppendCompletedState s x) = d_contract x" "d_contract (AppendFailedState s x) = d_contract x"
  "d_contract (RemoveFailedState s x) = d_contract x"
  "contractModel (SetContract c x) = contractModel x" "contractModel (SetNextState s x) = contractModel x"
  "contractModel (SetContractModel m x) = m" "contractModel (set_cdescriptor cdesc x) = contractModel x"
  "contractModel (AppendCompletedState s x) = contractModel x" "contractModel (AppendFailedState s x) = contractModel x"
  "contractModel (RemoveFailedState s x) = contractModel x"
  "d_Processed (SetContract c x) = d_Processed x" "d_Processed (set_cdescriptor cdesc x) = d_Processed x"
  "d_Processed (AppendCompletedState s x) = d_Processed x" "d_Processed (AppendFailedState s x) = d_Processed x"
  "d_Processed (RemoveFailedState s x) = d_Processed x" "d_Processed (SetContractModel m x) = d_Processed x"
  "d_Processed (SetNextState n x) = d_Processed x"
  by (simp_all add: SetContract_def SetNextState_def SetContractModel_def set_cdescriptor_def
      AppendCompletedState_def AppendFailedState_def RemoveFailedState_def)

lemma set_AppendCompletedState [simp]:
  "set (completedStates (AppendCompletedState s x)) = insert s (set (completedStates x))"
  by (simp add: AppendCompletedState_def)

lemma has_setters [simp]:
  "HasCompletedState (SetContract c x) s = HasCompletedState x s" "HasFailedState (SetContract c x) s = HasFailedState x s"
  "HasCompletedState (set_cdescriptor cdesc x) s = HasCompletedState x s"
  "HasFailedState (set_cdescriptor cdesc x) s = HasFailedState x s"
  "HasCompletedState (SetContractModel m x) s = HasCompletedState x s"
  "HasFailedState (SetContractModel m x) s = HasFailedState x s"
  "HasCompletedState (SetNextState n x) s = HasCompletedState x s"
  "HasFailedState (SetNextState n x) s = HasFailedState x s"
  "HasCompletedState (x\<lparr>d_SelfDestructed := b\<rparr>) s = HasCompletedState x s"
  "HasFailedState (x\<lparr>d_SelfDestructed := b\<rparr>) s = HasFailedState x s"
  "HasCompletedState (x\<lparr>d_Processed := b\<rparr>) s = HasCompletedState x s"
  "HasFailedState (x\<lparr>d_Processed := b\<rparr>) s = HasFailedState x s"
  by (simp_all add: HasCompletedState_def HasFailedState_def)

lemma HasCompletedState_iff: "HasCompletedState x s \<longleftrightarrow> s \<in> set (completedStates x)"
  by (rule completed.has_iff)

lemma evolves_upd:
  assumes "identity (f (dt_descriptor d)) = identity (dt_descriptor d)"
    and "set (completedStates (dt_descriptor d)) \<subseteq> set (completedStates (f (dt_descriptor d)))"
    and "distinct (completedStates (dt_descriptor d)) \<Longrightarrow> distinct (completedStates (f (dt_descriptor d)))"
    and "distinct (failedStates (dt_descriptor d)) \<Longrightarrow> distinct (failedStates (f (dt_descriptor d)))"
  shows "evolves d (upd f d)"
  using assms by (simp add: evolves_def data_ok_def)

lemma evolves_ops [simp]:
  "evolves d (upd (SetContract c) d)" "evolves d (upd (SetNextState s) d)"
  "evolves d (upd (SetContractModel m) d)" "evolves d (upd (set_cdescriptor cdesc) d)"
  "evolves d (upd (AppendCompletedState s) d)" "evolves d (upd (AppendFailedState s) d)"
  "evolves d (upd (RemoveFailedState s) d)" "evolves d (upd (\<lambda>x. x\<lparr>d_Processed := b\<rparr>) d)"
  "evolves d (upd (\<lambda>x. x\<lparr>d_SelfDestructed := b\<rparr>) d)"
  by (rule evolves_upd; auto simp: completed.distinct_add failed.distinct_add failed.get_rem)+

lemma evolves_then [simp]:
  assumes "evolves d d'"
  shows "evolves d (upd (SetContract c) d')" "evolves d (upd (SetNextState s) d')"
    "evolves d (upd (SetContractModel m) d')" "evolves d (upd (set_cdescriptor cdesc) d')"
    "evolves d (upd (AppendCompletedState s) d')" "evolves d (upd (AppendFailedState s) d')"
    "evolves d (upd (RemoveFailedState s) d')" "evolves d (upd (\<lambda>x. x\<lparr>d_Processed := b\<rparr>) d')"
    "evolves d (upd (\<lambda>x. x\<lparr>d_SelfDestructed := b\<rparr>) d')"
  using assms by (auto intro: evolves_trans)

lemma evolves_db:
  "(db_wf (dt_db d) \<Longrightarrow> db_wf t) \<Longrightarrow> length (db_rows (dt_db d)) \<le> length (db_rows t) \<Longrightarrow> evolves d (d\<lparr>dt_db := t\<rparr>)"
  by (auto simp: evolves_def data_ok_def)

lemma evolves_fields [simp]:
  "evolves d (d'\<lparr>dt_clock := t\<rparr>) = evolves d d'" "evolves d (d'\<lparr>dt_files := f\<rparr>) = evolves d d'"
  by (simp_all add: evolves_def data_ok_def)

lemma length_rows_Save: "length (db_rows t) \<le> length (db_rows (snd (SaveContract cd c t)))"
  by (auto simp: SaveContract_def db_poll_def Let_def case_prod_unfold exec_insert_def split: sum.splits option.splits)

lemma length_rows_Update: "length (db_rows (snd (UpdateContract cd c t))) = length (db_rows t)"
  by (auto simp: UpdateContract_def db_poll_def Let_def case_prod_unfold exec_update_def split: sum.splits option.splits)

lemma go_all_call:
  assumes "Q d" and "\<And>r c. P (r, upd (SetContract (Some c)) d)" and "\<And>c. Q (upd (SetContract (Some c)) d)"
  shows "go_all P Q (call_contract m d)"
proof (cases "GetContract (dt_descriptor d)")
  case (Some c)
  with assms show ?thesis by (cases "m c") (auto simp: call_contract_def)
qed (use assms in \<open>simp add: call_contract_def\<close>)

lemma go_all_log_block: "P d \<Longrightarrow> Q d \<Longrightarrow> go_all P Q (log_block d)"
  by (simp add: log_block_def)

lemma go_all_log_provider: "P d \<Longrightarrow> Q d \<Longrightarrow> go_all P Q (log_provider d)"
  by (simp add: log_provider_def go_all_log_block)

text \<open>Two relations between the data before and after a stage of a handler. \<open>moves\<close>: the data
  evolves and the pending next state stays; \<open>quiet\<close>: nothing outside the descriptor changes, and
  neither do the stored model, the processed flag and the fate of the final state.\<close>

definition moves :: "'x data \<Rightarrow> 'x data \<Rightarrow> bool" where
  "moves d d' \<longleftrightarrow> evolves d d' \<and> d_nextState (dt_descriptor d') = d_nextState (dt_descriptor d)"

definition quiet :: "'x data \<Rightarrow> 'x data \<Rightarrow> bool" where
  "quiet d d' \<longleftrightarrow> dt_db d' = dt_db d \<and> dt_files d' = dt_files d \<and> dt_clock d' = dt_clock d
     \<and> contractModel (dt_descriptor d') = contractModel (dt_descriptor d)
     \<and> d_Processed (dt_descriptor d') = d_Processed (dt_descriptor d)
     \<and> identity (dt_descriptor d') = identity (dt_descriptor d)
     \<and> HasCompletedState (dt_descriptor d') FinalState = HasCompletedState (dt_descriptor d) FinalState
     \<and> HasFailedState (dt_descriptor d') FinalState = HasFailedState (dt_descriptor d) FinalState"

text \<open>What the stages between discovery and the final state share: they change the data only by
  these updates of the descriptor, so a relation that holds for each update and composes holds for
  the stages.\<close>

locale stage_relation =
  fixes R :: "'x data \<Rightarrow> 'x data \<Rightarrow> bool"
  assumes R_refl [simp]: "R d d"
    and R_trans: "R d d' \<Longrightarrow> R d' d'' \<Longrightarrow> R d d''"
    and R_contract [simp]: "R d (upd (SetContract c) d)"
    and R_cdescriptor [simp]: "R d (upd (set_cdescriptor cdesc) d)"
    and R_self_destructed [simp]: "R d (upd (\<lambda>x. x\<lparr>d_SelfDestructed := b\<rparr>) d)"
    and R_completed: "s \<noteq> FinalState \<Longrightarrow> R d (upd (AppendCompletedState s) d)"
    and R_failed: "s \<noteq> FinalState \<Longrightarrow> R d (upd (AppendFailedState s) d)"
    and R_removed: "s \<noteq> FinalState \<Longrightarrow> R d (upd (RemoveFailedState s) d)"
begin

definition stage :: "'x data \<Rightarrow> ('x data, 'x data) go \<Rightarrow> bool" where
  "stage d r \<longleftrightarrow> go_all (R d) (R d) r"

lemma stage_simps [simp]:
  "stage d (Returns d') \<longleftrightarrow> R d d'" "stage d (Panics d') \<longleftrightarrow> R d d'" "stage d (Blocks d') \<longleftrightarrow> R d d'"
  by (simp_all add: stage_def)

lemma stage_trans: "R d d' \<Longrightarrow> stage d' r \<Longrightarrow> stage d r"
  unfolding stage_def by (erule go_all_mono) (auto intro: R_trans)

lemma stage_bind: "stage d r \<Longrightarrow> (\<And>d'. stage d' (f d')) \<Longrightarrow> stage d (go_bind r f)"
  by (cases r) (auto intro: stage_trans)

lemma stage_log [simp]: "stage d (log_block d)" "stage d (log_provider d)"
  by (simp_all add: log_block_def log_provider_def)

lemma stage_call:
  assumes "\<And>r c. stage (upd (SetContract (Some c)) d) (f (r, upd (SetContract (Some c)) d))"
  shows "stage d (go_bind (call_contract m d) f)"
  unfolding stage_def go_all_bind
  by (rule go_all_call) (use stage_trans [OF R_contract assms] in \<open>simp_all add: stage_def\<close>)

lemmas stage_upd = R_completed R_failed R_removed

lemma stage_discover_validate: "stage d (discover_validate env d)"
proof -
  have "discover_validate env d = (if GetContract (dt_descriptor d) = None then Returns d
      else go_bind (call_contract (IsValid (e_solgo env)) d)
        (\<lambda>(valid, d'). Returns (upd (\<lambda>x. x\<lparr>d_SelfDestructed := (valid = False)\<rparr>) d')))"
    by (cases "call_contract (IsValid (e_solgo env)) d") (auto simp: discover_validate_def)
  then show ?thesis by (simp add: stage_call)
qed

lemma stage_metadata_discover: "stage d (metadata_discover env d)"
  unfolding metadata_discover_def
  by (rule stage_call) (auto split: option.splits intro!: stage_bind simp: stage_upd)

lemma stage_providers_cached: "stage d (providers_cached env cdesc d)"
  unfolding providers_cached_def
  by (auto split: option.splits sum.splits intro: R_trans [OF R_cdescriptor R_removed])

lemma stage_providers_remote: "stage d (providers_remote env d)"
  by (auto simp: providers_remote_def stage_upd split: option.splits intro!: stage_call)

lemma stage_parser_parse: "stage d (parser_parse env d)"
  unfolding parser_parse_def
  by (rule stage_call)
     (auto split: option.splits intro!: stage_bind simp: stage_upd intro: R_trans [OF R_removed R_completed])

lemma stage_constructor_discover: "stage d (constructor_discover env cdesc d)"
  by (auto simp: constructor_discover_def split: option.splits bool.splits intro!: stage_call)

text \<open>The handlers of the middle of the pipeline, once discovery is completed.\<close>

definition process_stage :: "State \<Rightarrow> 'x data \<Rightarrow> (State \<times> 'x data \<times> error option, 'x data) go \<Rightarrow> bool" where
  "process_stage n d r \<longleftrightarrow> go_all (\<lambda>(n', d', e). n' = n \<and> e = None \<and> R d d') (R d) r"

lemma process_stage_if:
  assumes "stage d r" and "s \<noteq> FinalState"
  shows "process_stage n d (go_bind r (\<lambda>d'. Returns (n, (if P d' then upd (AppendCompletedState s) d' else d'), None)))"
  using assms(1) unfolding stage_def process_stage_def go_all_bind
  by (rule go_all_mono) (use assms(2) in \<open>auto intro: R_trans [OF _ R_completed]\<close>)

lemma process_stages:
  assumes "HasCompletedState (dt_descriptor d) DiscoverState"
  shows "process_stage SourceProvidersState d (metadata_Process env d)"
    and "process_stage SourcesState d (providers_Process env d)"
    and "process_stage ParserState d (sources_Process env d)"
    and "process_stage ConstructorState d (parser_Process env d)"
    and "process_stage FinalState d (constructor_Process env d)"
proof -
  have pan: "process_stage n d (Panics d)" for n by (simp add: process_stage_def)
  have meta: "stage d (case ct_descriptor c of None \<Rightarrow> Returns d
      | Some cdesc \<Rightarrow> if \<not> d_SelfDestructed (dt_descriptor d) \<and> \<not> HasMetadata (e_solgo env) cdesc
         then metadata_discover env d else Returns d)" for c
    by (simp add: stage_metadata_discover split: option.splits)
  show "process_stage SourceProvidersState d (metadata_Process env d)"
  proof (cases "GetContract (dt_descriptor d)")
    case (Some c)
    show ?thesis
      unfolding metadata_Process_def
      by (simp only: assms Some option.case simp_thms if_False) (rule process_stage_if [OF meta], simp)
  qed (use assms pan in \<open>simp add: metadata_Process_def\<close>)
  have "stage d (go_bind (providers_cached env cdesc d) (providers_remote env))" for cdesc
    by (rule stage_bind [OF stage_providers_cached stage_providers_remote])
  from process_stage_if [OF this] pan assms
  show "process_stage SourcesState d (providers_Process env d)"
    by (simp add: providers_Process_def go_bind_assoc split: option.split)
  show "process_stage ParserState d (sources_Process env d)"
    using assms by (simp add: sources_Process_def process_stage_def R_completed)
  have "stage d (if HasSources (e_solgo env) cdesc then parser_parse env d else Returns d)" for cdesc
    by (simp add: stage_parser_parse)
  from process_stage_if [OF this, where s = ParserState and n = ConstructorState
      and P = "\<lambda>d. \<not> HasFailedState (dt_descriptor d) ParserState"] pan assms
  show "process_stage ConstructorState d (parser_Process env d)"
    unfolding parser_Process_def by (simp only: assms simp_thms if_False state_neq split: option.split)
  have "process_stage FinalState d (go_bind (constructor_discover env cdesc d) (\<lambda>d1. Returns (FinalState, d1, None)))" for cdesc
    using stage_constructor_discover [of d env cdesc]
    by (auto simp: process_stage_def stage_def elim!: go_all_mono)
  with pan assms show "process_stage FinalState d (constructor_Process env d)"
    by (simp add: constructor_Process_def split: option.split)
qed

end

interpretation moving: stage_relation moves
  by unfold_locales (auto simp: moves_def intro: evolves_trans)

interpretation quiet: stage_relation quiet
  by unfold_locales (simp_all add: quiet_def)

lemma moves_final_failed: "moving.stage d (final_failed d)"
  by (auto simp: final_failed_def moves_def intro!: moving.stage_bind)

lemma evolves_Update: "evolves d (d\<lparr>dt_db := snd (UpdateContract cd c (dt_db d))\<rparr>)"
  by (rule evolves_db) (simp_all add: UpdateContract_wf length_rows_Update)

lemma evolves_Save: "evolves d (d\<lparr>dt_db := snd (SaveContract cd c (dt_db d))\<rparr>)"
  by (rule evolves_db) (simp_all add: SaveContract_wf length_rows_Save)

lemma moves_writes [simp]:
  "moves d (d\<lparr>dt_db := snd (UpdateContract cd c (dt_db d))\<rparr>)"
  "moves d (d\<lparr>dt_db := snd (SaveContract cd c (dt_db d))\<rparr>)" "moves d (d\<lparr>dt_files := f\<rparr>)"
  "moves d ((upd (\<lambda>x. x\<lparr>d_Processed := b\<rparr>) d)\<lparr>dt_clock := t\<rparr>)" "moves d (upd (\<lambda>x. x\<lparr>d_Processed := b\<rparr>) d)"
  by (simp_all add: moves_def evolves_Update evolves_Save)

lemma moves_final_update: "moving.stage d (final_update env entry d)"
  using moving.stage_trans [OF moves_writes(1) moves_final_failed]
  by (auto simp: final_update_def case_prod_unfold)

lemma moves_final_store: "moving.stage d (final_store env entry d)"
proof (cases "SaveContract (e_codec env) entry (dt_db d)")
  case (Pair e t)
  then have "moves d (d\<lparr>dt_db := t\<rparr>)" using moves_writes(2) [of d "e_codec env" entry] by simp
  with Pair show ?thesis
    by (auto simp: final_store_def moves_final_update split: option.splits
        intro: moving.stage_trans [OF _ moves_final_failed] moving.stage_trans [OF _ moves_final_update])
qed

lemma moves_final_sources: "moving.stage d (final_sources env cdesc d)"
  using moving.stage_trans [OF moves_writes(3) moves_final_failed]
  by (auto simp: final_sources_def split: option.splits prod.splits)

section \<open>Where the handlers lead\<close>

text \<open>Every handler after discovery returns no error: it goes back to discovery while that state is
  not completed, and to its fixed successor afterwards.\<close>

definition route :: "State \<Rightarrow> 'x data \<Rightarrow> (State \<times> 'x data \<times> error option, 'x data) go \<Rightarrow> bool" where
  "route n d r \<longleftrightarrow>
     go_all (\<lambda>(n', d', e). e = None \<and> evolves d d' \<and>
        (if DiscoverState \<in> set (completedStates (dt_descriptor d))
         then n' = n \<and> d_nextState (dt_descriptor d') = d_nextState (dt_descriptor d)
         else n' = DiscoverState \<and> d_nextState (dt_descriptor d') = MetadataState)) (evolves d) r"

lemma route_back:
  "DiscoverState \<notin> set (completedStates (dt_descriptor d)) \<Longrightarrow>
     route n d (Returns (DiscoverState, upd (SetNextState MetadataState) d, None)) \<and> route n d (Panics d)"
  by (simp add: route_def)

lemma route_process_stage:
  "DiscoverState \<in> set (completedStates (dt_descriptor d)) \<Longrightarrow> moving.process_stage n d r \<Longrightarrow> route n d r"
  unfolding route_def moving.process_stage_def by (erule go_all_mono) (auto simp: moves_def)

lemma route_forward:
  "(HasCompletedState (dt_descriptor d) DiscoverState \<Longrightarrow> moving.process_stage n d r)
   \<Longrightarrow> (\<not> HasCompletedState (dt_descriptor d) DiscoverState
        \<Longrightarrow> r = Returns (DiscoverState, upd (SetNextState MetadataState) d, None) \<or> r = Panics d)
   \<Longrightarrow> route n d r"
  using route_back route_process_stage by (metis HasCompletedState_iff)

lemma moving_final:
  assumes "HasCompletedState (dt_descriptor d) DiscoverState"
  shows "moving.process_stage DoneState d (final_Process env d)"
proof -
  let ?d = "\<lambda>c. (upd (\<lambda>x. x\<lparr>d_Processed := True\<rparr>) d)\<lparr>dt_clock := c\<rparr>"
  have "moving.stage d (final_store env entry (?d c))" for entry c
    by (rule moving.stage_trans [OF moves_writes(4) moves_final_store])
  then have "moving.stage d (go_bind (final_store env entry (?d c)) (final_sources env cdesc))" for entry c cdesc
    by (rule moving.stage_bind) (rule moves_final_sources)
  moreover have "moving.process_stage DoneState d (go_bind r
      (\<lambda>d3. Returns (DoneState, (if \<not> HasFailedState (dt_descriptor d3) FinalState
         then upd (AppendCompletedState FinalState) d3 else d3), None)))" if "moving.stage d r" for r
    using that unfolding moving.process_stage_def moving.stage_def go_all_bind
    by (rule go_all_mono) (auto simp: moves_def)
  ultimately have "moving.process_stage DoneState d (go_bind (final_store env entry (?d c)) (\<lambda>d2.
      go_bind (final_sources env cdesc d2) (\<lambda>d3. Returns (DoneState,
        (if \<not> HasFailedState (dt_descriptor d3) FinalState
         then upd (AppendCompletedState FinalState) d3 else d3), None))))" for entry c cdesc
    by (simp only: go_bind_assoc [symmetric])
  with assms show ?thesis
    by (auto simp: final_Process_def Let_def moving.process_stage_def split: option.split)
qed

lemma routes:
  "route SourceProvidersState d (metadata_Process env d)" "route SourcesState d (providers_Process env d)"
  "route ParserState d (sources_Process env d)" "route ConstructorState d (parser_Process env d)"
  "route FinalState d (constructor_Process env d)" "route DoneState d (final_Process env d)"
  by (rule route_forward [OF moving.process_stages(1)] route_forward [OF moving.process_stages(2)]
      route_forward [OF moving.process_stages(3)] route_forward [OF moving.process_stages(4)]
      route_forward [OF moving.process_stages(5)] route_forward [OF moving_final], assumption,
      simp add: need_discovery_def metadata_Process_def providers_Process_def sources_Process_def
        parser_Process_def constructor_Process_def final_Process_def)+

text \<open>Discovery ends the run, fails, or completes its state and hands over to the pending state or
  to the metadata state; a pending state is consumed.\<close>

definition discover_route :: "'x data \<Rightarrow> (State \<times> 'x data \<times> error option, 'x data) go \<Rightarrow> bool" where
  "discover_route d r \<longleftrightarrow>
     go_all (\<lambda>(n, d', e). evolves d d' \<and> (e = None \<longrightarrow> n = DoneState \<or>
        (DiscoverState \<in> set (completedStates (dt_descriptor d')) \<and> d_nextState (dt_descriptor d') = []
         \<and> n = (if d_nextState (dt_descriptor d) = [] then MetadataState else d_nextState (dt_descriptor d)))))
       (evolves d) r"

lemma route_finish:
  "evolves d d' \<Longrightarrow> DiscoverState \<in> set (completedStates (dt_descriptor d'))
   \<Longrightarrow> d_nextState (dt_descriptor d') = d_nextState (dt_descriptor d) \<Longrightarrow> discover_route d (discover_finish d')"
  by (simp add: discover_route_def discover_finish_def HasNextState_def)

lemma evolves_lookup:
  "evolves d (d\<lparr>dt_db := snd (GetContractByUniqueIndex cd n b a (dt_db d))\<rparr>)"
  by (rule evolves_db) (simp_all add: GetContractByUniqueIndex_db)

lemma route_lookup: "discover_route d (discover_lookup env header d)"
proof -
  let ?r = "GetContractByUniqueIndex (e_codec env) (ToBig (e_solgo env) (d_NetworkID (dt_descriptor d)))
      (hd_Number header) (d_Addr (dt_descriptor d)) (dt_db d)"
  let ?d1 = "d\<lparr>dt_db := snd ?r\<rparr>"
  have ev: "evolves d ?d1" by (rule evolves_lookup)
  have fin: "discover_route d (discover_finish (upd (AppendCompletedState DiscoverState) (upd (SetContractModel m) ?d1)))" for m
    using ev by (intro route_finish) simp_all
  have "discover_route d (go_bind (log_provider ?d1) (\<lambda>d2. Returns (ErrorState, d2, Some err)))" for err
    unfolding discover_route_def go_all_bind by (rule go_all_log_provider) (simp_all add: ev)
  moreover have "discover_route d (Panics (upd (SetContractModel m) ?d1))"
    "discover_route d (Returns (DoneState, upd (SetContractModel m) ?d1, None))" for m
    using ev by (simp_all add: discover_route_def)
  ultimately show ?thesis
    using fin by (simp add: discover_lookup_def Let_def case_prod_unfold split: sum.split option.split)
qed

lemma route_discover: "discover_route d (discover_Process env d)"
proof -
  have "discover_route d (go_bind (discover_validate env d)
      (\<lambda>d1. if u_db (e_unpacker env) = None then Panics d1 else discover_lookup env header d1))" for header
    using moving.stage_discover_validate [of d env] unfolding moving.stage_def discover_route_def go_all_bind
  proof (rule go_all_mono)
    fix d1
    assume "moves d d1"
    then have d1: "evolves d d1 \<and> d_nextState (dt_descriptor d1) = d_nextState (dt_descriptor d)"
      by (simp add: moves_def)
    have "go_all (\<lambda>(n, d', e). evolves d d' \<and> (e = None \<longrightarrow> n = DoneState \<or>
        (DiscoverState \<in> set (completedStates (dt_descriptor d')) \<and> d_nextState (dt_descriptor d') = []
         \<and> n = (if d_nextState (dt_descriptor d) = [] then MetadataState else d_nextState (dt_descriptor d)))))
       (evolves d) (discover_lookup env header d1)"
      using route_lookup [of d1 env header] unfolding discover_route_def
      by (rule go_all_mono) (use d1 in \<open>auto intro: evolves_trans\<close>)
    with d1 show "go_all (\<lambda>(n, d', e). evolves d d' \<and> (e = None \<longrightarrow> n = DoneState \<or>
        (DiscoverState \<in> set (completedStates (dt_descriptor d')) \<and> d_nextState (dt_descriptor d') = []
         \<and> n = (if d_nextState (dt_descriptor d) = [] then MetadataState else d_nextState (dt_descriptor d)))))
       (evolves d) (if u_db (e_unpacker env) = None then Panics d1 else discover_lookup env header d1)"
      by simp
  qed (simp add: moves_def)
  moreover have "discover_route d (discover_error env what d)" for what
    by (simp add: discover_route_def discover_error_def)
  ultimately show ?thesis by (simp add: discover_Process_def split: option.split)
qed

lemma route_error: "go_all (\<lambda>(n, d', e). n = DoneState \<and> e = None \<and> d' = d) (\<lambda>d'. d' = d) (error_Process env d)"
  by (simp add: error_Process_def go_all_log_provider)

end
