(* ===== verification/Unpack.thy ===== *)
theory Unpack
  imports Handlers
begin

text \<open>
  The unpacking of a contract as a whole: \<open>RegisterMachineStates\<close>
  (src/pkg/unpacker/machine.go) fills the handler table and \<open>Unpack\<close>
  (src/pkg/unpacker/unpack.go) runs the machine from a given state. The result \<open>None\<close> of
  \<open>Unpack\<close> would be a run that never ends; \<open>Unpack_terminates\<close> shows that there is none.
\<close>

section \<open>Operations\<close>

definition RegisterMachineStates :: "'x env \<Rightarrow> (error option, 'x data) sm_call" where
  "RegisterMachineStates env sm =
     go_bind (RegisterState DiscoverState (NewDiscoverContractHandler env) sm) (\<lambda>(_, sm).
     go_bind (RegisterState MetadataState (NewMetadataContractHandler env) sm) (\<lambda>(_, sm).
     go_bind (RegisterState SourceProvidersState (NewProvidersContractHandler env) sm) (\<lambda>(_, sm).
     go_bind (RegisterState SourcesState (NewSourcesContractHandler env) sm) (\<lambda>(_, sm).
     go_bind (RegisterState ParserState (NewParserContractHandler env) sm) (\<lambda>(_, sm).
     go_bind (RegisterState ConstructorState (NewConstructorContractHandler env) sm) (\<lambda>(_, sm).
     go_bind (RegisterState ErrorState (NewErrorContractHandler env) sm) (\<lambda>(_, sm).
     go_bind (RegisterErrorState ErrorState sm) (\<lambda>(err, sm).
       if err \<noteq> None then Returns (err, sm)
       else
     go_bind (RegisterState FinalState (NewFinalContractHandler env) sm) (\<lambda>(_, sm).
     go_bind (RegisterFinalState DoneState sm) (\<lambda>(err, sm).
       if err \<noteq> None then Returns (err, sm) else Returns (None, sm)))))))))))"

definition unpack_result ::
  "(error option \<times> 'x data StateMachine, 'x data StateMachine) go \<Rightarrow> (error option \<times> 'x data, 'x data) go" where
  "unpack_result r =
     map_go (\<lambda>(err, sm). (map_option (\<lambda>e. Errorf (''failed to process contract unpacking state machine: ''
         @ Error e)) err, sm_data sm)) sm_data r"

definition Unpack ::
  "'x env \<Rightarrow> gocontext \<Rightarrow> State \<Rightarrow> 'x data \<Rightarrow> (error option \<times> 'x data, 'x data) go option" where
  "Unpack env ctx state d =
     (case RegisterMachineStates env (NewStateMachine ctx state d) of
        Returns (Some err, sm) \<Rightarrow> Some (Returns (Some err, sm_data sm))
      | Returns (None, sm) \<Rightarrow> map_option unpack_result (Process sm)
      | Panics sm \<Rightarrow> Some (Panics (sm_data sm))
      | Blocks sm \<Rightarrow> Some (Blocks (sm_data sm)))"

section \<open>The handler table\<close>

definition unpack_handlers :: "'x env \<Rightarrow> State \<rightharpoonup> 'x data Handler" where
  "unpack_handlers env =
     [DiscoverState \<mapsto> NewDiscoverContractHandler env, MetadataState \<mapsto> NewMetadataContractHandler env,
      SourceProvidersState \<mapsto> NewProvidersContractHandler env, SourcesState \<mapsto> NewSourcesContractHandler env,
      ParserState \<mapsto> NewParserContractHandler env, ConstructorState \<mapsto> NewConstructorContractHandler env,
      ErrorState \<mapsto> NewErrorContractHandler env, FinalState \<mapsto> NewFinalContractHandler env]"

definition unpack_machine :: "'x env \<Rightarrow> gocontext \<Rightarrow> State \<Rightarrow> 'x data \<Rightarrow> 'x data StateMachine" where
  "unpack_machine env ctx state d =
     (NewStateMachine ctx state d)\<lparr>states := Some (unpack_handlers env), errorState := ErrorState,
        finalState := DoneState\<rparr>"

lemma RegisterMachineStates_eq:
  "RegisterMachineStates env (NewStateMachine ctx state d) = Returns (None, unpack_machine env ctx state d)"
  by (simp add: RegisterMachineStates_def RegisterState_def RegisterErrorState_def RegisterFinalState_def
      locked_def NewStateMachine_def unpack_machine_def unpack_handlers_def)

lemma Unpack_eq: "Unpack env ctx state d = map_option unpack_result (Process (unpack_machine env ctx state d))"
  by (simp add: Unpack_def RegisterMachineStates_eq)

text \<open>The process callback registered for a state.\<close>

definition process_of :: "'x env \<Rightarrow> State \<rightharpoonup> 'x process" where
  "process_of env =
     [DiscoverState \<mapsto> discover_Process env, MetadataState \<mapsto> metadata_Process env,
      SourceProvidersState \<mapsto> providers_Process env, SourcesState \<mapsto> sources_Process env,
      ParserState \<mapsto> parser_Process env, ConstructorState \<mapsto> constructor_Process env,
      ErrorState \<mapsto> error_Process env, FinalState \<mapsto> final_Process env]"

lemma callbacks_pass [simp]:
  "discover_Enter = (\<lambda>d. Returns (d, None))" "discover_Exit = (\<lambda>d. Returns (d, None))"
  "metadata_Enter = (\<lambda>d. Returns (d, None))" "metadata_Exit = (\<lambda>d. Returns (d, None))"
  "providers_Enter = (\<lambda>d. Returns (d, None))" "providers_Exit = (\<lambda>d. Returns (d, None))"
  "sources_Enter = (\<lambda>d. Returns (d, None))" "sources_Exit = (\<lambda>d. Returns (d, None))"
  "parser_Enter = (\<lambda>d. Returns (d, None))" "parser_Exit = (\<lambda>d. Returns (d, None))"
  "constructor_Enter = (\<lambda>d. Returns (d, None))" "constructor_Exit = (\<lambda>d. Returns (d, None))"
  "final_Enter = (\<lambda>d. Returns (d, None))" "final_Exit = (\<lambda>d. Returns (d, None))"
  "error_Enter = (\<lambda>d. Returns (d, None))" "error_Exit = (\<lambda>d. Returns (d, None))"
  by (simp_all add: fun_eq_iff discover_Enter_def discover_Exit_def metadata_Enter_def metadata_Exit_def
      providers_Enter_def providers_Exit_def sources_Enter_def sources_Exit_def parser_Enter_def
      parser_Exit_def constructor_Enter_def constructor_Exit_def final_Enter_def final_Exit_def
      error_Enter_def error_Exit_def)

lemma unpack_handlers_plain:
  "unpack_handlers env s = Some h \<Longrightarrow> \<exists>g. process_of env s = Some g \<and> plain_handler h g"
  by (auto simp: unpack_handlers_def process_of_def plain_handler_def NewDiscoverContractHandler_def
      NewMetadataContractHandler_def NewProvidersContractHandler_def NewSourcesContractHandler_def
      NewParserContractHandler_def NewConstructorContractHandler_def NewErrorContractHandler_def
      NewFinalContractHandler_def split: if_splits)

lemma unpack_handlers_dom: "unpack_handlers env s = None \<longleftrightarrow> process_of env s = None"
  by (simp add: unpack_handlers_def process_of_def)

text \<open>The successors in the pipeline.\<close>

definition succ_of :: "State \<rightharpoonup> State" where
  "succ_of =
     [MetadataState \<mapsto> SourceProvidersState, SourceProvidersState \<mapsto> SourcesState,
      SourcesState \<mapsto> ParserState, ParserState \<mapsto> ConstructorState, ConstructorState \<mapsto> FinalState,
      FinalState \<mapsto> DoneState]"

lemma process_of_cases:
  assumes "process_of env s = Some g"
  obtains "s = DiscoverState" "g = discover_Process env"
  | "s = ErrorState" "g = error_Process env"
  | n where "succ_of s = Some n" "\<forall>d. route n d (g d)"
  using assms
  by (auto simp: process_of_def succ_of_def routes split: if_splits)

lemma evolves_process: "process_of env s = Some g \<Longrightarrow> go_all (\<lambda>(n, d', e). evolves d d') (evolves d) (g d)"
proof (erule process_of_cases)
  assume "g = discover_Process env"
  with route_discover [of d env] show ?thesis
    by (auto simp: discover_route_def elim!: go_all_mono)
next
  assume "g = error_Process env"
  with route_error [of d env] show ?thesis by (auto elim!: go_all_mono)
next
  fix n
  assume "\<forall>d. route n d (g d)"
  then have "route n d (g d)" ..
  then show ?thesis by (auto simp: route_def elim!: go_all_mono)
qed

text \<open>A relation between the data before and after a process callback, reflexive and transitive, goes from the beginning of a
  run to whatever data it ends or is interrupted with: for every start the table meets the machine's interface.\<close>

locale run_relation =
  fixes env :: "'x env"
    and R :: "'x data \<Rightarrow> 'x data \<Rightarrow> bool"
  assumes rel_refl: "R d d"
    and rel_trans: "R d d' \<Longrightarrow> R d' d'' \<Longrightarrow> R d d''"
    and rel_process: "process_of env s = Some g \<Longrightarrow> go_all (\<lambda>(n, d', e). R d d') (R d) (g d)"
begin

lemma table: "handler_table (unpack_handlers env) (R d0)"
proof unfold_locales
  fix s h f d
  assume h: "unpack_handlers env s = Some h" and ok: "R d0 d"
  from unpack_handlers_plain [OF h] obtain g where g: "process_of env s = Some g" "plain_handler h g" by blast
  show "go_all (\<lambda>(d', e). R d0 d') (R d0) (f d)" if "h_Enter h = Some f"
    using that g(2) ok by (simp add: plain_handler_def)
  show "go_all (\<lambda>(d', e). R d0 d') (R d0) (f d)" if "h_Exit h = Some f"
    using that g(2) ok by (simp add: plain_handler_def)
next
  fix s h g d
  assume h: "unpack_handlers env s = Some h" and g: "h_Process h = Some g" and ok: "R d0 d"
  from unpack_handlers_plain [OF h] g have "process_of env s = Some g" by (auto simp: plain_handler_def)
  from rel_process [OF this, of d] ok show "go_all (\<lambda>(n, d', e). R d0 d') (R d0) (g d)"
    by (auto elim!: go_all_mono intro: rel_trans)
qed

lemma run_related:
  assumes "Unpack env ctx s d = Some r"
  shows "go_all (\<lambda>(e, d'). R d d') (R d) r"
proof -
  obtain r' where r': "Process (unpack_machine env ctx s d) = Some r'" "r = unpack_result r'"
    using assms by (auto simp: Unpack_eq)
  note good = handler_table.good_def [OF table]
  have "handler_table.good (unpack_handlers env) (R d) (unpack_machine env ctx s d)"
    by (simp add: good unpack_machine_def NewStateMachine_def rel_refl)
  from handler_table.Process_keeps [OF table r'(1) this] show ?thesis
    by (auto simp: r'(2) unpack_result_def handler_table.good_result_def [OF table] good case_prod_unfold
        elim!: go_all_mono)
qed

lemma iteration_related:
  assumes "states sm = Some (unpack_handlers env)"
  shows "case process_iter sm of Next sm' \<Rightarrow> R (sm_data sm) (sm_data sm')
    | Stop r \<Rightarrow> go_all (\<lambda>(e, sm'). R (sm_data sm) (sm_data sm')) (\<lambda>sm'. R (sm_data sm) (sm_data sm')) r"
proof -
  note good = handler_table.good_def [OF table]
  have "handler_table.good (unpack_handlers env) (R (sm_data sm)) sm" using assms by (simp add: good rel_refl)
  from handler_table.good_process_iter [OF table this] show ?thesis
    by (auto simp: handler_table.good_iter_def [OF table] handler_table.good_result_def [OF table] good
        split: loop.splits elim!: go_all_mono)
qed

end

interpretation evolving: run_relation env evolves for env
  by unfold_locales (auto intro: evolves_trans evolves_process)

interpretation unpacking: handler_table "unpack_handlers env" "evolves d0" for env d0
  by (rule evolving.table)

lemmas Unpack_evolves = evolving.run_related

section \<open>Runs\<close>

definition running :: "'x env \<Rightarrow> 'x data StateMachine \<Rightarrow> bool" where
  "running env sm \<longleftrightarrow> states sm = Some (unpack_handlers env) \<and> finalState sm = DoneState
     \<and> errorState sm = ErrorState \<and> \<not> mu sm \<and> \<not> paused sm"

lemma running_machine [simp]: "running env (unpack_machine env ctx s d)"
  by (simp add: running_def unpack_machine_def NewStateMachine_def)

lemma running_entered [simp]: "running env (entered n (sm\<lparr>sm_ctx := c, sm_data := d\<rparr>)) = running env sm"
  by (simp add: running_def)

text \<open>One iteration of a run: the guards, the callback of the current state, and where it leads.\<close>

definition after :: "'x data StateMachine \<Rightarrow> 'x data \<Rightarrow> 'x data StateMachine" where
  "after sm d = sm\<lparr>sm_ctx := advance (sm_ctx sm), sm_data := d\<rparr>"

lemma unpack_iter:
  assumes "running env sm" and "process_of env (currentState sm) = Some g" and "poll (sm_ctx sm) = None"
  shows "process_iter sm =
    (case g (sm_data sm) of
       Returns (n, d, Some e) \<Rightarrow> Stop (Returns (None, entered ErrorState (after sm d)))
     | Returns (n, d, None) \<Rightarrow>
         if n = DoneState then Stop (Returns (None, entered n (after sm d)))
         else if process_of env n = None \<and> n \<noteq> [] then Stop (Returns (None, entered ErrorState (after sm d)))
         else Next (entered n (after sm d))
     | Panics d \<Rightarrow> Stop (Panics (after sm d))
     | Blocks d \<Rightarrow> Stop (Blocks (after sm d)))"
proof -
  obtain h where h: "unpack_handlers env (currentState sm) = Some h"
    using assms(2) unpack_handlers_dom by (metis not_Some_eq)
  with unpack_handlers_plain [OF h] assms(2) have "plain_handler h g" by auto
  moreover have "currentState sm \<noteq> DoneState" using assms(2) by (auto simp: process_of_def)
  ultimately show ?thesis
    using assms(1,3) h
    by (subst process_iter_plain [where g = g and h = h])
       (auto simp: running_def Let_def after_def fail_with_free finish_iter_free unpack_handlers_dom
         split: go.splits option.splits)
qed

lemma unpack_iter_Next:
  assumes "running env sm" and "process_iter sm = Next sm'"
  obtains g n d where "process_of env (currentState sm) = Some g" "g (sm_data sm) = Returns (n, d, None)"
    "n \<noteq> DoneState" "sm' = entered n (after sm d)" "poll (sm_ctx sm) = None"
proof -
  have "poll (sm_ctx sm) = None" and "unpack_handlers env (currentState sm) \<noteq> None"
    using assms by (auto simp: process_iter_def running_def Let_def split: if_splits option.splits)
  then obtain g where g: "process_of env (currentState sm) = Some g"
    using unpack_handlers_dom by (metis not_Some_eq)
  from unpack_iter [OF assms(1) g] assms(2) \<open>poll _ = None\<close> g that show ?thesis
    by (auto split: go.splits option.splits if_splits)
qed

section \<open>Termination\<close>

definition rank :: "State \<Rightarrow> nat" where
  "rank s =
     (if s = DiscoverState then 8 else if s = MetadataState then 7 else if s = SourceProvidersState then 6
      else if s = SourcesState then 5 else if s = ParserState then 4 else if s = ConstructorState then 3
      else if s = FinalState then 2 else 1)"

text \<open>The weight of a run: going back to discovery costs a completed discovery, which happens at most
  once; a pending next state is used at most once; the pipeline itself only moves forward.\<close>

definition weight :: "State \<Rightarrow> 'x Descriptor \<Rightarrow> nat" where
  "weight s x =
     (if DiscoverState \<in> set (completedStates x) then 0 else if s = DiscoverState then 100 else 200)
     + (if d_nextState x = [] then 0 else 20) + rank s"

lemma rank_bounds: "1 \<le> rank s" "rank s \<le> 8"
  by (simp_all add: rank_def)

lemma rank_simps [simp]: "rank DiscoverState = 8" "rank MetadataState = 7"
  by (simp_all add: rank_def)

lemma rank_succ: "succ_of s = Some n \<Longrightarrow> rank n < rank s \<and> s \<noteq> DiscoverState"
  by (auto simp: succ_of_def rank_def split: if_splits)

lemma weight_decreases:
  assumes "running env sm" and "process_iter sm = Next sm'"
  shows "running env sm' \<and> weight (currentState sm') (dt_descriptor (sm_data sm'))
    < weight (currentState sm) (dt_descriptor (sm_data sm))"
proof -
  from unpack_iter_Next [OF assms] obtain g n d where
    g: "process_of env (currentState sm) = Some g" and r: "g (sm_data sm) = Returns (n, d, None)"
    and n: "n \<noteq> DoneState" and sm': "sm' = entered n (after sm d)" by metis
  from g have "weight n (dt_descriptor d) < weight (currentState sm) (dt_descriptor (sm_data sm))"
  proof (cases rule: process_of_cases)
    case 1
    with r n route_discover [of "sm_data sm" env] have
      "DiscoverState \<in> set (completedStates (dt_descriptor d))" "d_nextState (dt_descriptor d) = []"
      "d_nextState (dt_descriptor (sm_data sm)) = [] \<Longrightarrow> n = MetadataState"
      by (auto simp: discover_route_def)
    then show ?thesis
      using rank_bounds [of n] 1 by (auto simp: weight_def)
  next
    case 2
    with r n route_error [of "sm_data sm" env] show ?thesis by simp
  next
    case (3 m)
    with r have "route m (sm_data sm) (Returns (n, d, None))" by metis
    then have "evolves (sm_data sm) d"
      and "if DiscoverState \<in> set (completedStates (dt_descriptor (sm_data sm)))
           then n = m \<and> d_nextState (dt_descriptor d) = d_nextState (dt_descriptor (sm_data sm))
           else n = DiscoverState \<and> d_nextState (dt_descriptor d) = MetadataState"
      by (simp_all add: route_def)
    with rank_succ [OF 3(1)] rank_bounds [of n] rank_bounds [of "currentState sm"] show ?thesis
      by (auto simp: weight_def evolves_def split: if_splits)
  qed
  then show ?thesis using assms(1) by (simp add: sm' after_def)
qed

lemma unpack_returns: "\<exists>r. Unpack env ctx s d = Some r"
proof -
  have "\<exists>r. Process (unpack_machine env ctx s d) = Some r"
    by (rule Process_terminates [where I = "running env" and m = "\<lambda>sm. weight (currentState sm) (dt_descriptor (sm_data sm))"])
       (simp_all add: weight_decreases)
  then show ?thesis by (auto simp: Unpack_eq)
qed

section \<open>The pipeline as a straight line\<close>

text \<open>What the machine does from the discovery state, without a machine: run the handlers in order,
  stop at the first error or at the done state.\<close>

fun follow :: "'x process list \<Rightarrow> 'x data \<Rightarrow> (error option \<times> 'x data, 'x data) go" where
  "follow [] d = Returns (None, d)"
| "follow (g # gs) d =
     (case g d of
        Returns (n, d', e) \<Rightarrow> if e \<noteq> None \<or> n = DoneState then Returns (None, d') else follow gs d'
      | Panics d' \<Rightarrow> Panics d'
      | Blocks d' \<Rightarrow> Blocks d')"

definition pipeline :: "'x env \<Rightarrow> 'x process list" where
  "pipeline env = [discover_Process env, metadata_Process env, providers_Process env, sources_Process env,
     parser_Process env, constructor_Process env, final_Process env]"

fun chain :: "State list \<Rightarrow> bool" where
  "chain [] = False"
| "chain [s] = (succ_of s = Some DoneState)"
| "chain (s # t # ss) = (succ_of s = Some t \<and> chain (t # ss))"

lemma unpack_result_entered [simp]: "unpack_result (Returns (None, entered n (after sm d))) = Returns (None, d)"
  "unpack_result (Panics (after sm d)) = Panics d" "unpack_result (Blocks (after sm d)) = Blocks d"
  by (simp_all add: unpack_result_def after_def)

lemma run_step:
  assumes "running env sm" and "process_of env (currentState sm) = Some g" and "poll (sm_ctx sm) = None"
  shows "map_option unpack_result (Process sm) =
    (case g (sm_data sm) of
       Returns (n, d, e) \<Rightarrow>
         if e \<noteq> None \<or> n = DoneState \<or> (process_of env n = None \<and> n \<noteq> []) then Some (Returns (None, d))
         else map_option unpack_result (Process (entered n (after sm d)))
     | Panics d \<Rightarrow> Some (Panics d)
     | Blocks d \<Rightarrow> Some (Blocks d))"
  using unpack_iter [OF assms]
  by (cases "process_iter sm") (auto simp: Process_Stop Process_Next split: go.splits option.splits if_splits)

lemma succ_of_registered: "succ_of s = Some n \<Longrightarrow> process_of env s \<noteq> None \<and> (n = DoneState \<or> process_of env n \<noteq> None)"
  by (auto simp: succ_of_def process_of_def split: if_splits)

lemma after_ctx: "\<forall>i < Suc k. sm_ctx sm i = None \<Longrightarrow> poll (sm_ctx sm) = None \<and> (\<forall>i < k. sm_ctx (entered n (after sm d)) i = None)"
  by (simp add: poll_def after_def advance_def)

lemma running_after [simp]: "running env (entered n (after sm d)) = running env sm"
  by (simp add: after_def)

lemma run_chain:
  assumes "chain ss" "running env sm" "currentState sm = hd ss" "\<forall>i < length ss. sm_ctx sm i = None"
    and "DiscoverState \<in> set (completedStates (dt_descriptor (sm_data sm)))"
  shows "map_option unpack_result (Process sm) = Some (follow (map (\<lambda>s. the (process_of env s)) ss) (sm_data sm))"
  using assms
proof (induction ss arbitrary: sm rule: chain.induct)
  case (2 s)
  then obtain g where g: "process_of env s = Some g" "route DoneState (sm_data sm) (g (sm_data sm))"
    using succ_of_registered [of s DoneState env]
    by (auto elim!: process_of_cases simp: succ_of_def split: if_splits)
  show ?case
    using run_step [of env sm g] 2 g after_ctx [of 0 sm]
    by (auto simp: route_def split: go.splits if_splits)
next
  case (3 s t ss)
  then obtain g where g: "process_of env s = Some g" "route t (sm_data sm) (g (sm_data sm))"
    using succ_of_registered [of s t env] by (auto elim!: process_of_cases simp: succ_of_def split: if_splits)
  have t: "t \<noteq> DoneState" "process_of env t \<noteq> None"
    using 3(2) succ_of_registered [of t _ env] by (cases ss; auto simp: succ_of_def)+
  have ctx: "poll (sm_ctx sm) = None" "\<And>d. \<forall>i < length (t # ss). sm_ctx (entered t (after sm d)) i = None"
    using 3(5) after_ctx [of "length (t # ss)" sm] by simp_all
  show ?case
  proof (cases "g (sm_data sm)")
    case (Returns a)
    then obtain d where a: "a = (t, d, None)" and "evolves (sm_data sm) d"
      using g(2) 3(6) by (cases a) (auto simp: route_def)
    then have "DiscoverState \<in> set (completedStates (dt_descriptor d))"
      using 3(6) by (auto simp: evolves_def)
    then have "map_option unpack_result (Process (entered t (after sm d)))
        = Some (follow (map (\<lambda>s. the (process_of env s)) (t # ss)) d)"
      using 3(2,3) ctx(2) by (subst 3(1)) (auto simp: after_def)
    with run_step [of env sm g] Returns a t g(1) 3(3,4) ctx(1) show ?thesis by simp
  qed (use run_step [of env sm g] g(1) 3(3,4) ctx(1) in simp_all)
qed simp

lemma Unpack_pipeline:
  assumes "d_nextState (dt_descriptor d) = []" and "\<forall>i < 7. ctx i = None"
  shows "Unpack env ctx DiscoverState d = Some (follow (pipeline env) d)"
proof -
  let ?sm = "unpack_machine env ctx DiscoverState d"
  let ?ss = "[MetadataState, SourceProvidersState, SourcesState, ParserState, ConstructorState, FinalState]"
  have sm: "sm_ctx ?sm = ctx" "sm_data ?sm = d" "currentState ?sm = DiscoverState"
    by (simp_all add: unpack_machine_def NewStateMachine_def)
  have ctx: "poll (sm_ctx ?sm) = None" "\<forall>i < length ?ss. sm_ctx (entered n (after ?sm e)) i = None" for n e
    using assms(2) after_ctx [of 6 ?sm] by (simp_all add: sm)
  have p: "map (\<lambda>s. the (process_of env s)) ?ss = tl (pipeline env)"
    by (simp add: process_of_def pipeline_def)
  have rest: "map_option unpack_result (Process (entered MetadataState (after ?sm e))) = Some (follow (tl (pipeline env)) e)"
    if "DiscoverState \<in> set (completedStates (dt_descriptor e))" for e
    using run_chain [of ?ss env "entered MetadataState (after ?sm e)"] ctx(2) that
    by (simp add: succ_of_def p [symmetric] after_def)
  have meta: "process_of env MetadataState \<noteq> None" "process_of env DiscoverState = Some (discover_Process env)"
    by (simp_all add: process_of_def)
  have "map_option unpack_result (Process ?sm) = Some (follow (pipeline env) d)"
  proof (cases "discover_Process env d")
    case (Returns a)
    then obtain n e x where a: "a = (n, e, x)" and "x = None \<Longrightarrow> n = DoneState \<or>
        (DiscoverState \<in> set (completedStates (dt_descriptor e)) \<and> n = MetadataState)"
      using route_discover [of d env] assms(1) by (cases a) (auto simp: discover_route_def)
    with rest [of e] run_step [of env ?sm "discover_Process env"] Returns meta ctx(1) show ?thesis
      by (auto simp: sm pipeline_def)
  qed (use run_step [of env ?sm "discover_Process env"] meta ctx(1) in \<open>simp_all add: sm pipeline_def\<close>)
  then show ?thesis by (simp add: Unpack_eq)
qed

text \<open>The middle of the pipeline is quiet: what happens outside the descriptor happens in discovery
  and in the final state.\<close>

definition middle :: "'x process \<Rightarrow> bool" where
  "middle g \<longleftrightarrow> (\<exists>n. n \<noteq> DoneState \<and> (\<forall>d. HasCompletedState (dt_descriptor d) DiscoverState \<longrightarrow>
      quiet.process_stage n d (g d) \<and> moving.process_stage n d (g d)))"

lemma middleI:
  "n \<noteq> DoneState \<Longrightarrow> (\<And>d. HasCompletedState (dt_descriptor d) DiscoverState \<Longrightarrow> quiet.process_stage n d (g d))
   \<Longrightarrow> (\<And>d. HasCompletedState (dt_descriptor d) DiscoverState \<Longrightarrow> moving.process_stage n d (g d)) \<Longrightarrow> middle g"
  unfolding middle_def by blast

lemma middles [simp]:
  "middle (metadata_Process env)" "middle (providers_Process env)" "middle (sources_Process env)"
  "middle (parser_Process env)" "middle (constructor_Process env)"
  by (rule middleI [OF _ quiet.process_stages(1) moving.process_stages(1)]
      middleI [OF _ quiet.process_stages(2) moving.process_stages(2)]
      middleI [OF _ quiet.process_stages(3) moving.process_stages(3)]
      middleI [OF _ quiet.process_stages(4) moving.process_stages(4)]
      middleI [OF _ quiet.process_stages(5) moving.process_stages(5)]; simp)+

lemma follow_middle:
  assumes "list_all middle gs"
    and "HasCompletedState (dt_descriptor d) DiscoverState" and "follow (gs @ fs) d = Returns (None, d')"
  shows "\<exists>e. quiet d e \<and> HasCompletedState (dt_descriptor e) DiscoverState \<and> follow fs e = Returns (None, d')"
  using assms
proof (induction gs arbitrary: d)
  case (Cons g gs)
  then obtain n where n: "n \<noteq> DoneState" "quiet.process_stage n d (g d)" "moving.process_stage n d (g d)"
    by (auto simp: middle_def)
  with Cons.prems(3) obtain e where e: "g d = Returns (n, e, None)" "quiet d e" "moves d e"
    by (cases "g d") (auto simp: quiet.process_stage_def moving.process_stage_def)
  with n Cons.prems have "follow (gs @ fs) e = Returns (None, d')" "HasCompletedState (dt_descriptor e) DiscoverState"
    by (auto simp: moves_def evolves_def HasCompletedState_iff)
  with Cons.IH [of e] Cons.prems(1) obtain e' where "quiet e e'" "HasCompletedState (dt_descriptor e') DiscoverState"
    "follow fs e' = Returns (None, d')" by auto
  with e(2) show ?case using quiet.R_trans by blast
next
  case Nil
  then show ?case using quiet.R_refl [of d] by (intro exI [of _ d]) simp
qed

lemma follow_pipeline:
  assumes "follow (pipeline env) d = Returns (None, d')" and "d_nextState (dt_descriptor d) = []"
    and "discover_Process env d = Returns (MetadataState, d1, None)"
  obtains e where "quiet d1 e" "HasCompletedState (dt_descriptor e) DiscoverState"
    "final_Process env e = Returns (DoneState, d', None)"
proof -
  let ?gs = "[metadata_Process env, providers_Process env, sources_Process env, parser_Process env, constructor_Process env]"
  have comp: "HasCompletedState (dt_descriptor d1) DiscoverState"
    using route_discover [of d env] assms(3) by (simp add: discover_route_def HasCompletedState_iff)
  have "list_all middle ?gs" by simp
  moreover have "follow (?gs @ [final_Process env]) d1 = Returns (None, d')"
    using assms(1,3) by (simp add: pipeline_def)
  ultimately obtain e where e: "quiet d1 e" "HasCompletedState (dt_descriptor e) DiscoverState"
    "follow [final_Process env] e = Returns (None, d')"
    using follow_middle [of ?gs d1 "[final_Process env]" d'] comp by blast
  moreover from e(2,3) moving_final [OF e(2), of env] have "final_Process env e = Returns (DoneState, d', None)"
    by (cases "final_Process env e") (auto simp: moving.process_stage_def)
  ultimately show ?thesis using that by blast
qed

section \<open>What the final state stores\<close>

lemma final_failed_Returns:
  "final_failed d = Returns d' \<Longrightarrow> d' = upd (AppendFailedState FinalState) d"
  by (auto simp: final_failed_def log_provider_def log_block_def split: if_splits)

lemma final_sources_Returns:
  assumes "final_sources env cdesc d = Returns d'"
  shows "dt_db d' = dt_db d \<and> completedStates (dt_descriptor d') = completedStates (dt_descriptor d)
    \<and> (HasFailedState (dt_descriptor d') FinalState \<or> failedStates (dt_descriptor d') = failedStates (dt_descriptor d))"
  using assms
  by (auto simp: final_sources_def split: if_splits option.splits prod.splits dest!: final_failed_Returns)

definition save_clash :: "'x env \<Rightarrow> Contract \<Rightarrow> contracts_db \<Rightarrow> bool" where
  "save_clash env entry t \<longleftrightarrow> (\<exists>err. fst (SaveContract (e_codec env) entry t) = Some err
     \<and> strings_Contains (Error err) ''UNIQUE constraint failed'')"

lemma final_update_Returns:
  assumes "final_update env entry d = Returns d'"
  shows "completedStates (dt_descriptor d') = completedStates (dt_descriptor d)
    \<and> (HasFailedState (dt_descriptor d') FinalState \<or> failedStates (dt_descriptor d') = failedStates (dt_descriptor d)
         \<and> UpdateContract (e_codec env) entry (dt_db d) = (None, dt_db d'))"
  using assms
  by (auto simp: final_update_def split: prod.splits if_splits dest!: final_failed_Returns)

lemma final_store_Returns:
  assumes "final_store env entry d = Returns d'"
    and "contractModel (dt_descriptor d) = None \<Longrightarrow> \<not> save_clash env entry (dt_db d)"
  shows "completedStates (dt_descriptor d') = completedStates (dt_descriptor d)
    \<and> (HasFailedState (dt_descriptor d') FinalState
       \<or> failedStates (dt_descriptor d') = failedStates (dt_descriptor d) \<and>
         (if contractModel (dt_descriptor d) = None then SaveContract (e_codec env) entry (dt_db d) = (None, dt_db d')
          else UpdateContract (e_codec env) entry (dt_db d) = (None, dt_db d')))"
proof (cases "contractModel (dt_descriptor d)")
  case None
  with assms show ?thesis
    by (auto simp: final_store_def save_clash_def split: if_splits prod.splits option.splits
        dest!: final_failed_Returns)
next
  case (Some m)
  with assms(1) have "final_update env entry d = Returns d'"
    by (simp add: final_store_def split: if_splits)
  from final_update_Returns [OF this] Some show ?thesis by simp
qed

text \<open>A final state that completes has written its entry: the row is in the table under the key of
  the entry.\<close>

lemma final_stores:
  assumes run: "final_Process env e = Returns (DoneState, d', None)"
    and comp: "HasCompletedState (dt_descriptor e) DiscoverState"
    and new: "\<not> HasCompletedState (dt_descriptor e) FinalState" and fin: "HasCompletedState (dt_descriptor d') FinalState"
    and wf: "db_wf (dt_db e)"
    and model: "\<And>m. contractModel (dt_descriptor e) = Some m \<Longrightarrow>
        \<exists>r \<in> set (db_rows (dt_db e)). r_id r = c_Id m \<and> r_created_at r = c_CreatedAt m"
    and free: "\<And>entry t. contractModel (dt_descriptor e) = None \<Longrightarrow>
        GetContractEntry (e_solgo env) (dt_clock e) (dt_descriptor e\<lparr>d_Processed := True\<rparr>) = Some (entry, t) \<Longrightarrow>
        \<not> save_clash env entry (dt_db e)"
  shows "\<exists>entry t fs i. GetContractEntry (e_solgo env) (dt_clock e) (dt_descriptor e\<lparr>d_Processed := True\<rparr>) = Some (entry, t)
    \<and> ToJSON_strings (e_codec env) (c_FailedStates entry) = Inr fs \<and> contract_args_ok entry
    \<and> db_find (dt_db d') (contract_key (e_codec env) entry) = Some ((contract_row (e_codec env) entry fs)\<lparr>r_id := i\<rparr>)
    \<and> completedStates (dt_descriptor d') = completedStates (dt_descriptor e) @ [FinalState]
    \<and> failedStates (dt_descriptor d') = failedStates (dt_descriptor e)
    \<and> (db_faults (dt_db e) = Background \<longrightarrow> db_faults (dt_db d') = Background)"
proof -
  let ?x = "dt_descriptor e\<lparr>d_Processed := True\<rparr>"
  from run comp obtain entry t cdesc d2 d3 where
    entry: "GetContractEntry (e_solgo env) (dt_clock e) ?x = Some (entry, t)"
    and d2: "final_store env entry ((upd (\<lambda>x. x\<lparr>d_Processed := True\<rparr>) e)\<lparr>dt_clock := t\<rparr>) = Returns d2"
    and d3: "final_sources env cdesc d2 = Returns d3"
    and d': "d' = (if \<not> HasFailedState (dt_descriptor d3) FinalState then upd (AppendCompletedState FinalState) d3 else d3)"
    by (auto simp: final_Process_def Let_def go_bind_Returns_iff need_discovery_def
        split: if_splits option.splits)
  note st = final_store_Returns [OF d2, simplified]
  have cs: "completedStates (dt_descriptor d') = completedStates (dt_descriptor e) @ [FinalState]"
    and ok: "\<not> HasFailedState (dt_descriptor d3) FinalState" and t: "dt_db d' = dt_db d2"
    using st free [OF _ entry] final_sources_Returns [OF d3] new fin d'
    by (auto simp: completed.get_add completed.has_iff split: if_splits)
  then have ok2: "\<not> HasFailedState (dt_descriptor d2) FinalState"
    and fs: "failedStates (dt_descriptor d') = failedStates (dt_descriptor e)"
    using st free [OF _ entry] final_sources_Returns [OF d3] d' by (auto simp: failed.has_iff)
  show ?thesis
  proof (cases "contractModel (dt_descriptor e)")
    case None
    with st free [OF _ entry] ok2 have w: "SaveContract (e_codec env) entry (dt_db e) = (None, dt_db d2)" by simp
    from SaveContract_find [OF w] SaveContract_faults [of "dt_db e" "e_codec env" entry] w entry t cs fs show ?thesis
      by auto
  next
    case (Some m)
    with st ok2 have u: "UpdateContract (e_codec env) entry (dt_db e) = (None, dt_db d2)" by simp
    have "c_Id entry = c_Id m" "c_CreatedAt entry = c_CreatedAt m"
      using entry Some by (auto simp: GetContractEntry_def Let_def split: option.splits)
    with model [OF Some] UpdateContract_find [OF u wf] UpdateContract_faults [of "dt_db e" "e_codec env" entry] u entry t cs fs
    show ?thesis by auto
  qed
qed

section \<open>What discovery finds\<close>

lemma discover_not_final:
  assumes "discover_Process env d = Returns (n, d1, e)"
  shows "HasCompletedState (dt_descriptor d1) FinalState = HasCompletedState (dt_descriptor d) FinalState"
proof (cases "d_Header (dt_descriptor d)")
  case (Some h)
  have "HasCompletedState (dt_descriptor d1) FinalState = HasCompletedState (dt_descriptor d0) FinalState"
    if "discover_lookup env h d0 = Returns (n, d1, e)" for d0
    using that
    by (auto simp: discover_lookup_def Let_def discover_finish_def go_bind_Returns_iff log_provider_def log_block_def
        split: prod.splits sum.splits if_splits option.splits)
  moreover have "quiet d d0" if "discover_validate env d = Returns d0" for d0
    using quiet.stage_discover_validate [of d env] that by (simp add: quiet.stage_def)
  ultimately show ?thesis
    using assms Some
    by (auto simp: discover_Process_def discover_error_def go_bind_Returns_iff quiet_def split: if_splits)
qed (use assms in \<open>simp add: discover_Process_def discover_error_def\<close>)

lemma discover_Metadata:
  assumes "discover_Process env d = Returns (MetadataState, d1, None)"
    and "d_Header (dt_descriptor d) = Some h"
  obtains res t where "GetContractByUniqueIndex (e_codec env) (ToBig (e_solgo env) (d_NetworkID (dt_descriptor d)))
      (hd_Number h) (d_Addr (dt_descriptor d)) (dt_db d) = (res, t)"
    "dt_db d1 = t" "identity (dt_descriptor d1) = identity (dt_descriptor d)"
    "HasCompletedState (dt_descriptor d1) FinalState = HasCompletedState (dt_descriptor d) FinalState"
    "(\<exists>err. res = Inl err \<and> errors_Is err ErrNoRows \<and> contractModel (dt_descriptor d1) = None)
     \<or> (\<exists>c. res = Inr c \<and> contractModel (dt_descriptor d1) = Some c)"
proof -
  from assms obtain d0 where d0: "discover_validate env d = Returns d0" and d1: "discover_lookup env h d0 = Returns (MetadataState, d1, None)"
    by (auto simp: discover_Process_def discover_error_def go_bind_Returns_iff split: if_splits)
  have q: "quiet d d0" using quiet.stage_discover_validate [of d env] d0 by (simp add: quiet.stage_def)
  then have "d_NetworkID (dt_descriptor d0) = d_NetworkID (dt_descriptor d)"
    "d_Addr (dt_descriptor d0) = d_Addr (dt_descriptor d)" "dt_db d0 = dt_db d"
    by (simp_all add: quiet_def identity_def)
  with d1 q that show ?thesis
    by (auto simp: discover_lookup_def Let_def quiet_def discover_finish_def go_bind_Returns_iff
        split: prod.splits sum.splits if_splits option.splits)
qed

text \<open>A table that holds only rows the program can read.\<close>

definition readable :: "codec \<Rightarrow> contracts_db \<Rightarrow> bool" where
  "readable cd t \<longleftrightarrow> (\<forall>r \<in> set (db_rows t). \<exists>c. scan_row cd r = Inr c)"

lemma no_rows_free:
  assumes "GetContractByUniqueIndex cd n b a db = (Inl err, t)" and "errors_Is err ErrNoRows"
    and "db_faults db = Background" and "readable cd db"
  shows "(big_Uint64 n, big_Uint64 b, addr_Hex cd a) \<notin> row_key ` set (db_rows db)"
proof (cases "db_find db (big_Uint64 n, big_Uint64 b, addr_Hex cd a)")
  case None
  then show ?thesis by (simp add: db_find_def find_None_iff_key)
next
  case (Some r)
  then have "r \<in> set (db_rows db)" by (auto simp: db_find_def dest: find_Some_mem)
  with Some assms show ?thesis
    by (auto simp: GetContractByUniqueIndex_def Let_def case_prod_unfold query_error_def readable_def
        uint64_arg_error_def ErrNoRows_def split: if_splits)
qed

lemma no_clash:
  assumes "contract_key (e_codec env) entry \<notin> row_key ` set (db_rows t)" and "db_faults t = Background"
    and "codec_documented (e_codec env)"
  shows "\<not> save_clash env entry t"
proof -
  obtain fs where "ToJSON_strings (e_codec env) (c_FailedStates entry) = Inr fs"
    using assms(3) by (metis codec_documented_def)
  moreover have "\<not> strings_Contains (''error executing insert statement: '' @ Error uint64_arg_error) ''UNIQUE constraint failed''"
    "\<not> strings_Contains (''error executing insert statement: '' @ Error full_error) ''UNIQUE constraint failed''"
    by code_simp+
  ultimately show ?thesis
    using assms(1,2)
    by (auto simp: save_clash_def SaveContract_def db_poll_def exec_insert_def simp del: strings_Contains.simps split: if_splits)
qed

lemma entry_facts:
  assumes "GetContractEntry sg clk x = Some (entry, t)" and "d_Header x = Some h"
  shows "c_NetworkId entry = ToBig sg (d_NetworkID x)" "c_BlockNumber entry = hd_Number h"
    "c_Address entry = d_Addr x" "c_Processed entry = d_Processed x"
    "c_Partial entry = (failedStates x \<noteq> [])" "c_FailedStates entry = failedStates x"
    "c_CompletedStates entry = completedStates x"
  using assms by (auto simp: GetContractEntry_def Let_def split: option.splits)

text \<open>A run that completes the final state enters it with the table as discovery saw it and with the
  stored model that discovery found.\<close>

lemma run_reaches_final:
  assumes fl: "db_faults (dt_db d) = Background" and nx: "d_nextState (dt_descriptor d) = []"
    and new: "\<not> HasCompletedState (dt_descriptor d) FinalState" and ctx: "\<forall>i < 7. ctx i = None"
    and run: "Unpack env ctx DiscoverState d = Some (Returns (None, d'))"
    and fin: "HasCompletedState (dt_descriptor d') FinalState" and h: "d_Header (dt_descriptor d) = Some h"
  obtains e res t where "final_Process env e = Returns (DoneState, d', None)"
    "HasCompletedState (dt_descriptor e) DiscoverState" "\<not> HasCompletedState (dt_descriptor e) FinalState"
    "identity (dt_descriptor e) = identity (dt_descriptor d)" "dt_db e = dt_db d"
    "GetContractByUniqueIndex (e_codec env) (ToBig (e_solgo env) (d_NetworkID (dt_descriptor d)))
      (hd_Number h) (d_Addr (dt_descriptor d)) (dt_db d) = (res, t)"
    "(\<exists>err. res = Inl err \<and> errors_Is err ErrNoRows \<and> contractModel (dt_descriptor e) = None)
     \<or> (\<exists>c. res = Inr c \<and> contractModel (dt_descriptor e) = Some c)"
proof -
  have fol: "follow (pipeline env) d = Returns (None, d')" using Unpack_pipeline [OF nx ctx] run by simp
  then obtain n d1 x where dp: "discover_Process env d = Returns (n, d1, x)"
    by (cases "discover_Process env d") (auto simp: pipeline_def)
  have "x = None \<and> n = MetadataState"
    using fol dp new fin discover_not_final [OF dp] route_discover [of d env] nx
    by (auto simp: pipeline_def discover_route_def split: if_splits)
  with dp have d1: "discover_Process env d = Returns (MetadataState, d1, None)" by simp
  from follow_pipeline [OF fol nx d1] obtain e where q: "quiet d1 e"
    and ce: "HasCompletedState (dt_descriptor e) DiscoverState" and fe: "final_Process env e = Returns (DoneState, d', None)" by blast
  from discover_Metadata [OF d1 h] obtain res t where r: "GetContractByUniqueIndex (e_codec env)
      (ToBig (e_solgo env) (d_NetworkID (dt_descriptor d))) (hd_Number h) (d_Addr (dt_descriptor d)) (dt_db d) = (res, t)"
    "dt_db d1 = t" "identity (dt_descriptor d1) = identity (dt_descriptor d)"
    "(\<exists>err. res = Inl err \<and> errors_Is err ErrNoRows \<and> contractModel (dt_descriptor d1) = None)
     \<or> (\<exists>c. res = Inr c \<and> contractModel (dt_descriptor d1) = Some c)" by metis
  have "t = dt_db d"
    using r(1) GetContractByUniqueIndex_db [of "e_codec env" "ToBig (e_solgo env) (d_NetworkID (dt_descriptor d))"
        "hd_Number h" "d_Addr (dt_descriptor d)" "dt_db d"] fl by simp
  with that [OF fe ce] r q new discover_not_final [OF d1] show ?thesis by (simp add: quiet_def)
qed

text \<open>The end of a completed run: what was written is what discovery will read.\<close>

lemma completed_run:
  assumes cd: "codec_documented (e_codec env)" and wf: "db_wf (dt_db d)" and rd: "readable (e_codec env) (dt_db d)"
    and fl: "db_faults (dt_db d) = Background" and nx: "d_nextState (dt_descriptor d) = []"
    and new: "\<not> HasCompletedState (dt_descriptor d) FinalState" and ctx: "\<forall>i < 7. ctx i = None"
    and run: "Unpack env ctx DiscoverState d = Some (Returns (None, d'))"
    and fin: "HasCompletedState (dt_descriptor d') FinalState" and h: "d_Header (dt_descriptor d) = Some h"
  obtains entry fs i where "ToJSON_strings (e_codec env) (c_FailedStates entry) = Inr fs" "contract_args_ok entry"
    "db_find (dt_db d') (contract_key (e_codec env) entry) = Some ((contract_row (e_codec env) entry fs)\<lparr>r_id := i\<rparr>)"
    "db_faults (dt_db d') = Background"
    "c_NetworkId entry = ToBig (e_solgo env) (d_NetworkID (dt_descriptor d))" "c_BlockNumber entry = hd_Number h"
    "c_Address entry = d_Addr (dt_descriptor d)" "c_Processed entry"
    "c_Partial entry = (failedStates (dt_descriptor d') \<noteq> [])" "c_FailedStates entry = failedStates (dt_descriptor d')"
    "c_CompletedStates entry @ [FinalState] = completedStates (dt_descriptor d')"
proof -
  let ?cd = "e_codec env" and ?n = "ToBig (e_solgo env) (d_NetworkID (dt_descriptor d))" and ?a = "d_Addr (dt_descriptor d)"
  from run_reaches_final [OF fl nx new ctx run fin h] obtain e res t where
    fe: "final_Process env e = Returns (DoneState, d', None)" and ce: "HasCompletedState (dt_descriptor e) DiscoverState"
    and ne: "\<not> HasCompletedState (dt_descriptor e) FinalState" and id: "identity (dt_descriptor e) = identity (dt_descriptor d)"
    and te: "dt_db e = dt_db d" and look: "GetContractByUniqueIndex ?cd ?n (hd_Number h) ?a (dt_db d) = (res, t)"
    and m: "(\<exists>err. res = Inl err \<and> errors_Is err ErrNoRows \<and> contractModel (dt_descriptor e) = None)
       \<or> (\<exists>c. res = Inr c \<and> contractModel (dt_descriptor e) = Some c)" by metis
  let ?x = "dt_descriptor e\<lparr>d_Processed := True\<rparr>"
  have h': "d_Header ?x = Some h" using id h by (simp add: identity_def)
  have free: "\<not> save_clash env entry (dt_db e)" if "contractModel (dt_descriptor e) = None"
    and "GetContractEntry (e_solgo env) (dt_clock e) ?x = Some (entry, tt)" for entry tt
  proof -
    from m that(1) obtain err where "res = Inl err" "errors_Is err ErrNoRows" by auto
    with no_rows_free [OF _ _ fl rd] look have "(big_Uint64 ?n, big_Uint64 (hd_Number h), addr_Hex ?cd ?a) \<notin> row_key ` set (db_rows (dt_db d))"
      by blast
    with entry_facts [OF that(2) h'] id cd fl show ?thesis
      by (intro no_clash) (simp_all add: te contract_key_def identity_def)
  qed
  have stored: "\<exists>r \<in> set (db_rows (dt_db e)). r_id r = c_Id c \<and> r_created_at r = c_CreatedAt c"
    if "contractModel (dt_descriptor e) = Some c" for c
  proof -
    from m that look obtain r where "db_find (dt_db d) (big_Uint64 ?n, big_Uint64 (hd_Number h), addr_Hex ?cd ?a) = Some r" "scan_row ?cd r = Inr c"
      by (auto elim: GetContractByUniqueIndex_find)
    then show ?thesis using scan_row_id [of ?cd r c] by (auto simp: te db_find_def dest: find_Some_mem)
  qed
  have "db_wf (dt_db e)" using wf te by simp
  note final = final_stores [OF fe ce ne fin this stored]
  obtain entry tt fs i where
    "GetContractEntry (e_solgo env) (dt_clock e) ?x = Some (entry, tt)"
    "ToJSON_strings ?cd (c_FailedStates entry) = Inr fs" "contract_args_ok entry"
    "db_find (dt_db d') (contract_key ?cd entry) = Some ((contract_row ?cd entry fs)\<lparr>r_id := i\<rparr>)"
    "completedStates (dt_descriptor d') = completedStates (dt_descriptor e) @ [FinalState]"
    "failedStates (dt_descriptor d') = failedStates (dt_descriptor e)" "db_faults (dt_db d') = Background"
    using final free fl te by auto
  with entry_facts [OF this(1) h'] id show ?thesis by (intro that [of entry fs i]) (simp_all add: identity_def)
qed

lemma completed_run_row:
  assumes "codec_documented (e_codec env)" and "db_wf (dt_db d)" and "readable (e_codec env) (dt_db d)"
    and "db_faults (dt_db d) = Background" and "d_nextState (dt_descriptor d) = []"
    and "\<not> HasCompletedState (dt_descriptor d) FinalState" and "\<forall>i < 7. ctx i = None"
    and "Unpack env ctx DiscoverState d = Some (Returns (None, d'))"
    and "HasCompletedState (dt_descriptor d') FinalState" and "d_Header (dt_descriptor d) = Some h"
    and nid: "0 \<le> ToBig (e_solgo env) (d_NetworkID (dt_descriptor d))" "ToBig (e_solgo env) (d_NetworkID (dt_descriptor d)) < 2 ^ 64"
    and num: "0 \<le> hd_Number h" "hd_Number h < 2 ^ 64"
  obtains r c where "db_faults (dt_db d') = Background" "scan_row (e_codec env) r = Inr c"
    "db_find (dt_db d') (ToBig (e_solgo env) (d_NetworkID (dt_descriptor d)), hd_Number h, addr_Hex (e_codec env) (d_Addr (dt_descriptor d))) = Some r"
    "uint64_args_ok [ToBig (e_solgo env) (d_NetworkID (dt_descriptor d)), hd_Number h]"
    "c_BlockNumber c = hd_Number h" "c_Address c = d_Addr (dt_descriptor d)" "c_Processed c"
    "c_FailedStates c = failedStates (dt_descriptor d')" "c_Partial c = (failedStates (dt_descriptor d') \<noteq> [])"
    "c_CompletedStates c @ [FinalState] = completedStates (dt_descriptor d')"
proof -
  let ?cd = "e_codec env"
  from completed_run [OF assms(1-10)] obtain entry fs i where
    fs: "ToJSON_strings ?cd (c_FailedStates entry) = Inr fs" and args: "contract_args_ok entry"
    and row: "db_find (dt_db d') (contract_key ?cd entry) = Some ((contract_row ?cd entry fs)\<lparr>r_id := i\<rparr>)"
    and bg: "db_faults (dt_db d') = Background"
    and ef: "c_NetworkId entry = ToBig (e_solgo env) (d_NetworkID (dt_descriptor d))" "c_BlockNumber entry = hd_Number h"
      "c_Address entry = d_Addr (dt_descriptor d)" "c_Processed entry"
      "c_Partial entry = (failedStates (dt_descriptor d') \<noteq> [])" "c_FailedStates entry = failedStates (dt_descriptor d')"
      "c_CompletedStates entry @ [FinalState] = completedStates (dt_descriptor d')" by metis
  have "scan_row ?cd ((contract_row ?cd entry fs)\<lparr>r_id := i\<rparr>) = Inr (entry\<lparr>c_Id := i\<rparr>)"
    by (rule scan_contract_row [OF assms(1) fs]) (use ef nid num in simp_all)
  moreover have "contract_key ?cd entry = (c_NetworkId entry, hd_Number h, addr_Hex ?cd (d_Addr (dt_descriptor d)))"
    "uint64_args_ok [c_NetworkId entry, hd_Number h]"
    using args ef nid num by (simp_all add: contract_key_def contract_args_ok_def uint64_args_ok_def big_Uint64_id)
  ultimately show ?thesis using that row bg ef by simp
qed

lemma completed_run_lookup:
  assumes "codec_documented (e_codec env)" and "db_wf (dt_db d)" and "readable (e_codec env) (dt_db d)"
    and "db_faults (dt_db d) = Background" and "d_nextState (dt_descriptor d) = []"
    and "\<not> HasCompletedState (dt_descriptor d) FinalState" and "\<forall>i < 7. ctx i = None"
    and "Unpack env ctx DiscoverState d = Some (Returns (None, d'))"
    and "HasCompletedState (dt_descriptor d') FinalState" and "d_Header (dt_descriptor d) = Some h"
    and nid: "0 \<le> ToBig (e_solgo env) (d_NetworkID (dt_descriptor d))" "ToBig (e_solgo env) (d_NetworkID (dt_descriptor d)) < 2 ^ 64"
    and num: "0 \<le> hd_Number h" "hd_Number h < 2 ^ 64"
  shows "\<exists>c. GetContractByUniqueIndex (e_codec env) (ToBig (e_solgo env) (d_NetworkID (dt_descriptor d)))
        (hd_Number h) (d_Addr (dt_descriptor d)) (dt_db d') = (Inr c, dt_db d')
     \<and> c_Processed c \<and> c_FailedStates c = failedStates (dt_descriptor d')
     \<and> c_Partial c = (failedStates (dt_descriptor d') \<noteq> [])
     \<and> c_CompletedStates c @ [FinalState] = completedStates (dt_descriptor d')"
proof -
  obtain r c where r: "db_faults (dt_db d') = Background" "scan_row (e_codec env) r = Inr c"
    "db_find (dt_db d') (ToBig (e_solgo env) (d_NetworkID (dt_descriptor d)), hd_Number h, addr_Hex (e_codec env) (d_Addr (dt_descriptor d))) = Some r"
    "uint64_args_ok [ToBig (e_solgo env) (d_NetworkID (dt_descriptor d)), hd_Number h]"
    and c: "c_Processed c" "c_FailedStates c = failedStates (dt_descriptor d')"
    "c_Partial c = (failedStates (dt_descriptor d') \<noteq> [])" "c_CompletedStates c @ [FinalState] = completedStates (dt_descriptor d')"
    by (rule completed_run_row [OF assms])
  have "db_poll (dt_db d') = (None, dt_db d')" using r(1) by (simp add: db_poll_def)
  with r c nid num show ?thesis by (intro exI [of _ c]) (simp add: GetContractByUniqueIndex_def Let_def big_Uint64_id)
qed

section \<open>Contracts that are already done\<close>

lemma completed_contract_skipped:
  assumes "poll ctx = None" and h: "d_Header (dt_descriptor e) = Some h" and "d_Tx (dt_descriptor e) \<noteq> None"
    and "d_Receipt (dt_descriptor e) \<noteq> None" and "u_db (e_unpacker env) \<noteq> None"
    and valid: "\<And>c. d_contract (dt_descriptor e) = Some c \<Longrightarrow> \<exists>b c'. IsValid (e_solgo env) c = Returns (b, c')"
    and look: "GetContractByUniqueIndex (e_codec env) (ToBig (e_solgo env) (d_NetworkID (dt_descriptor e)))
        (hd_Number h) (d_Addr (dt_descriptor e)) (dt_db e) = (Inr c, t)"
    and "IsCompleted c" and "e_options env = Some opts" and "\<not> ForceReprocess (opt_Unpacker opts)"
  shows "\<exists>e'. Unpack env ctx DiscoverState e = Some (Returns (None, e')) \<and> dt_db e' = t
    \<and> dt_files e' = dt_files e \<and> contractModel (dt_descriptor e') = Some c
    \<and> completedStates (dt_descriptor e') = completedStates (dt_descriptor e)"
proof -
  obtain e0 where e0: "discover_validate env e = Returns e0" and q: "quiet e e0"
    and cs: "completedStates (dt_descriptor e0) = completedStates (dt_descriptor e)"
    using valid quiet.stage_discover_validate [of e env]
    by (cases "d_contract (dt_descriptor e)")
       (fastforce simp: discover_validate_def call_contract_def quiet.stage_def)+
  let ?e' = "upd (SetContractModel (Some c)) (e0\<lparr>dt_db := t\<rparr>)"
  have "discover_Process env e = Returns (DoneState, ?e', None)"
    using assms e0 q by (auto simp: discover_Process_def discover_lookup_def Let_def quiet_def identity_def)
  then have "Unpack env ctx DiscoverState e = Some (Returns (None, ?e'))"
    using run_step [of env "unpack_machine env ctx DiscoverState e" "discover_Process env"] assms(1)
    by (simp add: Unpack_eq process_of_def unpack_machine_def [of env ctx DiscoverState e] NewStateMachine_def)
       (simp add: running_def)
  with q cs show ?thesis by (intro exI [of _ ?e']) (simp add: quiet_def)
qed

lemma chain_info_missing:
  assumes "d_Header (dt_descriptor d) = None \<or> d_Tx (dt_descriptor d) = None \<or> d_Receipt (dt_descriptor d) = None"
    and "poll ctx = None"
  shows "Unpack env ctx DiscoverState d = Some (Returns (None, d))"
proof -
  have "\<exists>e. discover_Process env d = Returns (ErrorState, d, Some e)"
    using assms(1) by (auto simp: discover_Process_def discover_error_def split: option.split)
  then show ?thesis
    using run_step [of env "unpack_machine env ctx DiscoverState d" "discover_Process env"] assms(2)
    by (auto simp: Unpack_eq process_of_def unpack_machine_def [of env ctx DiscoverState d] NewStateMachine_def)
       (auto simp: running_def)
qed

section \<open>A race that is lost\<close>

text \<open>The sources of a descriptor, when it has any, can be written.\<close>

definition sources_written :: "'x env \<Rightarrow> 'x Descriptor \<Rightarrow> (string \<rightharpoonup> 'x) \<Rightarrow> bool" where
  "sources_written env x files \<longleftrightarrow>
     (case cdescriptor_of x of
        None \<Rightarrow> False
      | Some cdesc \<Rightarrow> \<not> HasSources (e_solgo env) cdesc
          \<or> (case (sources_path env x, DetectorSources (e_solgo env) cdesc) of
                (Some p, Some sources) \<Rightarrow> fst (WriteToDir (e_solgo env) sources p files) = None
              | _ \<Rightarrow> False))"

lemma sources_path_processed [simp]: "sources_path env (x\<lparr>d_Processed := b\<rparr>) = sources_path env x"
  by (cases "d_Header x") (simp_all add: sources_path_def GetStorageCachePath_def)

lemma cdescriptor_of_processed [simp]: "cdescriptor_of (x\<lparr>d_Processed := b\<rparr>) = cdescriptor_of x"
  by (simp add: cdescriptor_of_def)

lemma final_sources_written:
  assumes "sources_written env (dt_descriptor d) (dt_files d)" and "cdescriptor_of (dt_descriptor d) = Some cdesc"
  shows "\<exists>files. final_sources env cdesc d = Returns (d\<lparr>dt_files := files\<rparr>)"
proof (cases "HasSources (e_solgo env) cdesc \<and> \<not> HasFailedState (dt_descriptor d) FinalState")
  case True
  with assms show ?thesis
    by (auto simp: final_sources_def sources_written_def split: option.splits prod.splits)
next
  case False
  then show ?thesis by (intro exI [of _ "dt_files d"]) (auto simp: final_sources_def)
qed

text \<open>A run that found no entry in discovery and stores after another one has: the insert violates the unique index, the
  update it falls back to carries no id and matches no row, and the final state is completed.\<close>

lemma final_lost:
  assumes "HasCompletedState (dt_descriptor d) DiscoverState" and "\<not> HasFailedState (dt_descriptor d) FinalState"
    and "contractModel (dt_descriptor d) = None" and sources: "sources_written env (dt_descriptor d) (dt_files d)"
    and "u_db (e_unpacker env) \<noteq> None"
    and "codec_documented (e_codec env)" and "db_wf (dt_db d)" and "\<forall>k < 4. db_faults (dt_db d) k = None"
    and entry: "GetContractEntry (e_solgo env) (dt_clock d) (dt_descriptor d\<lparr>d_Processed := True\<rparr>) = Some (entry, t)"
    and "contract_args_ok entry" and "contract_key (e_codec env) entry \<in> row_key ` set (db_rows (dt_db d))"
  shows "\<exists>d'. final_Process env d = Returns (DoneState, d', None) \<and> HasCompletedState (dt_descriptor d') FinalState
     \<and> db_rows (dt_db d') = db_rows (dt_db d)"
proof -
  let ?d = "(upd (\<lambda>x. x\<lparr>d_Processed := True\<rparr>) d)\<lparr>dt_clock := t\<rparr>"
  let ?f = "db_faults (dt_db d)"
  let ?t = "\<lambda>f. dt_db d\<lparr>db_faults := f\<rparr>"
  obtain fs where fs: "ToJSON_strings (e_codec env) (c_FailedStates entry) = Inr fs"
    using assms(6) by (metis codec_documented_def)
  have clash: "strings_Contains (''error executing insert statement: '' @ Error unique_error) ''UNIQUE constraint failed''"
    by code_simp
  have live: "poll ?f = None" "poll (advance ?f) = None" "poll (advance (advance ?f)) = None" "poll (advance (advance (advance ?f))) = None"
    using assms(8) by (simp_all add: poll_def advance_def)
  have save: "SaveContract (e_codec env) entry (dt_db d)
      = (Some (Errorf (''error executing insert statement: '' @ Error unique_error)), ?t (advance (advance ?f)))"
    using assms fs live by (simp add: SaveContract_def db_poll_def exec_insert_def)
  have id0: "c_Id entry = 0" using entry assms(3) by (auto simp: GetContractEntry_def Let_def split: option.splits)
  have "0 \<notin> r_id ` set (db_rows (dt_db d))" using assms(7) by (force simp: db_wf_def)
  then have "UpdateContract (e_codec env) entry (?t (advance (advance ?f))) = (None, ?t (advance (advance (advance (advance ?f)))))"
    using assms fs live id0 by (simp add: UpdateContract_def db_poll_def exec_update_absent)
  with save clash assms(2,3,5) obtain f where store: "final_store env entry ?d = Returns (?d\<lparr>dt_db := ?t f\<rparr>)"
    by (simp add: final_store_def final_update_def del: strings_Contains.simps)
  obtain cdesc where c: "cdescriptor_of (dt_descriptor d) = Some cdesc"
    using sources by (auto simp: sources_written_def split: option.splits)
  obtain files where "final_sources env cdesc (?d\<lparr>dt_db := ?t f\<rparr>) = Returns (?d\<lparr>dt_db := ?t f, dt_files := files\<rparr>)"
    using final_sources_written [of env "?d\<lparr>dt_db := ?t f\<rparr>" cdesc] sources c by (auto simp: sources_written_def)
  moreover have "GetContract (dt_descriptor d) \<noteq> None" using c by (cases "d_contract (dt_descriptor d)") (simp_all add: cdescriptor_of_def)
  ultimately show ?thesis using assms(1,2) store entry c by (simp add: final_Process_def)
qed

section \<open>An instance\<close>

definition example_options :: Options where
  "example_options =
     \<lparr>OptionsPath = [], opt_Logger = \<lparr>logger_Env = [], logger_Level = []\<rparr>, opt_Networks = [],
      opt_Db = \<lparr>db_Dialect = [], db_Datasource = [], db_MigrationDir = []\<rparr>,
      opt_Nats = \<lparr>nats_Enabled = False, nats_Addr = [], nats_Queues = []\<rparr>,
      opt_Storage = \<lparr>storage_Enabled = True, ContractsPath = ''contracts'', DatabasePath = ''db''\<rparr>,
      opt_Cache = \<lparr>cache_Addr = [], cache_Password = [], cache_DB = 0, cache_MaxRetries = 0, cache_MinRetryBackoff = 0,
        cache_MaxRetryBackoff = 0, cache_DialTimeout = 0, cache_ReadTimeout = 0, cache_WriteTimeout = 0\<rparr>,
      opt_Syncer = \<lparr>Subscribers = []\<rparr>, opt_Unpacker = \<lparr>ForceReprocess = False, OtsEnabled = False\<rparr>,
      opt_Graphql = \<lparr>Transports = [], graphql_Addr = [],
        graphql_Cors = \<lparr>cors_Debug = False, cors_MaxAge = 0, cors_AllowCredentials = False, cors_OptionsPassthrough = False,
          cors_AllowedOrigins = [], cors_AllowedMethods = [], cors_AllowedHeaders = [], cors_ExposedHeaders = []\<rparr>,
        graphql_Cache = \<lparr>gcache_Adapter = [], gcache_QueryCacheDuration = 0\<rparr>\<rparr>,
      opt_Pprof = \<lparr>endpoint_Enabled = False, endpoint_Addr = []\<rparr>, opt_Ipfs = \<lparr>endpoint_Enabled = False, endpoint_Addr = []\<rparr>,
      opt_Rpc = \<lparr>endpoint_Enabled = False, endpoint_Addr = []\<rparr>\<rparr>"

definition example_env :: "string env" where
  "example_env = \<lparr>e_codec = plain_codec, e_solgo = plain_solgo, e_unpacker = plain_unpacker,
     e_options = Some example_options\<rparr>"

definition plain_cdescriptor :: "string cdescriptor" where
  "plain_cdescriptor = \<lparr>cd_Sources = None, cd_Name = [], cd_License = ''MIT'', cd_Proxy = False,
     cd_SourcesProvider = ''etherscan'', cd_CompilerVersion = ''0.8'', cd_SolgoVersion = [], cd_Implementations = [],
     cd_Optimized = False, cd_OptimizationRuns = 0, cd_EVMVersion = ''Paris'', cd_ABI = [], cd_Verified = True,
     cd_VerificationProvider = [], cd_private = []\<rparr>"

definition example_data :: "string data" where
  "example_data =
     \<lparr>dt_descriptor = (NewDescriptor plain_unpacker ''ethereum'' 1 5)
        \<lparr>d_contract := Some \<lparr>ct_descriptor = Some plain_cdescriptor, ct_private = []\<rparr>,
         d_Header := Some \<lparr>hd_Number = 17, hd_Hash = 3\<rparr>, d_Tx := Some \<lparr>tx_Hash = 4, tx_To = None\<rparr>,
         d_Receipt := Some \<lparr>ContractAddress = 5\<rparr>\<rparr>,
      dt_db = empty_db, dt_files = (\<lambda>_. None), dt_clock = (\<lambda>_. 7)\<rparr>"

definition example_result :: "string data" where
  "example_result = (case follow (pipeline example_env) example_data of Returns (e, d) \<Rightarrow> d | Panics d \<Rightarrow> d | Blocks d \<Rightarrow> d)"

lemma example_follow: "follow (pipeline example_env) example_data = Returns (None, example_result)"
proof -
  have "(case follow (pipeline example_env) example_data of Returns (e, d) \<Rightarrow> e = None | _ \<Rightarrow> False)"
    by code_simp
  then show ?thesis
    by (cases "follow (pipeline example_env) example_data") (auto simp: example_result_def)
qed

lemma example_facts:
  "completedStates (dt_descriptor example_result)
     = [DiscoverState, MetadataState, SourceProvidersState, SourcesState, ParserState, FinalState]"
  "failedStates (dt_descriptor example_result) = []"
  by code_simp+

lemma example_env_simps [simp]:
  "e_codec example_env = plain_codec" "e_options example_env = Some example_options"
  "u_db (e_unpacker example_env) = Some []" "ToBig (e_solgo example_env) i = i"
  "IsValid (e_solgo example_env) c = Returns (True, c)"
  by (simp_all add: example_env_def plain_unpacker_def plain_solgo_def)

lemma example_data_simps [simp]:
  "db_wf (dt_db example_data)" "readable cd (dt_db example_data)" "db_faults (dt_db example_data) = Background"
  "d_nextState (dt_descriptor example_data) = []" "completedStates (dt_descriptor example_data) = []"
  "d_Header (dt_descriptor example_data) = Some \<lparr>hd_Number = 17, hd_Hash = 3\<rparr>"
  "d_NetworkID (dt_descriptor example_data) = 1" "d_Addr (dt_descriptor example_data) = 5"
  "d_Tx (dt_descriptor example_data) = Some \<lparr>tx_Hash = 4, tx_To = None\<rparr>"
  "d_Receipt (dt_descriptor example_data) = Some \<lparr>ContractAddress = 5\<rparr>"
  by (simp_all add: example_data_def readable_def empty_db_def db_wf_def NewDescriptor_def HasCompletedState_iff)

lemma example_not_forced [simp]: "\<not> ForceReprocess (opt_Unpacker example_options)"
  by (simp add: example_options_def)

lemma example_run: "Unpack example_env Background DiscoverState example_data = Some (Returns (None, example_result))"
  using Unpack_pipeline [of example_data Background example_env] by (simp add: example_follow Background_def)

lemma example_table:
  "db_wf (dt_db example_result)" "db_faults (dt_db example_result) = Background"
proof -
  show "db_wf (dt_db example_result)" by code_simp
  show "db_faults (dt_db example_result) = Background"
    by (rule completed_run [of example_env example_data Background example_result "\<lparr>hd_Number = 17, hd_Hash = 3\<rparr>"])
       (simp_all add: example_run example_facts HasCompletedState_iff Background_def [THEN fun_cong])
qed

section \<open>Properties\<close>

text \<open>C1. Unpacking always ends: from every state, registered or not, for every descriptor, every
  behaviour of the libraries, the database and the context, the run of the machine returns, panics
  or hangs inside a library call; its own loop never runs forever.\<close>

theorem Unpack_terminates: "\<exists>r. Unpack env ctx s d = Some r"
  by (rule unpack_returns)

text \<open>C6. However an unpacking ends - with success, an error, a panic or hanging in a library call -
  the contracts table keeps its constraints and the descriptor lists no state twice.\<close>

theorem Unpack_keeps_invariant:
  assumes "data_ok d" and "Unpack env ctx s d = Some r"
  shows "go_all (\<lambda>(e, d'). data_ok d') data_ok r"
  using Unpack_evolves [OF assms(2)] assms(1) by (auto simp: evolves_def elim!: go_all_mono)

theorem Unpack_keeps_invariant_witness: "data_ok example_data \<and> data_ok example_result"
proof -
  have "data_ok example_data" by (simp add: data_ok_def) (simp add: example_data_def NewDescriptor_def)
  with Unpack_keeps_invariant [OF this example_run] show ?thesis by simp
qed

text \<open>C3. From the discovery state the machine is a straight line: with a live context and no pending
  state, \<open>Unpack\<close> does exactly what running the seven handlers one after the other does, stopping
  at the first error or when a handler is done; an error on the way is not reported to the caller.\<close>

theorem Unpack_is_pipeline:
  assumes "d_nextState (dt_descriptor d) = []" and "\<forall>i < 7. ctx i = None"
  shows "Unpack env ctx DiscoverState d = Some (follow (pipeline env) d)"
  by (rule Unpack_pipeline [OF assms])

theorem Unpack_is_pipeline_witness:
  "Unpack example_env Background DiscoverState example_data = Some (Returns (None, example_result))"
  using Unpack_is_pipeline [of example_data Background example_env] by (simp add: example_follow Background_def)

text \<open>C4. A run that completes its final state has stored the contract: looking the contract up by its
  network, block and address finds an entry that is processed, that is partial exactly when a state of
  the run failed, and that carries the run's failed states and all its completed states but the final
  one, which is appended only after the entry is written.\<close>

theorem Unpack_stores_contract:
  assumes "codec_documented (e_codec env)" and "db_wf (dt_db d)" and "readable (e_codec env) (dt_db d)"
    and "db_faults (dt_db d) = Background" and "d_nextState (dt_descriptor d) = []"
    and "\<not> HasCompletedState (dt_descriptor d) FinalState" and "\<forall>i < 7. ctx i = None"
    and "Unpack env ctx DiscoverState d = Some (Returns (None, d'))"
    and "HasCompletedState (dt_descriptor d') FinalState" and "d_Header (dt_descriptor d) = Some h"
    and "0 \<le> ToBig (e_solgo env) (d_NetworkID (dt_descriptor d))" "ToBig (e_solgo env) (d_NetworkID (dt_descriptor d)) < 2 ^ 64"
    and "0 \<le> hd_Number h" "hd_Number h < 2 ^ 64"
  shows "\<exists>c. GetContractByUniqueIndex (e_codec env) (ToBig (e_solgo env) (d_NetworkID (dt_descriptor d)))
        (hd_Number h) (d_Addr (dt_descriptor d)) (dt_db d') = (Inr c, dt_db d')
     \<and> c_Processed c \<and> c_FailedStates c = failedStates (dt_descriptor d')
     \<and> c_Partial c = (failedStates (dt_descriptor d') \<noteq> [])
     \<and> c_CompletedStates c @ [FinalState] = completedStates (dt_descriptor d')"
  by (rule completed_run_lookup [OF assms])

theorem Unpack_stores_contract_witness:
  "\<exists>c. GetContractByUniqueIndex plain_codec 1 17 5 (dt_db example_result) = (Inr c, dt_db example_result)
     \<and> c_Processed c \<and> \<not> c_Partial c
     \<and> c_CompletedStates c @ [FinalState]
         = [DiscoverState, MetadataState, SourceProvidersState, SourcesState, ParserState, FinalState]"
  using Unpack_stores_contract [OF _ _ _ _ _ _ _ example_run, of "\<lparr>hd_Number = 17, hd_Hash = 3\<rparr>"]
  by (simp add: example_facts HasCompletedState_iff Background_def [THEN fun_cong]) blast

text \<open>C5. Unpacking is idempotent: after a completed run without failed states, unpacking the same
  contract again, without forced reprocessing, returns at once without an error and changes neither
  the table nor the cached sources nor the completed states.\<close>

theorem second_Unpack_changes_nothing:
  assumes "codec_documented (e_codec env)" and "db_wf (dt_db d)" and "readable (e_codec env) (dt_db d)"
    and "db_faults (dt_db d) = Background" and "d_nextState (dt_descriptor d) = []"
    and "\<not> HasCompletedState (dt_descriptor d) FinalState" and "\<forall>i < 7. ctx i = None"
    and "Unpack env ctx DiscoverState d = Some (Returns (None, d'))"
    and "HasCompletedState (dt_descriptor d') FinalState" and h: "d_Header (dt_descriptor d) = Some h"
    and "0 \<le> ToBig (e_solgo env) (d_NetworkID (dt_descriptor d))" "ToBig (e_solgo env) (d_NetworkID (dt_descriptor d)) < 2 ^ 64"
    and "0 \<le> hd_Number h" "hd_Number h < 2 ^ 64"
    and nf: "failedStates (dt_descriptor d') = []" and e: "identity (dt_descriptor e) = identity (dt_descriptor d)"
    and db: "dt_db e = dt_db d'" and tx: "d_Tx (dt_descriptor d) \<noteq> None" and rc: "d_Receipt (dt_descriptor d) \<noteq> None"
    and u: "u_db (e_unpacker env) \<noteq> None" and o: "e_options env = Some opts" "\<not> ForceReprocess (opt_Unpacker opts)"
    and valid: "\<And>c. d_contract (dt_descriptor e) = Some c \<Longrightarrow> \<exists>b c'. IsValid (e_solgo env) c = Returns (b, c')"
    and c2: "poll ctx2 = None"
  shows "\<exists>e'. Unpack env ctx2 DiscoverState e = Some (Returns (None, e')) \<and> dt_db e' = dt_db e
    \<and> dt_files e' = dt_files e \<and> completedStates (dt_descriptor e') = completedStates (dt_descriptor e)"
proof -
  from completed_run_lookup [OF assms(1-14)] obtain c where
    c: "GetContractByUniqueIndex (e_codec env) (ToBig (e_solgo env) (d_NetworkID (dt_descriptor d)))
        (hd_Number h) (d_Addr (dt_descriptor d)) (dt_db d') = (Inr c, dt_db d')" "IsCompleted c"
    using nf by (auto simp: IsCompleted_def)
  have ids: "d_Header (dt_descriptor e) = Some h" "d_NetworkID (dt_descriptor e) = d_NetworkID (dt_descriptor d)"
    "d_Addr (dt_descriptor e) = d_Addr (dt_descriptor d)" "d_Tx (dt_descriptor e) \<noteq> None" "d_Receipt (dt_descriptor e) \<noteq> None"
    using e h tx rc by (simp_all add: identity_def)
  from completed_contract_skipped [OF c2 ids(1,4,5) u valid _ c(2) o] c(1) ids db show ?thesis by auto
qed

theorem second_Unpack_changes_nothing_witness:
  "\<exists>e'. Unpack example_env Background DiscoverState (example_data\<lparr>dt_db := dt_db example_result\<rparr>) = Some (Returns (None, e'))
     \<and> dt_db e' = dt_db example_result"
proof -
  let ?e = "example_data\<lparr>dt_db := dt_db example_result\<rparr>"
  have "\<forall>i < 7. Background i = None" by (simp add: Background_def)
  note second_Unpack_changes_nothing [OF _ _ _ _ _ _ this example_run, of "\<lparr>hd_Number = 17, hd_Hash = 3\<rparr>" ?e example_options Background]
  then have "\<exists>e'. Unpack example_env Background DiscoverState ?e = Some (Returns (None, e')) \<and> dt_db e' = dt_db ?e
      \<and> dt_files e' = dt_files ?e \<and> completedStates (dt_descriptor e') = completedStates (dt_descriptor ?e)"
    by (auto simp: example_facts HasCompletedState_iff)
  then show ?thesis by auto
qed

text \<open>A descriptor without its creation block, transaction or receipt is not unpacked and nobody is
  told: the discovery handler fails, the machine moves to its error state and stops, and \<open>Unpack\<close>
  returns the unchanged descriptor without an error.\<close>

theorem Unpack_without_chain_info:
  assumes "d_Header (dt_descriptor d) = None \<or> d_Tx (dt_descriptor d) = None \<or> d_Receipt (dt_descriptor d) = None"
    and "poll ctx = None"
  shows "Unpack env ctx DiscoverState d = Some (Returns (None, d))"
  by (rule chain_info_missing [OF assms])

theorem Unpack_without_chain_info_witness:
  "Unpack example_env Background DiscoverState (upd (\<lambda>x. x\<lparr>d_Header := None\<rparr>) example_data)
     = Some (Returns (None, upd (\<lambda>x. x\<lparr>d_Header := None\<rparr>) example_data))"
  by (rule Unpack_without_chain_info) simp_all

text \<open>The states that are declared but have no handler cannot be unpacked from: whatever the
  descriptor, the run ends with an error that names the state and changes nothing.\<close>

theorem Unpack_unregistered_state:
  assumes "s \<in> {OpcodesState, AstState, SocialState, StandardsState, FunctionSignaturesState, EventSignaturesState, TokenState}"
  shows "GetStateFromString s = Inr s \<and>
    Unpack env ctx s d = Some (Returns (Some (Errorf
      (''failed to process contract unpacking state machine: invalid state: '' @ s)), d))"
proof -
  have "unpack_handlers env s = None" "s \<noteq> DoneState" "GetStateFromString s = Inr s"
    using assms by (auto simp: unpack_handlers_def state_defs GetStateFromString_def)
  moreover from this have "process_iter (unpack_machine env ctx s d)
      = Stop (Returns (Some (Errorf (''invalid state: '' @ s)), unpack_machine env ctx s d))"
    by (simp add: process_iter_def unpack_machine_def NewStateMachine_def)
  ultimately show ?thesis
    by (simp add: Unpack_eq Process_Stop unpack_result_def) (simp add: unpack_machine_def NewStateMachine_def)
qed

theorem Unpack_unregistered_state_witness:
  "Unpack example_env Background TokenState example_data = Some (Returns (Some (Errorf
     ''failed to process contract unpacking state machine: invalid state: token''), example_data))"
  using Unpack_unregistered_state [of TokenState example_env Background example_data]
  by (simp add: TokenState_def)

end
