(* ===== verification/Subscribers.thy ===== *)
theory Subscribers
  imports Sync_State Unpack
begin

text \<open>
  Package \<open>subscribers\<close> (src/pkg/subscribers): the manager, the archive and head block
  subscriptions and the subscription to unpacking requests, with the hook types of hooks.go and the
  event of src/pkg/events. The blockchain clients and the message broker are parameters; a
  \<open>select\<close> over channels reads from a list of the events it will receive.

  \<open>world\<close> is what the process shares between its goroutines: the synchronisation state, the
  contracts table, the cached sources, the clock, the messages published so far and the goroutines
  that were launched and have not run yet.
\<close>

section \<open>Types\<close>

text \<open>An \<open>Entry\<close> of src/pkg/entries is the request to unpack one contract.\<close>

record Entry =
  en_Network :: string
  en_NetworkID :: int
  en_Header :: "Header option"
  en_CreatorAddr :: Address
  en_Tx :: "Transaction option"
  en_Receipt :: "Receipt option"
  en_ContractAddr :: Address

record NotificationEntry =
  ChannelID :: string
  ne_Entry :: "Entry option"

definition GetDescriptor :: "'x Unpacker \<Rightarrow> 'x contract option \<Rightarrow> Entry \<Rightarrow> 'x Descriptor" where
  "GetDescriptor u c e =
     SetContract c ((NewDescriptor u (en_Network e) (en_NetworkID e) (en_ContractAddr e))
       \<lparr>d_Header := en_Header e, d_Tx := en_Tx e, d_Receipt := en_Receipt e\<rparr>)"

record ('r, 'x) world =
  w_sync :: "'r sync_state"
  w_db :: contracts_db
  w_files :: "'x fs"
  w_clock :: "gotime schedule"
  w_published :: "(string \<times> byte list) list"
  w_tasks :: "(string \<times> Entry) list"

record Block =
  blk_Header :: Header
  blk_Transactions :: "Transaction list"

record Unpack_event =
  CorrelationID :: string
  ev_NetworkId :: int
  ev_Address :: Address
  Resolved :: bool

type_synonym SubscriberType = string
type_synonym HookType = string

datatype Status = StatusActive | StatusNotActive

text \<open>The enumeration starts at zero, so the zero value of a \<open>Status\<close> field is its first
  constant.\<close>

definition zero_Status :: Status where
  "zero_Status = StatusActive"

definition PreHook :: HookType where "PreHook = ''pre''"
definition PostHook :: HookType where "PostHook = ''post''"

definition ArchiveBlockSubscriber :: SubscriberType where "ArchiveBlockSubscriber = ''archive''"
definition HeadBlockSubscriber :: SubscriberType where "HeadBlockSubscriber = ''head''"
definition UnpackerSubscriber :: SubscriberType where "UnpackerSubscriber = ''unpacker''"

text \<open>A hook may return a nil block with its error; an unpacking hook changes the event it is given
  in place.\<close>

type_synonym 'w BlockHookFn = "Block \<Rightarrow> 'w \<Rightarrow> ((Block option \<times> error option) \<times> 'w, 'w) go"
type_synonym 'w UnpackerHookFn = "Unpack_event \<Rightarrow> 'w \<Rightarrow> (error option \<times> Unpack_event \<times> 'w, 'w) go"

record 'w client =
  BlockByNumber :: "int option \<Rightarrow> 'w \<Rightarrow> (error + Block) \<times> 'w"
  TransactionReceipt :: "Hash \<Rightarrow> error + Receipt"
  SubscribeNewHead :: "'w \<Rightarrow> error option \<times> 'w"

record ('r, 'w) chain_env =
  ce_redis :: "'r redis"
  GetNetworkFromString :: "string \<Rightarrow> error + string"
  ce_network_String :: "string \<Rightarrow> string"
  GetClientByGroup :: "string \<Rightarrow> 'w client option"

section \<open>Shared parts\<close>

text \<open>The post hooks of a block: every hook gets the block that was fetched, whatever the earlier
  hooks return; a failing hook is logged with the block it returned, which panics when that is nil.\<close>

fun run_block_hooks :: "'w BlockHookFn list \<Rightarrow> Block \<Rightarrow> 'w \<Rightarrow> ('w, 'w) go" where
  "run_block_hooks [] block w = Returns w"
| "run_block_hooks (hook # hooks) block w =
     (case hook block w of
        Returns ((block', err), w') \<Rightarrow>
          if err \<noteq> None \<and> block' = None then Panics w' else run_block_hooks hooks block w'
      | Panics w' \<Rightarrow> Panics w'
      | Blocks w' \<Rightarrow> Blocks w')"

definition hooks_of :: "(HookType \<rightharpoonup> 'h list) \<Rightarrow> HookType \<Rightarrow> 'h list" where
  "hooks_of hooks t = (case hooks t of None \<Rightarrow> [] | Some hs \<Rightarrow> hs)"

text \<open>\<open>state.Set\<close> with a number that is not nil, on the shared state.\<close>

definition world_Set :: "'r redis \<Rightarrow> Key \<Rightarrow> int \<Rightarrow> ('r, 'x) world \<Rightarrow> (error option \<times> ('r, 'x) world, ('r, 'x) world) go" where
  "world_Set rc key v w =
     map_go (\<lambda>(e, s). (e, w\<lparr>w_sync := s\<rparr>)) (\<lambda>s. w\<lparr>w_sync := s\<rparr>) (state_Set rc key (Some v) (w_sync w))"

section \<open>Archive blocks\<close>

record 'w ArchiveBlock =
  ab_opts :: Subscriber_options
  ab_status :: Status
  ab_done :: bool
  ab_hooks :: "HookType \<rightharpoonup> 'w BlockHookFn list"

definition NewArchiveBlock ::
  "Subscriber_options \<Rightarrow> (HookType \<rightharpoonup> 'w BlockHookFn list) \<Rightarrow> error + 'w ArchiveBlock" where
  "NewArchiveBlock opts hooks =
     (case Subscriber_Validate opts of
        Some err \<Rightarrow> Inl (Wrapf ''faulure to validate archive block subscriber options: '' err)
      | None \<Rightarrow> Inr \<lparr>ab_opts = opts, ab_status = zero_Status, ab_done = False, ab_hooks = hooks\<rparr>)"

text \<open>The loop over the block range. The counter is a 64-bit integer: \<open>i++\<close> wraps around.\<close>

definition archive_visit :: "'w client \<Rightarrow> 'w BlockHookFn list \<Rightarrow> int \<Rightarrow> 'w \<Rightarrow> ('w, 'w) go" where
  "archive_visit c hooks i w =
     (case BlockByNumber c (Some i) w of
        (Inl err, w') \<Rightarrow> Returns w'
      | (Inr block, w') \<Rightarrow> run_block_hooks hooks block w')"

partial_function (option) archive_loop ::
  "(int \<Rightarrow> 'w \<Rightarrow> ('w, 'w) go) \<Rightarrow> int \<Rightarrow> int \<Rightarrow> 'w \<Rightarrow> ('w, 'w) go option" where
  "archive_loop visit i end' w =
     (if i \<le> end'
      then (case visit i w of
              Returns w' \<Rightarrow> archive_loop visit (go_int64 (i + 1)) end' w'
            | Panics w' \<Rightarrow> Some (Panics w')
            | Blocks w' \<Rightarrow> Some (Blocks w'))
      else Some (Returns w))"

definition archive_start_block :: "Subscriber_options \<Rightarrow> state_descriptor \<Rightarrow> int" where
  "archive_start_block opts d =
     (if sub_Resumption opts
      then (case sd_LatestInspectedArchiveBlock (state_Descriptor d) of
              None \<Rightarrow> sub_StartBlockNumber opts
            | Some latest \<Rightarrow>
                if big_Int64 latest \<ge> sub_StartBlockNumber opts then big_Int64 latest
                else sub_StartBlockNumber opts)
      else sub_StartBlockNumber opts)"

text \<open>The percentage that \<open>Descriptor\<close> recomputes is stored in the shared state as a side effect of
  reading it.\<close>

definition archive_touch :: "Subscriber_options \<Rightarrow> ('r, 'x) world \<Rightarrow> ('r, 'x) world" where
  "archive_touch opts w =
     (if sub_Resumption opts
      then w\<lparr>w_sync := (w_sync w)\<lparr>st_descriptor := state_Descriptor (st_descriptor (w_sync w))\<rparr>\<rparr> else w)"

definition archive_run ::
  "'b ArchiveBlock \<Rightarrow> (int \<Rightarrow> ('r, 'x) world \<Rightarrow> (('r, 'x) world, ('r, 'x) world) go) \<Rightarrow> ('r, 'x) world
   \<Rightarrow> (error option \<times> 'b ArchiveBlock \<times> ('r, 'x) world, 'b ArchiveBlock \<times> ('r, 'x) world) go option" where
  "archive_run b visit w =
     (let w1 = archive_touch (ab_opts b) w;
          start = archive_start_block (ab_opts b) (st_descriptor (w_sync w));
          b' = b\<lparr>ab_status := StatusNotActive\<rparr>
      in map_option (map_go (\<lambda>w'. (None, b', w')) (\<lambda>w'. (b', w')))
           (archive_loop visit start (sub_EndBlockNumber (ab_opts b)) w1))"

definition archive_Start ::
  "('r, ('r, 'x) world) chain_env \<Rightarrow> gocontext \<Rightarrow> ('r, 'x) world ArchiveBlock \<Rightarrow> ('r, 'x) world
   \<Rightarrow> (error option \<times> ('r, 'x) world ArchiveBlock \<times> ('r, 'x) world,
       ('r, 'x) world ArchiveBlock \<times> ('r, 'x) world) go option" where
  "archive_Start ce ctx b w =
     (if \<not> sub_Enabled (ab_opts b) then Some (Returns (None, b, w))
      else (case GetNetworkFromString ce (sub_Network (ab_opts b)) of
        Inl _ \<Rightarrow> Some (Returns (Some (Errorf (''provided subscriber network is not supported: ''
            @ sub_Network (ab_opts b))), b, w))
      | Inr network \<Rightarrow>
     (case world_Set (ce_redis ce) ArchiveStartBlockNumber (sub_StartBlockNumber (ab_opts b)) w of
        Panics w' \<Rightarrow> Some (Panics (b, w')) | Blocks w' \<Rightarrow> Some (Blocks (b, w'))
      | Returns (Some err, w1) \<Rightarrow>
          Some (Returns (Some (Wrapf ''failure to set start block number archive state: '' err), b, w1))
      | Returns (None, w1) \<Rightarrow>
     (case world_Set (ce_redis ce) ArchiveEndBlockNumber (sub_EndBlockNumber (ab_opts b)) w1 of
        Panics w' \<Rightarrow> Some (Panics (b, w')) | Blocks w' \<Rightarrow> Some (Blocks (b, w'))
      | Returns (Some err, w2) \<Rightarrow>
          Some (Returns (Some (Wrapf ''failure to set end block number archive state: '' err), b, w2))
      | Returns (None, w2) \<Rightarrow>
          if poll ctx \<noteq> None \<or> ab_done b then Some (Returns (None, b, w2))
          else (case GetClientByGroup ce (ce_network_String ce network) of
                  None \<Rightarrow> Some (Returns (Some (Errorf (''failure to get '' @ quoted (ce_network_String ce network)
                      @ '' client from client pool'')), b, w2))
                | Some client \<Rightarrow>
                    archive_run (b\<lparr>ab_status := StatusActive\<rparr>)
                      (archive_visit client (hooks_of (ab_hooks b) PostHook)) w2)))))"

text \<open>Closing a closed channel panics.\<close>

definition archive_Stop :: "'w ArchiveBlock \<Rightarrow> (error option \<times> 'w ArchiveBlock, 'w ArchiveBlock) go" where
  "archive_Stop b = (if ab_done b then Panics b else Returns (None, b\<lparr>ab_done := True\<rparr>))"

definition archive_Status :: "'w ArchiveBlock \<Rightarrow> Status" where
  "archive_Status b = ab_status b"

section \<open>Head blocks\<close>

record 'w HeadBlock =
  hb_opts :: Subscriber_options
  hb_status :: Status
  hb_sub :: bool
  hb_hooks :: "HookType \<rightharpoonup> 'w BlockHookFn list"

definition NewHeadBlock ::
  "Subscriber_options \<Rightarrow> (HookType \<rightharpoonup> 'w BlockHookFn list) \<Rightarrow> error + 'w HeadBlock" where
  "NewHeadBlock opts hooks =
     (case Subscriber_Validate opts of
        Some err \<Rightarrow> Inl (Wrapf ''faulure to validate head block subscriber options: '' err)
      | None \<Rightarrow> Inr \<lparr>hb_opts = opts, hb_status = zero_Status, hb_sub = False, hb_hooks = hooks\<rparr>)"

datatype head_event = HeadCtxDone | HeadSubErr "error option" | NewHead Header

text \<open>One new head: fetch the block, record its number as the current head, run the hooks; a failure
  of either of the first two skips the block.\<close>

definition head_block ::
  "'r redis \<Rightarrow> ('r, 'x) world client \<Rightarrow> ('r, 'x) world BlockHookFn list \<Rightarrow> Header \<Rightarrow> ('r, 'x) world
   \<Rightarrow> (('r, 'x) world, ('r, 'x) world) go" where
  "head_block rc client hooks header w =
     (case BlockByNumber client (Some (hd_Number header)) w of
        (Inl err, w1) \<Rightarrow> Returns w1
      | (Inr block, w1) \<Rightarrow>
          go_bind (world_Set rc CurrentBlockHead (hd_Number (blk_Header block)) w1) (\<lambda>(err, w2).
            if err \<noteq> None then Returns w2 else run_block_hooks hooks block w2))"

text \<open>The loop waits for ever when no further event arrives.\<close>

fun head_loop ::
  "(Header \<Rightarrow> 'w \<Rightarrow> ('w, 'w) go) \<Rightarrow> head_event list \<Rightarrow> 'w \<Rightarrow> (error option \<times> 'w, 'w) go" where
  "head_loop on_head [] w = Blocks w"
| "head_loop on_head (HeadCtxDone # es) w = Returns (None, w)"
| "head_loop on_head (HeadSubErr e # es) w = Returns (e, w)"
| "head_loop on_head (NewHead header # es) w = go_bind (on_head header w) (head_loop on_head es)"

definition head_Start ::
  "('r, ('r, 'x) world) chain_env \<Rightarrow> head_event list \<Rightarrow> ('r, 'x) world HeadBlock \<Rightarrow> ('r, 'x) world
   \<Rightarrow> (error option \<times> ('r, 'x) world HeadBlock \<times> ('r, 'x) world,
       ('r, 'x) world HeadBlock \<times> ('r, 'x) world) go" where
  "head_Start ce events b w =
     (if \<not> sub_Enabled (hb_opts b) then Returns (None, b, w)
      else (case GetNetworkFromString ce (sub_Network (hb_opts b)) of
        Inl _ \<Rightarrow> Returns (Some (Errorf (''provided subscriber network is not supported: ''
            @ sub_Network (hb_opts b))), b, w)
      | Inr network \<Rightarrow>
     (case GetClientByGroup ce (ce_network_String ce network) of
        None \<Rightarrow> Returns (Some (Errorf (''failure to get '' @ quoted (ce_network_String ce network)
            @ '' client from client pool'')), b, w)
      | Some client \<Rightarrow>
     (case BlockByNumber client None w of
        (Inl err, w1) \<Rightarrow> Returns (Some (Wrapf ''failure to fetch current head from the client: '' err), b, w1)
      | (Inr currentHead, w1) \<Rightarrow>
          go_bind (map_go id (\<lambda>w'. (b, w'))
            (world_Set (ce_redis ce) CurrentBlockHead (hd_Number (blk_Header currentHead)) w1)) (\<lambda>(err, w2).
            case err of
              Some e \<Rightarrow> Returns (Some (Wrapf ''failure to set current block head state: '' e), b, w2)
            | None \<Rightarrow>
                (case SubscribeNewHead client w2 of
                   (Some e, w3) \<Rightarrow> Returns (Some e, b, w3)
                 | (None, w3) \<Rightarrow>
                     map_go (\<lambda>(e, w'). (e, b\<lparr>hb_sub := True\<rparr>, w')) (\<lambda>w'. (b\<lparr>hb_sub := True\<rparr>, w'))
                       (head_loop (head_block (ce_redis ce) client (hooks_of (hb_hooks b) PostHook)) events w3)))))))"

definition head_Stop :: "'w HeadBlock \<Rightarrow> (error option \<times> 'w HeadBlock, 'w HeadBlock) go" where
  "head_Stop b = Returns (None, b)"

definition head_Status :: "'w HeadBlock \<Rightarrow> Status" where
  "head_Status b = hb_status b"

section \<open>Unpacking requests\<close>

text \<open>The JSON encoding of an event and the broker are parameters.\<close>

record json =
  MarshalUnpack :: "Unpack_event \<Rightarrow> error + byte list"
  json_Unmarshal :: "byte list \<Rightarrow> error + Unpack_event"

definition MarshalBinary :: "json \<Rightarrow> Unpack_event \<Rightarrow> error + byte list" where
  "MarshalBinary js e = MarshalUnpack js e"

definition UnmarshalUnpack :: "json \<Rightarrow> byte list \<Rightarrow> error + Unpack_event" where
  "UnmarshalUnpack js data = (case json_Unmarshal js data of Inl err \<Rightarrow> Inl err | Inr u \<Rightarrow> Inr u)"

record 'w UnpackerSub =
  us_opts :: Subscriber_options
  us_status :: Status
  us_hooks :: "HookType \<rightharpoonup> 'w UnpackerHookFn list"

definition NewUnpackerSub ::
  "Subscriber_options \<Rightarrow> (HookType \<rightharpoonup> 'w UnpackerHookFn list) \<Rightarrow> error + 'w UnpackerSub" where
  "NewUnpackerSub opts hooks =
     (case Subscriber_Validate opts of
        Some err \<Rightarrow> Inl (Wrapf ''failure to validate unpack subscriber options: '' err)
      | None \<Rightarrow> Inr \<lparr>us_opts = opts, us_status = zero_Status, us_hooks = hooks\<rparr>)"

fun run_unpacker_hooks :: "'w UnpackerHookFn list \<Rightarrow> Unpack_event \<Rightarrow> 'w \<Rightarrow> ('w, 'w) go" where
  "run_unpacker_hooks [] event w = Returns w"
| "run_unpacker_hooks (hook # hooks) event w =
     (case hook event w of
        Returns (err, event', w') \<Rightarrow> run_unpacker_hooks hooks event' w'
      | Panics w' \<Rightarrow> Panics w'
      | Blocks w' \<Rightarrow> Blocks w')"

definition unpacker_message :: "json \<Rightarrow> 'w UnpackerHookFn list \<Rightarrow> byte list \<Rightarrow> 'w \<Rightarrow> ('w, 'w) go" where
  "unpacker_message js hooks data w =
     (case UnmarshalUnpack js data of
        Inl err \<Rightarrow> Returns w
      | Inr event \<Rightarrow> run_unpacker_hooks hooks event w)"

datatype unpacker_event = UnpackerMsg "byte list" | UnpackerCtxDone

text \<open>The subscription delivers the messages one after the other until the context is done.\<close>

fun unpacker_loop ::
  "(byte list \<Rightarrow> 'w \<Rightarrow> ('w, 'w) go) \<Rightarrow> error option \<Rightarrow> unpacker_event list \<Rightarrow> 'w \<Rightarrow> (error option \<times> 'w, 'w) go" where
  "unpacker_loop on_msg unsub [] w = Blocks w"
| "unpacker_loop on_msg unsub (UnpackerCtxDone # es) w = Returns (unsub, w)"
| "unpacker_loop on_msg unsub (UnpackerMsg m # es) w = go_bind (on_msg m w) (unpacker_loop on_msg unsub es)"

definition unpacker_Start ::
  "json \<Rightarrow> (string \<Rightarrow> error option) \<Rightarrow> error option \<Rightarrow> unpacker_event list \<Rightarrow> 'w UnpackerSub \<Rightarrow> 'w
   \<Rightarrow> (error option \<times> 'w, 'w) go" where
  "unpacker_Start js subscribe unsubscribe events b w =
     (if \<not> sub_Enabled (us_opts b) then Returns (None, w)
      else (case subscribe (sub_SubjectName (us_opts b)) of
              Some err \<Rightarrow> Returns (Some (Wrapf (''failure subscribing to subject '' @ sub_SubjectName (us_opts b) @ '': '') err), w)
            | None \<Rightarrow>
                unpacker_loop (unpacker_message js (hooks_of (us_hooks b) PostHook))
                  (map_option (Wrapf (''failure to unsubscribe from the subject ''
                     @ quoted (sub_SubjectName (us_opts b)) @ '': '')) unsubscribe) events w))"

definition unpacker_Stop :: "'w UnpackerSub \<Rightarrow> (error option \<times> 'w UnpackerSub, 'w UnpackerSub) go" where
  "unpacker_Stop b = Returns (None, b)"

definition unpacker_Status :: "'w UnpackerSub \<Rightarrow> Status" where
  "unpacker_Status b = us_status b"

section \<open>The manager\<close>

datatype 'w Subscriber = SArchive "'w ArchiveBlock" | SHead "'w HeadBlock" | SUnpacker "'w UnpackerSub"

fun sub_Status :: "'w Subscriber \<Rightarrow> Status" where
  "sub_Status (SArchive b) = archive_Status b"
| "sub_Status (SHead b) = head_Status b"
| "sub_Status (SUnpacker b) = unpacker_Status b"

fun sub_Stop :: "'w Subscriber \<Rightarrow> (error option \<times> 'w Subscriber, 'w Subscriber) go" where
  "sub_Stop (SArchive b) = map_go (\<lambda>(e, b'). (e, SArchive b')) SArchive (archive_Stop b)"
| "sub_Stop (SHead b) = map_go (\<lambda>(e, b'). (e, SHead b')) SHead (head_Stop b)"
| "sub_Stop (SUnpacker b) = map_go (\<lambda>(e, b'). (e, SUnpacker b')) SUnpacker (unpacker_Stop b)"

type_synonym 's Manager = "SubscriberType \<rightharpoonup> 's"

definition NewManager :: "'s Manager" where
  "NewManager = Map.empty"

definition manager_Exists :: "SubscriberType \<Rightarrow> 's Manager \<Rightarrow> bool" where
  "manager_Exists name m \<longleftrightarrow> m name \<noteq> None"

text \<open>\<open>Register\<close> takes the lock twice: once for the check, once for the insertion. The two critical
  sections are separate steps, between which another goroutine may run.\<close>

definition register_check :: "SubscriberType \<Rightarrow> 's Manager \<Rightarrow> error option" where
  "register_check name m =
     (if manager_Exists name m
      then Some (Errorf (''rejecting subscriber '' @ quoted name @ '' registration as it already exists'')) else None)"

definition register_put :: "SubscriberType \<Rightarrow> 's \<Rightarrow> 's Manager \<Rightarrow> 's Manager" where
  "register_put name sub m = m(name \<mapsto> sub)"

definition manager_Register :: "SubscriberType \<Rightarrow> 's \<Rightarrow> 's Manager \<Rightarrow> error option \<times> 's Manager" where
  "manager_Register name sub m =
     (case register_check name m of Some err \<Rightarrow> (Some err, m) | None \<Rightarrow> (None, register_put name sub m))"

definition manager_UnRegister :: "SubscriberType \<Rightarrow> 's Manager \<Rightarrow> error option \<times> 's Manager" where
  "manager_UnRegister name m =
     (if \<not> manager_Exists name m
      then (Some (Errorf (''rejecting subscriber '' @ quoted name @ '' removal as it does not exist'')), m)
      else (None, m(name := None)))"

definition manager_Get :: "SubscriberType \<Rightarrow> 's Manager \<Rightarrow> error + 's" where
  "manager_Get name m =
     (case m name of None \<Rightarrow> Inl (Errorf (''subscriber '' @ quoted name @ '' not found'')) | Some sub \<Rightarrow> Inr sub)"

definition manager_List :: "'s Manager \<Rightarrow> 's Manager" where
  "manager_List m = m"

text \<open>The goroutines \<open>Subscribe\<close> launches: one per given name that is registered, or one per
  registered subscriber when no name is given; \<open>all\<close> enumerates the map in its iteration order.\<close>

definition subscribe_targets :: "('s Manager \<Rightarrow> 's list) \<Rightarrow> SubscriberType list \<Rightarrow> 's Manager \<Rightarrow> 's list" where
  "subscribe_targets all names m = (if names = [] then all m else List.map_filter m names)"

text \<open>\<open>Wait\<close> of an errgroup returns the first error in the order in which the goroutines finish.\<close>

fun errgroup_Wait :: "error option list \<Rightarrow> error option" where
  "errgroup_Wait [] = None"
| "errgroup_Wait (e # es) = (if e \<noteq> None then e else errgroup_Wait es)"

definition startSubscriber :: "('s \<Rightarrow> error option) \<Rightarrow> error option \<Rightarrow> 's \<Rightarrow> error option" where
  "startSubscriber start ctx_err sub = (if ctx_err \<noteq> None then ctx_err else start sub)"

text \<open>The group's context is cancelled by the first error, so a goroutine that gets to its check later
  returns the context's error without starting its subscriber. \<open>order\<close> is the order in which the
  goroutines run; a subscriber whose \<open>Start\<close> blocks for ever is not in it.\<close>

fun subscribe_run :: "('s \<Rightarrow> error option) \<Rightarrow> error \<Rightarrow> error option \<Rightarrow> 's list \<Rightarrow> error option list" where
  "subscribe_run start canceled ctx_err [] = []"
| "subscribe_run start canceled ctx_err (sub # subs) =
     (let e = startSubscriber start ctx_err sub
      in e # subscribe_run start canceled (if e \<noteq> None \<and> ctx_err = None then Some canceled else ctx_err) subs)"

definition manager_Subscribe ::
  "('s Manager \<Rightarrow> 's list) \<Rightarrow> ('s list \<Rightarrow> 's list) \<Rightarrow> ('s \<Rightarrow> error option) \<Rightarrow> error \<Rightarrow> error option
   \<Rightarrow> SubscriberType list \<Rightarrow> 's Manager \<Rightarrow> error option" where
  "manager_Subscribe all order start canceled ctx_err names m =
     errgroup_Wait (subscribe_run start canceled ctx_err (order (subscribe_targets all names m)))"

text \<open>\<open>Close\<close> stops the active subscribers in goroutines and then waits for the group's context, which
  ends when the manager's context does or when a goroutine fails; nobody calls \<open>Wait\<close>.\<close>

definition manager_Close ::
  "('w Subscriber Manager \<Rightarrow> 'w Subscriber list) \<Rightarrow> bool \<Rightarrow> 'w Subscriber Manager
   \<Rightarrow> (error option, 'w Subscriber list) go" where
  "manager_Close all ctx_done m =
     (let active = filter (\<lambda>s. sub_Status s = StatusActive) (all m); results = map sub_Stop active
      in if list_ex (\<lambda>r. case r of Panics _ \<Rightarrow> True | _ \<Rightarrow> False) results then Panics active
         else if ctx_done \<or> list_ex (\<lambda>r. case r of Returns (Some _, _) \<Rightarrow> True | _ \<Rightarrow> False) results
         then Returns None else Blocks active)"

section \<open>Lemmas\<close>

subsection \<open>The archive loop\<close>

text \<open>The reference: visit every block of a list in order, until a visit does not return.\<close>

fun visit_all :: "(int \<Rightarrow> 'w \<Rightarrow> ('w, 'w) go) \<Rightarrow> int list \<Rightarrow> 'w \<Rightarrow> ('w, 'w) go" where
  "visit_all visit [] w = Returns w"
| "visit_all visit (i # is) w = go_bind (visit i w) (visit_all visit is)"

lemma archive_loop_range:
  "- (2 ^ 63) \<le> a \<Longrightarrow> b < 2 ^ 63 - 1 \<Longrightarrow> archive_loop visit a b w = Some (visit_all visit [a..b] w)"
proof (induction "nat (b + 1 - a)" arbitrary: a w)
  case 0
  then show ?case by (subst archive_loop.simps) simp
next
  case (Suc n)
  then have ab: "a \<le> b" by simp
  then have next': "go_int64 (a + 1) = a + 1" using Suc.prems by (simp add: go_int64_id)
  have "archive_loop visit (a + 1) b w' = Some (visit_all visit [a + 1..b] w')" for w'
    using Suc.hyps(2) Suc.prems by (intro Suc.hyps(1)) simp_all
  with ab next' show ?case
    by (subst archive_loop.simps) (simp add: upto_rec1 split: go.splits)
qed

lemma archive_loop_returns:
  "archive_loop visit a b w = Some r \<Longrightarrow> (\<forall>i w. \<exists>w'. visit i w = Returns w') \<Longrightarrow> b = 2 ^ 63 - 1
   \<Longrightarrow> a < 2 ^ 63 \<Longrightarrow> False"
proof -
  assume run: "archive_loop visit a b w = Some r" and v: "\<forall>i w. \<exists>w'. visit i w = Returns w'"
    and b: "b = 2 ^ 63 - 1" and a: "a < 2 ^ 63"
  have "(\<forall>i w. \<exists>w'. visit i w = Returns w') \<longrightarrow> b = 2 ^ 63 - 1 \<longrightarrow> a < 2 ^ 63 \<longrightarrow> False"
  proof (rule archive_loop.raw_induct [where P = "\<lambda>visit a b w r. (\<forall>i w. \<exists>w'. visit i w = Returns w')
      \<longrightarrow> b = 2 ^ 63 - 1 \<longrightarrow> a < 2 ^ 63 \<longrightarrow> False", OF _ run])
    fix f :: "(int \<Rightarrow> 'a \<Rightarrow> ('a, 'a) go) \<Rightarrow> int \<Rightarrow> int \<Rightarrow> 'a \<Rightarrow> ('a, 'a) go option" and visit i b w r
    assume IH: "\<And>visit i b w r. f visit i b w = Some r \<Longrightarrow> (\<forall>i w. \<exists>w'. visit i w = Returns w')
        \<longrightarrow> b = 2 ^ 63 - 1 \<longrightarrow> i < 2 ^ 63 \<longrightarrow> False"
      and eq: "(if i \<le> b then case visit i w of Returns w' \<Rightarrow> f visit (go_int64 (i + 1)) b w'
          | Panics w' \<Rightarrow> Some (Panics w') | Blocks w' \<Rightarrow> Some (Blocks w') else Some (Returns w)) = Some r"
    show "(\<forall>i w. \<exists>w'. visit i w = Returns w') \<longrightarrow> b = 2 ^ 63 - 1 \<longrightarrow> i < 2 ^ 63 \<longrightarrow> False"
    proof (intro impI)
      assume v: "\<forall>i w. \<exists>w'. visit i w = Returns w'" and b: "b = 2 ^ 63 - 1" and i: "i < 2 ^ 63"
      then obtain w' where "visit i w = Returns w'" by blast
      with eq i b have "f visit (go_int64 (i + 1)) b w' = Some r" by simp
      with IH v b go_int64_range(2) show False by blast
    qed
  qed
  with v b a show False by blast
qed

lemma archive_start_bounds:
  "sub_StartBlockNumber opts \<le> archive_start_block opts d
   \<and> archive_start_block opts d \<in> {sub_StartBlockNumber opts} \<union> big_Int64 ` set_option (sd_LatestInspectedArchiveBlock d)"
proof -
  have "sd_LatestInspectedArchiveBlock (state_Descriptor d) = sd_LatestInspectedArchiveBlock d"
    by (simp add: state_Descriptor_def Let_def split: option.splits)
  then show ?thesis by (auto simp: archive_start_block_def split: option.splits)
qed

subsection \<open>Registries\<close>

text \<open>The contract of a registry of named parts: a registration under a free name is found again and
  disturbs no other name, one under a taken name is refused and changes nothing, a removal frees the
  name.\<close>

locale registry =
  fixes look :: "'n \<Rightarrow> 'm \<Rightarrow> 's option"
    and reg :: "'n \<Rightarrow> 's \<Rightarrow> 'm \<Rightarrow> error option \<times> 'm"
    and unreg :: "'n \<Rightarrow> 'm \<Rightarrow> error option \<times> 'm"
  assumes reg_free: "look n m = None \<Longrightarrow> \<exists>m'. reg n s m = (None, m') \<and> (\<forall>k. look k m' = (if k = n then Some s else look k m))"
    and reg_taken: "look n m \<noteq> None \<Longrightarrow> \<exists>e. reg n s m = (Some e, m)"
    and unreg_known: "look n m \<noteq> None \<Longrightarrow> \<exists>m'. unreg n m = (None, m') \<and> (\<forall>k. look k m' = (if k = n then None else look k m))"
begin

fun reg_all :: "('n \<times> 's) list \<Rightarrow> 'm \<Rightarrow> error option \<times> 'm" where
  "reg_all [] m = (None, m)"
| "reg_all ((n, s) # nss) m = (case reg n s m of (Some e, m') \<Rightarrow> (Some e, m') | (None, m') \<Rightarrow> reg_all nss m')"

lemma reg_all_ok:
  assumes "distinct (map fst nss)" and "\<forall>n \<in> fst ` set nss. look n m = None"
  shows "\<exists>m'. reg_all nss m = (None, m') \<and> (\<forall>(n, s) \<in> set nss. look n m' = Some s)
    \<and> (\<forall>k. k \<notin> fst ` set nss \<longrightarrow> look k m' = look k m)"
  using assms
proof (induction nss arbitrary: m)
  case (Cons p nss)
  obtain n s where p: "p = (n, s)" by (cases p)
  then obtain m1 where m1: "reg n s m = (None, m1)" "\<And>k. look k m1 = (if k = n then Some s else look k m)"
    using reg_free [of n m s] Cons.prems(2) by auto
  from Cons.prems m1(2) p have "\<forall>k \<in> fst ` set nss. look k m1 = None" by (auto simp: rev_image_eqI)
  with Cons.IH [of m1] Cons.prems(1) obtain m' where "reg_all nss m1 = (None, m')"
    "\<forall>(n, s) \<in> set nss. look n m' = Some s" "\<And>k. k \<notin> fst ` set nss \<Longrightarrow> look k m' = look k m1" by auto
  with m1 p Cons.prems(1) show ?case by auto
qed simp

lemma reg_unreg: "look n m = None \<Longrightarrow> reg n s m = (None, m1) \<Longrightarrow> unreg n m1 = (None, m2) \<Longrightarrow> look k m2 = look k m"
  using reg_free [of n m s] unreg_known [of n m1] by (auto split: if_splits)

end

interpretation manager: registry "\<lambda>n m. m n" manager_Register manager_UnRegister
  by unfold_locales
     (auto simp: manager_Register_def register_check_def register_put_def manager_UnRegister_def manager_Exists_def)

lemma errgroup_Wait_None: "errgroup_Wait es = None \<longleftrightarrow> (\<forall>e \<in> set es. e = None)"
  by (induction es) auto

lemma subscribe_run_first:
  "errgroup_Wait (subscribe_run start c None subs) = errgroup_Wait (map start subs)"
proof (induction subs)
  case (Cons s subs)
  then show ?case by (cases "start s") (simp_all add: startSubscriber_def Let_def)
qed simp

lemma errgroup_Wait_Some: "errgroup_Wait es = Some e \<Longrightarrow> Some e \<in> set es"
  by (induction es) (auto split: if_splits)

section \<open>Properties\<close>

text \<open>C16. The archive loop inspects exactly the blocks of its range, each once and in ascending order,
  and ends, for every range whose end is below the largest 64-bit integer; a block that cannot be
  fetched is skipped.\<close>

theorem archive_loop_visits_range:
  assumes "- (2 ^ 63) \<le> a" and "b < 2 ^ 63 - 1"
  shows "archive_loop visit a b w = Some (visit_all visit [a..b] w)"
  by (rule archive_loop_range [OF assms])

theorem archive_loop_visits_range_witness:
  "archive_loop (\<lambda>i w. Returns (w @ [i])) 3 5 [] = Some (Returns [3, 4, 5])"
  using archive_loop_visits_range [of 3 5 "\<lambda>i w. Returns (w @ [i])" "[]"] by (simp add: upto_rec1)

text \<open>C30. With the largest 64-bit integer as the end of its range the archive loop never ends: the
  counter wraps around to the smallest integer and the whole range is inspected again and again.\<close>

theorem archive_loop_wraps_around:
  assumes "\<forall>i w. \<exists>w'. visit i w = Returns w'" and "a < 2 ^ 63"
  shows "archive_loop visit a (2 ^ 63 - 1) w = None"
  using archive_loop_returns [of visit a "2 ^ 63 - 1" w] assms
  by (cases "archive_loop visit a (2 ^ 63 - 1) w") auto

theorem archive_loop_wraps_around_witness:
  "archive_loop (\<lambda>i w. Returns w) 0 (2 ^ 63 - 1) () = None"
  by (rule archive_loop_wraps_around) simp_all

text \<open>Resumption starts at the configured first block or at the last inspected archive block,
  whichever is later, and never before the configured first block.\<close>

theorem archive_resumes_in_range:
  "sub_StartBlockNumber opts \<le> archive_start_block opts d
   \<and> (sub_Resumption opts \<and> sd_LatestInspectedArchiveBlock d = Some x
        \<and> 0 \<le> x \<and> x < 2 ^ 63 \<longrightarrow> archive_start_block opts d = max x (sub_StartBlockNumber opts))"
proof -
  have "sd_LatestInspectedArchiveBlock (state_Descriptor d) = sd_LatestInspectedArchiveBlock d"
    by (simp add: state_Descriptor_def Let_def split: option.splits)
  then show ?thesis using archive_start_bounds [of opts d]
    by (auto simp: archive_start_block_def big_Int64_id max_def)
qed

theorem archive_resumes_in_range_witness:
  "archive_start_block \<lparr>sub_Enabled = True, sub_SubjectName = [], sub_Network = ''ethereum'', sub_Resumption = True,
      sub_Type = ''archive'', sub_StartBlockNumber = 10, sub_EndBlockNumber = 99\<rparr>
     \<lparr>CurrentBlockHeadNumber = None, sd_LatestInspectedHeadBlock = None, sd_LatestInspectedArchiveBlock = Some 42,
      sd_StartBlockNumber = None, sd_EndBlockNumber = None, PercentageCompleted = None\<rparr> = 42"
  using archive_resumes_in_range [of "\<lparr>sub_Enabled = True, sub_SubjectName = [], sub_Network = ''ethereum'', sub_Resumption = True,
      sub_Type = ''archive'', sub_StartBlockNumber = 10, sub_EndBlockNumber = 99\<rparr>"
    "\<lparr>CurrentBlockHeadNumber = None, sd_LatestInspectedHeadBlock = None, sd_LatestInspectedArchiveBlock = Some 42,
      sd_StartBlockNumber = None, sd_EndBlockNumber = None, PercentageCompleted = None\<rparr>" 42]
  by simp

text \<open>The manager keeps its promise to a single caller: a subscriber registered under a free name is
  found again and leaves the others alone, a second registration under that name is refused and changes
  nothing, and removing the subscriber restores the manager.\<close>

theorem manager_registry:
  assumes "m n = None"
  shows "\<exists>m'. manager_Register n s m = (None, m') \<and> manager_Get n m' = Inr s \<and> (\<forall>k. k \<noteq> n \<longrightarrow> m' k = m k)
    \<and> (\<exists>e. manager_Register n t m' = (Some e, m')) \<and> manager_UnRegister n m' = (None, m)"
proof -
  obtain m' where m': "manager_Register n s m = (None, m')" "\<forall>k. m' k = (if k = n then Some s else m k)"
    using manager.reg_free [of m n s] assms by blast
  moreover have "\<exists>e. manager_Register n t m' = (Some e, m')" using manager.reg_taken [of m' n t] m'(2) by simp
  moreover have "manager_UnRegister n m' = (None, m)"
    using manager.unreg_known [of m' n] m'(2) assms by (auto simp: fun_eq_iff)
  ultimately show ?thesis by (auto simp: manager_Get_def)
qed

theorem manager_registry_witness:
  "\<exists>m'. manager_Register ''head'' (1::nat) NewManager = (None, m') \<and> manager_Get ''head'' m' = Inr 1
     \<and> manager_UnRegister ''head'' m' = (None, NewManager)"
  using manager_registry [of NewManager "''head''" "1::nat" 2] by (auto simp: NewManager_def)

text \<open>Two goroutines that register the same new name at the same time can both succeed: when both
  checks run before both insertions, neither call fails and the second subscriber silently replaces the
  first.\<close>

theorem Register_race:
  assumes "m name = None"
  shows "register_check name m = None \<and> register_put name s2 (register_put name s1 m) = m(name \<mapsto> s2)
    \<and> fst (manager_Register name s2 (snd (manager_Register name s1 m))) \<noteq> None"
  using assms by (simp add: register_check_def register_put_def manager_Exists_def manager_Register_def)

theorem Register_race_witness:
  "register_put ''head'' (2::nat) (register_put ''head'' 1 NewManager) = [''head'' \<mapsto> 2]
   \<and> register_check ''head'' (NewManager :: nat Manager) = None"
  using Register_race [of "NewManager :: nat Manager" "''head''" 2 1] by (simp add: NewManager_def)

text \<open>\<open>Subscribe\<close> reports the failure of a subscriber and never the cancellation that the failure
  causes in the others: with a live context it returns nil exactly when every subscriber that it
  launches starts without an error, in whatever order they run, and otherwise an error that a subscriber
  returned.\<close>

theorem Subscribe_reports_failures:
  assumes "\<forall>xs. set (order xs) = set xs"
  shows "(manager_Subscribe all order start canceled None names m = None
      \<longleftrightarrow> (\<forall>s \<in> set (subscribe_targets all names m). start s = None))
    \<and> (manager_Subscribe all order start canceled None names m = Some e
      \<longrightarrow> (\<exists>s \<in> set (subscribe_targets all names m). start s = Some e))"
  using assms errgroup_Wait_Some [of "map start (order (subscribe_targets all names m))" e]
  by (force simp: manager_Subscribe_def subscribe_run_first errgroup_Wait_None)

theorem Subscribe_reports_failures_witness:
  "\<exists>s \<in> set (subscribe_targets (\<lambda>m. [the (m ''a''), the (m ''b'')]) [] [''a'' \<mapsto> 1, ''b'' \<mapsto> 2::nat]).
     (if s = 2 then Some (Errorf ''boom'') else None) = Some (Errorf ''boom'')"
  using Subscribe_reports_failures [of rev "\<lambda>m. [the (m ''a''), the (m ''b'')]"
      "\<lambda>s. if s = 2 then Some (Errorf ''boom'') else None" "Errorf ''canceled''" "[]" "[''a'' \<mapsto> 1, ''b'' \<mapsto> 2::nat]" "Errorf ''boom''"]
  by (simp add: manager_Subscribe_def subscribe_targets_def startSubscriber_def)

text \<open>C31. \<open>Close\<close> never returns while the context of the manager is live: stopping a subscriber never
  fails, so the context it waits for is not cancelled. Subscribers that were never started count as
  active, because the zero value of the status is the active one.\<close>

theorem Close_hangs:
  assumes "\<forall>b. SArchive b \<in> set (all m) \<longrightarrow> \<not> ab_done b"
  shows "manager_Close all False m = Blocks (filter (\<lambda>s. sub_Status s = StatusActive) (all m))"
proof -
  let ?active = "filter (\<lambda>s. sub_Status s = StatusActive) (all m)"
  have stop: "\<exists>s'. sub_Stop s = Returns (None, s')" if "s \<in> set ?active" for s
    using that assms
    by (cases rule: Subscriber.exhaust [of s]) (auto simp: archive_Stop_def head_Stop_def unpacker_Stop_def)
  have "\<not> list_ex (\<lambda>r. case r of Panics _ \<Rightarrow> True | _ \<Rightarrow> False) (map sub_Stop ?active)"
    "\<not> list_ex (\<lambda>r. case r of Returns (Some _, _) \<Rightarrow> True | _ \<Rightarrow> False) (map sub_Stop ?active)"
    unfolding list_ex_iff using stop by fastforce+
  then show ?thesis by (simp only: manager_Close_def Let_def simp_thms if_False)
qed

theorem Close_hangs_witness:
  "case NewArchiveBlock \<lparr>sub_Enabled = False, sub_SubjectName = [], sub_Network = [], sub_Resumption = False,
      sub_Type = [], sub_StartBlockNumber = 0, sub_EndBlockNumber = 0\<rparr> (Map.empty :: HookType \<rightharpoonup> unit BlockHookFn list) of
     Inl _ \<Rightarrow> False
   | Inr b \<Rightarrow> manager_Close (\<lambda>m. [SArchive b]) False [''archive'' \<mapsto> SArchive b] = Blocks [SArchive b]"
  using Close_hangs [of "\<lambda>m. [SArchive b]" "[''archive'' \<mapsto> SArchive b]" for b :: "unit ArchiveBlock"]
  by (simp add: NewArchiveBlock_def Subscriber_Validate_def archive_Status_def zero_Status_def)

end
