(* ===== verification/Graph.thy ===== *)
theory Graph
  imports Subscribers
begin

text \<open>
  Package \<open>graph\<close> (src/pkg/graph) behind the query service: the field paths a query asks for, the
  resolvers of the networks and contracts queries with their cursor pagination, the mutation that
  requests the unpacking of a contract over the message broker, and the persisted-query cache.

  The SQL builder's reading of a limit, the collected selection tree of the GraphQL library and the
  broker are parameters. Queries run on the table of theory \<open>Models\<close>; every statement sent and
  every row fetched may fail, as its fault schedule says.
\<close>

section \<open>Requested fields\<close>

text \<open>A collected field: its response alias, its name, the values of its arguments and the fields that
  are collected from its selections. An argument value is what Go sees behind \<open>interface{}\<close>.\<close>

datatype raw_arg =
  Raw_nil | Raw_bool bool | Raw_int int | Raw_string string | Raw_list "raw_arg list" | Raw_map "(string \<times> raw_arg) list"

datatype CollectedField = CollectedField
  (cf_Alias: string) (cf_Name: string) (cf_Args: "(string \<times> raw_arg) list") (cf_Selections: "CollectedField list")

definition GetPreloadString :: "string \<Rightarrow> string \<Rightarrow> string" where
  "GetPreloadString prefix name = (if 0 < length prefix then prefix @ ''.'' @ name else name)"

fun GetNestedPreloads :: "CollectedField list \<Rightarrow> string \<Rightarrow> string list" where
  "GetNestedPreloads [] prefix = []"
| "GetNestedPreloads (CollectedField al name args selections # columns) prefix =
     (let prefixColumn = GetPreloadString prefix name
      in prefixColumn # GetNestedPreloads selections prefixColumn @ GetNestedPreloads columns prefix)"

definition GetPreloads :: "CollectedField list \<Rightarrow> string list" where
  "GetPreloads columns = GetNestedPreloads columns []"

section \<open>Schema types\<close>

record gql_Network =
  gn_NetworkID :: int
  gn_Name :: string
  gn_CanonicalName :: string
  gn_Symbol :: string
  gn_Website :: string
  gn_Suspended :: bool
  gn_Maintenance :: bool

text \<open>A pointer or a slice that the schema lets be absent is an option, \<open>None\<close> its nil value; so is the
  network, which the resolvers set only on request.\<close>

record gql_Contract =
  gc_Network :: "gql_Network option"
  gc_Address :: string
  gc_Name :: string
  gc_BlockNumber :: int
  gc_BlockHash :: string
  gc_TransactionHash :: string
  gc_Standards :: "string list option"
  gc_License :: "string option"
  gc_Optimized :: bool
  gc_OptimizationRuns :: int
  gc_Proxy :: bool
  gc_Implementations :: "string list option"
  gc_Abi :: "string option"
  gc_ExecutionBytecode :: "string option"
  gc_Bytecode :: "string option"
  gc_EvmVersion :: "string option"
  gc_Verified :: bool
  gc_SourceAvailable :: bool
  gc_SourcesProvider :: "string option"
  gc_VerificationProvider :: "string option"
  gc_SelfDestructed :: bool
  gc_CompilerVersion :: "string option"
  gc_SolgoVersion :: "string option"
  gc_CurrentState :: string
  gc_NextState :: string
  gc_CompletedStates :: "string list"
  gc_FailedStates :: "string list"
  gc_Completed :: bool
  gc_Partial :: bool
  gc_CreatedAt :: gotime
  gc_UpdatedAt :: gotime

record PageInfo =
  HasNextPage :: bool
  HasPreviousPage :: bool
  StartCursor :: string
  EndCursor :: string

record ContractEdge =
  edge_Node :: gql_Contract
  edge_Cursor :: string

record ContractConnection =
  Edges :: "ContractEdge list"
  page_Info :: PageInfo

record ContractUnpackRequest =
  req_Address :: string
  req_NetworkID :: int

text \<open>\<open>ToSQL\<close> is what the SQL builder makes of a statement without a limit or with the given unsigned one: an
  error or the statement's \<open>LIMIT\<close> clause. \<open>scan_order\<close> is the order in which the engine visits the table
  when a statement does not sort.\<close>

record graph_env =
  gr_codec :: codec
  gr_standard_String :: "string \<Rightarrow> string"
  gr_options :: "Options option"
  ToSQL :: "int option \<Rightarrow> error + int option"
  gr_scan_order :: "row list \<Rightarrow> row list"

text \<open>The documented behaviour of the builder: a positive limit is the clause.\<close>

definition limit_documented :: "graph_env \<Rightarrow> bool" where
  "limit_documented ge \<longleftrightarrow> (\<forall>n. 0 < n \<and> n < 2 ^ 64 \<longrightarrow> ToSQL ge (Some n) = Inr (Some n))"

section \<open>Networks\<close>

definition to_gql_Network :: "Network \<Rightarrow> gql_Network" where
  "to_gql_Network network =
     \<lparr>gn_NetworkID = network_NetworkId network, gn_Name = network_Name network,
      gn_CanonicalName = network_CanonicalName network, gn_Symbol = network_Symbol network,
      gn_Website = network_Website network, gn_Suspended = network_Suspended network,
      gn_Maintenance = network_Maintenance network\<rparr>"

fun networks_loop ::
  "int option \<Rightarrow> string option \<Rightarrow> string option \<Rightarrow> bool option \<Rightarrow> bool option \<Rightarrow> Network list
   \<Rightarrow> gql_Network list \<Rightarrow> gql_Network list" where
  "networks_loop networkID name symbol suspended maintenance [] toReturn = toReturn"
| "networks_loop networkID name symbol suspended maintenance (network # networks) toReturn =
     (if (case networkID of None \<Rightarrow> False | Some i \<Rightarrow> i \<noteq> network_NetworkId network)
         \<or> (case name of None \<Rightarrow> False
             | Some n \<Rightarrow> \<not> strings_Contains (strings_ToLower (network_Name network)) (strings_ToLower n))
         \<or> (case symbol of None \<Rightarrow> False
             | Some s \<Rightarrow> \<not> strings_Contains (strings_ToLower (network_Symbol network)) (strings_ToLower s))
         \<or> (case suspended of None \<Rightarrow> False | Some b \<Rightarrow> network_Suspended network \<noteq> b)
         \<or> (case maintenance of None \<Rightarrow> False | Some b \<Rightarrow> network_Maintenance network \<noteq> b)
      then networks_loop networkID name symbol suspended maintenance networks toReturn
      else networks_loop networkID name symbol suspended maintenance networks (toReturn @ [to_gql_Network network]))"

definition resolveNetworks ::
  "graph_env \<Rightarrow> int option \<Rightarrow> string option \<Rightarrow> string option \<Rightarrow> bool option \<Rightarrow> bool option
   \<Rightarrow> (gql_Network list, unit) go" where
  "resolveNetworks ge networkID name symbol suspended maintenance =
     (case gr_options ge of
        None \<Rightarrow> Panics ()
      | Some o' \<Rightarrow> Returns (networks_loop networkID name symbol suspended maintenance (opt_Networks o') []))"

section \<open>Contracts\<close>

text \<open>\<open>rows.Scan\<close> into a contract: the scanners of the column types in the order of the columns; an
  error names the column.\<close>

definition scan_error :: "string \<Rightarrow> string \<Rightarrow> error \<Rightarrow> error" where
  "scan_error idx col err =
     Wrapf (''sql: Scan error on column index '' @ idx @ '', name '' @ [CHR 0x22] @ col @ [CHR 0x22] @ '': '') err"

definition scan_into :: "string \<Rightarrow> string \<Rightarrow> (error + 'a, unit) go \<Rightarrow> ('a \<Rightarrow> (error + 'b, unit) go) \<Rightarrow> (error + 'b, unit) go" where
  "scan_into idx col r f =
     go_bind r (\<lambda>s. case s of Inl err \<Rightarrow> Returns (Inl (scan_error idx col err)) | Inr a \<Rightarrow> f a)"

definition rows_Scan :: "codec \<Rightarrow> row \<Rightarrow> (error + Contract, unit) go" where
  "rows_Scan cd r =
     scan_into ''1'' ''network_id'' (Returns (BigInt_Scan (VInt64 (r_network_id r)))) (\<lambda>networkId.
     scan_into ''2'' ''block_number'' (Returns (BigInt_Scan (VInt64 (r_block_number r)))) (\<lambda>blockNumber.
     go_bind (Hash_Scan cd (VString (r_block_hash r))) (\<lambda>blockHash.
     go_bind (Hash_Scan cd (VString (r_transaction_hash r))) (\<lambda>transactionHash.
     go_bind (Address_Scan cd (VString (r_address r))) (\<lambda>address.
     scan_into ''7'' ''standards'' (Standards_Scan cd (VString (r_standards r))) (\<lambda>standards.
     go_bind (Bytecode_Scan cd (VString (r_execution_bytecode r))) (\<lambda>executionBytecode.
     go_bind (Bytecode_Scan cd (VString (r_bytecode r))) (\<lambda>bytecode.
     scan_into ''24'' ''proxy_implementations'' (Addresses_Scan cd (VString (r_proxy_implementations r))) (\<lambda>impls.
     scan_into ''25'' ''completed_states'' (States_Scan cd (VString (r_completed_states r))) (\<lambda>completed.
     scan_into ''26'' ''failed_states'' (States_Scan cd (VString (r_failed_states r))) (\<lambda>failed.
       Returns (Inr
         \<lparr>c_Id = r_id r, c_NetworkId = networkId, c_BlockNumber = blockNumber, c_BlockHash = blockHash,
          c_TransactionHash = transactionHash, c_Address = address, c_Name = r_name r, c_Standards = standards,
          c_Proxy = r_proxy r, c_License = r_license r, c_CompilerVersion = r_compiler_version r,
          c_SolgoVersion = r_solgo_version r, c_Optimized = r_optimized r,
          c_OptimizationRuns = r_optimization_runs r, c_EVMVersion = r_evm_version r, c_ABI = r_abi r,
          c_Verified = r_verified r, c_SourcesProvider = r_sources_provider r,
          c_VerificationProvider = r_verification_provider r, c_ExecutionBytecode = executionBytecode,
          c_Bytecode = bytecode, c_SafetyState = r_safety_state r, c_SourceAvailable = r_source_available r,
          c_SelfDestructed = r_self_destructed r, c_ProxyImplementations = impls, c_CompletedStates = completed,
          c_FailedStates = failed, c_Processed = r_processed r, c_Partial = r_partial r,
          c_CreatedAt = r_created_at r, c_UpdatedAt = r_updated_at r\<rparr>))))))))))))"

text \<open>\<open>Addresses.StringArray\<close> starts from a nil slice, so no implementations are nil; \<open>Standards.StringArray\<close>
  starts from an empty one.\<close>

definition nil_slice :: "'a list \<Rightarrow> 'a list option" where
  "nil_slice xs = (if xs = [] then None else Some xs)"

definition to_gql_Contract :: "graph_env \<Rightarrow> gql_Network option \<Rightarrow> Contract \<Rightarrow> gql_Contract" where
  "to_gql_Contract ge network c =
     (let cd = gr_codec ge in
      \<lparr>gc_Network = network, gc_Address = addr_Hex cd (c_Address c), gc_Name = c_Name c,
       gc_BlockNumber = go_int64 (big_Uint64 (c_BlockNumber c)), gc_BlockHash = hash_Hex cd (c_BlockHash c),
       gc_TransactionHash = hash_Hex cd (c_TransactionHash c),
       gc_Standards = Some (Standards_StringArray (gr_standard_String ge) (c_Standards c)), gc_License = Some (c_License c),
       gc_Optimized = c_Optimized c, gc_OptimizationRuns = go_int64 (c_OptimizationRuns c), gc_Proxy = c_Proxy c,
       gc_Implementations = nil_slice (Addresses_StringArray cd (c_ProxyImplementations c)), gc_Abi = Some (c_ABI c),
       gc_ExecutionBytecode = Some (Bytecode_ToHex cd (c_ExecutionBytecode c)),
       gc_Bytecode = Some (Bytecode_ToHex cd (c_Bytecode c)),
       gc_EvmVersion = Some (c_EVMVersion c), gc_Verified = c_Verified c, gc_SourceAvailable = c_SourceAvailable c,
       gc_SourcesProvider = Some (c_SourcesProvider c), gc_VerificationProvider = Some (c_VerificationProvider c),
       gc_SelfDestructed = c_SelfDestructed c, gc_CompilerVersion = Some (c_CompilerVersion c),
       gc_SolgoVersion = Some (c_SolgoVersion c), gc_CurrentState = [], gc_NextState = [],
       gc_CompletedStates = States_StringArray (c_CompletedStates c),
       gc_FailedStates = States_StringArray (c_FailedStates c), gc_Completed = c_Processed c,
       gc_Partial = c_Partial c, gc_CreatedAt = c_CreatedAt c, gc_UpdatedAt = c_UpdatedAt c\<rparr>)"

text \<open>The conditions of the statement; a filter that is nil or empty adds none. A number compared with a
  text column is compared in its decimal form.\<close>

definition optional_in :: "'a list \<Rightarrow> (row \<Rightarrow> bool) \<Rightarrow> (row \<Rightarrow> bool) list" where
  "optional_in xs p = (if 0 < length xs then [p] else [])"

definition contracts_where ::
  "int list \<Rightarrow> int list \<Rightarrow> string list \<Rightarrow> string list \<Rightarrow> string list \<Rightarrow> int \<Rightarrow> (row \<Rightarrow> bool) list" where
  "contracts_where networkIds blockNumbers blockHashes transactionHashes addresses startAfter =
     [\<lambda>r. big_Int64 startAfter < r_id r]
     @ optional_in networkIds (\<lambda>r. r_network_id r \<in> set networkIds)
     @ optional_in addresses (\<lambda>r. r_address r \<in> set (map big_String networkIds))
     @ optional_in blockNumbers (\<lambda>r. r_block_number r \<in> set blockNumbers)
     @ optional_in blockHashes (\<lambda>r. r_block_hash r \<in> set blockHashes)
     @ optional_in transactionHashes (\<lambda>r. r_transaction_hash r \<in> set transactionHashes)"

text \<open>\<open>SELECT ... WHERE ... ORDER BY id ASC LIMIT ?\<close>: a limit that is no 64-bit integer is refused.\<close>

definition limit_error :: error where
  "limit_error = Errorf ''datatype mismatch (20)''"

definition exec_select :: "(row \<Rightarrow> bool) list \<Rightarrow> int option \<Rightarrow> contracts_db \<Rightarrow> error + row list" where
  "exec_select conds limit db =
     (let rows = sort_key r_id (filter (\<lambda>r. list_all (\<lambda>p. p r) conds) (db_rows db)) in
      case limit of
        None \<Rightarrow> Inr rows
      | Some n \<Rightarrow> if n < 2 ^ 63 then Inr (take (nat n) rows) else Inl limit_error)"

text \<open>The loop over the result: fetching the next row may fail, which ends the loop, and so does the end
  of the rows; \<open>rows.Err\<close> tells the two apart.\<close>

fun rows_loop ::
  "graph_env \<Rightarrow> string list \<Rightarrow> row list \<Rightarrow> ContractEdge list \<Rightarrow> contracts_db
   \<Rightarrow> ((error + ContractEdge list) \<times> contracts_db, contracts_db) go" where
  "rows_loop ge preloads [] edges db =
     (case db_poll db of
        (Some err, db1) \<Rightarrow> Returns (Inl (Wrapf ''error iterating rows: '' err), db1)
      | (None, db1) \<Rightarrow> Returns (Inr edges, db1))"
| "rows_loop ge preloads (r # rs) edges db =
     (case db_poll db of
        (Some err, db1) \<Rightarrow> Returns (Inl (Wrapf ''error iterating rows: '' err), db1)
      | (None, db1) \<Rightarrow>
     (case rows_Scan (gr_codec ge) r of
        Panics _ \<Rightarrow> Panics db1
      | Blocks _ \<Rightarrow> Blocks db1
      | Returns (Inl err) \<Rightarrow> Returns (Inl (Wrapf ''error scanning row: '' err), db1)
      | Returns (Inr contract) \<Rightarrow>
     (case gr_options ge of
        None \<Rightarrow> Panics db1
      | Some o' \<Rightarrow>
          (let next = (\<lambda>network. rows_loop ge preloads rs
                 (edges @ [\<lparr>edge_Node = to_gql_Contract ge network contract, edge_Cursor = EncodeCursor contract\<rparr>]) db1)
           in if slice_contains preloads ''edges.node.network''
              then (case GetNetworkById o' (big_Uint64 (c_NetworkId contract)) of
                      Inl _ \<Rightarrow> Panics db1
                    | Inr network \<Rightarrow> next (Some (to_gql_Network network)))
              else next None))))"

definition page_info :: "int \<Rightarrow> ContractEdge list \<Rightarrow> PageInfo" where
  "page_info actualLimit edges =
     (if 0 < length edges
      then \<lparr>HasNextPage = (int (length edges) = actualLimit), HasPreviousPage = False,
            StartCursor = edge_Cursor (edges ! 0), EndCursor = edge_Cursor (edges ! (length edges - 1))\<rparr>
      else \<lparr>HasNextPage = False, HasPreviousPage = False, StartCursor = [], EndCursor = []\<rparr>)"

definition resolveContracts ::
  "graph_env \<Rightarrow> CollectedField list \<Rightarrow> int list \<Rightarrow> int list \<Rightarrow> string list \<Rightarrow> string list \<Rightarrow> string list
   \<Rightarrow> int option \<Rightarrow> int option \<Rightarrow> string option \<Rightarrow> contracts_db
   \<Rightarrow> ((error + ContractConnection) \<times> contracts_db, contracts_db) go" where
  "resolveContracts ge columns networkIds blockNumbers blockHashes transactionHashes addresses limit first' after' db =
     (let actualLimit = (case limit of None \<Rightarrow> 10 | Some l \<Rightarrow> l) in
      case (case after' of None \<Rightarrow> Inr 0 | Some c \<Rightarrow> DecodeCursor c) of
        Inl err \<Rightarrow> Returns (Inl (Wrapf (''cannot decode '' @ quoted ''after'' @ '' into its appropriate representation: '') err), db)
      | Inr startAfter \<Rightarrow>
     (case ToSQL ge (Some (go_uint64 actualLimit)) of
        Inl err \<Rightarrow> Returns (Inl (Wrapf ''error preparing query: '' err), db)
      | Inr clause \<Rightarrow>
     (case db_poll db of
        (Some err, db1) \<Rightarrow> Returns (Inl (Wrapf ''error executing query: '' err), db1)
      | (None, db1) \<Rightarrow>
     (case exec_select (contracts_where networkIds blockNumbers blockHashes transactionHashes addresses startAfter) clause db of
        Inl err \<Rightarrow> Returns (Inl (Wrapf ''error executing query: '' err), db1)
      | Inr rows \<Rightarrow>
          map_go (\<lambda>(r, db2). (map_sum id (\<lambda>edges. \<lparr>Edges = edges, page_Info = page_info actualLimit edges\<rparr>) r, db2)) id
            (rows_loop ge (GetPreloads columns) rows [] db1)))))"

text \<open>The lookup of one contract. \<open>QueryRowContext\<close> keeps an execution error for \<open>row.Err\<close>; the
  network of the contract is always dereferenced.\<close>

definition resolveContract ::
  "graph_env \<Rightarrow> int \<Rightarrow> Address \<Rightarrow> contracts_db \<Rightarrow> ((error + gql_Contract) \<times> contracts_db, contracts_db) go" where
  "resolveContract ge networkId address db =
     (case ToSQL ge None of
        Inl err \<Rightarrow> Returns (Inl (Wrapf ''error preparing query: '' err), db)
      | Inr _ \<Rightarrow>
     (case db_poll db of
        (Some err, db1) \<Rightarrow> Returns (Inl (Wrapf ''error executing query: '' err), db1)
      | (None, db1) \<Rightarrow>
     (case List.find (\<lambda>r. r_network_id r = networkId \<and> r_address r = addr_Hex (gr_codec ge) address)
             (gr_scan_order ge (db_rows db)) of
        None \<Rightarrow> Returns (Inl ErrNoRows, db1)
      | Some r \<Rightarrow>
     (case rows_Scan (gr_codec ge) r of
        Panics _ \<Rightarrow> Panics db1
      | Blocks _ \<Rightarrow> Blocks db1
      | Returns (Inl err) \<Rightarrow>
          Returns (Inl (if errors_Is err ErrNoRows then err else Wrapf ''error scanning row: '' err), db1)
      | Returns (Inr contract) \<Rightarrow>
     (case map_option (\<lambda>o'. GetNetworkById o' (big_Uint64 (c_NetworkId contract))) (gr_options ge) of
        Some (Inr network) \<Rightarrow>
          Returns (Inr (to_gql_Contract ge (Some (to_gql_Network network)) contract), db1)
      | _ \<Rightarrow> Panics db1)))))"

section \<open>The unpack mutation\<close>

text \<open>What the mutation uses of the broker: publishing runs whoever is subscribed, \<open>NextMsg\<close> waits for
  the next message of the subject or for its timeout.\<close>

record 'w broker =
  SubscribeSync :: "string \<Rightarrow> error option"
  nats_Publish :: "string \<Rightarrow> byte list \<Rightarrow> 'w \<Rightarrow> error option \<times> 'w"
  NextMsg :: "string \<Rightarrow> 'w \<Rightarrow> (error + byte list) \<times> 'w"

definition world_resolveContract ::
  "graph_env \<Rightarrow> int \<Rightarrow> Address \<Rightarrow> ('r, 'x) world \<Rightarrow> ((error + gql_Contract) \<times> ('r, 'x) world, ('r, 'x) world) go" where
  "world_resolveContract ge networkId address w =
     map_go (\<lambda>(r, db). (r, w\<lparr>w_db := db\<rparr>)) (\<lambda>db. w\<lparr>w_db := db\<rparr>) (resolveContract ge networkId address (w_db w))"

definition unpack_request :: "json \<Rightarrow> graph_env \<Rightarrow> ('r, 'x) world broker \<Rightarrow> ContractUnpackRequest \<Rightarrow> Unpack_event
   \<Rightarrow> ('r, 'x) world \<Rightarrow> ((error + gql_Contract) \<times> ('r, 'x) world, ('r, 'x) world) go" where
  "unpack_request js ge nt req event w =
     (let subject = CorrelationID event;
          where' = '' network: '' @ big_String (req_NetworkID req) @ '' - address: '' @ req_Address req in
      case SubscribeSync nt subject of
        Some err \<Rightarrow> Returns (Inl (Errorf (''failure to subscribe to correlation subject: '' @ Error err)), w)
      | None \<Rightarrow>
     (case MarshalBinary js event of
        Inl err \<Rightarrow> Returns (Inl (Errorf (''failure to marshal unpack event: '' @ Error err)), w)
      | Inr dataBytes \<Rightarrow>
     (case nats_Publish nt ''contracts:unpack'' dataBytes w of
        (Some err, w1) \<Rightarrow> Returns (Inl (Errorf (''failure to publish unpack event: '' @ Error err)), w1)
      | (None, w1) \<Rightarrow>
     (case NextMsg nt subject w1 of
        (Inl _, w2) \<Rightarrow> Returns (Inl (Errorf (''timed out while waiting for unpack response for'' @ where')), w2)
      | (Inr msg, w2) \<Rightarrow>
     (case UnmarshalUnpack js msg of
        Inl _ \<Rightarrow> Returns (Inl (Errorf (''failure to decode response event for'' @ where')), w2)
      | Inr answer \<Rightarrow>
          if \<not> Resolved answer then Returns (Inl (Errorf (''failure to resolve contract'' @ where')), w2)
          else world_resolveContract ge (ev_NetworkId answer) (ev_Address answer) w2)))))"

definition mutation_unpack ::
  "json \<Rightarrow> graph_env \<Rightarrow> ('r, 'x) world broker \<Rightarrow> ContractUnpackRequest \<Rightarrow> ('r, 'x) world
   \<Rightarrow> ((error + gql_Contract) \<times> ('r, 'x) world, ('r, 'x) world) go" where
  "mutation_unpack js ge nt req w =
     (let correlationId = ''unpack.response.'' @ big_String (req_NetworkID req) @ ''.'' @ req_Address req;
          event = \<lparr>CorrelationID = correlationId, ev_NetworkId = req_NetworkID req,
                   ev_Address = HexToAddress (gr_codec ge) (req_Address req), Resolved = False\<rparr>
      in go_bind (world_resolveContract ge (ev_NetworkId event) (ev_Address event) w) (\<lambda>(r, w1).
           case r of
             Inr contractDb \<Rightarrow>
               if gc_Completed contractDb \<and> \<not> gc_Partial contractDb then Returns (Inr contractDb, w1)
               else unpack_request js ge nt req event w1
           | Inl _ \<Rightarrow> unpack_request js ge nt req event w1))"

section \<open>The persisted-query cache\<close>

definition apqPrefix :: string where
  "apqPrefix = ''unpack:apq:''"

definition apq_Add :: "'r redis \<Rightarrow> int \<Rightarrow> string \<Rightarrow> byte list \<Rightarrow> 'r \<Rightarrow> 'r" where
  "apq_Add rc ttl key v s = snd (redis_Set rc (apqPrefix @ key) v ttl s)"

definition apq_Get :: "'r redis \<Rightarrow> string \<Rightarrow> 'r \<Rightarrow> byte list option \<times> 'r" where
  "apq_Get rc key s =
     (case redis_Get rc (apqPrefix @ key) s of (Inl _, s') \<Rightarrow> (None, s') | (Inr v, s') \<Rightarrow> (Some v, s'))"

section \<open>Lemmas\<close>

subsection \<open>Field paths\<close>

text \<open>A path of field names through a selection.\<close>

inductive field_path :: "CollectedField list \<Rightarrow> string list \<Rightarrow> bool" where
  here: "CollectedField a n args sels \<in> set fs \<Longrightarrow> field_path fs [n]"
| below: "CollectedField a n args sels \<in> set fs \<Longrightarrow> field_path sels p \<Longrightarrow> field_path fs (n # p)"

inductive_cases field_path_NilE: "field_path fs []"
inductive_simps field_path_Cons: "field_path fs (n # p)"

text \<open>GraphQL names are not empty and contain no dot.\<close>

fun names_ok :: "CollectedField list \<Rightarrow> bool" where
  "names_ok [] = True"
| "names_ok (CollectedField al name args sels # fs) = (name \<noteq> [] \<and> CHR ''.'' \<notin> set name \<and> names_ok sels \<and> names_ok fs)"

lemma names_ok_mem: "names_ok fs \<Longrightarrow> CollectedField a n args sels \<in> set fs \<Longrightarrow> n \<noteq> [] \<and> CHR ''.'' \<notin> set n \<and> names_ok sels"
  by (induction fs rule: names_ok.induct) auto

lemma field_path_Nil_fields [simp]: "\<not> field_path [] p"
  by (auto elim: field_path.cases)

lemma field_path_append:
  "field_path (f # fs) p \<longleftrightarrow> field_path [f] p \<or> field_path fs p"
  by (cases p) (auto simp: field_path_Cons elim: field_path_NilE)

lemma field_path_single:
  "field_path [CollectedField a n args sels] p \<longleftrightarrow> p = [n] \<or> (\<exists>q. p = n # q \<and> field_path sels q)"
  by (cases p) (auto simp: field_path_Cons elim: field_path_NilE)

lemma field_path_names: "field_path fs p \<Longrightarrow> names_ok fs \<Longrightarrow> p \<noteq> [] \<and> (\<forall>n \<in> set p. CHR ''.'' \<notin> set n)"
  by (induction rule: field_path.induct) (auto dest: names_ok_mem)

lemma Join_Cons: "p \<noteq> [] \<Longrightarrow> strings_Join (n # p) sep = n @ sep @ strings_Join p sep"
  by (cases p) simp_all

lemma field_paths_Cons:
  "Collect (field_path (CollectedField al name args sels # fs))
     = insert [name] ((#) name ` Collect (field_path sels) \<union> Collect (field_path fs))"
  by (auto simp: field_path_append [of "CollectedField al name args sels"] field_path_single)

lemma GetNestedPreloads_paths:
  "names_ok fs \<Longrightarrow>
     set (GetNestedPreloads fs prefix) = (\<lambda>p. GetPreloadString prefix (strings_Join p ''.'')) ` Collect (field_path fs)"
proof (induction fs prefix rule: GetNestedPreloads.induct)
  case (2 al name args selections columns prefix)
  let ?c = "GetPreloadString prefix name"
  have ok: "names_ok selections" "names_ok columns" "name \<noteq> []" using 2(3) by simp_all
  have "GetPreloadString ?c (strings_Join q ''.'') = GetPreloadString prefix (strings_Join (name # q) ''.'')"
    if "field_path selections q" for q
    using field_path_names [OF that ok(1)] ok(3) by (simp add: GetPreloadString_def Join_Cons)
  then have "(\<lambda>p. GetPreloadString ?c (strings_Join p ''.'')) ` Collect (field_path selections)
      = (\<lambda>p. GetPreloadString prefix (strings_Join p ''.'')) ` (#) name ` Collect (field_path selections)"
    unfolding image_image by (intro image_cong) simp_all
  with 2(1) [OF refl ok(1)] 2(2) [OF refl ok(2)] show ?case
    by (simp add: field_paths_Cons image_Un Let_def)
qed simp

lemma split_on_append:
  "sep \<notin> set a \<Longrightarrow> split_on sep (a @ sep # b) = a # split_on sep b"
  by (induction a) auto

lemma split_on_self: "sep \<notin> set a \<Longrightarrow> split_on sep a = [a]"
  by (induction a) auto

lemma split_on_Join:
  "p \<noteq> [] \<Longrightarrow> \<forall>n \<in> set p. sep \<notin> set n \<Longrightarrow> split_on sep (strings_Join p [sep]) = p"
proof (induction p)
  case (Cons n p)
  then show ?case by (cases "p = []") (simp_all add: Join_Cons split_on_append split_on_self)
qed simp

subsection \<open>Pages\<close>

text \<open>The two scans of a row agree: the resolvers read what \<open>GetContractByUniqueIndex\<close> reads.\<close>

lemma rows_Scan_iff: "rows_Scan cd r = Returns (Inr c) \<longleftrightarrow> scan_row cd r = Inr c"
  by (auto simp: rows_Scan_def scan_row_def scan_into_def BigInt_Scan_def Hash_Scan_def Address_Scan_def
      Bytecode_Scan_def Standards_Scan_def Addresses_Scan_def States_Scan_def assert_string_def split: sum.splits)

definition matching ::
  "int list \<Rightarrow> int list \<Rightarrow> string list \<Rightarrow> string list \<Rightarrow> string list \<Rightarrow> int \<Rightarrow> contracts_db \<Rightarrow> row list" where
  "matching networkIds blockNumbers blockHashes transactionHashes addresses a db =
     sort_key r_id (filter (\<lambda>r. list_all (\<lambda>p. p r)
       (contracts_where networkIds blockNumbers blockHashes transactionHashes addresses a)) (db_rows db))"

definition edge_for :: "graph_env \<Rightarrow> CollectedField list \<Rightarrow> row \<Rightarrow> ContractEdge \<Rightarrow> bool" where
  "edge_for ge columns r e \<longleftrightarrow>
     (\<exists>c network. scan_row (gr_codec ge) r = Inr c
        \<and> e = \<lparr>edge_Node = to_gql_Contract ge network c, edge_Cursor = EncodeCursor c\<rparr>
        \<and> (network \<noteq> None \<longleftrightarrow> ''edges.node.network'' \<in> set (GetPreloads columns))
        \<and> (\<forall>n. network = Some n \<longrightarrow> gn_NetworkID n = go_int64 (big_Uint64 (r_network_id r))))"

text \<open>Every stored row can be decoded, and its network is configured if the query asks for it.\<close>

definition servable :: "graph_env \<Rightarrow> CollectedField list \<Rightarrow> contracts_db \<Rightarrow> bool" where
  "servable ge columns db \<longleftrightarrow>
     (case gr_options ge of
        None \<Rightarrow> False
      | Some o' \<Rightarrow>
          (\<forall>r \<in> set (db_rows db). \<not> isl (scan_row (gr_codec ge) r)
             \<and> (''edges.node.network'' \<in> set (GetPreloads columns) \<longrightarrow> \<not> isl (GetNetworkById o' (big_Uint64 (r_network_id r))))))"

lemma db_poll_Background: "db_faults db = Background \<Longrightarrow> db_poll db = (None, db)"
  by (simp add: db_poll_def)

lemma scan_row_fields: "scan_row cd r = Inr c \<Longrightarrow> c_Id c = r_id r \<and> c_NetworkId c = r_network_id r"
  by (auto simp: scan_row_def split: sum.splits)

lemma GetNetworkById_id: "GetNetworkById o' i = Inr n \<Longrightarrow> network_NetworkId n = go_int64 i"
  using networks.scan_Some by (auto simp: GetNetworkById_def split: option.splits)

lemma rows_loop_ok:
  assumes "db_faults db = Background" and "servable ge columns db" and "set rs \<subseteq> set (db_rows db)"
  shows "\<exists>es. rows_loop ge (GetPreloads columns) rs edges db = Returns (Inr (edges @ es), db)
     \<and> list_all2 (edge_for ge columns) rs es"
  using assms(3)
proof (induction rs arbitrary: edges)
  case Nil
  then show ?case using assms by (simp add: db_poll_Background)
next
  case (Cons r rs)
  obtain o' where o': "gr_options ge = Some o'" using assms(2) by (auto simp: servable_def split: option.splits)
  obtain c where c: "scan_row (gr_codec ge) r = Inr c"
    using assms(2) Cons.prems o' by (cases "scan_row (gr_codec ge) r") (auto simp: servable_def)
  show ?case
  proof (cases "''edges.node.network'' \<in> set (GetPreloads columns)")
    case True
    obtain n where n: "GetNetworkById o' (big_Uint64 (r_network_id r)) = Inr n"
      using assms(2) Cons.prems o' True by (cases "GetNetworkById o' (big_Uint64 (r_network_id r))") (auto simp: servable_def)
    let ?e = "\<lparr>edge_Node = to_gql_Contract ge (Some (to_gql_Network n)) c, edge_Cursor = EncodeCursor c\<rparr>"
    have "edge_for ge columns r ?e"
      unfolding edge_for_def using c True GetNetworkById_id [OF n] by (auto simp: to_gql_Network_def)
    moreover obtain es where "rows_loop ge (GetPreloads columns) rs (edges @ [?e]) db = Returns (Inr ((edges @ [?e]) @ es), db)"
        "list_all2 (edge_for ge columns) rs es" using Cons by fastforce
    ultimately have "rows_loop ge (GetPreloads columns) (r # rs) edges db = Returns (Inr (edges @ ?e # es), db)
        \<and> list_all2 (edge_for ge columns) (r # rs) (?e # es)"
      using c n True o' scan_row_fields [OF c] assms(1) by (simp add: db_poll_Background rows_Scan_iff [THEN iffD2, OF c])
    then show ?thesis by blast
  next
    case False
    let ?e = "\<lparr>edge_Node = to_gql_Contract ge None c, edge_Cursor = EncodeCursor c\<rparr>"
    have "edge_for ge columns r ?e" unfolding edge_for_def using c False by auto
    moreover obtain es where "rows_loop ge (GetPreloads columns) rs (edges @ [?e]) db = Returns (Inr ((edges @ [?e]) @ es), db)"
        "list_all2 (edge_for ge columns) rs es" using Cons by fastforce
    ultimately have "rows_loop ge (GetPreloads columns) (r # rs) edges db = Returns (Inr (edges @ ?e # es), db)
        \<and> list_all2 (edge_for ge columns) (r # rs) (?e # es)"
      using c False o' assms(1) by (simp add: db_poll_Background rows_Scan_iff [THEN iffD2, OF c])
    then show ?thesis by blast
  qed
qed

definition cursor_position :: "string option \<Rightarrow> error + int" where
  "cursor_position after' = (case after' of None \<Rightarrow> Inr 0 | Some c \<Rightarrow> DecodeCursor c)"

lemma matching_subset: "set (matching ns bs hs ts as a db) \<subseteq> set (db_rows db)"
  by (auto simp: matching_def)

lemma resolveContracts_page:
  assumes "limit_documented ge" and "db_faults db = Background" and "servable ge columns db"
    and "0 < l" and "l < 2 ^ 63" and "cursor_position after' = Inr a"
  shows "\<exists>es. resolveContracts ge columns ns bs hs ts as (Some l) first' after' db
       = Returns (Inr \<lparr>Edges = es, page_Info = page_info l es\<rparr>, db)
     \<and> list_all2 (edge_for ge columns) (take (nat l) (matching ns bs hs ts as a db)) es"
proof -
  have u: "go_uint64 l = l" using assms(4,5) by (simp add: go_uint64_id)
  have sel: "exec_select (contracts_where ns bs hs ts as a) (Some l) db = Inr (take (nat l) (matching ns bs hs ts as a db))"
    using assms(5) by (simp add: exec_select_def matching_def)
  have sql: "ToSQL ge (Some l) = Inr (Some l)" using assms(1,4,5) by (simp add: limit_documented_def)
  have "set (take (nat l) (matching ns bs hs ts as a db)) \<subseteq> set (db_rows db)"
    using matching_subset set_take_subset by fastforce
  from rows_loop_ok [OF assms(2,3) this, of "[]"] obtain es where
    "rows_loop ge (GetPreloads columns) (take (nat l) (matching ns bs hs ts as a db)) [] db = Returns (Inr es, db)"
    "list_all2 (edge_for ge columns) (take (nat l) (matching ns bs hs ts as a db)) es" by auto
  then show ?thesis
    using assms(2,6) by (simp add: resolveContracts_def u sel sql db_poll_Background cursor_position_def [symmetric])
qed

subsection \<open>Following the cursors\<close>

text \<open>A client that asks for page after page: it passes the end cursor of a page to the next query until
  a page says that there is none.\<close>

fun fetch_all ::
  "nat \<Rightarrow> (string option \<Rightarrow> ((error + ContractConnection) \<times> contracts_db, contracts_db) go) \<Rightarrow> string option
   \<Rightarrow> ContractEdge list option" where
  "fetch_all 0 query after' = None"
| "fetch_all (Suc n) query after' =
     (case query after' of
        Returns (Inr conn, _) \<Rightarrow>
          if HasNextPage (page_Info conn)
          then map_option (\<lambda>es. Edges conn @ es) (fetch_all n query (Some (EndCursor (page_Info conn))))
          else Some (Edges conn)
      | _ \<Rightarrow> None)"

lemma sorted_drop:
  assumes "sorted_wrt (<) (map f xs)" and "0 < n" and "n \<le> length xs"
  shows "filter (\<lambda>x. f (xs ! (n - 1)) < (f x :: int)) xs = drop n xs"
proof -
  have lt: "f (xs ! i) < f (xs ! j)" if "i < j" "j < length xs" for i j
    using sorted_wrt_nth_less [OF assms(1), of i j] that by simp
  have "filter (\<lambda>x. f (xs ! (n - 1)) < f x) (take n xs) = []"
  proof -
    have "f (xs ! i) \<le> f (xs ! (n - 1))" if "i < n" for i
    proof (cases "i = n - 1")
      case False
      with that assms(3) have "i < n - 1" "n - 1 < length xs" by linarith+
      from lt [OF this] show ?thesis by simp
    qed simp
    then show ?thesis by (auto simp: filter_empty_conv in_set_conv_nth not_less)
  qed
  moreover have "filter (\<lambda>x. f (xs ! (n - 1)) < f x) (drop n xs) = drop n xs"
    using lt assms(2,3) by (auto simp: filter_id_conv in_set_conv_nth)
  ultimately show ?thesis by (metis append_take_drop_id filter_append append_Nil)
qed

lemma matching_sorted: "db_wf db \<Longrightarrow> sorted_wrt (<) (map r_id (matching ns bs hs ts as a db))"
  by (auto simp: matching_def strict_sorted_iff db_wf_def distinct_map inj_on_def)

lemma matching_after:
  assumes "big_Int64 k = k" and "big_Int64 a = a" and "a \<le> k"
  shows "matching ns bs hs ts as k db = filter (\<lambda>r. k < r_id r) (matching ns bs hs ts as a db)"
  using assms by (auto simp: matching_def filter_sort contracts_where_def intro!: arg_cong [where f = "sort_key r_id"] filter_cong)

lemma cursor_of_last:
  assumes "list_all2 (edge_for ge columns) rs es" and "rs \<noteq> []"
  shows "cursor_position (Some (EndCursor (page_info l es))) = Inr (r_id (last rs))"
proof -
  have "es \<noteq> []" using assms by auto
  moreover have "edge_for ge columns (last rs) (last es)"
    using assms by (metis last_conv_nth list_all2_conv_all_nth diff_less length_greater_0_conv list_all2_lengthD zero_less_one list_all2_Nil2)
  ultimately show ?thesis
    by (auto simp: cursor_position_def page_info_def edge_for_def last_conv_nth EncodeCursor_def DecodeCursor_def
        dest!: scan_row_fields)
qed

lemma fetch_all_complete:
  assumes "limit_documented ge" and "db_faults db = Background" and "servable ge columns db"
    and "db_wf db" and "db_seq db < 2 ^ 63" and "0 < l" and "l < 2 ^ 63"
    and "cursor_position after' = Inr a" and "0 \<le> a" and "a < 2 ^ 63"
    and "length (matching ns bs hs ts as a db) < n"
  shows "\<exists>es. fetch_all n (\<lambda>c. resolveContracts ge columns ns bs hs ts as (Some l) first' c db) after' = Some es
     \<and> list_all2 (edge_for ge columns) (matching ns bs hs ts as a db) es"
  using assms(8-11)
proof (induction n arbitrary: after' a)
  case (Suc n)
  let ?M = "matching ns bs hs ts as a db"
  from resolveContracts_page [OF assms(1-3,6,7) Suc.prems(1), of ns bs hs ts as first'] obtain es where
    q: "resolveContracts ge columns ns bs hs ts as (Some l) first' after' db
       = Returns (Inr \<lparr>Edges = es, page_Info = page_info l es\<rparr>, db)"
    and es: "list_all2 (edge_for ge columns) (take (nat l) ?M) es" by blast
  have len: "length es = min (nat l) (length ?M)" using list_all2_lengthD [OF es] by simp
  show ?case
  proof (cases "int (length es) = l")
    case False
    then have "take (nat l) ?M = ?M" using len assms(6) by simp
    with False es q show ?thesis by (simp add: page_info_def)
  next
    case True
    then have n: "nat l \<le> length ?M" "0 < nat l" using len assms(6) by simp_all
    let ?k = "r_id (last (take (nat l) ?M))"
    have ne: "take (nat l) ?M \<noteq> []" using n by auto
    have last: "last (take (nat l) ?M) = ?M ! (nat l - 1)" using n ne by (simp add: last_conv_nth min_def)
    have "last (take (nat l) ?M) \<in> set ?M" using ne last_in_set in_set_takeD by metis
    then have row: "last (take (nat l) ?M) \<in> set (db_rows db)" and gt: "a < ?k"
      using Suc.prems by (auto simp: matching_def contracts_where_def big_Int64_id)
    have k: "0 \<le> ?k" "?k < 2 ^ 63" using row assms(4,5) by (auto simp: db_wf_def)
    have rest: "matching ns bs hs ts as ?k db = drop (nat l) ?M"
      using matching_after [of ?k a] sorted_drop [OF matching_sorted [OF assms(4)] n(2,1)] k gt Suc.prems(2,3)
      by (simp add: big_Int64_id last)
    have "length (matching ns bs hs ts as ?k db) < n" using rest n Suc.prems(4) by simp
    from Suc.IH [OF cursor_of_last [OF es ne, of l] k this] obtain es' where
      "fetch_all n (\<lambda>c. resolveContracts ge columns ns bs hs ts as (Some l) first' c db) (Some (EndCursor (page_info l es))) = Some es'"
      and "list_all2 (edge_for ge columns) (drop (nat l) ?M) es'" unfolding rest by blast
    moreover have "HasNextPage (page_info l es)" using True assms(6) by (auto simp: page_info_def)
    moreover have "list_all2 (edge_for ge columns) (take (nat l) ?M @ drop (nat l) ?M) (es @ es')"
      using es calculation(2) by (rule list_all2_appendI)
    ultimately show ?thesis using q by simp
  qed
qed simp

section \<open>An instance\<close>

definition page_db :: contracts_db where
  "page_db = \<lparr>db_rows = [(contract_row plain_codec example_contract [])\<lparr>r_id := 1\<rparr>,
      (contract_row plain_codec (example_contract\<lparr>c_Name := ''Vault'', c_BlockNumber := 18\<rparr>) [])\<lparr>r_id := 2\<rparr>],
    db_seq = 2, db_faults = Background\<rparr>"

definition plain_graph :: graph_env where
  "plain_graph = \<lparr>gr_codec = plain_codec, gr_standard_String = (\<lambda>s. s), gr_options = Some (example_options
      \<lparr>opt_Networks := [\<lparr>network_Name = ''Ethereum'', network_NetworkId = 1, network_CanonicalName = ''ethereum'',
         network_Symbol = ''ETH'', network_Website = [], network_Suspended = False, network_Maintenance = False\<rparr>]\<rparr>),
    ToSQL = (\<lambda>l. Inr (if l = Some 0 then None else l)), gr_scan_order = (\<lambda>rs. rs)\<rparr>"

definition network_query :: "CollectedField list" where
  "network_query = [CollectedField ''edges'' ''edges'' [] [CollectedField ''node'' ''node'' []
     [CollectedField ''name'' ''name'' [] [], CollectedField ''network'' ''network'' [] [CollectedField ''symbol'' ''symbol'' [] []]]]]"

lemma limit_documented_plain: "limit_documented plain_graph"
  by (simp add: limit_documented_def plain_graph_def)

lemma servable_page_db: "servable plain_graph network_query page_db"
  by code_simp

lemma page_db_wf: "db_wf page_db" "db_faults page_db = Background" "db_seq page_db = 2"
  by (simp_all add: page_db_def db_wf_def row_key_def contract_row_def example_contract_def big_Uint64_def)

section \<open>Properties\<close>

text \<open>One page of the contracts query: without engine failures the edges are the contracts of the
  first \<open>limit\<close> matching rows with an id above the cursor, in ascending order of the ids, with their
  network exactly when the query asks for it; the page says that more may follow exactly when it is full.\<close>

theorem contracts_page:
  assumes "limit_documented ge" and "db_faults db = Background" and "servable ge columns db"
    and "0 < l" and "l < 2 ^ 63" and "cursor_position after' = Inr a"
  shows "\<exists>conn. resolveContracts ge columns ns bs hs ts as (Some l) first' after' db = Returns (Inr conn, db)
     \<and> list_all2 (edge_for ge columns) (take (nat l) (matching ns bs hs ts as a db)) (Edges conn)
     \<and> (HasNextPage (page_Info conn) \<longleftrightarrow> int (length (Edges conn)) = l)"
proof -
  from resolveContracts_page [OF assms, of ns bs hs ts as first'] obtain es where
    "resolveContracts ge columns ns bs hs ts as (Some l) first' after' db = Returns (Inr \<lparr>Edges = es, page_Info = page_info l es\<rparr>, db)"
    "list_all2 (edge_for ge columns) (take (nat l) (matching ns bs hs ts as a db)) es" by blast
  then show ?thesis using assms(4) by (auto simp: page_info_def)
qed

theorem contracts_page_witness:
  "\<exists>conn. resolveContracts plain_graph network_query [1] [] [] [] [] (Some 1) None None page_db = Returns (Inr conn, page_db)
     \<and> length (Edges conn) = 1 \<and> HasNextPage (page_Info conn)"
proof -
  have "length (matching [1] [] [] [] [] 0 page_db) = 2" by code_simp
  then show ?thesis
    using contracts_page [OF limit_documented_plain page_db_wf(2) servable_page_db, of 1 None 0 "[1]" "[]" "[]" "[]" "[]" None]
    by (auto simp: cursor_position_def dest!: list_all2_lengthD)
qed

text \<open>C12. Pagination is complete: a client that passes the end cursor of every page to the next query gets
  every matching contract exactly once, in ascending order of the ids, and after at most one query per
  matching contract and one more it is told that no page follows.\<close>

theorem pagination_complete:
  assumes "limit_documented ge" and "db_faults db = Background" and "servable ge columns db"
    and "db_wf db" and "db_seq db < 2 ^ 63" and "0 < l" and "l < 2 ^ 63"
  shows "\<exists>es. fetch_all (Suc (length (matching ns bs hs ts as 0 db)))
         (\<lambda>c. resolveContracts ge columns ns bs hs ts as (Some l) first' c db) None = Some es
     \<and> list_all2 (edge_for ge columns) (matching ns bs hs ts as 0 db) es"
  by (rule fetch_all_complete [OF assms]) (simp_all add: cursor_position_def)

theorem pagination_complete_witness:
  "\<exists>es. fetch_all 3 (\<lambda>c. resolveContracts plain_graph network_query [1] [] [] [] [] (Some 1) None c page_db) None = Some es
     \<and> length es = 2"
proof -
  have "length (matching [1] [] [] [] [] 0 page_db) = 2" by code_simp
  then show ?thesis
    using pagination_complete [OF limit_documented_plain page_db_wf(2) servable_page_db page_db_wf(1), of 1 "[1]" "[]" "[]" "[]" "[]" None]
    by (auto simp: page_db_wf eval_nat_numeral dest!: list_all2_lengthD)
qed

text \<open>C32. The address filter finds nothing: it compares the stored addresses with the requested network
  ids, so as long as no stored address is the decimal form of a number, every query with an address gets an
  empty page, whatever is stored.\<close>

theorem address_filter_matches_nothing:
  assumes "limit_documented ge" and "db_faults db = Background" and "0 < l" and "l < 2 ^ 63"
    and "cursor_position after' = Inr a" and "addresses \<noteq> []"
    and "\<forall>r \<in> set (db_rows db). r_address r \<notin> range big_String"
  shows "resolveContracts ge columns ns bs hs ts addresses (Some l) first' after' db
     = Returns (Inr \<lparr>Edges = [], page_Info = page_info l []\<rparr>, db)"
proof -
  have "filter (\<lambda>r. list_all (\<lambda>p. p r) (contracts_where ns bs hs ts addresses a)) (db_rows db) = []"
    using assms(6,7) by (auto simp: filter_empty_conv contracts_where_def optional_in_def)
  then have "exec_select (contracts_where ns bs hs ts addresses a) (Some l) db = Inr []"
    using assms(4) by (simp add: exec_select_def)
  moreover have "go_uint64 l = l" "ToSQL ge (Some l) = Inr (Some l)"
    using assms(1,3,4) by (simp_all add: go_uint64_id limit_documented_def)
  ultimately show ?thesis
    using assms(2,5) by (simp add: resolveContracts_def db_poll_Background cursor_position_def [symmetric])
qed

theorem address_filter_matches_nothing_witness:
  "resolveContracts plain_graph network_query [] [] [] [] [''0x5''] (Some 10) None None
     (page_db\<lparr>db_rows := map (\<lambda>r. r\<lparr>r_address := ''0x5''\<rparr>) (db_rows page_db)\<rparr>)
   = Returns (Inr \<lparr>Edges = [], page_Info = page_info 10 []\<rparr>,
       page_db\<lparr>db_rows := map (\<lambda>r. r\<lparr>r_address := ''0x5''\<rparr>) (db_rows page_db)\<rparr>)"
proof -
  have "big_SetString ''0x5'' = None" by code_simp
  then have "''0x5'' \<notin> range big_String" by (metis big_SetString_String imageE option.distinct(1))
  then show ?thesis
    by (intro address_filter_matches_nothing [where a = 0])
       (simp_all add: limit_documented_plain page_db_wf cursor_position_def)
qed

text \<open>The preloads are the field paths of the query: a dotted path is in the list exactly when the
  query selects the fields of the path one below the other.\<close>

theorem preloads_are_paths:
  assumes "names_ok columns" and "p \<noteq> []" and "\<forall>n \<in> set p. CHR ''.'' \<notin> set n"
  shows "strings_Join p ''.'' \<in> set (GetPreloads columns) \<longleftrightarrow> field_path columns p"
proof -
  have "set (GetPreloads columns) = (\<lambda>q. strings_Join q ''.'') ` Collect (field_path columns)"
    using GetNestedPreloads_paths [OF assms(1), of "[]"] by (simp add: GetPreloads_def GetPreloadString_def)
  moreover have "strings_Join q ''.'' = strings_Join p ''.'' \<longleftrightarrow> q = p" if "field_path columns q" for q
    using split_on_Join [of p "CHR ''.''"] split_on_Join [of q "CHR ''.''"] field_path_names [OF that assms(1)] assms(2,3)
    by metis
  ultimately show ?thesis by (metis (no_types, lifting) image_iff mem_Collect_eq)
qed

theorem preloads_are_paths_witness:
  "strings_Join [''edges'', ''node'', ''network''] ''.'' \<in> set (GetPreloads network_query)"
  using preloads_are_paths [of network_query "[''edges'', ''node'', ''network'']"]
  by (simp add: network_query_def field_path_Cons)

end
