(* ===== verification/Executor.thy ===== *)
theory Executor
  imports Graph
begin

text \<open>
  The generated GraphQL executor (src/pkg/graph/generated.go), first part: the reading of arguments, the
  marshallers, and one definition per field function, per field context and per object function of the
  schema's own types. Each field function has its place in the response, recovers from panics, reports
  its errors and lets a null travel to the closest position where the schema allows it.

  The GraphQL library gqlgen is not part of the repository: the record \<open>gqlgen\<close> holds what the executor
  calls of it, and \<open>gqlgen_documented\<close> what it promises. The goroutines that marshal the elements of a
  list are taken one after the other. The server installs no resolver middleware, so \<open>ResolverMiddleware\<close>
  and \<open>RootResolverMiddleware\<close> run the function they are given.
\<close>

named_theorems exec_defs \<open>definitions of field contexts, field functions and object functions\<close>

section \<open>The GraphQL library\<close>

text \<open>A context is known by the path of aliases, list indices and argument names entered so far.\<close>

datatype path_step = PName string | PIndex nat

type_synonym gpath = "path_step list"

text \<open>What a marshaller writes; \<open>GNil\<close> is the nil marshaller.\<close>

datatype gval =
  GNull | GNil | GBool bool | GInt int | GString string | GTime gotime | GArray "gval list" | GObject "(string \<times> gval) list"

text \<open>\<open>'e\<close> is the response context, which collects the errors of a response. \<open>ec_Recover\<close> is what the
  recover function makes of a panic.\<close>

record 'e gqlgen =
  UnmarshalInt :: "raw_arg \<Rightarrow> error + int"
  UnmarshalString :: "raw_arg \<Rightarrow> error + string"
  UnmarshalBoolean :: "raw_arg \<Rightarrow> error + bool"
  CoerceList :: "raw_arg \<Rightarrow> raw_arg list"
  ErrorOnPath :: "gpath \<Rightarrow> error \<Rightarrow> error"
  MarshalBoolean :: "bool \<Rightarrow> gval"
  MarshalInt :: "int \<Rightarrow> gval"
  MarshalString :: "string \<Rightarrow> gval"
  MarshalTime :: "gotime \<Rightarrow> gval"
  ec_Error :: "gpath \<Rightarrow> error \<Rightarrow> 'e \<Rightarrow> 'e"
  ec_Recover :: error
  HasFieldError :: "'e \<Rightarrow> gpath \<Rightarrow> bool"
  GetErrors :: "'e \<Rightarrow> (gpath \<times> error) list"

text \<open>The documented behaviour: scalars are written as such, a zero time as null; an error is added at the
  path of its context and found there.\<close>

definition gqlgen_documented :: "'e gqlgen \<Rightarrow> bool" where
  "gqlgen_documented rt \<longleftrightarrow>
     MarshalBoolean rt = GBool \<and> MarshalInt rt = GInt \<and> MarshalString rt = GString
     \<and> MarshalTime rt = (\<lambda>t. if t = 0 then GNull else GTime t)
     \<and> (\<forall>p err e. GetErrors rt (ec_Error rt p err e) = GetErrors rt e @ [(p, err)])
     \<and> (\<forall>p e. HasFieldError rt e p \<longleftrightarrow> p \<in> fst ` set (GetErrors rt e))"

section \<open>Execution\<close>

text \<open>A step of the execution has the response context and the state the resolvers work on; a panic leaves
  both behind.\<close>

type_synonym ('a, 'e, 's) ex = "'e \<times> 's \<Rightarrow> ('a \<times> 'e \<times> 's, 'e \<times> 's) go"

definition ex_return :: "'a \<Rightarrow> ('a, 'e, 's) ex" where
  "ex_return a = (\<lambda>es. Returns (a, es))"

definition ex_bind :: "('a, 'e, 's) ex \<Rightarrow> ('a \<Rightarrow> ('b, 'e, 's) ex) \<Rightarrow> ('b, 'e, 's) ex" where
  "ex_bind m f = (\<lambda>es. go_bind (m es) (\<lambda>(a, es'). f a es'))"

definition ex_panic :: "('a, 'e, 's) ex" where
  "ex_panic = (\<lambda>es. Panics es)"

definition ex_error :: "'e gqlgen \<Rightarrow> gpath \<Rightarrow> error \<Rightarrow> 'a \<Rightarrow> ('a, 'e, 's) ex" where
  "ex_error rt ctx err a = (\<lambda>(e, s). Returns (a, ec_Error rt ctx err e, s))"

text \<open>\<open>if !HasFieldError(ctx, fc) { ec.Errorf(ctx, msg) }\<close>\<close>

definition ex_error_once :: "'e gqlgen \<Rightarrow> gpath \<Rightarrow> string \<Rightarrow> 'a \<Rightarrow> ('a, 'e, 's) ex" where
  "ex_error_once rt ctx msg a =
     (\<lambda>(e, s). if HasFieldError rt e ctx then Returns (a, e, s) else ex_error rt ctx (Errorf msg) a (e, s))"

text \<open>\<open>defer func() { if r := recover(); r != nil { ec.Error(ctx, ec.Recover(ctx, r)); ret = a } }()\<close>\<close>

definition ex_recover :: "'e gqlgen \<Rightarrow> gpath \<Rightarrow> 'a \<Rightarrow> ('a, 'e, 's) ex \<Rightarrow> ('a, 'e, 's) ex" where
  "ex_recover rt ctx a m =
     (\<lambda>es. case m es of Panics es' \<Rightarrow> ex_error rt ctx (ec_Recover rt) a es' | Returns r \<Rightarrow> Returns r | Blocks es' \<Rightarrow> Blocks es')"

definition null_not_allowed :: string where
  "null_not_allowed = ''the requested element is null which the schema does not allow''"

section \<open>Unmarshalling of arguments\<close>

definition sum_bind :: "'e + 'a \<Rightarrow> ('a \<Rightarrow> 'e + 'b) \<Rightarrow> 'e + 'b" where
  "sum_bind r f = (case r of Inl err \<Rightarrow> Inl err | Inr a \<Rightarrow> f a)"

definition unmarshalNBoolean2bool :: "'e gqlgen \<Rightarrow> gpath \<Rightarrow> raw_arg \<Rightarrow> error + bool" where
  "unmarshalNBoolean2bool rt ctx v = map_sum (ErrorOnPath rt ctx) id (UnmarshalBoolean rt v)"

definition unmarshalNInt2int :: "'e gqlgen \<Rightarrow> gpath \<Rightarrow> raw_arg \<Rightarrow> error + int" where
  "unmarshalNInt2int rt ctx v = map_sum (ErrorOnPath rt ctx) id (UnmarshalInt rt v)"

definition unmarshalNString2string :: "'e gqlgen \<Rightarrow> gpath \<Rightarrow> raw_arg \<Rightarrow> error + string" where
  "unmarshalNString2string rt ctx v = map_sum (ErrorOnPath rt ctx) id (UnmarshalString rt v)"

definition unmarshalOBoolean2bool :: "'e gqlgen \<Rightarrow> gpath \<Rightarrow> raw_arg \<Rightarrow> error + bool" where
  "unmarshalOBoolean2bool rt ctx v = map_sum (ErrorOnPath rt ctx) id (UnmarshalBoolean rt v)"

definition unmarshalOBoolean2ptr :: "'e gqlgen \<Rightarrow> gpath \<Rightarrow> raw_arg \<Rightarrow> error + bool option" where
  "unmarshalOBoolean2ptr rt ctx v =
     (if v = Raw_nil then Inr None else map_sum (ErrorOnPath rt ctx) Some (UnmarshalBoolean rt v))"

definition unmarshalOInt2ptr :: "'e gqlgen \<Rightarrow> gpath \<Rightarrow> raw_arg \<Rightarrow> error + int option" where
  "unmarshalOInt2ptr rt ctx v =
     (if v = Raw_nil then Inr None else map_sum (ErrorOnPath rt ctx) Some (UnmarshalInt rt v))"

definition unmarshalOString2ptr :: "'e gqlgen \<Rightarrow> gpath \<Rightarrow> raw_arg \<Rightarrow> error + string option" where
  "unmarshalOString2ptr rt ctx v =
     (if v = Raw_nil then Inr None else map_sum (ErrorOnPath rt ctx) Some (UnmarshalString rt v))"

fun unmarshal_elements :: "(gpath \<Rightarrow> raw_arg \<Rightarrow> error + 'a) \<Rightarrow> gpath \<Rightarrow> nat \<Rightarrow> raw_arg list \<Rightarrow> error + 'a list" where
  "unmarshal_elements f ctx i [] = Inr []"
| "unmarshal_elements f ctx i (v # vs) =
     sum_bind (f (ctx @ [PIndex i]) v) (\<lambda>x. map_sum id ((#) x) (unmarshal_elements f ctx (Suc i) vs))"

definition unmarshalNString2slice :: "'e gqlgen \<Rightarrow> gpath \<Rightarrow> raw_arg \<Rightarrow> error + string list" where
  "unmarshalNString2slice rt ctx v =
     unmarshal_elements (unmarshalNString2string rt) ctx 0 (if v = Raw_nil then [] else CoerceList rt v)"

definition unmarshalOInt2slice :: "'e gqlgen \<Rightarrow> gpath \<Rightarrow> raw_arg \<Rightarrow> error + int list option" where
  "unmarshalOInt2slice rt ctx v =
     (if v = Raw_nil then Inr None
      else map_sum id Some (unmarshal_elements (unmarshalNInt2int rt) ctx 0 (CoerceList rt v)))"

definition unmarshalOString2slice :: "'e gqlgen \<Rightarrow> gpath \<Rightarrow> raw_arg \<Rightarrow> error + string list option" where
  "unmarshalOString2slice rt ctx v =
     (if v = Raw_nil then Inr None
      else map_sum id Some (unmarshal_elements (unmarshalNString2string rt) ctx 0 (CoerceList rt v)))"

text \<open>The input object: the type assertion of the argument panics, here the outer \<open>None\<close>, unless it is a map; a field that is
  absent keeps its zero value.\<close>

definition arg_or :: "'a \<Rightarrow> (gpath \<Rightarrow> raw_arg \<Rightarrow> error + 'a) \<Rightarrow> gpath \<Rightarrow> (string \<times> raw_arg) list \<Rightarrow> string \<Rightarrow> error + 'a" where
  "arg_or zero f ctx rawArgs k = (case map_of rawArgs k of None \<Rightarrow> Inr zero | Some v \<Rightarrow> f (ctx @ [PName k]) v)"

definition unmarshalInputContractUnpackRequest ::
  "'e gqlgen \<Rightarrow> gpath \<Rightarrow> raw_arg \<Rightarrow> (error + ContractUnpackRequest) option" where
  "unmarshalInputContractUnpackRequest rt ctx obj =
     (case obj of
        Raw_map asMap \<Rightarrow> Some (
          sum_bind (arg_or [] (unmarshalNString2string rt) ctx asMap ''address'') (\<lambda>address.
          sum_bind (arg_or 0 (unmarshalNInt2int rt) ctx asMap ''networkId'') (\<lambda>networkId.
            Inr \<lparr>req_Address = address, req_NetworkID = networkId\<rparr>)))
      | _ \<Rightarrow> None)"

definition unmarshalNContractUnpackRequest ::
  "'e gqlgen \<Rightarrow> gpath \<Rightarrow> raw_arg \<Rightarrow> (error + ContractUnpackRequest) option" where
  "unmarshalNContractUnpackRequest rt ctx v =
     map_option (map_sum (ErrorOnPath rt ctx) id) (unmarshalInputContractUnpackRequest rt ctx v)"

section \<open>Arguments of fields\<close>

record networks_args =
  na_networkId :: "int option"
  na_name :: "string option"
  na_symbol :: "string option"
  na_suspended :: "bool option"
  na_maintenance :: "bool option"

record contracts_args =
  ca_networkIds :: "int list option"
  ca_blockNumbers :: "int list option"
  ca_blockHashes :: "string list option"
  ca_transactionHashes :: "string list option"
  ca_addresses :: "string list option"
  ca_limit :: "int option"
  ca_first :: "int option"
  ca_after :: "string option"

definition field_Mutations_unpack_args ::
  "'e gqlgen \<Rightarrow> gpath \<Rightarrow> (string \<times> raw_arg) list \<Rightarrow> (error + ContractUnpackRequest) option" where
  "field_Mutations_unpack_args rt ctx rawArgs =
     (case map_of rawArgs ''contract'' of
        None \<Rightarrow> Some (Inr \<lparr>req_Address = [], req_NetworkID = 0\<rparr>)
      | Some tmp \<Rightarrow> unmarshalNContractUnpackRequest rt (ctx @ [PName ''contract'']) tmp)"

definition field_Query___type_args :: "'e gqlgen \<Rightarrow> gpath \<Rightarrow> (string \<times> raw_arg) list \<Rightarrow> error + string" where
  "field_Query___type_args rt ctx rawArgs = arg_or [] (unmarshalNString2string rt) ctx rawArgs ''name''"

definition field_Query_contracts_args :: "'e gqlgen \<Rightarrow> gpath \<Rightarrow> (string \<times> raw_arg) list \<Rightarrow> error + contracts_args" where
  "field_Query_contracts_args rt ctx rawArgs =
     sum_bind (arg_or None (unmarshalOInt2slice rt) ctx rawArgs ''networkIds'') (\<lambda>arg0.
     sum_bind (arg_or None (unmarshalOInt2slice rt) ctx rawArgs ''blockNumbers'') (\<lambda>arg1.
     sum_bind (arg_or None (unmarshalOString2slice rt) ctx rawArgs ''blockHashes'') (\<lambda>arg2.
     sum_bind (arg_or None (unmarshalOString2slice rt) ctx rawArgs ''transactionHashes'') (\<lambda>arg3.
     sum_bind (arg_or None (unmarshalOString2slice rt) ctx rawArgs ''addresses'') (\<lambda>arg4.
     sum_bind (arg_or None (unmarshalOInt2ptr rt) ctx rawArgs ''limit'') (\<lambda>arg5.
     sum_bind (arg_or None (unmarshalOInt2ptr rt) ctx rawArgs ''first'') (\<lambda>arg6.
     sum_bind (arg_or None (unmarshalOString2ptr rt) ctx rawArgs ''after'') (\<lambda>arg7.
       Inr \<lparr>ca_networkIds = arg0, ca_blockNumbers = arg1, ca_blockHashes = arg2, ca_transactionHashes = arg3,
            ca_addresses = arg4, ca_limit = arg5, ca_first = arg6, ca_after = arg7\<rparr>))))))))"

definition field_Query_networks_args :: "'e gqlgen \<Rightarrow> gpath \<Rightarrow> (string \<times> raw_arg) list \<Rightarrow> error + networks_args" where
  "field_Query_networks_args rt ctx rawArgs =
     sum_bind (arg_or None (unmarshalOInt2ptr rt) ctx rawArgs ''networkId'') (\<lambda>arg0.
     sum_bind (arg_or None (unmarshalOString2ptr rt) ctx rawArgs ''name'') (\<lambda>arg1.
     sum_bind (arg_or None (unmarshalOString2ptr rt) ctx rawArgs ''symbol'') (\<lambda>arg2.
     sum_bind (arg_or None (unmarshalOBoolean2ptr rt) ctx rawArgs ''suspended'') (\<lambda>arg3.
     sum_bind (arg_or None (unmarshalOBoolean2ptr rt) ctx rawArgs ''maintenance'') (\<lambda>arg4.
       Inr \<lparr>na_networkId = arg0, na_name = arg1, na_symbol = arg2, na_suspended = arg3, na_maintenance = arg4\<rparr>)))))"

definition field___Type_enumValues_args :: "'e gqlgen \<Rightarrow> gpath \<Rightarrow> (string \<times> raw_arg) list \<Rightarrow> error + bool" where
  "field___Type_enumValues_args rt ctx rawArgs = arg_or False (unmarshalOBoolean2bool rt) ctx rawArgs ''includeDeprecated''"

definition field___Type_fields_args :: "'e gqlgen \<Rightarrow> gpath \<Rightarrow> (string \<times> raw_arg) list \<Rightarrow> error + bool" where
  "field___Type_fields_args rt ctx rawArgs = arg_or False (unmarshalOBoolean2bool rt) ctx rawArgs ''includeDeprecated''"

section \<open>Marshallers of scalars and lists\<close>

definition check_null :: "'e gqlgen \<Rightarrow> gpath \<Rightarrow> gval \<Rightarrow> (gval, 'e, 's) ex" where
  "check_null rt ctx res = (if res = GNull then ex_error_once rt ctx null_not_allowed res else ex_return res)"

definition marshalNBoolean2bool :: "'e gqlgen \<Rightarrow> gpath \<Rightarrow> bool \<Rightarrow> (gval, 'e, 's) ex" where
  "marshalNBoolean2bool rt ctx v = check_null rt ctx (MarshalBoolean rt v)"

definition marshalNInt2int :: "'e gqlgen \<Rightarrow> gpath \<Rightarrow> int \<Rightarrow> (gval, 'e, 's) ex" where
  "marshalNInt2int rt ctx v = check_null rt ctx (MarshalInt rt v)"

definition marshalNString2string :: "'e gqlgen \<Rightarrow> gpath \<Rightarrow> string \<Rightarrow> (gval, 'e, 's) ex" where
  "marshalNString2string rt ctx v = check_null rt ctx (MarshalString rt v)"

definition marshalNTime2Time :: "'e gqlgen \<Rightarrow> gpath \<Rightarrow> gotime \<Rightarrow> (gval, 'e, 's) ex" where
  "marshalNTime2Time rt ctx v = check_null rt ctx (MarshalTime rt v)"

definition marshalOBoolean2bool :: "'e gqlgen \<Rightarrow> gpath \<Rightarrow> bool \<Rightarrow> (gval, 'e, 's) ex" where
  "marshalOBoolean2bool rt ctx v = ex_return (MarshalBoolean rt v)"

definition marshalOBoolean2ptr :: "'e gqlgen \<Rightarrow> gpath \<Rightarrow> bool option \<Rightarrow> (gval, 'e, 's) ex" where
  "marshalOBoolean2ptr rt ctx v = ex_return (case v of None \<Rightarrow> GNull | Some b \<Rightarrow> MarshalBoolean rt b)"

definition marshalOInt2ptr :: "'e gqlgen \<Rightarrow> gpath \<Rightarrow> int option \<Rightarrow> (gval, 'e, 's) ex" where
  "marshalOInt2ptr rt ctx v = ex_return (case v of None \<Rightarrow> GNull | Some i \<Rightarrow> MarshalInt rt i)"

definition marshalOString2ptr :: "'e gqlgen \<Rightarrow> gpath \<Rightarrow> string option \<Rightarrow> (gval, 'e, 's) ex" where
  "marshalOString2ptr rt ctx v = ex_return (case v of None \<Rightarrow> GNull | Some s \<Rightarrow> MarshalString rt s)"

text \<open>A list one of whose elements is null becomes null. The elements of a list of scalars have no context
  of their own.\<close>

definition array_or_null :: "gval list \<Rightarrow> gval" where
  "array_or_null ret = (if GNull \<in> set ret then GNull else GArray ret)"

fun marshal_each :: "('a \<Rightarrow> (gval, 'e, 's) ex) \<Rightarrow> 'a list \<Rightarrow> (gval list, 'e, 's) ex" where
  "marshal_each f [] = ex_return []"
| "marshal_each f (v # vs) = ex_bind (f v) (\<lambda>x. ex_bind (marshal_each f vs) (\<lambda>xs. ex_return (x # xs)))"

definition marshalNString2slice :: "'e gqlgen \<Rightarrow> gpath \<Rightarrow> string list \<Rightarrow> (gval, 'e, 's) ex" where
  "marshalNString2slice rt ctx v =
     ex_bind (marshal_each (marshalNString2string rt ctx) v) (\<lambda>ret. ex_return (array_or_null ret))"

definition marshalOInt2slice :: "'e gqlgen \<Rightarrow> gpath \<Rightarrow> int list option \<Rightarrow> (gval, 'e, 's) ex" where
  "marshalOInt2slice rt ctx v =
     (case v of
        None \<Rightarrow> ex_return GNull
      | Some xs \<Rightarrow> ex_bind (marshal_each (marshalNInt2int rt ctx) xs) (\<lambda>ret. ex_return (array_or_null ret)))"

definition marshalOString2slice :: "'e gqlgen \<Rightarrow> gpath \<Rightarrow> string list option \<Rightarrow> (gval, 'e, 's) ex" where
  "marshalOString2slice rt ctx v =
     (case v of
        None \<Rightarrow> ex_return GNull
      | Some xs \<Rightarrow> ex_bind (marshal_each (marshalNString2string rt ctx) xs) (\<lambda>ret. ex_return (array_or_null ret)))"

text \<open>The elements of a list of objects have the index in their context and recover on their own: a panic
  drops the whole array, after which the assignment of every later element panics too.\<close>

definition set_element :: "gval list option \<Rightarrow> gval \<Rightarrow> (gval list option, 'e, 's) ex" where
  "set_element ret x = (case ret of None \<Rightarrow> ex_panic | Some xs \<Rightarrow> ex_return (Some (xs @ [x])))"

fun marshal_objects ::
  "'e gqlgen \<Rightarrow> gpath \<Rightarrow> (gpath \<Rightarrow> 'a \<Rightarrow> (gval, 'e, 's) ex) \<Rightarrow> nat \<Rightarrow> 'a list \<Rightarrow> gval list option
   \<Rightarrow> (gval list option, 'e, 's) ex" where
  "marshal_objects rt ctx f i [] ret = ex_return ret"
| "marshal_objects rt ctx f i (v # vs) ret =
     (let ctx' = ctx @ [PIndex i] in
      ex_bind (ex_recover rt ctx' None (ex_bind (f ctx' v) (set_element ret)))
        (marshal_objects rt ctx f (Suc i) vs))"

definition marshal_slice ::
  "'e gqlgen \<Rightarrow> gpath \<Rightarrow> (gpath \<Rightarrow> 'a \<Rightarrow> (gval, 'e, 's) ex) \<Rightarrow> 'a list \<Rightarrow> (gval, 'e, 's) ex" where
  "marshal_slice rt ctx f v =
     ex_bind (marshal_objects rt ctx f 0 v (Some [])) (\<lambda>ret.
       ex_return (case ret of None \<Rightarrow> GArray [] | Some xs \<Rightarrow> array_or_null xs))"

text \<open>A pointer of a non-null type: nil is an error of the field.\<close>

definition marshal_ptr :: "'e gqlgen \<Rightarrow> gpath \<Rightarrow> ('a \<Rightarrow> (gval, 'e, 's) ex) \<Rightarrow> 'a option \<Rightarrow> (gval, 'e, 's) ex" where
  "marshal_ptr rt ctx f v =
     (case v of None \<Rightarrow> ex_error_once rt ctx null_not_allowed GNull | Some x \<Rightarrow> f x)"

section \<open>Field contexts and field functions\<close>

datatype FieldContext = FieldContext
  (fc_Object: string) (fc_Field: CollectedField) (fc_IsMethod: bool) (fc_IsResolver: bool)
  (fc_Child: "gpath \<Rightarrow> CollectedField \<Rightarrow> error + FieldContext")

definition WithFieldContext :: "gpath \<Rightarrow> FieldContext \<Rightarrow> gpath" where
  "WithFieldContext ctx fc = ctx @ [PName (cf_Alias (fc_Field fc))]"

definition no_children :: "string \<Rightarrow> gpath \<Rightarrow> CollectedField \<Rightarrow> error + FieldContext" where
  "no_children type ctx f = Inl (Errorf (''field of type '' @ type @ '' does not have child fields''))"

definition no_field_named :: "CollectedField \<Rightarrow> string \<Rightarrow> error" where
  "no_field_named f type =
     Errorf (''no field named '' @ CHR 0x22 # cf_Name f @ CHR 0x22 # '' was found under type '' @ type)"

text \<open>The body that every field function has after its field context is built: the value is resolved, an
  error is reported, a nil result is an error only where the type is non-null, and the result is
  marshalled; a panic anywhere in between is recovered.\<close>

definition field_N ::
  "'e gqlgen \<Rightarrow> gpath \<Rightarrow> (error + 'r option, 'e, 's) ex \<Rightarrow> (gpath \<Rightarrow> 'r \<Rightarrow> (gval, 'e, 's) ex) \<Rightarrow> (gval, 'e, 's) ex" where
  "field_N rt ctx resolve marshal =
     ex_recover rt ctx GNull (ex_bind resolve (\<lambda>r. case r of
        Inl err \<Rightarrow> ex_error rt ctx err GNull
      | Inr None \<Rightarrow> ex_error_once rt ctx ''must not be null'' GNull
      | Inr (Some res) \<Rightarrow> marshal ctx res))"

definition field_O ::
  "'e gqlgen \<Rightarrow> gpath \<Rightarrow> (error + 'r option, 'e, 's) ex \<Rightarrow> (gpath \<Rightarrow> 'r \<Rightarrow> (gval, 'e, 's) ex) \<Rightarrow> (gval, 'e, 's) ex" where
  "field_O rt ctx resolve marshal =
     ex_recover rt ctx GNull (ex_bind resolve (\<lambda>r. case r of
        Inl err \<Rightarrow> ex_error rt ctx err GNull
      | Inr None \<Rightarrow> ex_return GNull
      | Inr (Some res) \<Rightarrow> marshal ctx res))"

text \<open>The result of reading a struct field: never an error and never a nil interface.\<close>

definition got :: "'r \<Rightarrow> (error + 'r option, 'e, 's) ex" where
  "got r = ex_return (Inr (Some r))"

text \<open>The arguments of a field are read while its context is built; a panic, here \<open>None\<close>, is recovered there,
  and in both cases the error is reported and the field is null.\<close>

definition field_args :: "'e gqlgen \<Rightarrow> gpath \<Rightarrow> (error + 'a) option \<Rightarrow> (error + 'a, 'e, 's) ex" where
  "field_args rt ctx parsed =
     (case parsed of
        None \<Rightarrow> ex_error rt ctx (ec_Recover rt) (Inl (ec_Recover rt))
      | Some (Inl err) \<Rightarrow> ex_error rt ctx err (Inl err)
      | Some (Inr args) \<Rightarrow> ex_return (Inr args))"

section \<open>Objects\<close>

text \<open>The loop over the collected fields of an object: \<open>switch\<close> gives for a field whether its type is
  non-null and how to compute it, and nothing for an unknown field, which panics. A null of a non-null field
  makes the object invalid, and an invalid object is null. No field of this schema is deferrable, so the
  map of deferred groups stays empty.\<close>

fun field_loop ::
  "(CollectedField \<Rightarrow> (bool \<times> (gval, 'e, 's) ex) option) \<Rightarrow> CollectedField list \<Rightarrow> ((string \<times> gval) list \<times> nat, 'e, 's) ex" where
  "field_loop switch [] = ex_return ([], 0)"
| "field_loop switch (field # fs) =
     (case switch field of
        None \<Rightarrow> ex_panic
      | Some (nonnull, m) \<Rightarrow>
          ex_bind m (\<lambda>v. ex_bind (field_loop switch fs) (\<lambda>(out, invalids).
            ex_return ((cf_Alias field, v) # out, if nonnull \<and> v = GNull then Suc invalids else invalids))))"

definition object_set ::
  "(CollectedField \<Rightarrow> (bool \<times> (gval, 'e, 's) ex) option) \<Rightarrow> CollectedField list \<Rightarrow> (gval, 'e, 's) ex" where
  "object_set switch sel =
     ex_bind (field_loop switch sel) (\<lambda>(out, invalids). ex_return (if 0 < invalids then GNull else GObject out))"

definition typename :: "'e gqlgen \<Rightarrow> string \<Rightarrow> (bool \<times> (gval, 'e, 's) ex) option" where
  "typename rt name = Some (False, ex_return (MarshalString rt name))"

section \<open>PageInfo\<close>

definition fieldContext_PageInfo_hasNextPage :: "CollectedField \<Rightarrow> FieldContext" where
  [exec_defs]: "fieldContext_PageInfo_hasNextPage field = FieldContext ''PageInfo'' field False False (no_children ''Boolean'')"

definition ec_PageInfo_hasNextPage :: "'e gqlgen \<Rightarrow> gpath \<Rightarrow> CollectedField \<Rightarrow> PageInfo \<Rightarrow> (gval, 'e, 's) ex" where
  [exec_defs]: "ec_PageInfo_hasNextPage rt ctx field obj =
     field_N rt (WithFieldContext ctx (fieldContext_PageInfo_hasNextPage field)) (got (HasNextPage obj)) (marshalNBoolean2bool rt)"

definition fieldContext_PageInfo_hasPreviousPage :: "CollectedField \<Rightarrow> FieldContext" where
  [exec_defs]: "fieldContext_PageInfo_hasPreviousPage field = FieldContext ''PageInfo'' field False False (no_children ''Boolean'')"

definition ec_PageInfo_hasPreviousPage :: "'e gqlgen \<Rightarrow> gpath \<Rightarrow> CollectedField \<Rightarrow> PageInfo \<Rightarrow> (gval, 'e, 's) ex" where
  [exec_defs]: "ec_PageInfo_hasPreviousPage rt ctx field obj =
     field_N rt (WithFieldContext ctx (fieldContext_PageInfo_hasPreviousPage field)) (got (HasPreviousPage obj)) (marshalNBoolean2bool rt)"

definition fieldContext_PageInfo_startCursor :: "CollectedField \<Rightarrow> FieldContext" where
  [exec_defs]: "fieldContext_PageInfo_startCursor field = FieldContext ''PageInfo'' field False False (no_children ''String'')"

definition ec_PageInfo_startCursor :: "'e gqlgen \<Rightarrow> gpath \<Rightarrow> CollectedField \<Rightarrow> PageInfo \<Rightarrow> (gval, 'e, 's) ex" where
  [exec_defs]: "ec_PageInfo_startCursor rt ctx field obj =
     field_N rt (WithFieldContext ctx (fieldContext_PageInfo_startCursor field)) (got (StartCursor obj)) (marshalNString2string rt)"

definition fieldContext_PageInfo_endCursor :: "CollectedField \<Rightarrow> FieldContext" where
  [exec_defs]: "fieldContext_PageInfo_endCursor field = FieldContext ''PageInfo'' field False False (no_children ''String'')"

definition ec_PageInfo_endCursor :: "'e gqlgen \<Rightarrow> gpath \<Rightarrow> CollectedField \<Rightarrow> PageInfo \<Rightarrow> (gval, 'e, 's) ex" where
  [exec_defs]: "ec_PageInfo_endCursor rt ctx field obj =
     field_N rt (WithFieldContext ctx (fieldContext_PageInfo_endCursor field)) (got (EndCursor obj)) (marshalNString2string rt)"

definition ec_PageInfo :: "'e gqlgen \<Rightarrow> gpath \<Rightarrow> CollectedField list \<Rightarrow> PageInfo \<Rightarrow> (gval, 'e, 's) ex" where
  "ec_PageInfo rt ctx sel obj = object_set (\<lambda>field.
     if cf_Name field = ''__typename'' then typename rt ''PageInfo''
     else if cf_Name field = ''hasNextPage'' then Some (True, ec_PageInfo_hasNextPage rt ctx field obj)
     else if cf_Name field = ''hasPreviousPage'' then Some (True, ec_PageInfo_hasPreviousPage rt ctx field obj)
     else if cf_Name field = ''startCursor'' then Some (True, ec_PageInfo_startCursor rt ctx field obj)
     else if cf_Name field = ''endCursor'' then Some (True, ec_PageInfo_endCursor rt ctx field obj)
     else None) sel"

definition marshalNPageInfo2ptr :: "'e gqlgen \<Rightarrow> CollectedField list \<Rightarrow> gpath \<Rightarrow> PageInfo option \<Rightarrow> (gval, 'e, 's) ex" where
  "marshalNPageInfo2ptr rt sel ctx v = marshal_ptr rt ctx (ec_PageInfo rt ctx sel) v"

section \<open>Network\<close>

definition fieldContext_Network_networkId :: "CollectedField \<Rightarrow> FieldContext" where
  [exec_defs]: "fieldContext_Network_networkId field = FieldContext ''Network'' field False False (no_children ''Int'')"

definition ec_Network_networkId :: "'e gqlgen \<Rightarrow> gpath \<Rightarrow> CollectedField \<Rightarrow> gql_Network \<Rightarrow> (gval, 'e, 's) ex" where
  [exec_defs]: "ec_Network_networkId rt ctx field obj =
     field_N rt (WithFieldContext ctx (fieldContext_Network_networkId field)) (got (gn_NetworkID obj)) (marshalNInt2int rt)"

definition fieldContext_Network_name :: "CollectedField \<Rightarrow> FieldContext" where
  [exec_defs]: "fieldContext_Network_name field = FieldContext ''Network'' field False False (no_children ''String'')"

definition ec_Network_name :: "'e gqlgen \<Rightarrow> gpath \<Rightarrow> CollectedField \<Rightarrow> gql_Network \<Rightarrow> (gval, 'e, 's) ex" where
  [exec_defs]: "ec_Network_name rt ctx field obj =
     field_N rt (WithFieldContext ctx (fieldContext_Network_name field)) (got (gn_Name obj)) (marshalNString2string rt)"

definition fieldContext_Network_canonicalName :: "CollectedField \<Rightarrow> FieldContext" where
  [exec_defs]: "fieldContext_Network_canonicalName field = FieldContext ''Network'' field False False (no_children ''String'')"

definition ec_Network_canonicalName :: "'e gqlgen \<Rightarrow> gpath \<Rightarrow> CollectedField \<Rightarrow> gql_Network \<Rightarrow> (gval, 'e, 's) ex" where
  [exec_defs]: "ec_Network_canonicalName rt ctx field obj =
     field_N rt (WithFieldContext ctx (fieldContext_Network_canonicalName field)) (got (gn_CanonicalName obj)) (marshalNString2string rt)"

definition fieldContext_Network_symbol :: "CollectedField \<Rightarrow> FieldContext" where
  [exec_defs]: "fieldContext_Network_symbol field = FieldContext ''Network'' field False False (no_children ''String'')"

definition ec_Network_symbol :: "'e gqlgen \<Rightarrow> gpath \<Rightarrow> CollectedField \<Rightarrow> gql_Network \<Rightarrow> (gval, 'e, 's) ex" where
  [exec_defs]: "ec_Network_symbol rt ctx field obj =
     field_N rt (WithFieldContext ctx (fieldContext_Network_symbol field)) (got (gn_Symbol obj)) (marshalNString2string rt)"

definition fieldContext_Network_website :: "CollectedField \<Rightarrow> FieldContext" where
  [exec_defs]: "fieldContext_Network_website field = FieldContext ''Network'' field False False (no_children ''String'')"

definition ec_Network_website :: "'e gqlgen \<Rightarrow> gpath \<Rightarrow> CollectedField \<Rightarrow> gql_Network \<Rightarrow> (gval, 'e, 's) ex" where
  [exec_defs]: "ec_Network_website rt ctx field obj =
     field_N rt (WithFieldContext ctx (fieldContext_Network_website field)) (got (gn_Website obj)) (marshalNString2string rt)"

definition fieldContext_Network_suspended :: "CollectedField \<Rightarrow> FieldContext" where
  [exec_defs]: "fieldContext_Network_suspended field = FieldContext ''Network'' field False False (no_children ''Boolean'')"

definition ec_Network_suspended :: "'e gqlgen \<Rightarrow> gpath \<Rightarrow> CollectedField \<Rightarrow> gql_Network \<Rightarrow> (gval, 'e, 's) ex" where
  [exec_defs]: "ec_Network_suspended rt ctx field obj =
     field_N rt (WithFieldContext ctx (fieldContext_Network_suspended field)) (got (gn_Suspended obj)) (marshalNBoolean2bool rt)"

definition fieldContext_Network_maintenance :: "CollectedField \<Rightarrow> FieldContext" where
  [exec_defs]: "fieldContext_Network_maintenance field = FieldContext ''Network'' field False False (no_children ''Boolean'')"

definition ec_Network_maintenance :: "'e gqlgen \<Rightarrow> gpath \<Rightarrow> CollectedField \<Rightarrow> gql_Network \<Rightarrow> (gval, 'e, 's) ex" where
  [exec_defs]: "ec_Network_maintenance rt ctx field obj =
     field_N rt (WithFieldContext ctx (fieldContext_Network_maintenance field)) (got (gn_Maintenance obj)) (marshalNBoolean2bool rt)"

definition ec_Network :: "'e gqlgen \<Rightarrow> gpath \<Rightarrow> CollectedField list \<Rightarrow> gql_Network \<Rightarrow> (gval, 'e, 's) ex" where
  "ec_Network rt ctx sel obj = object_set (\<lambda>field.
     if cf_Name field = ''__typename'' then typename rt ''Network''
     else if cf_Name field = ''networkId'' then Some (True, ec_Network_networkId rt ctx field obj)
     else if cf_Name field = ''name'' then Some (True, ec_Network_name rt ctx field obj)
     else if cf_Name field = ''canonicalName'' then Some (True, ec_Network_canonicalName rt ctx field obj)
     else if cf_Name field = ''symbol'' then Some (True, ec_Network_symbol rt ctx field obj)
     else if cf_Name field = ''website'' then Some (True, ec_Network_website rt ctx field obj)
     else if cf_Name field = ''suspended'' then Some (True, ec_Network_suspended rt ctx field obj)
     else if cf_Name field = ''maintenance'' then Some (True, ec_Network_maintenance rt ctx field obj)
     else None) sel"

definition marshalNNetwork2ptr :: "'e gqlgen \<Rightarrow> CollectedField list \<Rightarrow> gpath \<Rightarrow> gql_Network option \<Rightarrow> (gval, 'e, 's) ex" where
  "marshalNNetwork2ptr rt sel ctx v = marshal_ptr rt ctx (ec_Network rt ctx sel) v"

definition marshalNNetwork2slice :: "'e gqlgen \<Rightarrow> CollectedField list \<Rightarrow> gpath \<Rightarrow> gql_Network option list \<Rightarrow> (gval, 'e, 's) ex" where
  "marshalNNetwork2slice rt sel ctx v = marshal_slice rt ctx (marshalNNetwork2ptr rt sel) v"

section \<open>Contract\<close>

definition fieldContext_Contract_network :: "CollectedField \<Rightarrow> FieldContext" where
  [exec_defs]: "fieldContext_Contract_network field = FieldContext ''Contract'' field False False (\<lambda>_ f.
        (if cf_Name f = ''networkId'' then Inr (fieldContext_Network_networkId f)
         else if cf_Name f = ''name'' then Inr (fieldContext_Network_name f)
         else if cf_Name f = ''canonicalName'' then Inr (fieldContext_Network_canonicalName f)
         else if cf_Name f = ''symbol'' then Inr (fieldContext_Network_symbol f)
         else if cf_Name f = ''website'' then Inr (fieldContext_Network_website f)
         else if cf_Name f = ''suspended'' then Inr (fieldContext_Network_suspended f)
         else if cf_Name f = ''maintenance'' then Inr (fieldContext_Network_maintenance f)
         else Inl (no_field_named f ''Network'')))"

definition ec_Contract_network :: "'e gqlgen \<Rightarrow> gpath \<Rightarrow> CollectedField \<Rightarrow> gql_Contract \<Rightarrow> (gval, 'e, 's) ex" where
  [exec_defs]: "ec_Contract_network rt ctx field obj =
     field_N rt (WithFieldContext ctx (fieldContext_Contract_network field)) (got (gc_Network obj)) (marshalNNetwork2ptr rt (cf_Selections field))"

definition fieldContext_Contract_address :: "CollectedField \<Rightarrow> FieldContext" where
  [exec_defs]: "fieldContext_Contract_address field = FieldContext ''Contract'' field False False (no_children ''String'')"

definition ec_Contract_address :: "'e gqlgen \<Rightarrow> gpath \<Rightarrow> CollectedField \<Rightarrow> gql_Contract \<Rightarrow> (gval, 'e, 's) ex" where
  [exec_defs]: "ec_Contract_address rt ctx field obj =
     field_N rt (WithFieldContext ctx (fieldContext_Contract_address field)) (got (gc_Address obj)) (marshalNString2string rt)"

definition fieldContext_Contract_name :: "CollectedField \<Rightarrow> FieldContext" where
  [exec_defs]: "fieldContext_Contract_name field = FieldContext ''Contract'' field False False (no_children ''String'')"

definition ec_Contract_name :: "'e gqlgen \<Rightarrow> gpath \<Rightarrow> CollectedField \<Rightarrow> gql_Contract \<Rightarrow> (gval, 'e, 's) ex" where
  [exec_defs]: "ec_Contract_name rt ctx field obj =
     field_N rt (WithFieldContext ctx (fieldContext_Contract_name field)) (got (gc_Name obj)) (marshalNString2string rt)"

definition fieldContext_Contract_blockNumber :: "CollectedField \<Rightarrow> FieldContext" where
  [exec_defs]: "fieldContext_Contract_blockNumber field = FieldContext ''Contract'' field False False (no_children ''Int'')"

definition ec_Contract_blockNumber :: "'e gqlgen \<Rightarrow> gpath \<Rightarrow> CollectedField \<Rightarrow> gql_Contract \<Rightarrow> (gval, 'e, 's) ex" where
  [exec_defs]: "ec_Contract_blockNumber rt ctx field obj =
     field_N rt (WithFieldContext ctx (fieldContext_Contract_blockNumber field)) (got (gc_BlockNumber obj)) (marshalNInt2int rt)"

definition fieldContext_Contract_blockHash :: "CollectedField \<Rightarrow> FieldContext" where
  [exec_defs]: "fieldContext_Contract_blockHash field = FieldContext ''Contract'' field False False (no_children ''String'')"

definition ec_Contract_blockHash :: "'e gqlgen \<Rightarrow> gpath \<Rightarrow> CollectedField \<Rightarrow> gql_Contract \<Rightarrow> (gval, 'e, 's) ex" where
  [exec_defs]: "ec_Contract_blockHash rt ctx field obj =
     field_N rt (WithFieldContext ctx (fieldContext_Contract_blockHash field)) (got (gc_BlockHash obj)) (marshalNString2string rt)"

definition fieldContext_Contract_transactionHash :: "CollectedField \<Rightarrow> FieldContext" where
  [exec_defs]: "fieldContext_Contract_transactionHash field = FieldContext ''Contract'' field False False (no_children ''String'')"

definition ec_Contract_transactionHash :: "'e gqlgen \<Rightarrow> gpath \<Rightarrow> CollectedField \<Rightarrow> gql_Contract \<Rightarrow> (gval, 'e, 's) ex" where
  [exec_defs]: "ec_Contract_transactionHash rt ctx field obj =
     field_N rt (WithFieldContext ctx (fieldContext_Contract_transactionHash field)) (got (gc_TransactionHash obj)) (marshalNString2string rt)"

definition fieldContext_Contract_standards :: "CollectedField \<Rightarrow> FieldContext" where
  [exec_defs]: "fieldContext_Contract_standards field = FieldContext ''Contract'' field False False (no_children ''String'')"

definition ec_Contract_standards :: "'e gqlgen \<Rightarrow> gpath \<Rightarrow> CollectedField \<Rightarrow> gql_Contract \<Rightarrow> (gval, 'e, 's) ex" where
  [exec_defs]: "ec_Contract_standards rt ctx field obj =
     field_O rt (WithFieldContext ctx (fieldContext_Contract_standards field)) (got (gc_Standards obj)) (marshalOString2slice rt)"

definition fieldContext_Contract_license :: "CollectedField \<Rightarrow> FieldContext" where
  [exec_defs]: "fieldContext_Contract_license field = FieldContext ''Contract'' field False False (no_children ''String'')"

definition ec_Contract_license :: "'e gqlgen \<Rightarrow> gpath \<Rightarrow> CollectedField \<Rightarrow> gql_Contract \<Rightarrow> (gval, 'e, 's) ex" where
  [exec_defs]: "ec_Contract_license rt ctx field obj =
     field_O rt (WithFieldContext ctx (fieldContext_Contract_license field)) (got (gc_License obj)) (marshalOString2ptr rt)"

definition fieldContext_Contract_optimized :: "CollectedField \<Rightarrow> FieldContext" where
  [exec_defs]: "fieldContext_Contract_optimized field = FieldContext ''Contract'' field False False (no_children ''Boolean'')"

definition ec_Contract_optimized :: "'e gqlgen \<Rightarrow> gpath \<Rightarrow> CollectedField \<Rightarrow> gql_Contract \<Rightarrow> (gval, 'e, 's) ex" where
  [exec_defs]: "ec_Contract_optimized rt ctx field obj =
     field_N rt (WithFieldContext ctx (fieldContext_Contract_optimized field)) (got (gc_Optimized obj)) (marshalNBoolean2bool rt)"

definition fieldContext_Contract_optimizationRuns :: "CollectedField \<Rightarrow> FieldContext" where
  [exec_defs]: "fieldContext_Contract_optimizationRuns field = FieldContext ''Contract'' field False False (no_children ''Int'')"

definition ec_Contract_optimizationRuns :: "'e gqlgen \<Rightarrow> gpath \<Rightarrow> CollectedField \<Rightarrow> gql_Contract \<Rightarrow> (gval, 'e, 's) ex" where
  [exec_defs]: "ec_Contract_optimizationRuns rt ctx field obj =
     field_N rt (WithFieldContext ctx (fieldContext_Contract_optimizationRuns field)) (got (gc_OptimizationRuns obj)) (marshalNInt2int rt)"

definition fieldContext_Contract_proxy :: "CollectedField \<Rightarrow> FieldContext" where
  [exec_defs]: "fieldContext_Contract_proxy field = FieldContext ''Contract'' field False False (no_children ''Boolean'')"

definition ec_Contract_proxy :: "'e gqlgen \<Rightarrow> gpath \<Rightarrow> CollectedField \<Rightarrow> gql_Contract \<Rightarrow> (gval, 'e, 's) ex" where
  [exec_defs]: "ec_Contract_proxy rt ctx field obj =
     field_N rt (WithFieldContext ctx (fieldContext_Contract_proxy field)) (got (gc_Proxy obj)) (marshalNBoolean2bool rt)"

definition fieldContext_Contract_implementations :: "CollectedField \<Rightarrow> FieldContext" where
  [exec_defs]: "fieldContext_Contract_implementations field = FieldContext ''Contract'' field False False (no_children ''String'')"

definition ec_Contract_implementations :: "'e gqlgen \<Rightarrow> gpath \<Rightarrow> CollectedField \<Rightarrow> gql_Contract \<Rightarrow> (gval, 'e, 's) ex" where
  [exec_defs]: "ec_Contract_implementations rt ctx field obj =
     field_O rt (WithFieldContext ctx (fieldContext_Contract_implementations field)) (got (gc_Implementations obj)) (marshalOString2slice rt)"

definition fieldContext_Contract_abi :: "CollectedField \<Rightarrow> FieldContext" where
  [exec_defs]: "fieldContext_Contract_abi field = FieldContext ''Contract'' field False False (no_children ''String'')"

definition ec_Contract_abi :: "'e gqlgen \<Rightarrow> gpath \<Rightarrow> CollectedField \<Rightarrow> gql_Contract \<Rightarrow> (gval, 'e, 's) ex" where
  [exec_defs]: "ec_Contract_abi rt ctx field obj =
     field_O rt (WithFieldContext ctx (fieldContext_Contract_abi field)) (got (gc_Abi obj)) (marshalOString2ptr rt)"

definition fieldContext_Contract_executionBytecode :: "CollectedField \<Rightarrow> FieldContext" where
  [exec_defs]: "fieldContext_Contract_executionBytecode field = FieldContext ''Contract'' field False False (no_children ''String'')"

definition ec_Contract_executionBytecode :: "'e gqlgen \<Rightarrow> gpath \<Rightarrow> CollectedField \<Rightarrow> gql_Contract \<Rightarrow> (gval, 'e, 's) ex" where
  [exec_defs]: "ec_Contract_executionBytecode rt ctx field obj =
     field_O rt (WithFieldContext ctx (fieldContext_Contract_executionBytecode field)) (got (gc_ExecutionBytecode obj)) (marshalOString2ptr rt)"

definition fieldContext_Contract_bytecode :: "CollectedField \<Rightarrow> FieldContext" where
  [exec_defs]: "fieldContext_Contract_bytecode field = FieldContext ''Contract'' field False False (no_children ''String'')"

definition ec_Contract_bytecode :: "'e gqlgen \<Rightarrow> gpath \<Rightarrow> CollectedField \<Rightarrow> gql_Contract \<Rightarrow> (gval, 'e, 's) ex" where
  [exec_defs]: "ec_Contract_bytecode rt ctx field obj =
     field_O rt (WithFieldContext ctx (fieldContext_Contract_bytecode field)) (got (gc_Bytecode obj)) (marshalOString2ptr rt)"

definition fieldContext_Contract_evmVersion :: "CollectedField \<Rightarrow> FieldContext" where
  [exec_defs]: "fieldContext_Contract_evmVersion field = FieldContext ''Contract'' field False False (no_children ''String'')"

definition ec_Contract_evmVersion :: "'e gqlgen \<Rightarrow> gpath \<Rightarrow> CollectedField \<Rightarrow> gql_Contract \<Rightarrow> (gval, 'e, 's) ex" where
  [exec_defs]: "ec_Contract_evmVersion rt ctx field obj =
     field_O rt (WithFieldContext ctx (fieldContext_Contract_evmVersion field)) (got (gc_EvmVersion obj)) (marshalOString2ptr rt)"

definition fieldContext_Contract_verified :: "CollectedField \<Rightarrow> FieldContext" where
  [exec_defs]: "fieldContext_Contract_verified field = FieldContext ''Contract'' field False False (no_children ''Boolean'')"

definition ec_Contract_verified :: "'e gqlgen \<Rightarrow> gpath \<Rightarrow> CollectedField \<Rightarrow> gql_Contract \<Rightarrow> (gval, 'e, 's) ex" where
  [exec_defs]: "ec_Contract_verified rt ctx field obj =
     field_N rt (WithFieldContext ctx (fieldContext_Contract_verified field)) (got (gc_Verified obj)) (marshalNBoolean2bool rt)"

definition fieldContext_Contract_sourceAvailable :: "CollectedField \<Rightarrow> FieldContext" where
  [exec_defs]: "fieldContext_Contract_sourceAvailable field = FieldContext ''Contract'' field False False (no_children ''Boolean'')"

definition ec_Contract_sourceAvailable :: "'e gqlgen \<Rightarrow> gpath \<Rightarrow> CollectedField \<Rightarrow> gql_Contract \<Rightarrow> (gval, 'e, 's) ex" where
  [exec_defs]: "ec_Contract_sourceAvailable rt ctx field obj =
     field_N rt (WithFieldContext ctx (fieldContext_Contract_sourceAvailable field)) (got (gc_SourceAvailable obj)) (marshalNBoolean2bool rt)"

definition fieldContext_Contract_sourcesProvider :: "CollectedField \<Rightarrow> FieldContext" where
  [exec_defs]: "fieldContext_Contract_sourcesProvider field = FieldContext ''Contract'' field False False (no_children ''String'')"

definition ec_Contract_sourcesProvider :: "'e gqlgen \<Rightarrow> gpath \<Rightarrow> CollectedField \<Rightarrow> gql_Contract \<Rightarrow> (gval, 'e, 's) ex" where
  [exec_defs]: "ec_Contract_sourcesProvider rt ctx field obj =
     field_O rt (WithFieldContext ctx (fieldContext_Contract_sourcesProvider field)) (got (gc_SourcesProvider obj)) (marshalOString2ptr rt)"

definition fieldContext_Contract_verificationProvider :: "CollectedField \<Rightarrow> FieldContext" where
  [exec_defs]: "fieldContext_Contract_verificationProvider field = FieldContext ''Contract'' field False False (no_children ''String'')"

definition ec_Contract_verificationProvider :: "'e gqlgen \<Rightarrow> gpath \<Rightarrow> CollectedField \<Rightarrow> gql_Contract \<Rightarrow> (gval, 'e, 's) ex" where
  [exec_defs]: "ec_Contract_verificationProvider rt ctx field obj =
     field_O rt (WithFieldContext ctx (fieldContext_Contract_verificationProvider field)) (got (gc_VerificationProvider obj)) (marshalOString2ptr rt)"

definition fieldContext_Contract_selfDestructed :: "CollectedField \<Rightarrow> FieldContext" where
  [exec_defs]: "fieldContext_Contract_selfDestructed field = FieldContext ''Contract'' field False False (no_children ''Boolean'')"

definition ec_Contract_selfDestructed :: "'e gqlgen \<Rightarrow> gpath \<Rightarrow> CollectedField \<Rightarrow> gql_Contract \<Rightarrow> (gval, 'e, 's) ex" where
  [exec_defs]: "ec_Contract_selfDestructed rt ctx field obj =
     field_N rt (WithFieldContext ctx (fieldContext_Contract_selfDestructed field)) (got (gc_SelfDestructed obj)) (marshalNBoolean2bool rt)"

definition fieldContext_Contract_compilerVersion :: "CollectedField \<Rightarrow> FieldContext" where
  [exec_defs]: "fieldContext_Contract_compilerVersion field = FieldContext ''Contract'' field False False (no_children ''String'')"

definition ec_Contract_compilerVersion :: "'e gqlgen \<Rightarrow> gpath \<Rightarrow> CollectedField \<Rightarrow> gql_Contract \<Rightarrow> (gval, 'e, 's) ex" where
  [exec_defs]: "ec_Contract_compilerVersion rt ctx field obj =
     field_O rt (WithFieldContext ctx (fieldContext_Contract_compilerVersion field)) (got (gc_CompilerVersion obj)) (marshalOString2ptr rt)"

definition fieldContext_Contract_solgoVersion :: "CollectedField \<Rightarrow> FieldContext" where
  [exec_defs]: "fieldContext_Contract_solgoVersion field = FieldContext ''Contract'' field False False (no_children ''String'')"

definition ec_Contract_solgoVersion :: "'e gqlgen \<Rightarrow> gpath \<Rightarrow> CollectedField \<Rightarrow> gql_Contract \<Rightarrow> (gval, 'e, 's) ex" where
  [exec_defs]: "ec_Contract_solgoVersion rt ctx field obj =
     field_O rt (WithFieldContext ctx (fieldContext_Contract_solgoVersion field)) (got (gc_SolgoVersion obj)) (marshalOString2ptr rt)"

definition fieldContext_Contract_currentState :: "CollectedField \<Rightarrow> FieldContext" where
  [exec_defs]: "fieldContext_Contract_currentState field = FieldContext ''Contract'' field False False (no_children ''String'')"

definition ec_Contract_currentState :: "'e gqlgen \<Rightarrow> gpath \<Rightarrow> CollectedField \<Rightarrow> gql_Contract \<Rightarrow> (gval, 'e, 's) ex" where
  [exec_defs]: "ec_Contract_currentState rt ctx field obj =
     field_N rt (WithFieldContext ctx (fieldContext_Contract_currentState field)) (got (gc_CurrentState obj)) (marshalNString2string rt)"

definition fieldContext_Contract_nextState :: "CollectedField \<Rightarrow> FieldContext" where
  [exec_defs]: "fieldContext_Contract_nextState field = FieldContext ''Contract'' field False False (no_children ''String'')"

definition ec_Contract_nextState :: "'e gqlgen \<Rightarrow> gpath \<Rightarrow> CollectedField \<Rightarrow> gql_Contract \<Rightarrow> (gval, 'e, 's) ex" where
  [exec_defs]: "ec_Contract_nextState rt ctx field obj =
     field_N rt (WithFieldContext ctx (fieldContext_Contract_nextState field)) (got (gc_NextState obj)) (marshalNString2string rt)"

definition fieldContext_Contract_completedStates :: "CollectedField \<Rightarrow> FieldContext" where
  [exec_defs]: "fieldContext_Contract_completedStates field = FieldContext ''Contract'' field False False (no_children ''String'')"

definition ec_Contract_completedStates :: "'e gqlgen \<Rightarrow> gpath \<Rightarrow> CollectedField \<Rightarrow> gql_Contract \<Rightarrow> (gval, 'e, 's) ex" where
  [exec_defs]: "ec_Contract_completedStates rt ctx field obj =
     field_N rt (WithFieldContext ctx (fieldContext_Contract_completedStates field)) (got (gc_CompletedStates obj)) (marshalNString2slice rt)"

definition fieldContext_Contract_failedStates :: "CollectedField \<Rightarrow> FieldContext" where
  [exec_defs]: "fieldContext_Contract_failedStates field = FieldContext ''Contract'' field False False (no_children ''String'')"

definition ec_Contract_failedStates :: "'e gqlgen \<Rightarrow> gpath \<Rightarrow> CollectedField \<Rightarrow> gql_Contract \<Rightarrow> (gval, 'e, 's) ex" where
  [exec_defs]: "ec_Contract_failedStates rt ctx field obj =
     field_N rt (WithFieldContext ctx (fieldContext_Contract_failedStates field)) (got (gc_FailedStates obj)) (marshalNString2slice rt)"

definition fieldContext_Contract_completed :: "CollectedField \<Rightarrow> FieldContext" where
  [exec_defs]: "fieldContext_Contract_completed field = FieldContext ''Contract'' field False False (no_children ''Boolean'')"

definition ec_Contract_completed :: "'e gqlgen \<Rightarrow> gpath \<Rightarrow> CollectedField \<Rightarrow> gql_Contract \<Rightarrow> (gval, 'e, 's) ex" where
  [exec_defs]: "ec_Contract_completed rt ctx field obj =
     field_N rt (WithFieldContext ctx (fieldContext_Contract_completed field)) (got (gc_Completed obj)) (marshalNBoolean2bool rt)"

definition fieldContext_Contract_partial :: "CollectedField \<Rightarrow> FieldContext" where
  [exec_defs]: "fieldContext_Contract_partial field = FieldContext ''Contract'' field False False (no_children ''Boolean'')"

definition ec_Contract_partial :: "'e gqlgen \<Rightarrow> gpath \<Rightarrow> CollectedField \<Rightarrow> gql_Contract \<Rightarrow> (gval, 'e, 's) ex" where
  [exec_defs]: "ec_Contract_partial rt ctx field obj =
     field_N rt (WithFieldContext ctx (fieldContext_Contract_partial field)) (got (gc_Partial obj)) (marshalNBoolean2bool rt)"

definition fieldContext_Contract_createdAt :: "CollectedField \<Rightarrow> FieldContext" where
  [exec_defs]: "fieldContext_Contract_createdAt field = FieldContext ''Contract'' field False False (no_children ''Time'')"

definition ec_Contract_createdAt :: "'e gqlgen \<Rightarrow> gpath \<Rightarrow> CollectedField \<Rightarrow> gql_Contract \<Rightarrow> (gval, 'e, 's) ex" where
  [exec_defs]: "ec_Contract_createdAt rt ctx field obj =
     field_N rt (WithFieldContext ctx (fieldContext_Contract_createdAt field)) (got (gc_CreatedAt obj)) (marshalNTime2Time rt)"

definition fieldContext_Contract_updatedAt :: "CollectedField \<Rightarrow> FieldContext" where
  [exec_defs]: "fieldContext_Contract_updatedAt field = FieldContext ''Contract'' field False False (no_children ''Time'')"

definition ec_Contract_updatedAt :: "'e gqlgen \<Rightarrow> gpath \<Rightarrow> CollectedField \<Rightarrow> gql_Contract \<Rightarrow> (gval, 'e, 's) ex" where
  [exec_defs]: "ec_Contract_updatedAt rt ctx field obj =
     field_N rt (WithFieldContext ctx (fieldContext_Contract_updatedAt field)) (got (gc_UpdatedAt obj)) (marshalNTime2Time rt)"

definition ec_Contract :: "'e gqlgen \<Rightarrow> gpath \<Rightarrow> CollectedField list \<Rightarrow> gql_Contract \<Rightarrow> (gval, 'e, 's) ex" where
  "ec_Contract rt ctx sel obj = object_set (\<lambda>field.
     if cf_Name field = ''__typename'' then typename rt ''Contract''
     else if cf_Name field = ''network'' then Some (True, ec_Contract_network rt ctx field obj)
     else if cf_Name field = ''address'' then Some (True, ec_Contract_address rt ctx field obj)
     else if cf_Name field = ''name'' then Some (True, ec_Contract_name rt ctx field obj)
     else if cf_Name field = ''blockNumber'' then Some (True, ec_Contract_blockNumber rt ctx field obj)
     else if cf_Name field = ''blockHash'' then Some (True, ec_Contract_blockHash rt ctx field obj)
     else if cf_Name field = ''transactionHash'' then Some (True, ec_Contract_transactionHash rt ctx field obj)
     else if cf_Name field = ''standards'' then Some (False, ec_Contract_standards rt ctx field obj)
     else if cf_Name field = ''license'' then Some (False, ec_Contract_license rt ctx field obj)
     else if cf_Name field = ''optimized'' then Some (True, ec_Contract_optimized rt ctx field obj)
     else if cf_Name field = ''optimizationRuns'' then Some (True, ec_Contract_optimizationRuns rt ctx field obj)
     else if cf_Name field = ''proxy'' then Some (True, ec_Contract_proxy rt ctx field obj)
     else if cf_Name field = ''implementations'' then Some (False, ec_Contract_implementations rt ctx field obj)
     else if cf_Name field = ''abi'' then Some (False, ec_Contract_abi rt ctx field obj)
     else if cf_Name field = ''executionBytecode'' then Some (False, ec_Contract_executionBytecode rt ctx field obj)
     else if cf_Name field = ''bytecode'' then Some (False, ec_Contract_bytecode rt ctx field obj)
     else if cf_Name field = ''evmVersion'' then Some (False, ec_Contract_evmVersion rt ctx field obj)
     else if cf_Name field = ''verified'' then Some (True, ec_Contract_verified rt ctx field obj)
     else if cf_Name field = ''sourceAvailable'' then Some (True, ec_Contract_sourceAvailable rt ctx field obj)
     else if cf_Name field = ''sourcesProvider'' then Some (False, ec_Contract_sourcesProvider rt ctx field obj)
     else if cf_Name field = ''verificationProvider'' then Some (False, ec_Contract_verificationProvider rt ctx field obj)
     else if cf_Name field = ''selfDestructed'' then Some (True, ec_Contract_selfDestructed rt ctx field obj)
     else if cf_Name field = ''compilerVersion'' then Some (False, ec_Contract_compilerVersion rt ctx field obj)
     else if cf_Name field = ''solgoVersion'' then Some (False, ec_Contract_solgoVersion rt ctx field obj)
     else if cf_Name field = ''currentState'' then Some (True, ec_Contract_currentState rt ctx field obj)
     else if cf_Name field = ''nextState'' then Some (True, ec_Contract_nextState rt ctx field obj)
     else if cf_Name field = ''completedStates'' then Some (True, ec_Contract_completedStates rt ctx field obj)
     else if cf_Name field = ''failedStates'' then Some (True, ec_Contract_failedStates rt ctx field obj)
     else if cf_Name field = ''completed'' then Some (True, ec_Contract_completed rt ctx field obj)
     else if cf_Name field = ''partial'' then Some (True, ec_Contract_partial rt ctx field obj)
     else if cf_Name field = ''createdAt'' then Some (True, ec_Contract_createdAt rt ctx field obj)
     else if cf_Name field = ''updatedAt'' then Some (True, ec_Contract_updatedAt rt ctx field obj)
     else None) sel"

definition marshalNContract2ptr :: "'e gqlgen \<Rightarrow> CollectedField list \<Rightarrow> gpath \<Rightarrow> gql_Contract option \<Rightarrow> (gval, 'e, 's) ex" where
  "marshalNContract2ptr rt sel ctx v = marshal_ptr rt ctx (ec_Contract rt ctx sel) v"

definition marshalNContract2val :: "'e gqlgen \<Rightarrow> CollectedField list \<Rightarrow> gpath \<Rightarrow> gql_Contract \<Rightarrow> (gval, 'e, 's) ex" where
  "marshalNContract2val rt sel ctx v = ec_Contract rt ctx sel v"

section \<open>ContractEdge\<close>

definition fieldContext_ContractEdge_node :: "CollectedField \<Rightarrow> FieldContext" where
  [exec_defs]: "fieldContext_ContractEdge_node field = FieldContext ''ContractEdge'' field False False (\<lambda>_ f.
        (if cf_Name f = ''network'' then Inr (fieldContext_Contract_network f)
         else if cf_Name f = ''address'' then Inr (fieldContext_Contract_address f)
         else if cf_Name f = ''name'' then Inr (fieldContext_Contract_name f)
         else if cf_Name f = ''blockNumber'' then Inr (fieldContext_Contract_blockNumber f)
         else if cf_Name f = ''blockHash'' then Inr (fieldContext_Contract_blockHash f)
         else if cf_Name f = ''transactionHash'' then Inr (fieldContext_Contract_transactionHash f)
         else if cf_Name f = ''standards'' then Inr (fieldContext_Contract_standards f)
         else if cf_Name f = ''license'' then Inr (fieldContext_Contract_license f)
         else if cf_Name f = ''optimized'' then Inr (fieldContext_Contract_optimized f)
         else if cf_Name f = ''optimizationRuns'' then Inr (fieldContext_Contract_optimizationRuns f)
         else if cf_Name f = ''proxy'' then Inr (fieldContext_Contract_proxy f)
         else if cf_Name f = ''implementations'' then Inr (fieldContext_Contract_implementations f)
         else if cf_Name f = ''abi'' then Inr (fieldContext_Contract_abi f)
         else if cf_Name f = ''executionBytecode'' then Inr (fieldContext_Contract_executionBytecode f)
         else if cf_Name f = ''bytecode'' then Inr (fieldContext_Contract_bytecode f)
         else if cf_Name f = ''evmVersion'' then Inr (fieldContext_Contract_evmVersion f)
         else if cf_Name f = ''verified'' then Inr (fieldContext_Contract_verified f)
         else if cf_Name f = ''sourceAvailable'' then Inr (fieldContext_Contract_sourceAvailable f)
         else if cf_Name f = ''sourcesProvider'' then Inr (fieldContext_Contract_sourcesProvider f)
         else if cf_Name f = ''verificationProvider'' then Inr (fieldContext_Contract_verificationProvider f)
         else if cf_Name f = ''selfDestructed'' then Inr (fieldContext_Contract_selfDestructed f)
         else if cf_Name f = ''compilerVersion'' then Inr (fieldContext_Contract_compilerVersion f)
         else if cf_Name f = ''solgoVersion'' then Inr (fieldContext_Contract_solgoVersion f)
         else if cf_Name f = ''currentState'' then Inr (fieldContext_Contract_currentState f)
         else if cf_Name f = ''nextState'' then Inr (fieldContext_Contract_nextState f)
         else if cf_Name f = ''completedStates'' then Inr (fieldContext_Contract_completedStates f)
         else if cf_Name f = ''failedStates'' then Inr (fieldContext_Contract_failedStates f)
         else if cf_Name f = ''completed'' then Inr (fieldContext_Contract_completed f)
         else if cf_Name f = ''partial'' then Inr (fieldContext_Contract_partial f)
         else if cf_Name f = ''createdAt'' then Inr (fieldContext_Contract_createdAt f)
         else if cf_Name f = ''updatedAt'' then Inr (fieldContext_Contract_updatedAt f)
         else Inl (no_field_named f ''Contract'')))"

definition ec_ContractEdge_node :: "'e gqlgen \<Rightarrow> gpath \<Rightarrow> CollectedField \<Rightarrow> ContractEdge \<Rightarrow> (gval, 'e, 's) ex" where
  [exec_defs]: "ec_ContractEdge_node rt ctx field obj =
     field_N rt (WithFieldContext ctx (fieldContext_ContractEdge_node field)) (got (Some (edge_Node obj))) (marshalNContract2ptr rt (cf_Selections field))"

definition fieldContext_ContractEdge_cursor :: "CollectedField \<Rightarrow> FieldContext" where
  [exec_defs]: "fieldContext_ContractEdge_cursor field = FieldContext ''ContractEdge'' field False False (no_children ''String'')"

definition ec_ContractEdge_cursor :: "'e gqlgen \<Rightarrow> gpath \<Rightarrow> CollectedField \<Rightarrow> ContractEdge \<Rightarrow> (gval, 'e, 's) ex" where
  [exec_defs]: "ec_ContractEdge_cursor rt ctx field obj =
     field_N rt (WithFieldContext ctx (fieldContext_ContractEdge_cursor field)) (got (edge_Cursor obj)) (marshalNString2string rt)"

definition ec_ContractEdge :: "'e gqlgen \<Rightarrow> gpath \<Rightarrow> CollectedField list \<Rightarrow> ContractEdge \<Rightarrow> (gval, 'e, 's) ex" where
  "ec_ContractEdge rt ctx sel obj = object_set (\<lambda>field.
     if cf_Name field = ''__typename'' then typename rt ''ContractEdge''
     else if cf_Name field = ''node'' then Some (True, ec_ContractEdge_node rt ctx field obj)
     else if cf_Name field = ''cursor'' then Some (True, ec_ContractEdge_cursor rt ctx field obj)
     else None) sel"

definition marshalNContractEdge2ptr :: "'e gqlgen \<Rightarrow> CollectedField list \<Rightarrow> gpath \<Rightarrow> ContractEdge option \<Rightarrow> (gval, 'e, 's) ex" where
  "marshalNContractEdge2ptr rt sel ctx v = marshal_ptr rt ctx (ec_ContractEdge rt ctx sel) v"

definition marshalNContractEdge2slice :: "'e gqlgen \<Rightarrow> CollectedField list \<Rightarrow> gpath \<Rightarrow> ContractEdge option list \<Rightarrow> (gval, 'e, 's) ex" where
  "marshalNContractEdge2slice rt sel ctx v = marshal_slice rt ctx (marshalNContractEdge2ptr rt sel) v"

section \<open>ContractConnection\<close>

definition fieldContext_ContractConnection_edges :: "CollectedField \<Rightarrow> FieldContext" where
  [exec_defs]: "fieldContext_ContractConnection_edges field = FieldContext ''ContractConnection'' field False False (\<lambda>_ f.
        (if cf_Name f = ''node'' then Inr (fieldContext_ContractEdge_node f)
         else if cf_Name f = ''cursor'' then Inr (fieldContext_ContractEdge_cursor f)
         else Inl (no_field_named f ''ContractEdge'')))"

definition ec_ContractConnection_edges :: "'e gqlgen \<Rightarrow> gpath \<Rightarrow> CollectedField \<Rightarrow> ContractConnection \<Rightarrow> (gval, 'e, 's) ex" where
  [exec_defs]: "ec_ContractConnection_edges rt ctx field obj =
     field_N rt (WithFieldContext ctx (fieldContext_ContractConnection_edges field)) (got (map Some (Edges obj))) (marshalNContractEdge2slice rt (cf_Selections field))"

definition fieldContext_ContractConnection_pageInfo :: "CollectedField \<Rightarrow> FieldContext" where
  [exec_defs]: "fieldContext_ContractConnection_pageInfo field = FieldContext ''ContractConnection'' field False False (\<lambda>_ f.
        (if cf_Name f = ''hasNextPage'' then Inr (fieldContext_PageInfo_hasNextPage f)
         else if cf_Name f = ''hasPreviousPage'' then Inr (fieldContext_PageInfo_hasPreviousPage f)
         else if cf_Name f = ''startCursor'' then Inr (fieldContext_PageInfo_startCursor f)
         else if cf_Name f = ''endCursor'' then Inr (fieldContext_PageInfo_endCursor f)
         else Inl (no_field_named f ''PageInfo'')))"

definition ec_ContractConnection_pageInfo :: "'e gqlgen \<Rightarrow> gpath \<Rightarrow> CollectedField \<Rightarrow> ContractConnection \<Rightarrow> (gval, 'e, 's) ex" where
  [exec_defs]: "ec_ContractConnection_pageInfo rt ctx field obj =
     field_N rt (WithFieldContext ctx (fieldContext_ContractConnection_pageInfo field)) (got (Some (page_Info obj))) (marshalNPageInfo2ptr rt (cf_Selections field))"

definition ec_ContractConnection :: "'e gqlgen \<Rightarrow> gpath \<Rightarrow> CollectedField list \<Rightarrow> ContractConnection \<Rightarrow> (gval, 'e, 's) ex" where
  "ec_ContractConnection rt ctx sel obj = object_set (\<lambda>field.
     if cf_Name field = ''__typename'' then typename rt ''ContractConnection''
     else if cf_Name field = ''edges'' then Some (True, ec_ContractConnection_edges rt ctx field obj)
     else if cf_Name field = ''pageInfo'' then Some (True, ec_ContractConnection_pageInfo rt ctx field obj)
     else None) sel"

definition marshalNContractConnection2ptr :: "'e gqlgen \<Rightarrow> CollectedField list \<Rightarrow> gpath \<Rightarrow> ContractConnection option \<Rightarrow> (gval, 'e, 's) ex" where
  "marshalNContractConnection2ptr rt sel ctx v = marshal_ptr rt ctx (ec_ContractConnection rt ctx sel) v"

definition marshalNContractConnection2val :: "'e gqlgen \<Rightarrow> CollectedField list \<Rightarrow> gpath \<Rightarrow> ContractConnection \<Rightarrow> (gval, 'e, 's) ex" where
  "marshalNContractConnection2val rt sel ctx v = ec_ContractConnection rt ctx sel v"

end
