(* ===== verification/Introspection.thy ===== *)
theory Introspection
  imports Executor
begin

text \<open>
  The generated GraphQL executor, second part: the field and object functions of the introspection types
  (src/pkg/graph/generated.go, functions \<open>___Directive\<close> to \<open>___Type\<close>). The wrapped schema is a value of the
  GraphQL library: its types are opaque, and the record \<open>introspection_Type\<close> holds the methods the executor
  calls on them.

  A type refers to other types without end (\<open>ofType\<close>, the types of its fields), so the executor of a type
  recurs; the selection gets one level smaller with every call, and the fuel of \<open>ec___Type\<close> is a bound on
  the depth of the selection. The other functions take the executor of types as the argument \<open>typ\<close>.
\<close>

section \<open>The wrapped schema\<close>

record 't introspection_InputValue =
  iv_Name :: string
  iv_Description :: "string option"
  iv_DefaultValue :: "string option"
  iv_Type :: "'t option"

record introspection_EnumValue =
  ie_Name :: string
  ie_Description :: "string option"
  ie_IsDeprecated :: bool
  ie_DeprecationReason :: "string option"

record 't introspection_Field =
  if_Name :: string
  if_Description :: "string option"
  if_Args :: "'t introspection_InputValue list"
  if_Type :: "'t option"
  if_IsDeprecated :: bool
  if_DeprecationReason :: "string option"

record 't introspection_Directive =
  id_Name :: string
  id_Description :: "string option"
  id_Locations :: "string list"
  id_Args :: "'t introspection_InputValue list"
  id_IsRepeatable :: bool

record 't introspection_Schema =
  is_Description :: "string option"
  is_Types :: "'t list"
  is_QueryType :: "'t option"
  is_MutationType :: "'t option"
  is_SubscriptionType :: "'t option"
  is_Directives :: "'t introspection_Directive list"

record 't introspection_Type =
  it_Kind :: "'t \<Rightarrow> string"
  it_Name :: "'t \<Rightarrow> string option"
  it_Description :: "'t \<Rightarrow> string option"
  it_Fields :: "'t \<Rightarrow> bool \<Rightarrow> 't introspection_Field list option"
  it_Interfaces :: "'t \<Rightarrow> 't list option"
  it_PossibleTypes :: "'t \<Rightarrow> 't list option"
  it_EnumValues :: "'t \<Rightarrow> bool \<Rightarrow> introspection_EnumValue list option"
  it_InputFields :: "'t \<Rightarrow> 't introspection_InputValue list option"
  it_OfType :: "'t \<Rightarrow> 't option"
  it_SpecifiedByURL :: "'t \<Rightarrow> string option"

type_synonym ('t, 'e, 's) type_executor = "gpath \<Rightarrow> CollectedField list \<Rightarrow> 't \<Rightarrow> (gval, 'e, 's) ex"

section \<open>Marshallers\<close>

definition marshalN__DirectiveLocation2string :: "'e gqlgen \<Rightarrow> gpath \<Rightarrow> string \<Rightarrow> (gval, 'e, 's) ex" where
  "marshalN__DirectiveLocation2string rt ctx v = check_null rt ctx (MarshalString rt v)"

definition marshalN__DirectiveLocation2slice :: "'e gqlgen \<Rightarrow> gpath \<Rightarrow> string list \<Rightarrow> (gval, 'e, 's) ex" where
  "marshalN__DirectiveLocation2slice rt ctx v = marshal_slice rt ctx (marshalN__DirectiveLocation2string rt) v"

definition unmarshalN__DirectiveLocation2string :: "'e gqlgen \<Rightarrow> gpath \<Rightarrow> raw_arg \<Rightarrow> error + string" where
  "unmarshalN__DirectiveLocation2string rt ctx v = map_sum (ErrorOnPath rt ctx) id (UnmarshalString rt v)"

definition unmarshalN__DirectiveLocation2slice :: "'e gqlgen \<Rightarrow> gpath \<Rightarrow> raw_arg \<Rightarrow> error + string list" where
  "unmarshalN__DirectiveLocation2slice rt ctx v =
     unmarshal_elements (unmarshalN__DirectiveLocation2string rt) ctx 0 (if v = Raw_nil then [] else CoerceList rt v)"

definition unmarshalN__TypeKind2string :: "'e gqlgen \<Rightarrow> gpath \<Rightarrow> raw_arg \<Rightarrow> error + string" where
  "unmarshalN__TypeKind2string rt ctx v = map_sum (ErrorOnPath rt ctx) id (UnmarshalString rt v)"

definition marshalN__TypeKind2string :: "'e gqlgen \<Rightarrow> gpath \<Rightarrow> string \<Rightarrow> (gval, 'e, 's) ex" where
  "marshalN__TypeKind2string rt ctx v = check_null rt ctx (MarshalString rt v)"

definition marshal_optional :: "('a \<Rightarrow> (gval, 'e, 's) ex) \<Rightarrow> 'a option \<Rightarrow> (gval, 'e, 's) ex" where
  "marshal_optional f v = (case v of None \<Rightarrow> ex_return GNull | Some x \<Rightarrow> f x)"

definition marshalN__Type2val ::
  "('t, 'e, 's) type_executor \<Rightarrow> CollectedField list \<Rightarrow> gpath \<Rightarrow> 't \<Rightarrow> (gval, 'e, 's) ex" where
  "marshalN__Type2val typ sel ctx v = typ ctx sel v"

definition marshalN__Type2slice ::
  "'e gqlgen \<Rightarrow> ('t, 'e, 's) type_executor \<Rightarrow> CollectedField list \<Rightarrow> gpath \<Rightarrow> 't list \<Rightarrow> (gval, 'e, 's) ex" where
  "marshalN__Type2slice rt typ sel ctx v = marshal_slice rt ctx (marshalN__Type2val typ sel) v"

definition marshalN__Type2ptr ::
  "'e gqlgen \<Rightarrow> ('t, 'e, 's) type_executor \<Rightarrow> CollectedField list \<Rightarrow> gpath \<Rightarrow> 't option \<Rightarrow> (gval, 'e, 's) ex" where
  "marshalN__Type2ptr rt typ sel ctx v = marshal_ptr rt ctx (typ ctx sel) v"

definition marshalO__Type2slice ::
  "'e gqlgen \<Rightarrow> ('t, 'e, 's) type_executor \<Rightarrow> CollectedField list \<Rightarrow> gpath \<Rightarrow> 't list option \<Rightarrow> (gval, 'e, 's) ex" where
  "marshalO__Type2slice rt typ sel ctx v = marshal_optional (marshal_slice rt ctx (marshalN__Type2val typ sel)) v"

definition marshalO__Type2ptr ::
  "('t, 'e, 's) type_executor \<Rightarrow> CollectedField list \<Rightarrow> gpath \<Rightarrow> 't option \<Rightarrow> (gval, 'e, 's) ex" where
  "marshalO__Type2ptr typ sel ctx v = marshal_optional (typ ctx sel) v"

section \<open>__InputValue\<close>

definition ec___InputValue_name :: "'e gqlgen \<Rightarrow> gpath \<Rightarrow> CollectedField \<Rightarrow> 't introspection_InputValue \<Rightarrow> (gval, 'e, 's) ex" where
  [exec_defs]: "ec___InputValue_name rt ctx field obj =
     field_N rt (ctx @ [PName (cf_Alias field)]) (got (iv_Name obj)) (marshalNString2string rt)"

definition ec___InputValue_description :: "'e gqlgen \<Rightarrow> gpath \<Rightarrow> CollectedField \<Rightarrow> 't introspection_InputValue \<Rightarrow> (gval, 'e, 's) ex" where
  [exec_defs]: "ec___InputValue_description rt ctx field obj =
     field_O rt (ctx @ [PName (cf_Alias field)]) (got (iv_Description obj)) (marshalOString2ptr rt)"

definition ec___InputValue_type :: "'e gqlgen \<Rightarrow> ('t, 'e, 's) type_executor \<Rightarrow> gpath \<Rightarrow> CollectedField \<Rightarrow> 't introspection_InputValue \<Rightarrow> (gval, 'e, 's) ex" where
  [exec_defs]: "ec___InputValue_type rt typ ctx field obj =
     field_N rt (ctx @ [PName (cf_Alias field)]) (got (iv_Type obj)) (marshalN__Type2ptr rt typ (cf_Selections field))"

definition ec___InputValue_defaultValue :: "'e gqlgen \<Rightarrow> gpath \<Rightarrow> CollectedField \<Rightarrow> 't introspection_InputValue \<Rightarrow> (gval, 'e, 's) ex" where
  [exec_defs]: "ec___InputValue_defaultValue rt ctx field obj =
     field_O rt (ctx @ [PName (cf_Alias field)]) (got (iv_DefaultValue obj)) (marshalOString2ptr rt)"

definition ec___InputValue :: "'e gqlgen \<Rightarrow> ('t, 'e, 's) type_executor \<Rightarrow> gpath \<Rightarrow> CollectedField list \<Rightarrow> 't introspection_InputValue \<Rightarrow> (gval, 'e, 's) ex" where
  "ec___InputValue rt typ ctx sel obj = object_set (\<lambda>field.
     if cf_Name field = ''__typename'' then typename rt ''__InputValue''
     else if cf_Name field = ''name'' then Some (True, ec___InputValue_name rt ctx field obj)
     else if cf_Name field = ''description'' then Some (False, ec___InputValue_description rt ctx field obj)
     else if cf_Name field = ''type'' then Some (True, ec___InputValue_type rt typ ctx field obj)
     else if cf_Name field = ''defaultValue'' then Some (False, ec___InputValue_defaultValue rt ctx field obj)
     else None) sel"

definition marshalN__InputValue2val ::
  "'e gqlgen \<Rightarrow> ('t, 'e, 's) type_executor \<Rightarrow> CollectedField list \<Rightarrow> gpath \<Rightarrow> 't introspection_InputValue \<Rightarrow> (gval, 'e, 's) ex" where
  "marshalN__InputValue2val rt typ sel ctx v = ec___InputValue rt typ ctx sel v"

definition marshalN__InputValue2slice ::
  "'e gqlgen \<Rightarrow> ('t, 'e, 's) type_executor \<Rightarrow> CollectedField list \<Rightarrow> gpath \<Rightarrow> 't introspection_InputValue list \<Rightarrow> (gval, 'e, 's) ex" where
  "marshalN__InputValue2slice rt typ sel ctx v = marshal_slice rt ctx (marshalN__InputValue2val rt typ sel) v"

definition marshalO__InputValue2slice ::
  "'e gqlgen \<Rightarrow> ('t, 'e, 's) type_executor \<Rightarrow> CollectedField list \<Rightarrow> gpath \<Rightarrow> 't introspection_InputValue list option \<Rightarrow> (gval, 'e, 's) ex" where
  "marshalO__InputValue2slice rt typ sel ctx v = marshal_optional (marshal_slice rt ctx (marshalN__InputValue2val rt typ sel)) v"

section \<open>__EnumValue\<close>

definition ec___EnumValue_name :: "'e gqlgen \<Rightarrow> gpath \<Rightarrow> CollectedField \<Rightarrow> introspection_EnumValue \<Rightarrow> (gval, 'e, 's) ex" where
  [exec_defs]: "ec___EnumValue_name rt ctx field obj =
     field_N rt (ctx @ [PName (cf_Alias field)]) (got (ie_Name obj)) (marshalNString2string rt)"

definition ec___EnumValue_description :: "'e gqlgen \<Rightarrow> gpath \<Rightarrow> CollectedField \<Rightarrow> introspection_EnumValue \<Rightarrow> (gval, 'e, 's) ex" where
  [exec_defs]: "ec___EnumValue_description rt ctx field obj =
     field_O rt (ctx @ [PName (cf_Alias field)]) (got (ie_Description obj)) (marshalOString2ptr rt)"

definition ec___EnumValue_isDeprecated :: "'e gqlgen \<Rightarrow> gpath \<Rightarrow> CollectedField \<Rightarrow> introspection_EnumValue \<Rightarrow> (gval, 'e, 's) ex" where
  [exec_defs]: "ec___EnumValue_isDeprecated rt ctx field obj =
     field_N rt (ctx @ [PName (cf_Alias field)]) (got (ie_IsDeprecated obj)) (marshalNBoolean2bool rt)"

definition ec___EnumValue_deprecationReason :: "'e gqlgen \<Rightarrow> gpath \<Rightarrow> CollectedField \<Rightarrow> introspection_EnumValue \<Rightarrow> (gval, 'e, 's) ex" where
  [exec_defs]: "ec___EnumValue_deprecationReason rt ctx field obj =
     field_O rt (ctx @ [PName (cf_Alias field)]) (got (ie_DeprecationReason obj)) (marshalOString2ptr rt)"

definition ec___EnumValue :: "'e gqlgen \<Rightarrow> gpath \<Rightarrow> CollectedField list \<Rightarrow> introspection_EnumValue \<Rightarrow> (gval, 'e, 's) ex" where
  "ec___EnumValue rt ctx sel obj = object_set (\<lambda>field.
     if cf_Name field = ''__typename'' then typename rt ''__EnumValue''
     else if cf_Name field = ''name'' then Some (True, ec___EnumValue_name rt ctx field obj)
     else if cf_Name field = ''description'' then Some (False, ec___EnumValue_description rt ctx field obj)
     else if cf_Name field = ''isDeprecated'' then Some (True, ec___EnumValue_isDeprecated rt ctx field obj)
     else if cf_Name field = ''deprecationReason'' then Some (False, ec___EnumValue_deprecationReason rt ctx field obj)
     else None) sel"

definition marshalN__EnumValue2val ::
  "'e gqlgen \<Rightarrow> CollectedField list \<Rightarrow> gpath \<Rightarrow> introspection_EnumValue \<Rightarrow> (gval, 'e, 's) ex" where
  "marshalN__EnumValue2val rt sel ctx v = ec___EnumValue rt ctx sel v"

definition marshalO__EnumValue2slice ::
  "'e gqlgen \<Rightarrow> CollectedField list \<Rightarrow> gpath \<Rightarrow> introspection_EnumValue list option \<Rightarrow> (gval, 'e, 's) ex" where
  "marshalO__EnumValue2slice rt sel ctx v = marshal_optional (marshal_slice rt ctx (marshalN__EnumValue2val rt sel)) v"

section \<open>__Field\<close>

definition ec___Field_name :: "'e gqlgen \<Rightarrow> gpath \<Rightarrow> CollectedField \<Rightarrow> 't introspection_Field \<Rightarrow> (gval, 'e, 's) ex" where
  [exec_defs]: "ec___Field_name rt ctx field obj =
     field_N rt (ctx @ [PName (cf_Alias field)]) (got (if_Name obj)) (marshalNString2string rt)"

definition ec___Field_description :: "'e gqlgen \<Rightarrow> gpath \<Rightarrow> CollectedField \<Rightarrow> 't introspection_Field \<Rightarrow> (gval, 'e, 's) ex" where
  [exec_defs]: "ec___Field_description rt ctx field obj =
     field_O rt (ctx @ [PName (cf_Alias field)]) (got (if_Description obj)) (marshalOString2ptr rt)"

definition ec___Field_args :: "'e gqlgen \<Rightarrow> ('t, 'e, 's) type_executor \<Rightarrow> gpath \<Rightarrow> CollectedField \<Rightarrow> 't introspection_Field \<Rightarrow> (gval, 'e, 's) ex" where
  [exec_defs]: "ec___Field_args rt typ ctx field obj =
     field_N rt (ctx @ [PName (cf_Alias field)]) (got (if_Args obj)) (marshalN__InputValue2slice rt typ (cf_Selections field))"

definition ec___Field_type :: "'e gqlgen \<Rightarrow> ('t, 'e, 's) type_executor \<Rightarrow> gpath \<Rightarrow> CollectedField \<Rightarrow> 't introspection_Field \<Rightarrow> (gval, 'e, 's) ex" where
  [exec_defs]: "ec___Field_type rt typ ctx field obj =
     field_N rt (ctx @ [PName (cf_Alias field)]) (got (if_Type obj)) (marshalN__Type2ptr rt typ (cf_Selections field))"

definition ec___Field_isDeprecated :: "'e gqlgen \<Rightarrow> gpath \<Rightarrow> CollectedField \<Rightarrow> 't introspection_Field \<Rightarrow> (gval, 'e, 's) ex" where
  [exec_defs]: "ec___Field_isDeprecated rt ctx field obj =
     field_N rt (ctx @ [PName (cf_Alias field)]) (got (if_IsDeprecated obj)) (marshalNBoolean2bool rt)"

definition ec___Field_deprecationReason :: "'e gqlgen \<Rightarrow> gpath \<Rightarrow> CollectedField \<Rightarrow> 't introspection_Field \<Rightarrow> (gval, 'e, 's) ex" where
  [exec_defs]: "ec___Field_deprecationReason rt ctx field obj =
     field_O rt (ctx @ [PName (cf_Alias field)]) (got (if_DeprecationReason obj)) (marshalOString2ptr rt)"

definition ec___Field :: "'e gqlgen \<Rightarrow> ('t, 'e, 's) type_executor \<Rightarrow> gpath \<Rightarrow> CollectedField list \<Rightarrow> 't introspection_Field \<Rightarrow> (gval, 'e, 's) ex" where
  "ec___Field rt typ ctx sel obj = object_set (\<lambda>field.
     if cf_Name field = ''__typename'' then typename rt ''__Field''
     else if cf_Name field = ''name'' then Some (True, ec___Field_name rt ctx field obj)
     else if cf_Name field = ''description'' then Some (False, ec___Field_description rt ctx field obj)
     else if cf_Name field = ''args'' then Some (True, ec___Field_args rt typ ctx field obj)
     else if cf_Name field = ''type'' then Some (True, ec___Field_type rt typ ctx field obj)
     else if cf_Name field = ''isDeprecated'' then Some (True, ec___Field_isDeprecated rt ctx field obj)
     else if cf_Name field = ''deprecationReason'' then Some (False, ec___Field_deprecationReason rt ctx field obj)
     else None) sel"

definition marshalN__Field2val ::
  "'e gqlgen \<Rightarrow> ('t, 'e, 's) type_executor \<Rightarrow> CollectedField list \<Rightarrow> gpath \<Rightarrow> 't introspection_Field \<Rightarrow> (gval, 'e, 's) ex" where
  "marshalN__Field2val rt typ sel ctx v = ec___Field rt typ ctx sel v"

definition marshalO__Field2slice ::
  "'e gqlgen \<Rightarrow> ('t, 'e, 's) type_executor \<Rightarrow> CollectedField list \<Rightarrow> gpath \<Rightarrow> 't introspection_Field list option \<Rightarrow> (gval, 'e, 's) ex" where
  "marshalO__Field2slice rt typ sel ctx v = marshal_optional (marshal_slice rt ctx (marshalN__Field2val rt typ sel)) v"

section \<open>__Directive\<close>

definition ec___Directive_name :: "'e gqlgen \<Rightarrow> gpath \<Rightarrow> CollectedField \<Rightarrow> 't introspection_Directive \<Rightarrow> (gval, 'e, 's) ex" where
  [exec_defs]: "ec___Directive_name rt ctx field obj =
     field_N rt (ctx @ [PName (cf_Alias field)]) (got (id_Name obj)) (marshalNString2string rt)"

definition ec___Directive_description :: "'e gqlgen \<Rightarrow> gpath \<Rightarrow> CollectedField \<Rightarrow> 't introspection_Directive \<Rightarrow> (gval, 'e, 's) ex" where
  [exec_defs]: "ec___Directive_description rt ctx field obj =
     field_O rt (ctx @ [PName (cf_Alias field)]) (got (id_Description obj)) (marshalOString2ptr rt)"

definition ec___Directive_locations :: "'e gqlgen \<Rightarrow> gpath \<Rightarrow> CollectedField \<Rightarrow> 't introspection_Directive \<Rightarrow> (gval, 'e, 's) ex" where
  [exec_defs]: "ec___Directive_locations rt ctx field obj =
     field_N rt (ctx @ [PName (cf_Alias field)]) (got (id_Locations obj)) (marshalN__DirectiveLocation2slice rt)"

definition ec___Directive_args :: "'e gqlgen \<Rightarrow> ('t, 'e, 's) type_executor \<Rightarrow> gpath \<Rightarrow> CollectedField \<Rightarrow> 't introspection_Directive \<Rightarrow> (gval, 'e, 's) ex" where
  [exec_defs]: "ec___Directive_args rt typ ctx field obj =
     field_N rt (ctx @ [PName (cf_Alias field)]) (got (id_Args obj)) (marshalN__InputValue2slice rt typ (cf_Selections field))"

definition ec___Directive_isRepeatable :: "'e gqlgen \<Rightarrow> gpath \<Rightarrow> CollectedField \<Rightarrow> 't introspection_Directive \<Rightarrow> (gval, 'e, 's) ex" where
  [exec_defs]: "ec___Directive_isRepeatable rt ctx field obj =
     field_N rt (ctx @ [PName (cf_Alias field)]) (got (id_IsRepeatable obj)) (marshalNBoolean2bool rt)"

definition ec___Directive :: "'e gqlgen \<Rightarrow> ('t, 'e, 's) type_executor \<Rightarrow> gpath \<Rightarrow> CollectedField list \<Rightarrow> 't introspection_Directive \<Rightarrow> (gval, 'e, 's) ex" where
  "ec___Directive rt typ ctx sel obj = object_set (\<lambda>field.
     if cf_Name field = ''__typename'' then typename rt ''__Directive''
     else if cf_Name field = ''name'' then Some (True, ec___Directive_name rt ctx field obj)
     else if cf_Name field = ''description'' then Some (False, ec___Directive_description rt ctx field obj)
     else if cf_Name field = ''locations'' then Some (True, ec___Directive_locations rt ctx field obj)
     else if cf_Name field = ''args'' then Some (True, ec___Directive_args rt typ ctx field obj)
     else if cf_Name field = ''isRepeatable'' then Some (True, ec___Directive_isRepeatable rt ctx field obj)
     else None) sel"

definition marshalN__Directive2val ::
  "'e gqlgen \<Rightarrow> ('t, 'e, 's) type_executor \<Rightarrow> CollectedField list \<Rightarrow> gpath \<Rightarrow> 't introspection_Directive \<Rightarrow> (gval, 'e, 's) ex" where
  "marshalN__Directive2val rt typ sel ctx v = ec___Directive rt typ ctx sel v"

definition marshalN__Directive2slice ::
  "'e gqlgen \<Rightarrow> ('t, 'e, 's) type_executor \<Rightarrow> CollectedField list \<Rightarrow> gpath \<Rightarrow> 't introspection_Directive list \<Rightarrow> (gval, 'e, 's) ex" where
  "marshalN__Directive2slice rt typ sel ctx v = marshal_slice rt ctx (marshalN__Directive2val rt typ sel) v"

section \<open>__Schema\<close>

definition ec___Schema_description :: "'e gqlgen \<Rightarrow> gpath \<Rightarrow> CollectedField \<Rightarrow> 't introspection_Schema \<Rightarrow> (gval, 'e, 's) ex" where
  [exec_defs]: "ec___Schema_description rt ctx field obj =
     field_O rt (ctx @ [PName (cf_Alias field)]) (got (is_Description obj)) (marshalOString2ptr rt)"

definition ec___Schema_types :: "'e gqlgen \<Rightarrow> ('t, 'e, 's) type_executor \<Rightarrow> gpath \<Rightarrow> CollectedField \<Rightarrow> 't introspection_Schema \<Rightarrow> (gval, 'e, 's) ex" where
  [exec_defs]: "ec___Schema_types rt typ ctx field obj =
     field_N rt (ctx @ [PName (cf_Alias field)]) (got (is_Types obj)) (marshalN__Type2slice rt typ (cf_Selections field))"

definition ec___Schema_queryType :: "'e gqlgen \<Rightarrow> ('t, 'e, 's) type_executor \<Rightarrow> gpath \<Rightarrow> CollectedField \<Rightarrow> 't introspection_Schema \<Rightarrow> (gval, 'e, 's) ex" where
  [exec_defs]: "ec___Schema_queryType rt typ ctx field obj =
     field_N rt (ctx @ [PName (cf_Alias field)]) (got (is_QueryType obj)) (marshalN__Type2ptr rt typ (cf_Selections field))"

definition ec___Schema_mutationType :: "'e gqlgen \<Rightarrow> ('t, 'e, 's) type_executor \<Rightarrow> gpath \<Rightarrow> CollectedField \<Rightarrow> 't introspection_Schema \<Rightarrow> (gval, 'e, 's) ex" where
  [exec_defs]: "ec___Schema_mutationType rt typ ctx field obj =
     field_O rt (ctx @ [PName (cf_Alias field)]) (got (is_MutationType obj)) (marshalO__Type2ptr typ (cf_Selections field))"

definition ec___Schema_subscriptionType :: "'e gqlgen \<Rightarrow> ('t, 'e, 's) type_executor \<Rightarrow> gpath \<Rightarrow> CollectedField \<Rightarrow> 't introspection_Schema \<Rightarrow> (gval, 'e, 's) ex" where
  [exec_defs]: "ec___Schema_subscriptionType rt typ ctx field obj =
     field_O rt (ctx @ [PName (cf_Alias field)]) (got (is_SubscriptionType obj)) (marshalO__Type2ptr typ (cf_Selections field))"

definition ec___Schema_directives :: "'e gqlgen \<Rightarrow> ('t, 'e, 's) type_executor \<Rightarrow> gpath \<Rightarrow> CollectedField \<Rightarrow> 't introspection_Schema \<Rightarrow> (gval, 'e, 's) ex" where
  [exec_defs]: "ec___Schema_directives rt typ ctx field obj =
     field_N rt (ctx @ [PName (cf_Alias field)]) (got (is_Directives obj)) (marshalN__Directive2slice rt typ (cf_Selections field))"

definition ec___Schema :: "'e gqlgen \<Rightarrow> ('t, 'e, 's) type_executor \<Rightarrow> gpath \<Rightarrow> CollectedField list \<Rightarrow> 't introspection_Schema \<Rightarrow> (gval, 'e, 's) ex" where
  "ec___Schema rt typ ctx sel obj = object_set (\<lambda>field.
     if cf_Name field = ''__typename'' then typename rt ''__Schema''
     else if cf_Name field = ''description'' then Some (False, ec___Schema_description rt ctx field obj)
     else if cf_Name field = ''types'' then Some (True, ec___Schema_types rt typ ctx field obj)
     else if cf_Name field = ''queryType'' then Some (True, ec___Schema_queryType rt typ ctx field obj)
     else if cf_Name field = ''mutationType'' then Some (False, ec___Schema_mutationType rt typ ctx field obj)
     else if cf_Name field = ''subscriptionType'' then Some (False, ec___Schema_subscriptionType rt typ ctx field obj)
     else if cf_Name field = ''directives'' then Some (True, ec___Schema_directives rt typ ctx field obj)
     else None) sel"

definition marshalO__Schema2ptr ::
  "'e gqlgen \<Rightarrow> ('t, 'e, 's) type_executor \<Rightarrow> CollectedField list \<Rightarrow> gpath \<Rightarrow> 't introspection_Schema option \<Rightarrow> (gval, 'e, 's) ex" where
  "marshalO__Schema2ptr rt typ sel ctx v = marshal_optional (ec___Schema rt typ ctx sel) v"

section \<open>__Type\<close>

definition ec___Type_kind :: "'e gqlgen \<Rightarrow> 't introspection_Type \<Rightarrow> gpath \<Rightarrow> CollectedField \<Rightarrow> 't \<Rightarrow> (gval, 'e, 's) ex" where
  [exec_defs]: "ec___Type_kind rt it ctx field obj =
     field_N rt (ctx @ [PName (cf_Alias field)]) (got (it_Kind it obj)) (marshalN__TypeKind2string rt)"

definition ec___Type_name :: "'e gqlgen \<Rightarrow> 't introspection_Type \<Rightarrow> gpath \<Rightarrow> CollectedField \<Rightarrow> 't \<Rightarrow> (gval, 'e, 's) ex" where
  [exec_defs]: "ec___Type_name rt it ctx field obj =
     field_O rt (ctx @ [PName (cf_Alias field)]) (got (it_Name it obj)) (marshalOString2ptr rt)"

definition ec___Type_description :: "'e gqlgen \<Rightarrow> 't introspection_Type \<Rightarrow> gpath \<Rightarrow> CollectedField \<Rightarrow> 't \<Rightarrow> (gval, 'e, 's) ex" where
  [exec_defs]: "ec___Type_description rt it ctx field obj =
     field_O rt (ctx @ [PName (cf_Alias field)]) (got (it_Description it obj)) (marshalOString2ptr rt)"

definition fieldContext___Type_fields :: "'e gqlgen \<Rightarrow> gpath \<Rightarrow> CollectedField \<Rightarrow> (error + bool, 'e, 's) ex" where
  "fieldContext___Type_fields rt ctx field = field_args rt (ctx @ [PName (cf_Alias field)])
     (Some (field___Type_fields_args rt (ctx @ [PName (cf_Alias field)]) (cf_Args field)))"

definition ec___Type_fields :: "'e gqlgen \<Rightarrow> 't introspection_Type \<Rightarrow> ('t, 'e, 's) type_executor \<Rightarrow> gpath \<Rightarrow> CollectedField \<Rightarrow> 't \<Rightarrow> (gval, 'e, 's) ex" where
  [exec_defs]: "ec___Type_fields rt it typ ctx field obj =
     ex_bind (fieldContext___Type_fields rt ctx field) (\<lambda>r. case r of
        Inl _ \<Rightarrow> ex_return GNull
      | Inr includeDeprecated \<Rightarrow>
          field_O rt (ctx @ [PName (cf_Alias field)]) (got (it_Fields it obj includeDeprecated)) (marshalO__Field2slice rt typ (cf_Selections field)))"

definition ec___Type_interfaces :: "'e gqlgen \<Rightarrow> 't introspection_Type \<Rightarrow> ('t, 'e, 's) type_executor \<Rightarrow> gpath \<Rightarrow> CollectedField \<Rightarrow> 't \<Rightarrow> (gval, 'e, 's) ex" where
  [exec_defs]: "ec___Type_interfaces rt it typ ctx field obj =
     field_O rt (ctx @ [PName (cf_Alias field)]) (got (it_Interfaces it obj)) (marshalO__Type2slice rt typ (cf_Selections field))"

definition ec___Type_possibleTypes :: "'e gqlgen \<Rightarrow> 't introspection_Type \<Rightarrow> ('t, 'e, 's) type_executor \<Rightarrow> gpath \<Rightarrow> CollectedField \<Rightarrow> 't \<Rightarrow> (gval, 'e, 's) ex" where
  [exec_defs]: "ec___Type_possibleTypes rt it typ ctx field obj =
     field_O rt (ctx @ [PName (cf_Alias field)]) (got (it_PossibleTypes it obj)) (marshalO__Type2slice rt typ (cf_Selections field))"

definition fieldContext___Type_enumValues :: "'e gqlgen \<Rightarrow> gpath \<Rightarrow> CollectedField \<Rightarrow> (error + bool, 'e, 's) ex" where
  "fieldContext___Type_enumValues rt ctx field = field_args rt (ctx @ [PName (cf_Alias field)])
     (Some (field___Type_enumValues_args rt (ctx @ [PName (cf_Alias field)]) (cf_Args field)))"

definition ec___Type_enumValues :: "'e gqlgen \<Rightarrow> 't introspection_Type \<Rightarrow> gpath \<Rightarrow> CollectedField \<Rightarrow> 't \<Rightarrow> (gval, 'e, 's) ex" where
  [exec_defs]: "ec___Type_enumValues rt it ctx field obj =
     ex_bind (fieldContext___Type_enumValues rt ctx field) (\<lambda>r. case r of
        Inl _ \<Rightarrow> ex_return GNull
      | Inr includeDeprecated \<Rightarrow>
          field_O rt (ctx @ [PName (cf_Alias field)]) (got (it_EnumValues it obj includeDeprecated)) (marshalO__EnumValue2slice rt (cf_Selections field)))"

definition ec___Type_inputFields :: "'e gqlgen \<Rightarrow> 't introspection_Type \<Rightarrow> ('t, 'e, 's) type_executor \<Rightarrow> gpath \<Rightarrow> CollectedField \<Rightarrow> 't \<Rightarrow> (gval, 'e, 's) ex" where
  [exec_defs]: "ec___Type_inputFields rt it typ ctx field obj =
     field_O rt (ctx @ [PName (cf_Alias field)]) (got (it_InputFields it obj)) (marshalO__InputValue2slice rt typ (cf_Selections field))"

definition ec___Type_ofType :: "'e gqlgen \<Rightarrow> 't introspection_Type \<Rightarrow> ('t, 'e, 's) type_executor \<Rightarrow> gpath \<Rightarrow> CollectedField \<Rightarrow> 't \<Rightarrow> (gval, 'e, 's) ex" where
  [exec_defs]: "ec___Type_ofType rt it typ ctx field obj =
     field_O rt (ctx @ [PName (cf_Alias field)]) (got (it_OfType it obj)) (marshalO__Type2ptr typ (cf_Selections field))"

definition ec___Type_specifiedByURL :: "'e gqlgen \<Rightarrow> 't introspection_Type \<Rightarrow> gpath \<Rightarrow> CollectedField \<Rightarrow> 't \<Rightarrow> (gval, 'e, 's) ex" where
  [exec_defs]: "ec___Type_specifiedByURL rt it ctx field obj =
     field_O rt (ctx @ [PName (cf_Alias field)]) (got (it_SpecifiedByURL it obj)) (marshalOString2ptr rt)"

definition ec___Type_step ::
  "'e gqlgen \<Rightarrow> 't introspection_Type \<Rightarrow> ('t, 'e, 's) type_executor \<Rightarrow> ('t, 'e, 's) type_executor" where
  "ec___Type_step rt it typ ctx sel obj = object_set (\<lambda>field.
     if cf_Name field = ''__typename'' then typename rt ''__Type''
     else if cf_Name field = ''kind'' then Some (True, ec___Type_kind rt it ctx field obj)
     else if cf_Name field = ''name'' then Some (False, ec___Type_name rt it ctx field obj)
     else if cf_Name field = ''description'' then Some (False, ec___Type_description rt it ctx field obj)
     else if cf_Name field = ''fields'' then Some (False, ec___Type_fields rt it typ ctx field obj)
     else if cf_Name field = ''interfaces'' then Some (False, ec___Type_interfaces rt it typ ctx field obj)
     else if cf_Name field = ''possibleTypes'' then Some (False, ec___Type_possibleTypes rt it typ ctx field obj)
     else if cf_Name field = ''enumValues'' then Some (False, ec___Type_enumValues rt it ctx field obj)
     else if cf_Name field = ''inputFields'' then Some (False, ec___Type_inputFields rt it typ ctx field obj)
     else if cf_Name field = ''ofType'' then Some (False, ec___Type_ofType rt it typ ctx field obj)
     else if cf_Name field = ''specifiedByURL'' then Some (False, ec___Type_specifiedByURL rt it ctx field obj)
     else None) sel"

text \<open>Without fuel the function does not return.\<close>

fun ec___Type :: "nat \<Rightarrow> 'e gqlgen \<Rightarrow> 't introspection_Type \<Rightarrow> ('t, 'e, 's) type_executor" where
  "ec___Type 0 rt it ctx sel obj = (\<lambda>es. Blocks es)"
| "ec___Type (Suc n) rt it ctx sel obj = ec___Type_step rt it (ec___Type n rt it) ctx sel obj"

end
