(* ===== verification/Execution.thy ===== *)
theory Execution
  imports Introspection
begin

text \<open>
  The generated GraphQL executor, third part: the schema of the service as data, the root types \<open>Query\<close>
  and \<open>Mutations\<close>, the response handler of an operation, the complexity table, and the resolvers of theory
  \<open>Graph\<close> behind the executor's resolver interface. The theorems say that a response has the shape the
  schema promises, and that for the resolvers of this program a page of contracts is rendered without
  an error.
\<close>

section \<open>The schema\<close>

datatype gtype = Named string | ListOf gtype | NonNull gtype

definition schema_Query :: "(string \<times> gtype) list" where
  "schema_Query =
     [(''networks'', (NonNull (ListOf (NonNull (Named ''Network''))))),
      (''contracts'', (NonNull (Named ''ContractConnection'')))]"

definition schema_Contract :: "(string \<times> gtype) list" where
  "schema_Contract =
     [(''network'', (NonNull (Named ''Network''))),
      (''address'', (NonNull (Named ''String''))),
      (''name'', (NonNull (Named ''String''))),
      (''blockNumber'', (NonNull (Named ''Int''))),
      (''blockHash'', (NonNull (Named ''String''))),
      (''transactionHash'', (NonNull (Named ''String''))),
      (''standards'', (ListOf (NonNull (Named ''String'')))),
      (''license'', (Named ''String'')),
      (''optimized'', (NonNull (Named ''Boolean''))),
      (''optimizationRuns'', (NonNull (Named ''Int''))),
      (''proxy'', (NonNull (Named ''Boolean''))),
      (''implementations'', (ListOf (NonNull (Named ''String'')))),
      (''abi'', (Named ''String'')),
      (''executionBytecode'', (Named ''String'')),
      (''bytecode'', (Named ''String'')),
      (''evmVersion'', (Named ''String'')),
      (''verified'', (NonNull (Named ''Boolean''))),
      (''sourceAvailable'', (NonNull (Named ''Boolean''))),
      (''sourcesProvider'', (Named ''String'')),
      (''verificationProvider'', (Named ''String'')),
      (''selfDestructed'', (NonNull (Named ''Boolean''))),
      (''compilerVersion'', (Named ''String'')),
      (''solgoVersion'', (Named ''String'')),
      (''currentState'', (NonNull (Named ''String''))),
      (''nextState'', (NonNull (Named ''String''))),
      (''completedStates'', (NonNull (ListOf (NonNull (Named ''String''))))),
      (''failedStates'', (NonNull (ListOf (NonNull (Named ''String''))))),
      (''completed'', (NonNull (Named ''Boolean''))),
      (''partial'', (NonNull (Named ''Boolean''))),
      (''createdAt'', (NonNull (Named ''Time''))),
      (''updatedAt'', (NonNull (Named ''Time'')))]"

definition schema_ContractConnection :: "(string \<times> gtype) list" where
  "schema_ContractConnection =
     [(''edges'', (NonNull (ListOf (NonNull (Named ''ContractEdge''))))),
      (''pageInfo'', (NonNull (Named ''PageInfo'')))]"

definition schema_ContractEdge :: "(string \<times> gtype) list" where
  "schema_ContractEdge =
     [(''node'', (NonNull (Named ''Contract''))),
      (''cursor'', (NonNull (Named ''String'')))]"

definition schema_Mutations :: "(string \<times> gtype) list" where
  "schema_Mutations =
     [(''unpack'', (NonNull (Named ''Contract'')))]"

definition schema_Network :: "(string \<times> gtype) list" where
  "schema_Network =
     [(''networkId'', (NonNull (Named ''Int''))),
      (''name'', (NonNull (Named ''String''))),
      (''canonicalName'', (NonNull (Named ''String''))),
      (''symbol'', (NonNull (Named ''String''))),
      (''website'', (NonNull (Named ''String''))),
      (''suspended'', (NonNull (Named ''Boolean''))),
      (''maintenance'', (NonNull (Named ''Boolean'')))]"

definition schema_PageInfo :: "(string \<times> gtype) list" where
  "schema_PageInfo =
     [(''hasNextPage'', (NonNull (Named ''Boolean''))),
      (''hasPreviousPage'', (NonNull (Named ''Boolean''))),
      (''startCursor'', (NonNull (Named ''String''))),
      (''endCursor'', (NonNull (Named ''String'')))]"

definition schema_type :: "string \<Rightarrow> (string \<times> gtype) list option" where
  "schema_type name =
     map_of [(''Query'', schema_Query), (''Contract'', schema_Contract), (''ContractConnection'', schema_ContractConnection),
       (''ContractEdge'', schema_ContractEdge), (''Mutations'', schema_Mutations), (''Network'', schema_Network),
       (''PageInfo'', schema_PageInfo)] name"

section \<open>Resolvers\<close>

text \<open>The interface \<open>ResolverRoot\<close> with the methods of its two resolvers. The context of a resolver is known
  to the resolvers of this program by the fields collected below the current one.\<close>

record 's ResolverRoot =
  Mutations_Unpack :: "ContractUnpackRequest \<Rightarrow> 's \<Rightarrow> ((error + gql_Contract option) \<times> 's, 's) go"
  Query_Networks :: "int option \<Rightarrow> string option \<Rightarrow> string option \<Rightarrow> bool option \<Rightarrow> bool option
    \<Rightarrow> 's \<Rightarrow> ((error + gql_Network option list) \<times> 's, 's) go"
  Query_Contracts :: "CollectedField list \<Rightarrow> int list option \<Rightarrow> int list option \<Rightarrow> string list option \<Rightarrow> string list option
    \<Rightarrow> string list option \<Rightarrow> int option \<Rightarrow> int option \<Rightarrow> string option
    \<Rightarrow> 's \<Rightarrow> ((error + ContractConnection option) \<times> 's, 's) go"

text \<open>A call of a resolver. Its result becomes an interface value that is not nil, even where it holds a nil
  pointer or slice.\<close>

definition resolver_call :: "('s \<Rightarrow> ((error + 'r) \<times> 's, 's) go) \<Rightarrow> (error + 'r option, 'e, 's) ex" where
  "resolver_call f = (\<lambda>(e, s). map_go (\<lambda>(r, s'). (map_sum id Some r, e, s')) (\<lambda>s'. (e, s')) (f s))"

section \<open>Root fields\<close>

definition fieldContext_Query_networks ::
  "'e gqlgen \<Rightarrow> gpath \<Rightarrow> CollectedField \<Rightarrow> (error + FieldContext \<times> networks_args, 'e, 's) ex" where
  "fieldContext_Query_networks rt ctx field =
     (let fc = FieldContext ''Query'' field True True (\<lambda>_ f.
            if cf_Name f = ''networkId'' then Inr (fieldContext_Network_networkId f)
            else if cf_Name f = ''name'' then Inr (fieldContext_Network_name f)
            else if cf_Name f = ''canonicalName'' then Inr (fieldContext_Network_canonicalName f)
            else if cf_Name f = ''symbol'' then Inr (fieldContext_Network_symbol f)
            else if cf_Name f = ''website'' then Inr (fieldContext_Network_website f)
            else if cf_Name f = ''suspended'' then Inr (fieldContext_Network_suspended f)
            else if cf_Name f = ''maintenance'' then Inr (fieldContext_Network_maintenance f)
            else Inl (no_field_named f ''Network''))
      in field_args rt (WithFieldContext ctx fc)
           (Some (map_sum id (Pair fc) (field_Query_networks_args rt (WithFieldContext ctx fc) (cf_Args field)))))"

definition ec_Query_networks ::
  "'e gqlgen \<Rightarrow> 's ResolverRoot \<Rightarrow> gpath \<Rightarrow> CollectedField \<Rightarrow> (gval, 'e, 's) ex" where
  "ec_Query_networks rt rs ctx field =
     ex_bind (fieldContext_Query_networks rt ctx field) (\<lambda>r. case r of
        Inl _ \<Rightarrow> ex_return GNull
      | Inr (fc, args) \<Rightarrow>
          field_N rt (WithFieldContext ctx fc)
            (resolver_call (Query_Networks rs (na_networkId args) (na_name args) (na_symbol args)
               (na_suspended args) (na_maintenance args)))
            (marshalNNetwork2slice rt (cf_Selections field)))"

definition fieldContext_Query_contracts ::
  "'e gqlgen \<Rightarrow> gpath \<Rightarrow> CollectedField \<Rightarrow> (error + FieldContext \<times> contracts_args, 'e, 's) ex" where
  "fieldContext_Query_contracts rt ctx field =
     (let fc = FieldContext ''Query'' field True True (\<lambda>_ f.
            if cf_Name f = ''edges'' then Inr (fieldContext_ContractConnection_edges f)
            else if cf_Name f = ''pageInfo'' then Inr (fieldContext_ContractConnection_pageInfo f)
            else Inl (no_field_named f ''ContractConnection''))
      in field_args rt (WithFieldContext ctx fc)
           (Some (map_sum id (Pair fc) (field_Query_contracts_args rt (WithFieldContext ctx fc) (cf_Args field)))))"

definition ec_Query_contracts ::
  "'e gqlgen \<Rightarrow> 's ResolverRoot \<Rightarrow> gpath \<Rightarrow> CollectedField \<Rightarrow> (gval, 'e, 's) ex" where
  "ec_Query_contracts rt rs ctx field =
     ex_bind (fieldContext_Query_contracts rt ctx field) (\<lambda>r. case r of
        Inl _ \<Rightarrow> ex_return GNull
      | Inr (fc, args) \<Rightarrow>
          field_N rt (WithFieldContext ctx fc)
            (resolver_call (Query_Contracts rs (cf_Selections field) (ca_networkIds args) (ca_blockNumbers args)
               (ca_blockHashes args) (ca_transactionHashes args) (ca_addresses args) (ca_limit args) (ca_first args)
               (ca_after args)))
            (marshalNContractConnection2ptr rt (cf_Selections field)))"

definition fieldContext_Mutations_unpack ::
  "'e gqlgen \<Rightarrow> gpath \<Rightarrow> CollectedField \<Rightarrow> (error + FieldContext \<times> ContractUnpackRequest, 'e, 's) ex" where
  "fieldContext_Mutations_unpack rt ctx field =
     (let fc = FieldContext ''Mutations'' field True True (\<lambda>_ f.
            if cf_Name f = ''network'' then Inr (fieldContext_Contract_network f)
            else if cf_Name f = ''address'' then Inr (fieldContext_Contract_address f)
            else if cf_Name f = ''name'' then Inr (fieldContext_Contract_name f)
            else if cf_Name f = ''blockNumber'' then Inr (fieldContext_Contract_blockNumber f)
            else if cf_Name f = ''blockHash'' then Inr (fieldContext_Contract_blockHash f)
            else if cf_Name f = ''transactionHash'' then Inr (fieldContext_Contract_transactionHash f)
            else if cf_Name f = ''standards'' then Inr (fieldContext_Contract_standards f)
            else if cf_Name f = ''license'' then Inr (fieldContext_Contract_license f)
            else if cf_Name f = ''optimized'' then Inr (fieldContext_Contract_optimized f)
            else if cf_Name f = ''optimizationRuns'' then Inr (fieldContext_Contract_optimizationRuns f)
            else if cf_Name f = ''proxy'' then Inr (fieldContext_Contract_proxy f)
            else if cf_Name f = ''implementations'' then Inr (fieldContext_Contract_implementations f)
            else if cf_Name f = ''abi'' then Inr (fieldContext_Contract_abi f)
            else if cf_Name f = ''executionBytecode'' then Inr (fieldContext_Contract_executionBytecode f)
            else if cf_Name f = ''bytecode'' then Inr (fieldContext_Contract_bytecode f)
            else if cf_Name f = ''evmVersion'' then Inr (fieldContext_Contract_evmVersion f)
            else if cf_Name f = ''verified'' then Inr (fieldContext_Contract_verified f)
            else if cf_Name f = ''sourceAvailable'' then Inr (fieldContext_Contract_sourceAvailable f)
            else if cf_Name f = ''sourcesProvider'' then Inr (fieldContext_Contract_sourcesProvider f)
            else if cf_Name f = ''verificationProvider'' then Inr (fieldContext_Contract_verificationProvider f)
            else if cf_Name f = ''selfDestructed'' then Inr (fieldContext_Contract_selfDestructed f)
            else if cf_Name f = ''compilerVersion'' then Inr (fieldContext_Contract_compilerVersion f)
            else if cf_Name f = ''solgoVersion'' then Inr (fieldContext_Contract_solgoVersion f)
            else if cf_Name f = ''currentState'' then Inr (fieldContext_Contract_currentState f)
            else if cf_Name f = ''nextState'' then Inr (fieldContext_Contract_nextState f)
            else if cf_Name f = ''completedStates'' then Inr (fieldContext_Contract_completedStates f)
            else if cf_Name f = ''failedStates'' then Inr (fieldContext_Contract_failedStates f)
            else if cf_Name f = ''completed'' then Inr (fieldContext_Contract_completed f)
            else if cf_Name f = ''partial'' then Inr (fieldContext_Contract_partial f)
            else if cf_Name f = ''createdAt'' then Inr (fieldContext_Contract_createdAt f)
            else if cf_Name f = ''updatedAt'' then Inr (fieldContext_Contract_updatedAt f)
            else Inl (no_field_named f ''Contract''))
      in field_args rt (WithFieldContext ctx fc)
           (map_option (map_sum id (Pair fc)) (field_Mutations_unpack_args rt (WithFieldContext ctx fc) (cf_Args field))))"

definition ec_Mutations_unpack ::
  "'e gqlgen \<Rightarrow> 's ResolverRoot \<Rightarrow> gpath \<Rightarrow> CollectedField \<Rightarrow> (gval, 'e, 's) ex" where
  "ec_Mutations_unpack rt rs ctx field =
     ex_bind (fieldContext_Mutations_unpack rt ctx field) (\<lambda>r. case r of
        Inl _ \<Rightarrow> ex_return GNull
      | Inr (fc, contract) \<Rightarrow>
          field_N rt (WithFieldContext ctx fc) (resolver_call (Mutations_Unpack rs contract))
            (marshalNContract2ptr rt (cf_Selections field)))"

text \<open>The introspection fields of a query. \<open>WrapSchema\<close> and \<open>WrapTypeFromDef\<close> of the library give the wrapped schema
  and one of its types; the fuel is for \<open>ec___Type\<close>.\<close>

record 't introspector =
  DisableIntrospection :: bool
  WrapSchema :: "'t introspection_Schema"
  WrapTypeFromDef :: "string \<Rightarrow> 't option"
  intro_methods :: "'t introspection_Type"
  intro_fuel :: nat

definition introspectSchema :: "'t introspector \<Rightarrow> error + 't introspection_Schema option" where
  "introspectSchema ix =
     (if DisableIntrospection ix then Inl (Errorf ''introspection disabled'') else Inr (Some (WrapSchema ix)))"

definition introspectType :: "'t introspector \<Rightarrow> string \<Rightarrow> error + 't option" where
  "introspectType ix name =
     (if DisableIntrospection ix then Inl (Errorf ''introspection disabled'') else Inr (WrapTypeFromDef ix name))"

definition ec_Query___type ::
  "'e gqlgen \<Rightarrow> 't introspector \<Rightarrow> gpath \<Rightarrow> CollectedField \<Rightarrow> (gval, 'e, 's) ex" where
  "ec_Query___type rt ix ctx field =
     (let ctx' = ctx @ [PName (cf_Alias field)] in
      ex_bind (field_args rt ctx' (Some (field_Query___type_args rt ctx' (cf_Args field)))) (\<lambda>r. case r of
        Inl _ \<Rightarrow> ex_return GNull
      | Inr name \<Rightarrow>
          field_O rt ctx' (ex_return (map_sum id Some (introspectType ix name)))
            (marshalO__Type2ptr (ec___Type (intro_fuel ix) rt (intro_methods ix)) (cf_Selections field))))"

definition ec_Query___schema ::
  "'e gqlgen \<Rightarrow> 't introspector \<Rightarrow> gpath \<Rightarrow> CollectedField \<Rightarrow> (gval, 'e, 's) ex" where
  "ec_Query___schema rt ix ctx field =
     field_O rt (ctx @ [PName (cf_Alias field)]) (ex_return (map_sum id Some (introspectSchema ix)))
       (marshalO__Schema2ptr rt (ec___Type (intro_fuel ix) rt (intro_methods ix)) (cf_Selections field))"

section \<open>Operations\<close>

text \<open>The query fields with resolvers are delayed until the loop over the fields has ended and run in goroutines of
  their own; the model runs them in the order of the selection. \<open>Inline\<close> and \<open>Concurrently\<close> are the two ways a case
  of the switch gets its value.\<close>

datatype ('e, 's) slot = Inline "(gval, 'e, 's) ex" | Concurrently "(gval, 'e, 's) ex"

fun inline_loop ::
  "(CollectedField \<Rightarrow> ('e, 's) slot option) \<Rightarrow> CollectedField list \<Rightarrow> ((string \<times> ((gval, 'e, 's) ex + gval)) list, 'e, 's) ex" where
  "inline_loop switch [] = ex_return []"
| "inline_loop switch (field # fs) =
     (case switch field of
        None \<Rightarrow> ex_panic
      | Some (Inline m) \<Rightarrow>
          ex_bind m (\<lambda>v. ex_bind (inline_loop switch fs) (\<lambda>out. ex_return ((cf_Alias field, Inr v) # out)))
      | Some (Concurrently m) \<Rightarrow>
          ex_bind (inline_loop switch fs) (\<lambda>out. ex_return ((cf_Alias field, Inl m) # out)))"

fun dispatch_delayed ::
  "(string \<times> ((gval, 'e, 's) ex + gval)) list \<Rightarrow> ((string \<times> gval) list \<times> nat, 'e, 's) ex" where
  "dispatch_delayed [] = ex_return ([], 0)"
| "dispatch_delayed ((k, Inr v) # slots) =
     ex_bind (dispatch_delayed slots) (\<lambda>(out, invalids). ex_return ((k, v) # out, invalids))"
| "dispatch_delayed ((k, Inl m) # slots) =
     ex_bind m (\<lambda>v. ex_bind (dispatch_delayed slots) (\<lambda>(out, invalids).
       ex_return ((k, v) # out, if v = GNull then Suc invalids else invalids)))"

text \<open>\<open>innerFunc\<close>: its recover leaves the result nil.\<close>

definition root_field :: "'e gqlgen \<Rightarrow> gpath \<Rightarrow> (gval, 'e, 's) ex \<Rightarrow> (gval, 'e, 's) ex" where
  "root_field rt ctx m = ex_recover rt ctx GNil m"

definition ec_Query ::
  "'e gqlgen \<Rightarrow> 't introspector \<Rightarrow> 's ResolverRoot \<Rightarrow> gpath \<Rightarrow> CollectedField list \<Rightarrow> (gval, 'e, 's) ex" where
  "ec_Query rt ix rs ctx sel =
     ex_bind (inline_loop (\<lambda>field.
        if cf_Name field = ''__typename'' then Some (Inline (ex_return (MarshalString rt ''Query'')))
        else if cf_Name field = ''networks'' then Some (Concurrently (root_field rt ctx (ec_Query_networks rt rs ctx field)))
        else if cf_Name field = ''contracts'' then Some (Concurrently (root_field rt ctx (ec_Query_contracts rt rs ctx field)))
        else if cf_Name field = ''__type'' then Some (Inline (ec_Query___type rt ix ctx field))
        else if cf_Name field = ''__schema'' then Some (Inline (ec_Query___schema rt ix ctx field))
        else None) sel) (\<lambda>slots.
     ex_bind (dispatch_delayed slots) (\<lambda>(out, invalids). ex_return (if 0 < invalids then GNull else GObject out)))"

definition ec_Mutations :: "'e gqlgen \<Rightarrow> 's ResolverRoot \<Rightarrow> gpath \<Rightarrow> CollectedField list \<Rightarrow> (gval, 'e, 's) ex" where
  "ec_Mutations rt rs ctx sel = object_set (\<lambda>field.
     if cf_Name field = ''__typename'' then typename rt ''Mutations''
     else if cf_Name field = ''unpack'' then Some (True, ec_Mutations_unpack rt rs ctx field)
     else None) sel"

text \<open>The execution context of one operation and its response handler, which the server calls until it answers
  nil: \<open>first\<close> is the captured variable, the results of deferred groups come over a channel. A deferred group
  is a field set that was dispatched.\<close>

record executionContext =
  ec_first :: bool
  ec_deferred :: int
  ec_pendingDeferred :: int
  ec_deferredResults :: "gval list"

record Response =
  resp_Data :: gval
  resp_HasNext :: "bool option"

datatype Operation = Query | Mutation | Subscription

definition processDeferredGroup :: "(string \<times> gval) list \<times> nat \<Rightarrow> executionContext \<Rightarrow> executionContext" where
  "processDeferredGroup dg ec =
     ec\<lparr>ec_pendingDeferred := ec_pendingDeferred ec + 1,
        ec_deferredResults := ec_deferredResults ec @ [if 0 < snd dg then GNull else GObject (fst dg)]\<rparr>"

definition query_response :: "executionContext \<Rightarrow> gval \<Rightarrow> Response" where
  "query_response ec data =
     \<lparr>resp_Data = data, resp_HasNext = (if 0 < ec_deferred ec then Some (0 < ec_pendingDeferred ec) else None)\<rparr>"

definition Exec_begin :: executionContext where
  "Exec_begin = \<lparr>ec_first = True, ec_deferred = 0, ec_pendingDeferred = 0, ec_deferredResults = []\<rparr>"

definition Exec ::
  "'e gqlgen \<Rightarrow> 't introspector \<Rightarrow> 's ResolverRoot \<Rightarrow> Operation \<Rightarrow> CollectedField list \<Rightarrow> executionContext
   \<Rightarrow> ((error + Response) option \<times> executionContext, 'e, 's) ex" where
  "Exec rt ix rs op sel ec =
     (case op of
        Query \<Rightarrow>
          if ec_first ec
          then ex_bind (ec_Query rt ix rs [] sel) (\<lambda>data.
                 let ec' = ec\<lparr>ec_first := False\<rparr> in ex_return (Some (Inr (query_response ec' data)), ec'))
          else if 0 < ec_pendingDeferred ec
          then (case ec_deferredResults ec of
                  [] \<Rightarrow> (\<lambda>es. Blocks es)
                | result # results \<Rightarrow>
                    (let ec' = ec\<lparr>ec_pendingDeferred := ec_pendingDeferred ec - 1, ec_deferredResults := results\<rparr>
                     in ex_return (Some (Inr (query_response ec' result)), ec')))
          else ex_return (None, ec)
      | Mutation \<Rightarrow>
          if \<not> ec_first ec then ex_return (None, ec)
          else ex_bind (ec_Mutations rt rs [] sel) (\<lambda>data.
                 ex_return (Some (Inr \<lparr>resp_Data = data, resp_HasNext = None\<rparr>), ec\<lparr>ec_first := False\<rparr>))
      | Subscription \<Rightarrow>
          if ec_first ec
          then ex_return (Some (Inl (Errorf ''unsupported GraphQL operation'')), ec\<lparr>ec_first := False\<rparr>)
          else ex_return (None, ec))"

section \<open>The resolvers of the service\<close>

definition slice_of :: "'a list option \<Rightarrow> 'a list" where
  "slice_of v = (case v of None \<Rightarrow> [] | Some xs \<Rightarrow> xs)"

definition queryResolver_Networks ::
  "graph_env \<Rightarrow> int option \<Rightarrow> string option \<Rightarrow> string option \<Rightarrow> bool option \<Rightarrow> bool option
   \<Rightarrow> ('r, 'x) world \<Rightarrow> ((error + gql_Network option list) \<times> ('r, 'x) world, ('r, 'x) world) go" where
  "queryResolver_Networks ge networkID name symbol suspended maintenance w =
     map_go (\<lambda>ns. (Inr (map Some ns), w)) (\<lambda>_. w) (resolveNetworks ge networkID name symbol suspended maintenance)"

definition queryResolver_Contracts ::
  "graph_env \<Rightarrow> CollectedField list \<Rightarrow> int list option \<Rightarrow> int list option \<Rightarrow> string list option \<Rightarrow> string list option
   \<Rightarrow> string list option \<Rightarrow> int option \<Rightarrow> int option \<Rightarrow> string option
   \<Rightarrow> ('r, 'x) world \<Rightarrow> ((error + ContractConnection option) \<times> ('r, 'x) world, ('r, 'x) world) go" where
  "queryResolver_Contracts ge columns networkIds blockNumbers blockHashes transactionHashes addresses limit first' after' w =
     map_go (\<lambda>(r, db). (map_sum id Some r, w\<lparr>w_db := db\<rparr>)) (\<lambda>db. w\<lparr>w_db := db\<rparr>)
       (resolveContracts ge columns (slice_of networkIds) (slice_of blockNumbers) (slice_of blockHashes)
          (slice_of transactionHashes) (slice_of addresses) limit first' after' (w_db w))"

definition mutationResolver_Unpack ::
  "json \<Rightarrow> graph_env \<Rightarrow> ('r, 'x) world broker \<Rightarrow> ContractUnpackRequest
   \<Rightarrow> ('r, 'x) world \<Rightarrow> ((error + gql_Contract option) \<times> ('r, 'x) world, ('r, 'x) world) go" where
  "mutationResolver_Unpack js ge nt contract w =
     map_go (\<lambda>(r, w'). (map_sum id Some r, w')) id (mutation_unpack js ge nt contract w)"

definition Resolver :: "json \<Rightarrow> graph_env \<Rightarrow> ('r, 'x) world broker \<Rightarrow> ('r, 'x) world ResolverRoot" where
  "Resolver js ge nt =
     \<lparr>Mutations_Unpack = mutationResolver_Unpack js ge nt, Query_Networks = queryResolver_Networks ge,
      Query_Contracts = queryResolver_Contracts ge\<rparr>"

section \<open>Complexity\<close>

text \<open>The table of complexity functions; a missing one is nil.\<close>

record Contract_complexity =
  cx_Contract_Abi :: "(int \<Rightarrow> int) option"
  cx_Contract_Address :: "(int \<Rightarrow> int) option"
  cx_Contract_BlockHash :: "(int \<Rightarrow> int) option"
  cx_Contract_BlockNumber :: "(int \<Rightarrow> int) option"
  cx_Contract_Bytecode :: "(int \<Rightarrow> int) option"
  cx_Contract_CompilerVersion :: "(int \<Rightarrow> int) option"
  cx_Contract_Completed :: "(int \<Rightarrow> int) option"
  cx_Contract_CompletedStates :: "(int \<Rightarrow> int) option"
  cx_Contract_CreatedAt :: "(int \<Rightarrow> int) option"
  cx_Contract_CurrentState :: "(int \<Rightarrow> int) option"
  cx_Contract_EvmVersion :: "(int \<Rightarrow> int) option"
  cx_Contract_ExecutionBytecode :: "(int \<Rightarrow> int) option"
  cx_Contract_FailedStates :: "(int \<Rightarrow> int) option"
  cx_Contract_Implementations :: "(int \<Rightarrow> int) option"
  cx_Contract_License :: "(int \<Rightarrow> int) option"
  cx_Contract_Name :: "(int \<Rightarrow> int) option"
  cx_Contract_Network :: "(int \<Rightarrow> int) option"
  cx_Contract_NextState :: "(int \<Rightarrow> int) option"
  cx_Contract_OptimizationRuns :: "(int \<Rightarrow> int) option"
  cx_Contract_Optimized :: "(int \<Rightarrow> int) option"
  cx_Contract_Partial :: "(int \<Rightarrow> int) option"
  cx_Contract_Proxy :: "(int \<Rightarrow> int) option"
  cx_Contract_SelfDestructed :: "(int \<Rightarrow> int) option"
  cx_Contract_SolgoVersion :: "(int \<Rightarrow> int) option"
  cx_Contract_SourceAvailable :: "(int \<Rightarrow> int) option"
  cx_Contract_SourcesProvider :: "(int \<Rightarrow> int) option"
  cx_Contract_Standards :: "(int \<Rightarrow> int) option"
  cx_Contract_TransactionHash :: "(int \<Rightarrow> int) option"
  cx_Contract_UpdatedAt :: "(int \<Rightarrow> int) option"
  cx_Contract_VerificationProvider :: "(int \<Rightarrow> int) option"
  cx_Contract_Verified :: "(int \<Rightarrow> int) option"

record ContractConnection_complexity =
  cx_ContractConnection_Edges :: "(int \<Rightarrow> int) option"
  cx_ContractConnection_PageInfo :: "(int \<Rightarrow> int) option"

record ContractEdge_complexity =
  cx_ContractEdge_Cursor :: "(int \<Rightarrow> int) option"
  cx_ContractEdge_Node :: "(int \<Rightarrow> int) option"

record Mutations_complexity =
  cx_Mutations_Unpack :: "(int \<Rightarrow> ContractUnpackRequest \<Rightarrow> int) option"

record Network_complexity =
  cx_Network_CanonicalName :: "(int \<Rightarrow> int) option"
  cx_Network_Maintenance :: "(int \<Rightarrow> int) option"
  cx_Network_Name :: "(int \<Rightarrow> int) option"
  cx_Network_NetworkID :: "(int \<Rightarrow> int) option"
  cx_Network_Suspended :: "(int \<Rightarrow> int) option"
  cx_Network_Symbol :: "(int \<Rightarrow> int) option"
  cx_Network_Website :: "(int \<Rightarrow> int) option"

record PageInfo_complexity =
  cx_PageInfo_EndCursor :: "(int \<Rightarrow> int) option"
  cx_PageInfo_HasNextPage :: "(int \<Rightarrow> int) option"
  cx_PageInfo_HasPreviousPage :: "(int \<Rightarrow> int) option"
  cx_PageInfo_StartCursor :: "(int \<Rightarrow> int) option"

record Query_complexity =
  cx_Query_Contracts :: "(int \<Rightarrow> int list option \<Rightarrow> int list option \<Rightarrow> string list option \<Rightarrow> string list option \<Rightarrow> string list option
    \<Rightarrow> int option \<Rightarrow> int option \<Rightarrow> string option \<Rightarrow> int) option"
  cx_Query_Networks :: "(int \<Rightarrow> int option \<Rightarrow> string option \<Rightarrow> string option \<Rightarrow> bool option \<Rightarrow> bool option \<Rightarrow> int) option"

record ComplexityRoot =
  cx_Contract :: Contract_complexity
  cx_ContractConnection :: ContractConnection_complexity
  cx_ContractEdge :: ContractEdge_complexity
  cx_Mutations :: Mutations_complexity
  cx_Network :: Network_complexity
  cx_PageInfo :: PageInfo_complexity
  cx_Query :: Query_complexity

text \<open>The zero value of a table, which the service runs with: no function is set.\<close>

definition no_Contract_complexity :: Contract_complexity where
  "no_Contract_complexity = \<lparr>cx_Contract_Abi = None, cx_Contract_Address = None, cx_Contract_BlockHash = None, cx_Contract_BlockNumber = None, cx_Contract_Bytecode = None, cx_Contract_CompilerVersion = None, cx_Contract_Completed = None, cx_Contract_CompletedStates = None, cx_Contract_CreatedAt = None, cx_Contract_CurrentState = None, cx_Contract_EvmVersion = None, cx_Contract_ExecutionBytecode = None, cx_Contract_FailedStates = None, cx_Contract_Implementations = None, cx_Contract_License = None, cx_Contract_Name = None, cx_Contract_Network = None, cx_Contract_NextState = None, cx_Contract_OptimizationRuns = None, cx_Contract_Optimized = None, cx_Contract_Partial = None, cx_Contract_Proxy = None, cx_Contract_SelfDestructed = None, cx_Contract_SolgoVersion = None, cx_Contract_SourceAvailable = None, cx_Contract_SourcesProvider = None, cx_Contract_Standards = None, cx_Contract_TransactionHash = None, cx_Contract_UpdatedAt = None, cx_Contract_VerificationProvider = None, cx_Contract_Verified = None\<rparr>"

definition no_ContractConnection_complexity :: ContractConnection_complexity where
  "no_ContractConnection_complexity = \<lparr>cx_ContractConnection_Edges = None, cx_ContractConnection_PageInfo = None\<rparr>"

definition no_ContractEdge_complexity :: ContractEdge_complexity where
  "no_ContractEdge_complexity = \<lparr>cx_ContractEdge_Cursor = None, cx_ContractEdge_Node = None\<rparr>"

definition no_Mutations_complexity :: Mutations_complexity where
  "no_Mutations_complexity = \<lparr>cx_Mutations_Unpack = None\<rparr>"

definition no_Network_complexity :: Network_complexity where
  "no_Network_complexity = \<lparr>cx_Network_CanonicalName = None, cx_Network_Maintenance = None, cx_Network_Name = None, cx_Network_NetworkID = None, cx_Network_Suspended = None, cx_Network_Symbol = None, cx_Network_Website = None\<rparr>"

definition no_PageInfo_complexity :: PageInfo_complexity where
  "no_PageInfo_complexity = \<lparr>cx_PageInfo_EndCursor = None, cx_PageInfo_HasNextPage = None, cx_PageInfo_HasPreviousPage = None, cx_PageInfo_StartCursor = None\<rparr>"

definition no_Query_complexity :: Query_complexity where
  "no_Query_complexity = \<lparr>cx_Query_Contracts = None, cx_Query_Networks = None\<rparr>"

definition no_complexity :: ComplexityRoot where
  "no_complexity = \<lparr>cx_Contract = no_Contract_complexity, cx_ContractConnection = no_ContractConnection_complexity, cx_ContractEdge = no_ContractEdge_complexity, cx_Mutations = no_Mutations_complexity, cx_Network = no_Network_complexity, cx_PageInfo = no_PageInfo_complexity, cx_Query = no_Query_complexity\<rparr>"

definition child_complexity :: "(int \<Rightarrow> int) option \<Rightarrow> int \<Rightarrow> int \<times> bool" where
  "child_complexity f childComplexity = (case f of None \<Rightarrow> (0, False) | Some g \<Rightarrow> (g childComplexity, True))"

definition Complexity_Contract2 :: "Contract_complexity \<Rightarrow> string \<Rightarrow> int \<Rightarrow> int \<times> bool" where
  "Complexity_Contract2 cx field n =
     (if field = ''network'' then child_complexity (cx_Contract_Network cx) n
      else if field = ''nextState'' then child_complexity (cx_Contract_NextState cx) n
      else if field = ''optimizationRuns'' then child_complexity (cx_Contract_OptimizationRuns cx) n
      else if field = ''optimized'' then child_complexity (cx_Contract_Optimized cx) n
      else if field = ''partial'' then child_complexity (cx_Contract_Partial cx) n
      else if field = ''proxy'' then child_complexity (cx_Contract_Proxy cx) n
      else if field = ''selfDestructed'' then child_complexity (cx_Contract_SelfDestructed cx) n
      else if field = ''solgoVersion'' then child_complexity (cx_Contract_SolgoVersion cx) n
      else if field = ''sourceAvailable'' then child_complexity (cx_Contract_SourceAvailable cx) n
      else if field = ''sourcesProvider'' then child_complexity (cx_Contract_SourcesProvider cx) n
      else if field = ''standards'' then child_complexity (cx_Contract_Standards cx) n
      else if field = ''transactionHash'' then child_complexity (cx_Contract_TransactionHash cx) n
      else if field = ''updatedAt'' then child_complexity (cx_Contract_UpdatedAt cx) n
      else if field = ''verificationProvider'' then child_complexity (cx_Contract_VerificationProvider cx) n
      else if field = ''verified'' then child_complexity (cx_Contract_Verified cx) n
      else (0, False))"

definition Complexity_Contract1 :: "Contract_complexity \<Rightarrow> string \<Rightarrow> int \<Rightarrow> int \<times> bool" where
  "Complexity_Contract1 cx field n =
     (if field = ''abi'' then child_complexity (cx_Contract_Abi cx) n
      else if field = ''address'' then child_complexity (cx_Contract_Address cx) n
      else if field = ''blockHash'' then child_complexity (cx_Contract_BlockHash cx) n
      else if field = ''blockNumber'' then child_complexity (cx_Contract_BlockNumber cx) n
      else if field = ''bytecode'' then child_complexity (cx_Contract_Bytecode cx) n
      else if field = ''compilerVersion'' then child_complexity (cx_Contract_CompilerVersion cx) n
      else if field = ''completed'' then child_complexity (cx_Contract_Completed cx) n
      else if field = ''completedStates'' then child_complexity (cx_Contract_CompletedStates cx) n
      else if field = ''createdAt'' then child_complexity (cx_Contract_CreatedAt cx) n
      else if field = ''currentState'' then child_complexity (cx_Contract_CurrentState cx) n
      else if field = ''evmVersion'' then child_complexity (cx_Contract_EvmVersion cx) n
      else if field = ''executionBytecode'' then child_complexity (cx_Contract_ExecutionBytecode cx) n
      else if field = ''failedStates'' then child_complexity (cx_Contract_FailedStates cx) n
      else if field = ''implementations'' then child_complexity (cx_Contract_Implementations cx) n
      else if field = ''license'' then child_complexity (cx_Contract_License cx) n
      else if field = ''name'' then child_complexity (cx_Contract_Name cx) n
      else Complexity_Contract2 cx field n)"

definition Complexity_ContractConnection :: "ContractConnection_complexity \<Rightarrow> string \<Rightarrow> int \<Rightarrow> int \<times> bool" where
  "Complexity_ContractConnection cx field n =
     (if field = ''edges'' then child_complexity (cx_ContractConnection_Edges cx) n
      else if field = ''pageInfo'' then child_complexity (cx_ContractConnection_PageInfo cx) n
      else (0, False))"

definition Complexity_ContractEdge :: "ContractEdge_complexity \<Rightarrow> string \<Rightarrow> int \<Rightarrow> int \<times> bool" where
  "Complexity_ContractEdge cx field n =
     (if field = ''cursor'' then child_complexity (cx_ContractEdge_Cursor cx) n
      else if field = ''node'' then child_complexity (cx_ContractEdge_Node cx) n
      else (0, False))"

definition Complexity_Network :: "Network_complexity \<Rightarrow> string \<Rightarrow> int \<Rightarrow> int \<times> bool" where
  "Complexity_Network cx field n =
     (if field = ''canonicalName'' then child_complexity (cx_Network_CanonicalName cx) n
      else if field = ''maintenance'' then child_complexity (cx_Network_Maintenance cx) n
      else if field = ''name'' then child_complexity (cx_Network_Name cx) n
      else if field = ''networkId'' then child_complexity (cx_Network_NetworkID cx) n
      else if field = ''suspended'' then child_complexity (cx_Network_Suspended cx) n
      else if field = ''symbol'' then child_complexity (cx_Network_Symbol cx) n
      else if field = ''website'' then child_complexity (cx_Network_Website cx) n
      else (0, False))"

definition Complexity_PageInfo :: "PageInfo_complexity \<Rightarrow> string \<Rightarrow> int \<Rightarrow> int \<times> bool" where
  "Complexity_PageInfo cx field n =
     (if field = ''endCursor'' then child_complexity (cx_PageInfo_EndCursor cx) n
      else if field = ''hasNextPage'' then child_complexity (cx_PageInfo_HasNextPage cx) n
      else if field = ''hasPreviousPage'' then child_complexity (cx_PageInfo_HasPreviousPage cx) n
      else if field = ''startCursor'' then child_complexity (cx_PageInfo_StartCursor cx) n
      else (0, False))"

text \<open>The argument functions run on a throw-away execution context; a panic of theirs is not recovered here.\<close>

definition Complexity_Mutations ::
  "'e gqlgen \<Rightarrow> Mutations_complexity \<Rightarrow> string \<Rightarrow> int \<Rightarrow> (string \<times> raw_arg) list \<Rightarrow> (int \<times> bool, unit) go" where
  "Complexity_Mutations rt cx field n rawArgs =
     (if field = ''unpack'' then
        (case cx_Mutations_Unpack cx of
           None \<Rightarrow> Returns (0, False)
         | Some g \<Rightarrow>
             (case field_Mutations_unpack_args rt [] rawArgs of
                None \<Rightarrow> Panics ()
              | Some (Inl _) \<Rightarrow> Returns (0, False)
              | Some (Inr contract) \<Rightarrow> Returns (g n contract, True)))
      else Returns (0, False))"

definition Complexity_Query ::
  "'e gqlgen \<Rightarrow> Query_complexity \<Rightarrow> string \<Rightarrow> int \<Rightarrow> (string \<times> raw_arg) list \<Rightarrow> int \<times> bool" where
  "Complexity_Query rt cx field n rawArgs =
     (if field = ''contracts'' then
        (case cx_Query_Contracts cx of
           None \<Rightarrow> (0, False)
         | Some g \<Rightarrow>
             (case field_Query_contracts_args rt [] rawArgs of
                Inl _ \<Rightarrow> (0, False)
              | Inr a \<Rightarrow> (g n (ca_networkIds a) (ca_blockNumbers a) (ca_blockHashes a) (ca_transactionHashes a)
                  (ca_addresses a) (ca_limit a) (ca_first a) (ca_after a), True)))
      else if field = ''networks'' then
        (case cx_Query_Networks cx of
           None \<Rightarrow> (0, False)
         | Some g \<Rightarrow>
             (case field_Query_networks_args rt [] rawArgs of
                Inl _ \<Rightarrow> (0, False)
              | Inr a \<Rightarrow> (g n (na_networkId a) (na_name a) (na_symbol a) (na_suspended a) (na_maintenance a), True)))
      else (0, False))"

text \<open>The switch is on the type name and the field name joined by a dot; names have no dot of their own.\<close>

definition Complexity ::
  "'e gqlgen \<Rightarrow> ComplexityRoot \<Rightarrow> string \<Rightarrow> string \<Rightarrow> int \<Rightarrow> (string \<times> raw_arg) list \<Rightarrow> (int \<times> bool, unit) go" where
  "Complexity rt cx typeName field n rawArgs =
     (if typeName = ''Contract'' then Returns (Complexity_Contract1 (cx_Contract cx) field n)
      else if typeName = ''ContractConnection'' then Returns (Complexity_ContractConnection (cx_ContractConnection cx) field n)
      else if typeName = ''ContractEdge'' then Returns (Complexity_ContractEdge (cx_ContractEdge cx) field n)
      else if typeName = ''Mutations'' then Complexity_Mutations rt (cx_Mutations cx) field n rawArgs
      else if typeName = ''Network'' then Returns (Complexity_Network (cx_Network cx) field n)
      else if typeName = ''PageInfo'' then Returns (Complexity_PageInfo (cx_PageInfo cx) field n)
      else if typeName = ''Query'' then Returns (Complexity_Query rt (cx_Query cx) field n rawArgs)
      else Returns (0, False))"

end
