(* ===== verification/Conformance.thy ===== *)
theory Conformance
  imports Execution
begin

text \<open>
  Type soundness of the generated executor: what a query or a mutation answers conforms to the schema and
  to the selection, or it is null and an error was recorded; an operation that the schema allows never
  panics. The relation \<open>conforms\<close> is the schema's reading of a response, \<open>runs\<close> the Hoare-style judgement
  that the lemmas on the building blocks of the executor compose.
\<close>

section \<open>Responses and the schema\<close>

fun base_type :: "gtype \<Rightarrow> string" where
  "base_type (Named n) = n"
| "base_type (ListOf t) = base_type t"
| "base_type (NonNull t) = base_type t"

fun nonnull :: "gtype \<Rightarrow> bool" where
  "nonnull (NonNull t) = True"
| "nonnull t = False"

text \<open>The type of a field, and the selections the schema allows on a type. The introspection fields of a query are
  not fields of the schema's own types.\<close>

definition field_type :: "string \<Rightarrow> string \<Rightarrow> gtype option" where
  "field_type n f = (case schema_type n of None \<Rightarrow> None | Some fs \<Rightarrow> map_of fs f)"

fun valid_sel :: "string \<Rightarrow> CollectedField list \<Rightarrow> bool" where
  "valid_sel n [] = True"
| "valid_sel n (CollectedField al name args sels # fs) =
     ((name = ''__typename'' \<and> sels = [] \<or> (case field_type n name of None \<Rightarrow> False | Some t \<Rightarrow> valid_sel (base_type t) sels))
      \<and> valid_sel n fs)"

text \<open>A value of a type under a selection: a null only where the type allows it, scalars of their kind, and an object
  with one entry per selected field, under its alias and in the order of the selection.\<close>

inductive conforms :: "CollectedField list \<Rightarrow> gtype \<Rightarrow> gval \<Rightarrow> bool" where
  Null_Named: "conforms sel (Named n) GNull"
| Null_List: "conforms sel (ListOf t) GNull"
| NonNull: "conforms sel t v \<Longrightarrow> v \<noteq> GNull \<Longrightarrow> conforms sel (NonNull t) v"
| Boolean: "conforms sel (Named ''Boolean'') (GBool b)"
| Int: "conforms sel (Named ''Int'') (GInt i)"
| String: "conforms sel (Named ''String'') (GString s)"
| Time: "conforms sel (Named ''Time'') (GTime t)"
| List: "(\<And>v. v \<in> set vs \<Longrightarrow> conforms sel t v) \<Longrightarrow> conforms sel (ListOf t) (GArray vs)"
| Object: "list_all2 (\<lambda>f kv. fst kv = cf_Alias f
      \<and> (if cf_Name f = ''__typename'' then snd kv = GString n
          else \<exists>t. field_type n (cf_Name f) = Some t \<and> conforms (cf_Selections f) t (snd kv))) sel kvs
    \<Longrightarrow> conforms sel (Named n) (GObject kvs)"

inductive_simps conforms_NonNull [simp]: "conforms sel (NonNull t) v"
inductive_simps conforms_Null: "conforms sel t GNull"
inductive_simps conforms_List_Array [simp]: "conforms sel (ListOf t) (GArray vs)"
inductive_simps conforms_Nil [simp]: "conforms sel t GNil"

lemma conforms_Null_iff [simp]: "conforms sel t GNull \<longleftrightarrow> \<not> nonnull t"
  by (cases t) (auto simp: conforms_Null)

section \<open>The judgement\<close>

definition failed :: "'e gqlgen \<Rightarrow> 'e \<Rightarrow> bool" where
  "failed rt e \<longleftrightarrow> GetErrors rt e \<noteq> []"

text \<open>\<open>runs rt P Q m\<close>: recorded errors stay recorded; a result \<open>a\<close> satisfies \<open>P a b\<close>, where \<open>b\<close> tells whether an
  error is recorded then; and a panic happens only if \<open>Q\<close> allows it.\<close>

definition runs :: "'e gqlgen \<Rightarrow> ('a \<Rightarrow> bool \<Rightarrow> bool) \<Rightarrow> bool \<Rightarrow> ('a, 'e, 's) ex \<Rightarrow> bool" where
  "runs rt P Q m \<longleftrightarrow>
     (\<forall>e s. case m (e, s) of
        Returns (a, e', s') \<Rightarrow> (failed rt e \<longrightarrow> failed rt e') \<and> P a (failed rt e')
      | Panics (e', s') \<Rightarrow> Q \<and> (failed rt e \<longrightarrow> failed rt e')
      | Blocks _ \<Rightarrow> True)"

lemma runsI:
  assumes "\<And>e s a e' s'. m (e, s) = Returns (a, e', s') \<Longrightarrow> (failed rt e \<longrightarrow> failed rt e') \<and> P a (failed rt e')"
    and "\<And>e s e' s'. m (e, s) = Panics (e', s') \<Longrightarrow> Q \<and> (failed rt e \<longrightarrow> failed rt e')"
  shows "runs rt P Q m"
  unfolding runs_def using assms by (auto split: go.splits)

lemma runs_Returns:
  "runs rt P Q m \<Longrightarrow> m (e, s) = Returns (a, e', s') \<Longrightarrow> (failed rt e \<longrightarrow> failed rt e') \<and> P a (failed rt e')"
  by (auto simp: runs_def dest!: spec [of _ e] spec [of _ s])

lemma runs_Panics: "runs rt P Q m \<Longrightarrow> m (e, s) = Panics (e', s') \<Longrightarrow> Q \<and> (failed rt e \<longrightarrow> failed rt e')"
  by (fastforce simp: runs_def dest!: spec [of _ e] spec [of _ s])

lemma failed_ec_Error [simp]: "gqlgen_documented rt \<Longrightarrow> failed rt (ec_Error rt p err e)"
  by (simp add: gqlgen_documented_def failed_def)

lemma HasFieldError_failed: "gqlgen_documented rt \<Longrightarrow> HasFieldError rt e p \<Longrightarrow> failed rt e"
  by (auto simp: gqlgen_documented_def failed_def)

lemma ex_bind_return [simp]: "ex_bind (ex_return a) f = f a"
  by (simp add: ex_bind_def ex_return_def)

lemma runs_return: "(\<And>b. P a b) \<Longrightarrow> runs rt P Q (ex_return a)"
  by (simp add: runs_def ex_return_def)

lemma runs_panic: "runs rt P True ex_panic"
  by (simp add: runs_def ex_panic_def)

lemma runs_error: "gqlgen_documented rt \<Longrightarrow> P a True \<Longrightarrow> runs rt P Q (ex_error rt ctx err a)"
  by (simp add: runs_def ex_error_def)

lemma runs_error_once: "gqlgen_documented rt \<Longrightarrow> P a True \<Longrightarrow> runs rt P Q (ex_error_once rt ctx msg a)"
  by (auto simp: runs_def ex_error_once_def ex_error_def dest: HasFieldError_failed)

lemma runs_recover:
  assumes "gqlgen_documented rt" and "runs rt P Q' m" and "P a True"
  shows "runs rt P Q (ex_recover rt ctx a m)"
  by (rule runsI)
     (auto simp: ex_recover_def ex_error_def assms(1,3) split: go.splits dest: runs_Returns [OF assms(2)] runs_Panics [OF assms(2)])

lemma runs_bind:
  assumes "runs rt R Q m" and "\<And>a b. R a b \<Longrightarrow> runs rt (S a) Q (f a)"
    and "\<And>a b c b'. R a b \<Longrightarrow> S a c b' \<Longrightarrow> b \<longrightarrow> b' \<Longrightarrow> P c b'"
  shows "runs rt P Q (ex_bind m f)"
proof (rule runsI)
  fix e s c e' s'
  assume "ex_bind m f (e, s) = Returns (c, e', s')"
  then obtain a e1 s1 where m: "m (e, s) = Returns (a, e1, s1)" and f: "f a (e1, s1) = Returns (c, e', s')"
    by (auto simp: ex_bind_def go_bind_Returns_iff)
  have 1: "failed rt e \<longrightarrow> failed rt e1" "R a (failed rt e1)" using runs_Returns [OF assms(1) m] by auto
  then have "failed rt e1 \<longrightarrow> failed rt e'" "S a c (failed rt e')"
    using runs_Returns [OF assms(2) f] by blast+
  with 1 assms(3) [OF 1(2)] show "(failed rt e \<longrightarrow> failed rt e') \<and> P c (failed rt e')" by blast
next
  fix e s e' s'
  assume "ex_bind m f (e, s) = Panics (e', s')"
  then consider "m (e, s) = Panics (e', s')"
    | a e1 s1 where "m (e, s) = Returns (a, e1, s1)" "f a (e1, s1) = Panics (e', s')"
    by (cases "m (e, s)") (auto simp: ex_bind_def)
  then show "Q \<and> (failed rt e \<longrightarrow> failed rt e')"
  proof cases
    case 1
    then show ?thesis using runs_Panics [OF assms(1)] by blast
  next
    case 2
    then show ?thesis using runs_Returns [OF assms(1) 2(1)] runs_Panics [OF assms(2) 2(2)] by blast
  qed
qed

text \<open>The common case: what the second step establishes does not depend on the first.\<close>

lemma runs_bind_simple:
  assumes "runs rt R Q m" and "\<And>a b. R a b \<Longrightarrow> runs rt P Q (f a)"
  shows "runs rt P Q (ex_bind m f)"
  by (rule runs_bind [OF assms]) auto

lemma runs_bind_return:
  assumes "runs rt R Q m" and "\<And>a b. R a b \<Longrightarrow> P (g a) b"
  shows "runs rt P Q (ex_bind m (\<lambda>a. ex_return (g a)))"
proof (rule runsI)
  fix e s c e' s'
  assume "ex_bind m (\<lambda>a. ex_return (g a)) (e, s) = Returns (c, e', s')"
  then obtain a where "m (e, s) = Returns (a, e', s')" "c = g a"
    by (auto simp: ex_bind_def ex_return_def go_bind_Returns_iff)
  then show "(failed rt e \<longrightarrow> failed rt e') \<and> P c (failed rt e')" using runs_Returns [OF assms(1)] assms(2) by blast
next
  fix e s e' s'
  assume "ex_bind m (\<lambda>a. ex_return (g a)) (e, s) = Panics (e', s')"
  then have "m (e, s) = Panics (e', s')" by (cases "m (e, s)") (auto simp: ex_bind_def ex_return_def)
  then show "Q \<and> (failed rt e \<longrightarrow> failed rt e')" by (rule runs_Panics [OF assms(1)])
qed

lemma runs_bind_return2:
  assumes "runs rt R Q m" and "\<And>x y b. R (x, y) b \<Longrightarrow> P (g x y) b"
  shows "runs rt P Q (ex_bind m (\<lambda>(x, y). ex_return (g x y)))"
  using runs_bind_return [OF assms(1), where P = P and g = "\<lambda>(x, y). g x y"] assms(2) by (simp add: case_prod_unfold)

lemma runs_mono: "runs rt P Q m \<Longrightarrow> (\<And>a b. P a b \<Longrightarrow> P' a b) \<Longrightarrow> (Q \<Longrightarrow> Q') \<Longrightarrow> runs rt P' Q' m"
  by (rule runsI) (auto dest: runs_Returns runs_Panics)

lemma runs_Blocks: "runs rt P Q (\<lambda>es. Blocks es)"
  by (simp add: runs_def)

section \<open>The building blocks\<close>

text \<open>What a marshaller or a field function of type \<open>t\<close> may answer: a value of the type, or null with an error
  recorded if the type does not allow null.\<close>

definition ok_val :: "CollectedField list \<Rightarrow> gtype \<Rightarrow> gval \<Rightarrow> bool \<Rightarrow> bool" where
  "ok_val sel t v b \<longleftrightarrow> (if v = GNull then nonnull t \<longrightarrow> b else conforms sel t v)"

lemma ok_val_Null_failed [simp]: "ok_val sel t GNull True"
  by (simp add: ok_val_def)

lemma ok_val_later: "ok_val sel t v b \<Longrightarrow> b \<longrightarrow> b' \<Longrightarrow> ok_val sel t v b'"
  by (auto simp: ok_val_def split: if_splits)

lemma documented_marshal:
  assumes "gqlgen_documented rt"
  shows "MarshalBoolean rt b = GBool b" "MarshalInt rt i = GInt i" "MarshalString rt s = GString s"
    "MarshalTime rt t = (if t = 0 then GNull else GTime t)"
  using assms by (simp_all add: gqlgen_documented_def)

lemma runs_check_null:
  assumes "gqlgen_documented rt" and "v \<noteq> GNull \<Longrightarrow> conforms sel t v"
  shows "runs rt (ok_val sel t) Q (check_null rt ctx v)"
  using assms by (auto simp: check_null_def ok_val_def intro!: runs_error_once runs_return)

lemma runs_scalar:
  assumes "gqlgen_documented rt"
  shows "runs rt (ok_val sel (NonNull (Named ''Boolean''))) Q (marshalNBoolean2bool rt ctx b)"
    and "runs rt (ok_val sel (NonNull (Named ''Int''))) Q (marshalNInt2int rt ctx i)"
    and "runs rt (ok_val sel (NonNull (Named ''String''))) Q (marshalNString2string rt ctx str)"
    and "runs rt (ok_val sel (NonNull (Named ''Time''))) Q (marshalNTime2Time rt ctx t)"
    and "runs rt (ok_val sel (Named ''String'')) Q (marshalOString2ptr rt ctx p)"
  using assms
  by (auto simp: marshalNBoolean2bool_def marshalNInt2int_def marshalNString2string_def marshalNTime2Time_def
      marshalOString2ptr_def documented_marshal ok_val_def
      intro!: runs_check_null runs_return conforms.intros split: option.splits)

lemma runs_marshal_each:
  assumes "\<And>v. runs rt (ok_val sel t) Q (f v)"
  shows "runs rt (\<lambda>xs b. \<forall>x \<in> set xs. ok_val sel t x b) Q (marshal_each f vs)"
proof (induction vs)
  case (Cons v vs)
  have rest: "runs rt (\<lambda>ys b. \<exists>xs. ys = x # xs \<and> (\<forall>x \<in> set xs. ok_val sel t x b)) Q
      (ex_bind (marshal_each f vs) (\<lambda>xs. ex_return (x # xs)))" for x
    by (rule runs_bind_return [OF Cons]) simp
  show ?case unfolding marshal_each.simps
    by (rule runs_bind [OF assms rest]) (auto elim: ok_val_later)
qed (simp add: runs_return)

lemma ok_val_array:
  "(\<forall>x \<in> set xs. ok_val sel t x b) \<Longrightarrow> nonnull t \<Longrightarrow> ok_val sel (NonNull (ListOf t)) (array_or_null xs) b"
  by (auto simp: array_or_null_def ok_val_def intro!: conforms.intros) (metis (full_types))+

lemma ok_val_weaken: "ok_val sel (NonNull t) v b \<Longrightarrow> ok_val sel t v b"
  by (auto simp: ok_val_def split: if_splits)

lemma runs_string_lists:
  assumes "gqlgen_documented rt"
  shows "runs rt (ok_val sel (NonNull (ListOf (NonNull (Named ''String''))))) Q (marshalNString2slice rt ctx xs)"
    and "runs rt (ok_val sel (ListOf (NonNull (Named ''String'')))) Q (marshalOString2slice rt ctx p)"
proof -
  have *: "runs rt (ok_val sel (NonNull (ListOf (NonNull (Named ''String''))))) Q
      (ex_bind (marshal_each (marshalNString2string rt ctx) ys) (\<lambda>ret. ex_return (array_or_null ret)))" for ys
    by (rule runs_bind_return, rule runs_marshal_each, rule runs_scalar(3) [OF assms], rule ok_val_array) simp_all
  then show "runs rt (ok_val sel (NonNull (ListOf (NonNull (Named ''String''))))) Q (marshalNString2slice rt ctx xs)"
    by (simp add: marshalNString2slice_def)
  show "runs rt (ok_val sel (ListOf (NonNull (Named ''String'')))) Q (marshalOString2slice rt ctx p)"
    using runs_mono [OF * ok_val_weaken]
    by (cases p) (auto simp: marshalOString2slice_def ok_val_def [of _ _ GNull] intro!: runs_return)
qed

lemma runs_recover_safe: "runs rt P False m \<Longrightarrow> runs rt P Q (ex_recover rt ctx a m)"
  by (rule runsI) (auto simp: ex_recover_def split: go.splits dest: runs_Returns runs_Panics)

lemma runs_marshal_ptr:
  assumes "gqlgen_documented rt" and "\<And>x. runs rt (ok_val sel (NonNull t)) Q (f x)"
  shows "runs rt (ok_val sel (NonNull t)) Q (marshal_ptr rt ctx f v)"
  using assms by (auto simp: marshal_ptr_def intro!: runs_error_once split: option.splits)

lemma runs_set_element:
  "runs rt (\<lambda>r b. r = Some (xs @ [x])) False (set_element (Some xs) x)"
  by (auto simp: set_element_def intro: runs_return)

lemma runs_marshal_objects:
  assumes "\<And>ctx v. runs rt (ok_val sel t) False (f ctx v)"
  shows "runs rt (\<lambda>r b. \<exists>ys. r = Some (xs @ ys) \<and> (\<forall>y \<in> set ys. ok_val sel t y b)) Q (marshal_objects rt ctx f i vs (Some xs))"
proof (induction vs arbitrary: i xs)
  case (Cons v vs)
  let ?ctx = "ctx @ [PIndex i]"
  have 1: "runs rt (\<lambda>r b. \<exists>y. r = Some (xs @ [y]) \<and> ok_val sel t y b) False (ex_bind (f ?ctx v) (set_element (Some xs)))"
    by (rule runs_bind [OF assms runs_set_element]) (auto elim: ok_val_later)
  show ?case unfolding marshal_objects.simps Let_def
  proof (rule runs_bind [OF runs_recover_safe [OF 1]])
    fix r b assume "\<exists>y. r = Some (xs @ [y]) \<and> ok_val sel t y b"
    then obtain y where r: "r = Some (xs @ [y])" by blast
    show "runs rt (\<lambda>r' b. \<exists>y ys. r = Some (xs @ [y]) \<and> r' = Some (xs @ y # ys) \<and> (\<forall>y \<in> set ys. ok_val sel t y b)) Q
        (marshal_objects rt ctx f (Suc i) vs r)"
      unfolding r by (rule runs_mono [OF Cons]) auto
  qed (auto elim: ok_val_later)
qed (simp add: runs_return)

lemma runs_marshal_slice:
  assumes "\<And>ctx v. runs rt (ok_val sel t) False (f ctx v)" and "nonnull t"
  shows "runs rt (ok_val sel (NonNull (ListOf t))) Q (marshal_slice rt ctx f vs)"
  unfolding marshal_slice_def
  by (rule runs_bind_return [OF runs_marshal_objects [OF assms(1)]]) (auto intro: ok_val_array [OF _ assms(2)])

lemma runs_field_N:
  assumes "gqlgen_documented rt" and "runs rt (\<lambda>r b. True) True resolve"
    and "\<And>r. runs rt (ok_val sel (NonNull t)) True (marshal ctx r)"
  shows "runs rt (ok_val sel (NonNull t)) Q (field_N rt ctx resolve marshal)"
  unfolding field_N_def
  by (rule runs_recover [OF assms(1) runs_bind_simple [OF assms(2)]])
     (auto intro: runs_error [OF assms(1)] runs_error_once [OF assms(1)] assms(3) split: sum.splits option.splits)

lemma runs_field_O:
  assumes "gqlgen_documented rt" and "runs rt (\<lambda>r b. True) True resolve" and "\<not> nonnull t"
    and "\<And>r. runs rt (ok_val sel t) True (marshal ctx r)"
  shows "runs rt (ok_val sel t) Q (field_O rt ctx resolve marshal)"
  unfolding field_O_def
  by (rule runs_recover [OF assms(1) runs_bind_simple [OF assms(2)]])
     (auto simp: ok_val_def [of _ _ GNull] assms(3) intro: runs_error [OF assms(1)] runs_return assms(4) split: sum.splits option.splits)

lemma runs_got: "runs rt (\<lambda>r b. True) Q (got r)"
  by (simp add: got_def runs_return)

text \<open>One field of an object of type \<open>n\<close>: whether the executor counts its null as invalid agrees with the schema.\<close>

definition slot_ok :: "string \<Rightarrow> CollectedField \<Rightarrow> bool \<Rightarrow> gval \<Rightarrow> bool \<Rightarrow> bool" where
  "slot_ok n f nn v b \<longleftrightarrow>
     (if cf_Name f = ''__typename'' then \<not> nn \<and> v = GString n
      else \<exists>t. field_type n (cf_Name f) = Some t \<and> nn = nonnull t \<and> ok_val (cf_Selections f) t v b)"

definition entry_ok :: "string \<Rightarrow> CollectedField \<Rightarrow> string \<times> gval \<Rightarrow> bool" where
  "entry_ok n f kv \<longleftrightarrow> fst kv = cf_Alias f
      \<and> (if cf_Name f = ''__typename'' then snd kv = GString n
          else \<exists>t. field_type n (cf_Name f) = Some t \<and> conforms (cf_Selections f) t (snd kv))"

lemma slot_ok_entry: "slot_ok n f nn v b \<Longrightarrow> \<not> (nn \<and> v = GNull) \<Longrightarrow> entry_ok n f (cf_Alias f, v)"
  by (auto simp: slot_ok_def entry_ok_def ok_val_def conforms_Null_iff split: if_splits)

lemma slot_ok_failed: "slot_ok n f nn GNull b \<Longrightarrow> nn \<Longrightarrow> b"
  by (auto simp: slot_ok_def ok_val_def split: if_splits)

definition set_ok :: "string \<Rightarrow> CollectedField list \<Rightarrow> (string \<times> gval) list \<times> nat \<Rightarrow> bool \<Rightarrow> bool" where
  "set_ok n sel r b \<longleftrightarrow> (case r of (out, invalids) \<Rightarrow> if invalids = 0 then list_all2 (entry_ok n) sel out else b)"

lemma set_ok_Cons:
  assumes "slot_ok n f nn v b" and "set_ok n fs (out, k) b'" and "b \<longrightarrow> b'"
  shows "set_ok n (f # fs) ((cf_Alias f, v) # out, if nn \<and> v = GNull then Suc k else k) b'"
  using assms slot_ok_entry [OF assms(1)] slot_ok_failed [of n f nn b] by (auto simp: set_ok_def split: if_splits)

lemma runs_field_loop:
  assumes "\<And>f. f \<in> set sel \<Longrightarrow> \<exists>nn m. switch f = Some (nn, m) \<and> runs rt (slot_ok n f nn) False m"
  shows "runs rt (set_ok n sel) False (field_loop switch sel)"
  using assms
proof (induction sel)
  case (Cons f fs)
  then obtain nn m where m: "switch f = Some (nn, m)" "runs rt (slot_ok n f nn) False m" by force
  have rest: "runs rt (\<lambda>r b. \<exists>out k. r = ((cf_Alias f, v) # out, if nn \<and> v = GNull then Suc k else k) \<and> set_ok n fs (out, k) b) False
      (ex_bind (field_loop switch fs) (\<lambda>(out, k). ex_return ((cf_Alias f, v) # out, if nn \<and> v = GNull then Suc k else k)))" for v
    by (rule runs_bind_return2 [OF Cons.IH]) (auto simp: Cons.prems)
  show ?case using m(1)
    by (simp, intro runs_bind [OF m(2) rest]) (auto intro: set_ok_Cons)
qed (simp add: runs_return set_ok_def)

lemma entries_conform: "list_all2 (entry_ok n) sel out \<Longrightarrow> conforms sel (Named n) (GObject out)"
  by (rule conforms.Object) (simp add: entry_ok_def [abs_def])

lemma set_ok_finish: "set_ok n sel (out, k) b \<Longrightarrow> ok_val sel (NonNull (Named n)) (if 0 < k then GNull else GObject out) b"
  by (auto simp: set_ok_def ok_val_def entries_conform split: if_splits)

lemma runs_object_set:
  assumes "\<And>f. f \<in> set sel \<Longrightarrow> \<exists>nn m. switch f = Some (nn, m) \<and> runs rt (slot_ok n f nn) False m"
  shows "runs rt (ok_val sel (NonNull (Named n))) False (object_set switch sel)"
  unfolding object_set_def
  by (rule runs_bind_return2, rule runs_field_loop, rule assms, assumption, rule set_ok_finish)

lemma valid_sel_mem:
  "valid_sel n sel \<Longrightarrow> f \<in> set sel \<Longrightarrow>
     cf_Name f = ''__typename'' \<or> (\<exists>t. field_type n (cf_Name f) = Some t \<and> valid_sel (base_type t) (cf_Selections f))"
  by (induction n sel rule: valid_sel.induct) (auto split: option.splits)

text \<open>The rule for an object function of the type \<open>n\<close>.\<close>

lemma runs_object:
  assumes "gqlgen_documented rt" and "valid_sel n sel"
    and "\<And>f. cf_Name f = ''__typename'' \<Longrightarrow> switch f = typename rt n"
    and "\<And>f t. field_type n (cf_Name f) = Some t \<Longrightarrow> cf_Name f \<noteq> ''__typename'' \<Longrightarrow> valid_sel (base_type t) (cf_Selections f)
       \<Longrightarrow> \<exists>m. switch f = Some (nonnull t, m) \<and> runs rt (ok_val (cf_Selections f) t) False m"
  shows "runs rt (ok_val sel (NonNull (Named n))) False (object_set switch sel)"
proof (rule runs_object_set)
  fix f assume f: "f \<in> set sel"
  show "\<exists>nn m. switch f = Some (nn, m) \<and> runs rt (slot_ok n f nn) False m"
  proof (cases "cf_Name f = ''__typename''")
    case True
    then show ?thesis using assms(3) [of f] assms(1) by (auto simp: typename_def slot_ok_def documented_marshal intro!: runs_return)
  next
    case False
    with valid_sel_mem [OF assms(2) f] obtain t where t: "field_type n (cf_Name f) = Some t" "valid_sel (base_type t) (cf_Selections f)"
      by auto
    with assms(4) [OF t(1) False t(2)] obtain m where
      "switch f = Some (nonnull t, m)" "runs rt (ok_val (cf_Selections f) t) False m" by blast
    moreover have "ok_val (cf_Selections f) t = slot_ok n f (nonnull t)"
      using t(1) False by (simp add: slot_ok_def fun_eq_iff)
    ultimately show ?thesis by auto
  qed
qed

lemmas schema_simps = field_type_def schema_type_def schema_Query_def schema_Contract_def schema_ContractConnection_def
  schema_ContractEdge_def schema_Mutations_def schema_Network_def schema_PageInfo_def

lemmas field_rules = runs_field_N runs_field_O runs_got runs_scalar runs_string_lists

section \<open>The types of the schema\<close>

lemma runs_PageInfo:
  assumes "gqlgen_documented rt" and "valid_sel ''PageInfo'' sel"
  shows "runs rt (ok_val sel (NonNull (Named ''PageInfo''))) False (ec_PageInfo rt ctx sel obj)"
  unfolding ec_PageInfo_def
  by (rule runs_object [OF assms], simp)
     (auto simp: schema_simps exec_defs assms(1) intro!: field_rules split: if_splits)

lemma runs_Network:
  assumes "gqlgen_documented rt" and "valid_sel ''Network'' sel"
  shows "runs rt (ok_val sel (NonNull (Named ''Network''))) False (ec_Network rt ctx sel obj)"
  unfolding ec_Network_def
  by (rule runs_object [OF assms], simp)
     (auto simp: schema_simps exec_defs assms(1) intro!: field_rules split: if_splits)

lemma runs_Network_ptr:
  assumes "gqlgen_documented rt" and "valid_sel ''Network'' sel"
  shows "runs rt (ok_val sel (NonNull (Named ''Network''))) Q (marshalNNetwork2ptr rt sel ctx v)"
  unfolding marshalNNetwork2ptr_def by (rule runs_marshal_ptr [OF assms(1)]) (rule runs_mono [OF runs_Network [OF assms]], simp_all)

lemma runs_Contract:
  assumes "gqlgen_documented rt" and "valid_sel ''Contract'' sel"
  shows "runs rt (ok_val sel (NonNull (Named ''Contract''))) False (ec_Contract rt ctx sel obj)"
  unfolding ec_Contract_def
  by (rule runs_object [OF assms], simp)
     (auto simp: schema_simps exec_defs assms(1) intro!: field_rules runs_Network_ptr split: if_splits)

lemma runs_Contract_ptr:
  assumes "gqlgen_documented rt" and "valid_sel ''Contract'' sel"
  shows "runs rt (ok_val sel (NonNull (Named ''Contract''))) Q (marshalNContract2ptr rt sel ctx v)"
  unfolding marshalNContract2ptr_def by (rule runs_marshal_ptr [OF assms(1)]) (rule runs_mono [OF runs_Contract [OF assms]], simp_all)

lemma runs_ContractEdge:
  assumes "gqlgen_documented rt" and "valid_sel ''ContractEdge'' sel"
  shows "runs rt (ok_val sel (NonNull (Named ''ContractEdge''))) False (ec_ContractEdge rt ctx sel obj)"
  unfolding ec_ContractEdge_def
  by (rule runs_object [OF assms], simp)
     (auto simp: schema_simps exec_defs assms(1) intro!: field_rules runs_Contract_ptr split: if_splits)

lemma runs_ContractEdge_slice:
  assumes "gqlgen_documented rt" and "valid_sel ''ContractEdge'' sel"
  shows "runs rt (ok_val sel (NonNull (ListOf (NonNull (Named ''ContractEdge''))))) Q (marshalNContractEdge2slice rt sel ctx v)"
  unfolding marshalNContractEdge2slice_def marshalNContractEdge2ptr_def
  by (rule runs_marshal_slice, rule runs_marshal_ptr [OF assms(1) runs_ContractEdge [OF assms]]) simp

lemma runs_PageInfo_ptr:
  assumes "gqlgen_documented rt" and "valid_sel ''PageInfo'' sel"
  shows "runs rt (ok_val sel (NonNull (Named ''PageInfo''))) Q (marshalNPageInfo2ptr rt sel ctx v)"
  unfolding marshalNPageInfo2ptr_def by (rule runs_marshal_ptr [OF assms(1)]) (rule runs_mono [OF runs_PageInfo [OF assms]], simp_all)

lemma runs_ContractConnection:
  assumes "gqlgen_documented rt" and "valid_sel ''ContractConnection'' sel"
  shows "runs rt (ok_val sel (NonNull (Named ''ContractConnection''))) False (ec_ContractConnection rt ctx sel obj)"
  unfolding ec_ContractConnection_def
  by (rule runs_object [OF assms], simp)
     (auto simp: schema_simps exec_defs assms(1) intro!: field_rules runs_ContractEdge_slice runs_PageInfo_ptr split: if_splits)

lemma runs_ContractConnection_ptr:
  assumes "gqlgen_documented rt" and "valid_sel ''ContractConnection'' sel"
  shows "runs rt (ok_val sel (NonNull (Named ''ContractConnection''))) Q (marshalNContractConnection2ptr rt sel ctx v)"
  unfolding marshalNContractConnection2ptr_def
  by (rule runs_marshal_ptr [OF assms(1)]) (rule runs_mono [OF runs_ContractConnection [OF assms]], simp_all)

lemma runs_Network_slice:
  assumes "gqlgen_documented rt" and "valid_sel ''Network'' sel"
  shows "runs rt (ok_val sel (NonNull (ListOf (NonNull (Named ''Network''))))) Q (marshalNNetwork2slice rt sel ctx v)"
  unfolding marshalNNetwork2slice_def by (rule runs_marshal_slice, rule runs_Network_ptr [OF assms]) simp

section \<open>Operations\<close>

lemma runs_resolver_call: "runs rt (\<lambda>r b. True) True (resolver_call f)"
  by (rule runsI) (auto simp: resolver_call_def map_go_Returns_iff elim!: map_go.elims)

lemma runs_field_args:
  assumes "gqlgen_documented rt"
  shows "runs rt (\<lambda>r b. case r of Inl _ \<Rightarrow> b | Inr _ \<Rightarrow> True) False (field_args rt ctx parsed)"
  using assms by (auto simp: field_args_def intro!: runs_error runs_return split: option.splits sum.splits)

lemma runs_with_args:
  assumes "gqlgen_documented rt" and "runs rt (\<lambda>r b. case r of Inl _ \<Rightarrow> b | Inr _ \<Rightarrow> True) False ctxm"
    and "\<And>a. runs rt (ok_val sel (NonNull t)) False (body a)"
  shows "runs rt (ok_val sel (NonNull t)) False (ex_bind ctxm (\<lambda>r. case r of Inl _ \<Rightarrow> ex_return GNull | Inr a \<Rightarrow> body a))"
proof (rule runs_bind [OF assms(2)])
  fix r :: "'b + 'c" and b
  show "runs rt (\<lambda>v b'. case r of Inl _ \<Rightarrow> v = GNull | Inr _ \<Rightarrow> ok_val sel (NonNull t) v b') False
      (case r of Inl _ \<Rightarrow> ex_return GNull | Inr a \<Rightarrow> body a)"
    by (cases r) (auto intro: runs_return assms(3))
qed (auto simp: ok_val_def split: sum.splits)

lemma runs_Query_networks:
  assumes "gqlgen_documented rt" and "valid_sel ''Network'' (cf_Selections field)"
  shows "runs rt (ok_val (cf_Selections field) (NonNull (ListOf (NonNull (Named ''Network''))))) False (ec_Query_networks rt rs ctx field)"
  unfolding ec_Query_networks_def case_prod_beta
  by (rule runs_with_args [OF assms(1)])
     (auto simp: fieldContext_Query_networks_def Let_def intro!: runs_field_args runs_field_N runs_resolver_call runs_Network_slice assms)

lemma runs_Query_contracts:
  assumes "gqlgen_documented rt" and "valid_sel ''ContractConnection'' (cf_Selections field)"
  shows "runs rt (ok_val (cf_Selections field) (NonNull (Named ''ContractConnection''))) False (ec_Query_contracts rt rs ctx field)"
  unfolding ec_Query_contracts_def case_prod_beta
  by (rule runs_with_args [OF assms(1)])
     (auto simp: fieldContext_Query_contracts_def Let_def intro!: runs_field_args runs_field_N runs_resolver_call runs_ContractConnection_ptr assms)

lemma runs_Mutations_unpack:
  assumes "gqlgen_documented rt" and "valid_sel ''Contract'' (cf_Selections field)"
  shows "runs rt (ok_val (cf_Selections field) (NonNull (Named ''Contract''))) False (ec_Mutations_unpack rt rs ctx field)"
  unfolding ec_Mutations_unpack_def case_prod_beta
  by (rule runs_with_args [OF assms(1)])
     (auto simp: fieldContext_Mutations_unpack_def Let_def intro!: runs_field_args runs_field_N runs_resolver_call runs_Contract_ptr assms)

lemma runs_Mutations:
  assumes "gqlgen_documented rt" and "valid_sel ''Mutations'' sel"
  shows "runs rt (ok_val sel (NonNull (Named ''Mutations''))) False (ec_Mutations rt rs ctx sel)"
  unfolding ec_Mutations_def
  by (rule runs_object [OF assms], simp)
     (auto simp: schema_simps intro!: runs_Mutations_unpack [OF assms(1)] split: if_splits)

text \<open>The two phases of a query: what the loop leaves for the dispatch.\<close>

definition slot_rel :: "'e gqlgen \<Rightarrow> string \<Rightarrow> CollectedField \<Rightarrow> string \<times> ((gval, 'e, 's) ex + gval) \<Rightarrow> bool" where
  "slot_rel rt n f kv \<longleftrightarrow> fst kv = cf_Alias f
     \<and> (case snd kv of Inl m \<Rightarrow> runs rt (slot_ok n f True) False m | Inr v \<Rightarrow> \<forall>b. slot_ok n f False v b)"

lemma inline_loop_slots:
  assumes "\<And>f. f \<in> set sel \<Longrightarrow>
      (\<exists>v. switch f = Some (Inline (ex_return v)) \<and> (\<forall>b. slot_ok n f False v b))
      \<or> (\<exists>m. switch f = Some (Concurrently m) \<and> runs rt (slot_ok n f True) False m)"
  shows "\<exists>slots. inline_loop switch sel = ex_return slots \<and> list_all2 (slot_rel rt n) sel slots"
  using assms
proof (induction sel)
  case (Cons f fs)
  then obtain slots where slots: "inline_loop switch fs = ex_return slots" "list_all2 (slot_rel rt n) fs slots" by auto
  have "(\<exists>v. switch f = Some (Inline (ex_return v)) \<and> (\<forall>b. slot_ok n f False v b))
      \<or> (\<exists>m. switch f = Some (Concurrently m) \<and> runs rt (slot_ok n f True) False m)" using Cons.prems by simp
  then show ?case
  proof (elim disjE exE conjE)
    fix v assume v: "switch f = Some (Inline (ex_return v))" "\<forall>b. slot_ok n f False v b"
    then have "slot_rel rt n f (cf_Alias f, Inr v)" by (simp add: slot_rel_def)
    then show ?thesis using slots v(1)
      by (intro exI [of _ "(cf_Alias f, Inr v) # slots"]) (simp add: ex_bind_def ex_return_def)
  next
    fix m assume m: "switch f = Some (Concurrently m)" "runs rt (slot_ok n f True) False m"
    then have "slot_rel rt n f (cf_Alias f, Inl m)" by (simp add: slot_rel_def)
    then show ?thesis using slots m(1)
      by (intro exI [of _ "(cf_Alias f, Inl m) # slots"]) (simp add: ex_bind_def ex_return_def)
  qed
qed simp

lemma runs_dispatch:
  "list_all2 (slot_rel rt n) sel slots \<Longrightarrow> runs rt (set_ok n sel) False (dispatch_delayed slots)"
proof (induction sel slots rule: list_all2_induct)
  case (Cons f fs kv slots)
  obtain k x where kv: "kv = (k, x)" "k = cf_Alias f" using Cons(1) by (cases kv) (simp add: slot_rel_def)
  have rest: "runs rt (\<lambda>r b. \<exists>out i. r = ((k, v) # out, if nn \<and> v = GNull then Suc i else i) \<and> set_ok n fs (out, i) b) False
      (ex_bind (dispatch_delayed slots) (\<lambda>(out, i). ex_return ((k, v) # out, if nn \<and> v = GNull then Suc i else i)))" for v nn
    by (rule runs_bind_return2 [OF Cons.IH]) auto
  show ?case
  proof (cases x)
    case (Inr v)
    then have "slot_ok n f False v b" for b using Cons(1) kv by (simp add: slot_rel_def)
    from set_ok_Cons [OF this, of fs] show ?thesis
      unfolding kv Inr dispatch_delayed.simps by (intro runs_bind_return2 [OF Cons.IH]) (simp, blast)
  next
    case (Inl m)
    then have m: "runs rt (slot_ok n f True) False m" using Cons(1) kv by (simp add: slot_rel_def)
    show ?thesis unfolding kv(1) Inl dispatch_delayed.simps
      using set_ok_Cons kv(2) by (intro runs_bind [OF m rest [of _ True, simplified]]) fastforce
  qed
qed (simp add: runs_return set_ok_def)

lemma runs_Query:
  assumes "gqlgen_documented rt" and "valid_sel ''Query'' sel"
  shows "runs rt (ok_val sel (NonNull (Named ''Query''))) False (ec_Query rt ix rs ctx sel)"
proof -
  let ?switch = "\<lambda>field.
        if cf_Name field = ''__typename'' then Some (Inline (ex_return (MarshalString rt ''Query'')))
        else if cf_Name field = ''networks'' then Some (Concurrently (root_field rt ctx (ec_Query_networks rt rs ctx field)))
        else if cf_Name field = ''contracts'' then Some (Concurrently (root_field rt ctx (ec_Query_contracts rt rs ctx field)))
        else if cf_Name field = ''__type'' then Some (Inline (ec_Query___type rt ix ctx field))
        else if cf_Name field = ''__schema'' then Some (Inline (ec_Query___schema rt ix ctx field))
        else None"
  have slot: "runs rt (slot_ok ''Query'' f True) False (root_field rt ctx m)"
    if "field_type ''Query'' (cf_Name f) = Some t" "cf_Name f \<noteq> ''__typename''" "nonnull t"
      "runs rt (ok_val (cf_Selections f) t) False m" for f t m
    unfolding root_field_def using that by (auto intro!: runs_recover_safe elim!: runs_mono simp: slot_ok_def)
  have "(\<exists>v. ?switch f = Some (Inline (ex_return v)) \<and> (\<forall>b. slot_ok ''Query'' f False v b))
      \<or> (\<exists>m. ?switch f = Some (Concurrently m) \<and> runs rt (slot_ok ''Query'' f True) False m)" if "f \<in> set sel" for f
  proof (cases "cf_Name f = ''__typename''")
    case True
    then show ?thesis by (auto simp: slot_ok_def documented_marshal [OF assms(1)])
  next
    case False
    with valid_sel_mem [OF assms(2) that] obtain t where t: "field_type ''Query'' (cf_Name f) = Some t"
      "valid_sel (base_type t) (cf_Selections f)" by auto
    then consider "cf_Name f = ''networks''" "t = NonNull (ListOf (NonNull (Named ''Network'')))"
      | "cf_Name f = ''contracts''" "t = NonNull (Named ''ContractConnection'')"
      by (auto simp: schema_simps split: if_splits)
    then show ?thesis
      using slot [OF t(1) False] t(2) runs_Query_networks [OF assms(1), of f rs ctx] runs_Query_contracts [OF assms(1), of f rs ctx]
      by cases auto
  qed
  from inline_loop_slots [OF this] obtain slots where
    slots: "inline_loop ?switch sel = ex_return slots" "list_all2 (slot_rel rt ''Query'') sel slots" by blast
  show ?thesis unfolding ec_Query_def slots(1) ex_bind_return
    by (rule runs_bind_return2, rule runs_dispatch [OF slots(2)], rule set_ok_finish)
qed

section \<open>An instance\<close>

text \<open>A library whose response context is the list of the errors.\<close>

definition plain_gqlgen :: "(gpath \<times> error) list gqlgen" where
  "plain_gqlgen =
     \<lparr>UnmarshalInt = (\<lambda>v. case v of Raw_int i \<Rightarrow> Inr i | _ \<Rightarrow> Inl (Errorf ''not an int'')),
      UnmarshalString = (\<lambda>v. case v of Raw_string s \<Rightarrow> Inr s | _ \<Rightarrow> Inl (Errorf ''not a string'')),
      UnmarshalBoolean = (\<lambda>v. case v of Raw_bool b \<Rightarrow> Inr b | _ \<Rightarrow> Inl (Errorf ''not a bool'')),
      CoerceList = (\<lambda>v. case v of Raw_list vs \<Rightarrow> vs | _ \<Rightarrow> [v]),
      ErrorOnPath = (\<lambda>p err. err), MarshalBoolean = GBool, MarshalInt = GInt, MarshalString = GString,
      MarshalTime = (\<lambda>t. if t = 0 then GNull else GTime t),
      ec_Error = (\<lambda>p err e. e @ [(p, err)]), ec_Recover = Errorf ''internal system error'',
      HasFieldError = (\<lambda>e p. p \<in> fst ` set e), GetErrors = (\<lambda>e. e)\<rparr>"

lemma plain_gqlgen_documented: "gqlgen_documented plain_gqlgen"
  by (simp add: gqlgen_documented_def plain_gqlgen_def)

definition no_introspection :: "unit introspector" where
  "no_introspection =
     \<lparr>DisableIntrospection = True,
      WrapSchema = \<lparr>is_Description = None, is_Types = [], is_QueryType = None, is_MutationType = None,
        is_SubscriptionType = None, is_Directives = []\<rparr>,
      WrapTypeFromDef = (\<lambda>_. None),
      intro_methods = \<lparr>it_Kind = (\<lambda>_. []), it_Name = (\<lambda>_. None), it_Description = (\<lambda>_. None), it_Fields = (\<lambda>_ _. None),
        it_Interfaces = (\<lambda>_. None), it_PossibleTypes = (\<lambda>_. None), it_EnumValues = (\<lambda>_ _. None), it_InputFields = (\<lambda>_. None),
        it_OfType = (\<lambda>_. None), it_SpecifiedByURL = (\<lambda>_. None)\<rparr>,
      intro_fuel = 0\<rparr>"

definition failing_resolvers :: "nat ResolverRoot" where
  "failing_resolvers =
     \<lparr>Mutations_Unpack = (\<lambda>c s. Returns (Inl (Errorf ''unavailable''), s)),
      Query_Networks = (\<lambda>i n sy su m s. Panics s),
      Query_Contracts = (\<lambda>cols ns bs hs ts as l f a s. Returns (Inr None, s))\<rparr>"

definition symbols_query :: "CollectedField list" where
  "symbols_query = [CollectedField ''kind'' ''__typename'' [] [],
     CollectedField ''chains'' ''networks'' [] [CollectedField ''s'' ''symbol'' [] []]]"

section \<open>Properties\<close>

text \<open>C15. Type soundness of queries: with any resolvers, failing or panicking ones included, the answer to a query
  that the schema allows conforms to the schema and the selection, or it is null and an error was recorded;
  the executor itself never panics.\<close>

theorem query_response_conforms:
  assumes "gqlgen_documented rt" and "valid_sel ''Query'' sel"
  shows "case ec_Query rt ix rs [] sel (e, s) of
      Returns (data, e', s') \<Rightarrow> if data = GNull then GetErrors rt e' \<noteq> [] else conforms sel (Named ''Query'') data
    | Panics _ \<Rightarrow> False
    | Blocks _ \<Rightarrow> True"
  using runs_Query [OF assms, of ix rs "[]"]
  by (auto simp: failed_def ok_val_def split: go.splits if_splits dest: runs_Returns runs_Panics)

theorem query_response_conforms_witness:
  "case ec_Query plain_gqlgen no_introspection failing_resolvers [] symbols_query ([], 0) of
      Returns (data, e', s') \<Rightarrow> data = GNull \<and> GetErrors plain_gqlgen e' \<noteq> []
    | Panics _ \<Rightarrow> False
    | Blocks _ \<Rightarrow> False"
proof -
  have v: "valid_sel ''Query'' symbols_query" by (simp add: symbols_query_def schema_simps)
  have r: "ec_Query plain_gqlgen no_introspection failing_resolvers [] symbols_query ([], 0)
     = Returns (GNull, [([PName ''chains''], Errorf ''internal system error'')], 0)" by code_simp
  show ?thesis
    using query_response_conforms [OF plain_gqlgen_documented v, of no_introspection failing_resolvers "[]" 0]
    by (simp add: r)
qed

text \<open>Type soundness of mutations, in the same sense.\<close>

theorem mutation_response_conforms:
  assumes "gqlgen_documented rt" and "valid_sel ''Mutations'' sel"
  shows "case ec_Mutations rt rs [] sel (e, s) of
      Returns (data, e', s') \<Rightarrow> if data = GNull then GetErrors rt e' \<noteq> [] else conforms sel (Named ''Mutations'') data
    | Panics _ \<Rightarrow> False
    | Blocks _ \<Rightarrow> True"
  using runs_Mutations [OF assms, of rs "[]"]
  by (auto simp: failed_def ok_val_def split: go.splits if_splits dest: runs_Returns runs_Panics)

theorem mutation_response_conforms_witness:
  "case ec_Mutations plain_gqlgen failing_resolvers []
       [CollectedField ''u'' ''unpack'' [(''contract'', Raw_bool True)] [CollectedField ''name'' ''name'' [] []]] ([], 0) of
      Returns (data, e', s') \<Rightarrow> data = GNull \<and> GetErrors plain_gqlgen e' \<noteq> []
    | Panics _ \<Rightarrow> False
    | Blocks _ \<Rightarrow> False"
proof -
  let ?sel = "[CollectedField ''u'' ''unpack'' [(''contract'', Raw_bool True)] [CollectedField ''name'' ''name'' [] []]]"
  have v: "valid_sel ''Mutations'' ?sel" by (simp add: schema_simps)
  have r: "ec_Mutations plain_gqlgen failing_resolvers [] ?sel ([], 0)
     = Returns (GNull, [([PName ''u''], Errorf ''internal system error'')], 0)" by code_simp
  show ?thesis using mutation_response_conforms [OF plain_gqlgen_documented v, of failing_resolvers "[]" 0] by (simp add: r)
qed

end
