(* ===== verification/Rendering.thy ===== *)
theory Rendering
  imports Conformance
begin

text \<open>
  What the executor answers when nothing goes wrong. \<open>render\<close> is a reference definition of a response, the
  selected values under their aliases with neither contexts nor error handling; on objects that have the
  values the schema requires, every object function of the executor equals it. For the resolvers of the
  service this gives the answer to a contracts query from the stored rows to the rendered page: the
  paths that the resolver collects from the selection and the nulls that the executor rejects fit together.
\<close>

section \<open>Reference rendering\<close>

definition render :: "string \<Rightarrow> (CollectedField \<Rightarrow> gval) \<Rightarrow> CollectedField list \<Rightarrow> gval" where
  "render n val sel = GObject (map (\<lambda>f. (cf_Alias f, if cf_Name f = ''__typename'' then GString n else val f)) sel)"

definition value_of :: "(string \<times> gval) list \<Rightarrow> string \<Rightarrow> gval" where
  "value_of vs name = (case map_of vs name of None \<Rightarrow> GNull | Some v \<Rightarrow> v)"

definition nullable :: "('a \<Rightarrow> gval) \<Rightarrow> 'a option \<Rightarrow> gval" where
  "nullable f v = (case v of None \<Rightarrow> GNull | Some x \<Rightarrow> f x)"

definition strings :: "string list \<Rightarrow> gval" where
  "strings xs = GArray (map GString xs)"

definition render_Network :: "CollectedField list \<Rightarrow> gql_Network \<Rightarrow> gval" where
  "render_Network sel n = render ''Network'' (\<lambda>f. value_of
     [(''networkId'', GInt (gn_NetworkID n)), (''name'', GString (gn_Name n)), (''canonicalName'', GString (gn_CanonicalName n)),
      (''symbol'', GString (gn_Symbol n)), (''website'', GString (gn_Website n)), (''suspended'', GBool (gn_Suspended n)),
      (''maintenance'', GBool (gn_Maintenance n))] (cf_Name f)) sel"

definition render_PageInfo :: "CollectedField list \<Rightarrow> PageInfo \<Rightarrow> gval" where
  "render_PageInfo sel p = render ''PageInfo'' (\<lambda>f. value_of
     [(''hasNextPage'', GBool (HasNextPage p)), (''hasPreviousPage'', GBool (HasPreviousPage p)),
      (''startCursor'', GString (StartCursor p)), (''endCursor'', GString (EndCursor p))] (cf_Name f)) sel"

definition render_Contract :: "CollectedField list \<Rightarrow> gql_Contract \<Rightarrow> gval" where
  "render_Contract sel c = render ''Contract'' (\<lambda>f. value_of
     [(''network'', nullable (render_Network (cf_Selections f)) (gc_Network c)), (''address'', GString (gc_Address c)),
      (''name'', GString (gc_Name c)), (''blockNumber'', GInt (gc_BlockNumber c)), (''blockHash'', GString (gc_BlockHash c)),
      (''transactionHash'', GString (gc_TransactionHash c)), (''standards'', nullable strings (gc_Standards c)),
      (''license'', nullable GString (gc_License c)), (''optimized'', GBool (gc_Optimized c)),
      (''optimizationRuns'', GInt (gc_OptimizationRuns c)), (''proxy'', GBool (gc_Proxy c)),
      (''implementations'', nullable strings (gc_Implementations c)), (''abi'', nullable GString (gc_Abi c)),
      (''executionBytecode'', nullable GString (gc_ExecutionBytecode c)), (''bytecode'', nullable GString (gc_Bytecode c)),
      (''evmVersion'', nullable GString (gc_EvmVersion c)), (''verified'', GBool (gc_Verified c)),
      (''sourceAvailable'', GBool (gc_SourceAvailable c)), (''sourcesProvider'', nullable GString (gc_SourcesProvider c)),
      (''verificationProvider'', nullable GString (gc_VerificationProvider c)), (''selfDestructed'', GBool (gc_SelfDestructed c)),
      (''compilerVersion'', nullable GString (gc_CompilerVersion c)), (''solgoVersion'', nullable GString (gc_SolgoVersion c)),
      (''currentState'', GString (gc_CurrentState c)), (''nextState'', GString (gc_NextState c)),
      (''completedStates'', strings (gc_CompletedStates c)), (''failedStates'', strings (gc_FailedStates c)),
      (''completed'', GBool (gc_Completed c)), (''partial'', GBool (gc_Partial c)),
      (''createdAt'', GTime (gc_CreatedAt c)), (''updatedAt'', GTime (gc_UpdatedAt c))] (cf_Name f)) sel"

definition render_ContractEdge :: "CollectedField list \<Rightarrow> ContractEdge \<Rightarrow> gval" where
  "render_ContractEdge sel e = render ''ContractEdge'' (\<lambda>f. value_of
     [(''node'', render_Contract (cf_Selections f) (edge_Node e)), (''cursor'', GString (edge_Cursor e))] (cf_Name f)) sel"

definition render_ContractConnection :: "CollectedField list \<Rightarrow> ContractConnection \<Rightarrow> gval" where
  "render_ContractConnection sel c = render ''ContractConnection'' (\<lambda>f. value_of
     [(''edges'', GArray (map (render_ContractEdge (cf_Selections f)) (Edges c))),
      (''pageInfo'', render_PageInfo (cf_Selections f) (page_Info c))] (cf_Name f)) sel"

text \<open>The values that the schema requires under a selection: the network and the times of a contract.\<close>

definition selects :: "CollectedField list \<Rightarrow> string \<Rightarrow> bool" where
  "selects sel name \<longleftrightarrow> name \<in> cf_Name ` set sel"

definition Contract_complete :: "CollectedField list \<Rightarrow> gql_Contract \<Rightarrow> bool" where
  "Contract_complete sel c \<longleftrightarrow>
     (selects sel ''network'' \<longrightarrow> gc_Network c \<noteq> None) \<and> (selects sel ''createdAt'' \<longrightarrow> gc_CreatedAt c \<noteq> 0)
     \<and> (selects sel ''updatedAt'' \<longrightarrow> gc_UpdatedAt c \<noteq> 0)"

lemma selects_mem: "f \<in> set sel \<Longrightarrow> selects sel (cf_Name f)"
  by (simp add: selects_def)

section \<open>The executor without errors\<close>

lemma recover_return [simp]: "ex_recover rt ctx a (ex_return v) = ex_return v"
  by (simp add: ex_recover_def ex_return_def)

lemma field_got [simp]:
  "field_N rt ctx (got r) marshal = ex_recover rt ctx GNull (marshal ctx r)"
  "field_O rt ctx (got r) marshal = ex_recover rt ctx GNull (marshal ctx r)"
  by (simp_all add: field_N_def field_O_def got_def)

lemma marshal_each_return: "(\<And>v. v \<in> set vs \<Longrightarrow> f v = ex_return (g v)) \<Longrightarrow> marshal_each f vs = ex_return (map g vs)"
  by (induction vs) simp_all

lemma scalars_return:
  assumes "gqlgen_documented rt"
  shows "marshalNBoolean2bool rt ctx b = ex_return (GBool b)" "marshalNInt2int rt ctx i = ex_return (GInt i)"
    "marshalNString2string rt ctx s = ex_return (GString s)" "t \<noteq> 0 \<Longrightarrow> marshalNTime2Time rt ctx t = ex_return (GTime t)"
    "marshalOString2ptr rt ctx p = ex_return (nullable GString p)"
    "marshalNString2slice rt ctx xs = ex_return (strings xs)" "marshalOString2slice rt ctx q = ex_return (nullable strings q)"
proof -
  show s: "marshalNString2string rt ctx s = ex_return (GString s)" for s
    using assms by (simp add: marshalNString2string_def check_null_def documented_marshal)
  show "marshalNString2slice rt ctx xs = ex_return (strings xs)" "marshalOString2slice rt ctx q = ex_return (nullable strings q)"
    by (auto simp: marshalNString2slice_def marshalOString2slice_def marshal_each_return [OF s] strings_def nullable_def
        array_or_null_def split: option.splits)
qed (use assms in \<open>auto simp: marshalNBoolean2bool_def marshalNInt2int_def marshalNTime2Time_def marshalOString2ptr_def
      check_null_def documented_marshal nullable_def split: option.splits\<close>)

lemma object_return:
  assumes "\<And>f. f \<in> set sel \<Longrightarrow> \<exists>nn. switch f = Some (nn, ex_return (g f)) \<and> \<not> (nn \<and> g f = GNull)"
  shows "object_set switch sel = ex_return (GObject (map (\<lambda>f. (cf_Alias f, g f)) sel))"
proof -
  have "field_loop switch sel = ex_return (map (\<lambda>f. (cf_Alias f, g f)) sel, 0)"
    using assms by (induction sel) fastforce+
  then show ?thesis by (simp add: object_set_def)
qed

text \<open>The rule for an object function of type \<open>n\<close>: its switch computes the reference value of every selected field.\<close>

lemma object_renders:
  assumes "gqlgen_documented rt" and "valid_sel n sel"
    and "\<And>f. cf_Name f = ''__typename'' \<Longrightarrow> switch f = typename rt n"
    and "\<And>f t. f \<in> set sel \<Longrightarrow> selects sel (cf_Name f) \<Longrightarrow> field_type n (cf_Name f) = Some t \<Longrightarrow> cf_Name f \<noteq> ''__typename'' \<Longrightarrow> valid_sel (base_type t) (cf_Selections f)
       \<Longrightarrow> \<exists>nn. switch f = Some (nn, ex_return (val f)) \<and> \<not> (nn \<and> val f = GNull)"
  shows "object_set switch sel = ex_return (render n val sel)"
  unfolding render_def
proof (rule object_return)
  fix f assume f: "f \<in> set sel"
  let ?v = "if cf_Name f = ''__typename'' then GString n else val f"
  show "\<exists>nn. switch f = Some (nn, ex_return ?v) \<and> \<not> (nn \<and> ?v = GNull)"
    using assms(3) [of f] assms(4) [OF f selects_mem [OF f]] valid_sel_mem [OF assms(2) f]
    by (auto simp: typename_def documented_marshal [OF assms(1)])
qed

lemma render_neq_GNull [simp]: "render n val sel \<noteq> GNull"
  by (simp add: render_def)

lemma Network_renders:
  assumes "gqlgen_documented rt" and "valid_sel ''Network'' sel"
  shows "ec_Network rt ctx sel n = ex_return (render_Network sel n)"
  unfolding ec_Network_def render_Network_def
  by (rule object_renders [OF assms], simp)
     (auto simp: schema_simps exec_defs scalars_return [OF assms(1)] value_of_def split: if_splits)

lemma PageInfo_renders:
  assumes "gqlgen_documented rt" and "valid_sel ''PageInfo'' sel"
  shows "ec_PageInfo rt ctx sel n = ex_return (render_PageInfo sel n)"
  unfolding ec_PageInfo_def render_PageInfo_def
  by (rule object_renders [OF assms], simp)
     (auto simp: schema_simps exec_defs scalars_return [OF assms(1)] value_of_def split: if_splits)

lemma Network_ptr_renders:
  assumes "gqlgen_documented rt" and "valid_sel ''Network'' sel"
  shows "marshalNNetwork2ptr rt sel ctx (Some n) = ex_return (render_Network sel n)"
  by (simp add: marshalNNetwork2ptr_def marshal_ptr_def Network_renders [OF assms])

lemma Contract_renders:
  assumes "gqlgen_documented rt" and "valid_sel ''Contract'' sel" and "Contract_complete sel c"
  shows "ec_Contract rt ctx sel c = ex_return (render_Contract sel c)"
proof -
  have created: "marshalNTime2Time rt ctx' (gc_CreatedAt c) = ex_return (GTime (gc_CreatedAt c))" if "selects sel ''createdAt''" for ctx'
    using assms(3) that by (simp add: scalars_return(4) [OF assms(1)] Contract_complete_def)
  have updated: "marshalNTime2Time rt ctx' (gc_UpdatedAt c) = ex_return (GTime (gc_UpdatedAt c))" if "selects sel ''updatedAt''" for ctx'
    using assms(3) that by (simp add: scalars_return(4) [OF assms(1)] Contract_complete_def)
  obtain n where n: "selects sel ''network'' \<Longrightarrow> gc_Network c = Some n"
    using assms(3) by (auto simp: Contract_complete_def)
  then have null: "nullable (render_Network ns) (gc_Network c) \<noteq> GNull" if "selects sel ''network''" for ns
    using that by (simp add: nullable_def render_Network_def)
  have network: "marshalNNetwork2ptr rt ns ctx' (gc_Network c) = ex_return (nullable (render_Network ns) (gc_Network c))"
    if "selects sel ''network''" "valid_sel ''Network'' ns" for ns ctx'
    using that n by (simp add: nullable_def Network_ptr_renders [OF assms(1)])
  show ?thesis unfolding ec_Contract_def render_Contract_def
    by (rule object_renders [OF assms(1,2)], simp)
       (auto simp: schema_simps exec_defs scalars_return(1-3,5-) [OF assms(1)] value_of_def strings_def network null created updated
          split: if_splits)
qed

definition Edges_complete :: "CollectedField list \<Rightarrow> ContractEdge \<Rightarrow> bool" where
  "Edges_complete sel e \<longleftrightarrow> (\<forall>f \<in> set sel. cf_Name f = ''node'' \<longrightarrow> Contract_complete (cf_Selections f) (edge_Node e))"

definition Connection_complete :: "CollectedField list \<Rightarrow> ContractConnection \<Rightarrow> bool" where
  "Connection_complete sel c \<longleftrightarrow>
     (\<forall>f \<in> set sel. cf_Name f = ''edges'' \<longrightarrow> (\<forall>e \<in> set (Edges c). Edges_complete (cf_Selections f) e))"

lemma ContractEdge_renders:
  assumes "gqlgen_documented rt" and "valid_sel ''ContractEdge'' sel" and "Edges_complete sel e"
  shows "ec_ContractEdge rt ctx sel e = ex_return (render_ContractEdge sel e)"
proof -
  have node: "marshalNContract2ptr rt (cf_Selections f) ctx' (Some (edge_Node e)) = ex_return (render_Contract (cf_Selections f) (edge_Node e))"
    if "f \<in> set sel" "cf_Name f = ''node''" "valid_sel ''Contract'' (cf_Selections f)" for f ctx'
    using assms(3) that by (simp add: marshalNContract2ptr_def marshal_ptr_def Contract_renders [OF assms(1)] Edges_complete_def)
  show ?thesis unfolding ec_ContractEdge_def render_ContractEdge_def
    by (rule object_renders [OF assms(1,2)], simp)
       (auto simp: schema_simps exec_defs scalars_return [OF assms(1)] value_of_def node render_Contract_def [of "cf_Selections _"] split: if_splits)
qed

lemma marshal_objects_return:
  assumes "\<And>ctx v. v \<in> set vs \<Longrightarrow> f ctx v = ex_return (g v)"
  shows "marshal_objects rt ctx f i vs (Some xs) = ex_return (Some (xs @ map g vs))"
  using assms by (induction vs arbitrary: i xs) (simp_all add: set_element_def)

lemma marshal_slice_return:
  assumes "\<And>ctx v. v \<in> set vs \<Longrightarrow> f ctx v = ex_return (g v)" and "\<And>v. v \<in> set vs \<Longrightarrow> g v \<noteq> GNull"
  shows "marshal_slice rt ctx f vs = ex_return (GArray (map g vs))"
proof -
  have "GNull \<notin> g ` set vs" using assms(2) by (metis imageE)
  then show ?thesis by (simp add: marshal_slice_def marshal_objects_return [OF assms(1)] array_or_null_def)
qed

lemma edges_render:
  assumes "gqlgen_documented rt" and "valid_sel ''ContractEdge'' sel" and "\<forall>e \<in> set es. Edges_complete sel e"
  shows "marshalNContractEdge2slice rt sel ctx (map Some es) = ex_return (GArray (map (render_ContractEdge sel) es))"
proof -
  have "marshal_slice rt ctx (marshalNContractEdge2ptr rt sel) (map Some es)
      = ex_return (GArray (map (\<lambda>v. render_ContractEdge sel (the v)) (map Some es)))"
    by (rule marshal_slice_return)
       (use assms(3) in \<open>auto simp: marshalNContractEdge2ptr_def marshal_ptr_def ContractEdge_renders [OF assms(1,2)] render_ContractEdge_def\<close>)
  then show ?thesis by (simp add: marshalNContractEdge2slice_def comp_def)
qed

lemma ContractConnection_renders:
  assumes "gqlgen_documented rt" and "valid_sel ''ContractConnection'' sel" and "Connection_complete sel c"
  shows "ec_ContractConnection rt ctx sel c = ex_return (render_ContractConnection sel c)"
proof -
  have edges: "marshalNContractEdge2slice rt (cf_Selections f) ctx' (map Some (Edges c))
      = ex_return (GArray (map (render_ContractEdge (cf_Selections f)) (Edges c)))"
    if "f \<in> set sel" "cf_Name f = ''edges''" "valid_sel ''ContractEdge'' (cf_Selections f)" for f ctx'
    using assms(3) that by (intro edges_render [OF assms(1)]) (auto simp: Connection_complete_def)
  show ?thesis unfolding ec_ContractConnection_def render_ContractConnection_def
    by (rule object_renders [OF assms(1,2)], simp)
       (auto simp: schema_simps exec_defs value_of_def edges marshalNPageInfo2ptr_def marshal_ptr_def PageInfo_renders [OF assms(1)]
          render_PageInfo_def [of "cf_Selections _"] split: if_splits)
qed

section \<open>The contracts query from the rows to the response\<close>

lemma field_type_names: "field_type n name = Some t \<Longrightarrow> name \<noteq> [] \<and> CHR ''.'' \<notin> set name"
  by (auto simp: schema_simps split: if_splits)

lemma valid_sel_names_ok: "valid_sel n sel \<Longrightarrow> names_ok sel"
  by (induction n sel rule: valid_sel.induct) (auto split: option.splits dest: field_type_names)

lemma scan_row_times: "scan_row cd r = Inr c \<Longrightarrow> c_CreatedAt c = r_created_at r \<and> c_UpdatedAt c = r_updated_at r"
  by (auto simp: scan_row_def split: sum.splits)

text \<open>Every row has the times that the query asks for.\<close>

definition times_set :: "CollectedField list \<Rightarrow> contracts_db \<Rightarrow> bool" where
  "times_set columns db \<longleftrightarrow>
     (\<forall>r \<in> set (db_rows db).
        (''edges.node.createdAt'' \<in> set (GetPreloads columns) \<longrightarrow> r_created_at r \<noteq> 0)
        \<and> (''edges.node.updatedAt'' \<in> set (GetPreloads columns) \<longrightarrow> r_updated_at r \<noteq> 0))"

text \<open>A field selected on the contracts is in the list of preloads that the resolver looks at.\<close>

lemma selected_preloaded:
  assumes "valid_sel n columns" and "f \<in> set columns" and "cf_Name f = ''edges''" and "g \<in> set (cf_Selections f)"
    and "cf_Name g = ''node''" and "selects (cf_Selections g) x"
  shows "''edges.node.'' @ x \<in> set (GetPreloads columns)"
proof -
  obtain h where h: "h \<in> set (cf_Selections g)" "cf_Name h = x" using assms(6) by (auto simp: selects_def)
  have "field_path columns [''edges'', ''node'', x]"
    using assms h by (cases f, cases g, cases h) (auto intro!: field_path.intros)
  then have "GetPreloadString [] (strings_Join [''edges'', ''node'', x] ''.'') \<in> set (GetNestedPreloads columns [])"
    using GetNestedPreloads_paths [OF valid_sel_names_ok [OF assms(1)], of "[]"] by blast
  then show ?thesis by (simp add: GetPreloads_def GetPreloadString_def)
qed

lemma edge_complete:
  assumes "valid_sel ''ContractConnection'' columns" and "f \<in> set columns" and "cf_Name f = ''edges''"
    and "edge_for ge columns r e" and "r \<in> set (db_rows db)" and "times_set columns db"
  shows "Edges_complete (cf_Selections f) e"
  unfolding Edges_complete_def Contract_complete_def
proof (intro ballI impI)
  fix g assume g: "g \<in> set (cf_Selections f)" "cf_Name g = ''node''"
  note pre = selected_preloaded [OF assms(1-3) g]
  obtain c network where c: "scan_row (gr_codec ge) r = Inr c" "edge_Node e = to_gql_Contract ge network c"
    "network \<noteq> None \<longleftrightarrow> ''edges.node.network'' \<in> set (GetPreloads columns)" using assms(4) by (auto simp: edge_for_def)
  have "selects (cf_Selections g) ''network'' \<longrightarrow> network \<noteq> None"
    using pre [of "''network''"] c(3) by simp
  moreover have "selects (cf_Selections g) ''createdAt'' \<longrightarrow> r_created_at r \<noteq> 0"
    using pre [of "''createdAt''"] assms(5,6) by (auto simp: times_set_def)
  moreover have "selects (cf_Selections g) ''updatedAt'' \<longrightarrow> r_updated_at r \<noteq> 0"
    using pre [of "''updatedAt''"] assms(5,6) by (auto simp: times_set_def)
  ultimately show "(selects (cf_Selections g) ''network'' \<longrightarrow> gc_Network (edge_Node e) \<noteq> None)
      \<and> (selects (cf_Selections g) ''createdAt'' \<longrightarrow> gc_CreatedAt (edge_Node e) \<noteq> 0)
      \<and> (selects (cf_Selections g) ''updatedAt'' \<longrightarrow> gc_UpdatedAt (edge_Node e) \<noteq> 0)"
    using scan_row_times [OF c(1)] c(2) by (simp add: to_gql_Contract_def Let_def)
qed

lemma edge_for_rows: "list_all2 (edge_for ge columns) rs es \<Longrightarrow> e \<in> set es \<Longrightarrow> \<exists>r \<in> set rs. edge_for ge columns r e"
  by (induction rs es rule: list_all2_induct) auto

lemma edge_of_row: "list_all2 (edge_for ge columns) rs es \<Longrightarrow> r \<in> set rs \<Longrightarrow> \<exists>e \<in> set es. edge_for ge columns r e"
  by (induction rs es rule: list_all2_induct) auto

text \<open>A query with one contracts field runs the resolver and renders the connection it answers.\<close>

lemma contracts_query_runs:
  assumes "field_Query_contracts_args rt [PName al] args = Inr a"
    and "Query_Contracts rs sel (ca_networkIds a) (ca_blockNumbers a) (ca_blockHashes a) (ca_transactionHashes a)
       (ca_addresses a) (ca_limit a) (ca_first a) (ca_after a) s = Returns (Inr (Some conn), s')"
    and "ec_ContractConnection rt [PName al] sel conn (e, s') = Returns (v, e', s'')"
  shows "ec_Query rt ix rs [] [CollectedField al ''contracts'' args sel] (e, s)
     = Returns (if v = GNull then GNull else GObject [(al, v)], e', s'')"
  using assms
  by (auto simp: ec_Query_def ec_Query_contracts_def fieldContext_Query_contracts_def root_field_def field_args_def
      WithFieldContext_def Let_def ex_bind_def [of "ex_recover _ _ _ _"] ex_recover_def field_N_def ex_bind_def ex_return_def
      resolver_call_def marshalNContractConnection2ptr_def marshal_ptr_def)

lemma valid_sel_contracts:
  "valid_sel ''Query'' [CollectedField al ''contracts'' args sel] \<longleftrightarrow> valid_sel ''ContractConnection'' sel"
  by (simp add: schema_simps)

lemma Resolver_contracts_page:
  assumes "limit_documented ge" and "db_faults (w_db w) = Background" and "servable ge sel (w_db w)"
    and "ca_limit a = Some l" and "0 < l" and "l < 2 ^ 63" and "cursor_position (ca_after a) = Inr k"
  shows "\<exists>es. Query_Contracts (Resolver js ge nt) sel (ca_networkIds a) (ca_blockNumbers a) (ca_blockHashes a)
         (ca_transactionHashes a) (ca_addresses a) (ca_limit a) (ca_first a) (ca_after a) w
       = Returns (Inr (Some \<lparr>Edges = es, page_Info = page_info l es\<rparr>), w)
     \<and> list_all2 (edge_for ge sel) (take (nat l) (matching (slice_of (ca_networkIds a)) (slice_of (ca_blockNumbers a))
         (slice_of (ca_blockHashes a)) (slice_of (ca_transactionHashes a)) (slice_of (ca_addresses a)) k (w_db w))) es"
proof -
  from resolveContracts_page [OF assms(1-3,5-7)] obtain es where
    "resolveContracts ge sel (slice_of (ca_networkIds a)) (slice_of (ca_blockNumbers a)) (slice_of (ca_blockHashes a))
       (slice_of (ca_transactionHashes a)) (slice_of (ca_addresses a)) (Some l) (ca_first a) (ca_after a) (w_db w)
     = Returns (Inr \<lparr>Edges = es, page_Info = page_info l es\<rparr>, w_db w)"
    "list_all2 (edge_for ge sel) (take (nat l) (matching (slice_of (ca_networkIds a)) (slice_of (ca_blockNumbers a))
         (slice_of (ca_blockHashes a)) (slice_of (ca_transactionHashes a)) (slice_of (ca_addresses a)) k (w_db w))) es" by blast
  then show ?thesis using assms(4) by (auto simp: Resolver_def queryResolver_Contracts_def)
qed

lemma page_complete:
  assumes "valid_sel ''ContractConnection'' sel" and "times_set sel db" and "set rs \<subseteq> set (db_rows db)"
    and "list_all2 (edge_for ge sel) rs es"
  shows "Connection_complete sel \<lparr>Edges = es, page_Info = p\<rparr>"
  unfolding Connection_complete_def
proof (intro ballI impI)
  fix f e assume f: "f \<in> set sel" "cf_Name f = ''edges''" and "e \<in> set (Edges \<lparr>Edges = es, page_Info = p\<rparr>)"
  with edge_for_rows [OF assms(4)] obtain r where "r \<in> set rs" "edge_for ge sel r e" by auto
  then show "Edges_complete (cf_Selections f) e" using edge_complete [OF assms(1) f] assms(2,3) by blast
qed

section \<open>Null times\<close>

text \<open>\<open>nonblocking m\<close>: \<open>m\<close> does not block. Without resolvers the executor never does.\<close>

definition nonblocking :: "('a, 'e, 's) ex \<Rightarrow> bool" where
  "nonblocking m \<longleftrightarrow> (\<forall>es es'. m es \<noteq> Blocks es')"

lemma nonblocking_basic:
  "nonblocking (ex_return a)" "nonblocking ex_panic" "nonblocking (ex_error rt ctx err a)" "nonblocking (ex_error_once rt ctx msg a)"
  by (auto simp: nonblocking_def ex_return_def ex_panic_def ex_error_def ex_error_once_def)

lemma nonblocking_bind: "nonblocking m \<Longrightarrow> (\<And>a. nonblocking (f a)) \<Longrightarrow> nonblocking (ex_bind m f)"
  by (auto simp: nonblocking_def ex_bind_def go_bind_def split: go.splits)

lemma nonblocking_recover: "nonblocking m \<Longrightarrow> nonblocking (ex_recover rt ctx a m)"
  by (auto simp: nonblocking_def ex_recover_def ex_error_def split: go.splits)

lemma nonblocking_marshal_each: "(\<And>v. nonblocking (f v)) \<Longrightarrow> nonblocking (marshal_each f vs)"
  by (induction vs) (auto intro!: nonblocking_basic nonblocking_bind)

lemma nonblocking_set_element: "nonblocking (set_element ret x)"
  by (auto simp: set_element_def nonblocking_basic split: option.splits)

lemma nonblocking_marshal_objects: "(\<And>ctx v. nonblocking (f ctx v)) \<Longrightarrow> nonblocking (marshal_objects rt ctx f i vs ret)"
  by (induction vs arbitrary: i ret) (auto simp: Let_def intro!: nonblocking_bind nonblocking_recover nonblocking_set_element nonblocking_basic)

lemma nonblocking_marshal:
  "(\<And>ctx v. nonblocking (f ctx v)) \<Longrightarrow> nonblocking (marshal_slice rt ctx f vs)" "(\<And>v. nonblocking (g v)) \<Longrightarrow> nonblocking (marshal_ptr rt ctx g p)"
  by (auto simp: marshal_slice_def marshal_ptr_def intro!: nonblocking_bind nonblocking_basic nonblocking_marshal_objects split: option.splits)

lemma nonblocking_scalars:
  "nonblocking (marshalNBoolean2bool rt ctx b)" "nonblocking (marshalNInt2int rt ctx i)" "nonblocking (marshalNString2string rt ctx str)"
  "nonblocking (marshalNTime2Time rt ctx t)" "nonblocking (marshalOString2ptr rt ctx p)" "nonblocking (marshalNString2slice rt ctx xs)"
  "nonblocking (marshalOString2slice rt ctx q)"
  by (auto simp: marshalNBoolean2bool_def marshalNInt2int_def marshalNString2string_def marshalNTime2Time_def marshalOString2ptr_def
      marshalNString2slice_def marshalOString2slice_def check_null_def intro!: nonblocking_basic nonblocking_bind nonblocking_marshal_each split: option.splits)

lemma nonblocking_object:
  assumes "\<And>f nn m. switch f = Some (nn, m) \<Longrightarrow> nonblocking m"
  shows "nonblocking (object_set switch sel)"
proof -
  have "nonblocking (field_loop switch sel)"
    by (induction sel) (auto intro!: nonblocking_basic nonblocking_bind assms split: option.splits)
  then show ?thesis by (auto simp: object_set_def intro!: nonblocking_bind nonblocking_basic)
qed

lemma nonblocking_types:
  "nonblocking (ec_PageInfo rt ctx sel p)" "nonblocking (ec_Network rt ctx sel n)"
  by (auto simp: ec_PageInfo_def ec_Network_def exec_defs typename_def intro!: nonblocking_object nonblocking_recover nonblocking_scalars nonblocking_basic split: if_splits)

lemma nonblocking_Contract: "nonblocking (ec_Contract rt ctx sel c)"
  unfolding ec_Contract_def
  by (rule nonblocking_object)
     (auto simp: exec_defs typename_def marshalNNetwork2ptr_def intro!: nonblocking_recover nonblocking_scalars nonblocking_basic nonblocking_marshal nonblocking_types split: if_splits)

lemma nonblocking_ContractEdge: "nonblocking (ec_ContractEdge rt ctx sel c)"
  unfolding ec_ContractEdge_def
  by (rule nonblocking_object)
     (auto simp: exec_defs typename_def marshalNContract2ptr_def intro!: nonblocking_recover nonblocking_scalars nonblocking_basic nonblocking_marshal nonblocking_Contract split: if_splits)

lemma nonblocking_ContractConnection: "nonblocking (ec_ContractConnection rt ctx sel c)"
  unfolding ec_ContractConnection_def
  by (rule nonblocking_object)
     (auto simp: exec_defs typename_def marshalNContractEdge2slice_def marshalNContractEdge2ptr_def marshalNPageInfo2ptr_def
        intro!: nonblocking_recover nonblocking_basic nonblocking_marshal nonblocking_types nonblocking_ContractEdge split: if_splits)

text \<open>\<open>nulls m\<close>: whatever \<open>m\<close> returns, it is null. A null travels up through non-null positions.\<close>

definition nulls :: "(gval, 'e, 's) ex \<Rightarrow> bool" where
  "nulls m \<longleftrightarrow> (\<forall>es v es'. m es = Returns (v, es') \<longrightarrow> v = GNull)"

lemma nullsD: "nulls m \<Longrightarrow> m es = Returns (v, es') \<Longrightarrow> v = GNull"
  unfolding nulls_def by blast

lemma nulls_recover: "nulls m \<Longrightarrow> nulls (ex_recover rt ctx GNull m)"
  by (auto simp: nulls_def ex_recover_def ex_error_def split: go.splits prod.splits)

lemma field_loop_ConsD:
  assumes "field_loop switch (g # gs) es = Returns ((out, k), es')"
  shows "\<exists>nn m v es1 out' k'. switch g = Some (nn, m) \<and> m es = Returns (v, es1)
     \<and> field_loop switch gs es1 = Returns ((out', k'), es') \<and> k = (if nn \<and> v = GNull then Suc k' else k')"
  using assms
  by (auto simp: ex_bind_def ex_panic_def ex_return_def go_bind_Returns_iff split: option.splits prod.splits)

lemma nulls_object:
  assumes "f \<in> set sel" and "switch f = Some (True, m)" and "nulls m"
  shows "nulls (object_set switch sel)"
proof -
  have "0 < k" if "field_loop switch sel es = Returns ((out, k), es')" for es out k es'
    using assms(1) that
  proof (induction sel arbitrary: es out k es')
    case (Cons g gs)
    from field_loop_ConsD [OF Cons.prems(2)] obtain nn m' v es1 out' k' where
      g: "switch g = Some (nn, m')" "m' es = Returns (v, es1)" "field_loop switch gs es1 = Returns ((out', k'), es')"
      "k = (if nn \<and> v = GNull then Suc k' else k')" by blast
    show ?case
    proof (cases "f = g")
      case True
      then have "nn" "v = GNull" using assms(2) g(1) nullsD [OF assms(3)] g(2) by auto
      then show ?thesis using g(4) by simp
    next
      case False
      then show ?thesis using Cons g(3,4) by (auto split: if_splits)
    qed
  qed simp
  then show ?thesis by (fastforce simp: nulls_def object_set_def ex_bind_def ex_return_def go_bind_Returns_iff split: if_splits)
qed

lemma marshal_objects_ConsD:
  assumes "\<And>es'. f (ctx @ [PIndex i]) v es \<noteq> Panics es'"
    and "marshal_objects rt ctx f i (v # vs) (Some xs) es = Returns (r, es')"
  shows "\<exists>u es1. f (ctx @ [PIndex i]) v es = Returns (u, es1)
     \<and> marshal_objects rt ctx f (Suc i) vs (Some (xs @ [u])) es1 = Returns (r, es')"
proof (cases "f (ctx @ [PIndex i]) v es")
  case (Returns a)
  then show ?thesis using assms(2) by (cases a) (simp add: Let_def ex_bind_def ex_recover_def set_element_def ex_return_def)
qed (use assms in \<open>auto simp: Let_def ex_bind_def ex_recover_def\<close>)

lemma marshal_objects_null:
  assumes "\<And>ctx v es es'. f ctx v es \<noteq> Panics es'" and "\<And>ctx. nulls (f ctx x)"
    and "marshal_objects rt ctx f i vs (Some xs) es = Returns (r, es')"
  shows "\<exists>ys. r = Some (xs @ ys) \<and> (x \<in> set vs \<longrightarrow> GNull \<in> set ys)"
  using assms(3)
proof (induction vs arbitrary: i xs es)
  case (Cons v vs)
  from marshal_objects_ConsD [OF assms(1) Cons.prems] obtain u es1 where u: "f (ctx @ [PIndex i]) v es = Returns (u, es1)"
    "marshal_objects rt ctx f (Suc i) vs (Some (xs @ [u])) es1 = Returns (r, es')" by blast
  from Cons.IH [OF u(2)] obtain ys where "r = Some (xs @ u # ys)" "x \<in> set vs \<longrightarrow> GNull \<in> set ys" by auto
  moreover have "x = v \<longrightarrow> u = GNull" using nullsD [OF assms(2)] u(1) by blast
  ultimately show ?case by auto
qed (auto simp: ex_return_def)

lemma nulls_slice:
  assumes "\<And>ctx v es es'. f ctx v es \<noteq> Panics es'" and "x \<in> set vs" and "\<And>ctx. nulls (f ctx x)"
  shows "nulls (marshal_slice rt ctx f vs)"
  unfolding nulls_def
proof (intro allI impI)
  fix es v es' assume "marshal_slice rt ctx f vs es = Returns (v, es')"
  then obtain r where r: "marshal_objects rt ctx f 0 vs (Some []) es = Returns (r, es')"
    "v = (case r of None \<Rightarrow> GArray [] | Some xs \<Rightarrow> array_or_null xs)"
    by (auto simp: marshal_slice_def ex_bind_def ex_return_def go_bind_Returns_iff)
  have "\<exists>ys. r = Some ([] @ ys) \<and> (x \<in> set vs \<longrightarrow> GNull \<in> set ys)"
    by (rule marshal_objects_null [where f = f, OF assms(1,3) r(1)])
  with r(2) assms(2) show "v = GNull" by (auto simp: array_or_null_def)
qed

text \<open>The field \<open>updatedAt\<close> of a contract whose time was never set.\<close>

lemma updatedAt_nulls:
  assumes "gqlgen_documented rt" and "gc_UpdatedAt c = 0"
  shows "nulls (ec_Contract_updatedAt rt ctx f c)"
proof -
  have "nulls (marshalNTime2Time rt ctx' 0 :: (gval, 'a, 'c) ex)" for ctx'
    using assms(1) by (auto simp: nulls_def marshalNTime2Time_def check_null_def documented_marshal ex_error_once_def ex_error_def
        split: if_splits)
  then show ?thesis using assms(2) by (auto simp: ec_Contract_updatedAt_def intro!: nulls_recover)
qed

lemma Contract_nulls:
  assumes "gqlgen_documented rt" and "gc_UpdatedAt c = 0" and "selects sel ''updatedAt''"
  shows "nulls (ec_Contract rt ctx sel c)"
proof -
  obtain f where "f \<in> set sel" "cf_Name f = ''updatedAt''" using assms(3) by (auto simp: selects_def)
  then show ?thesis unfolding ec_Contract_def
    by (intro nulls_object [where f = f and m = "ec_Contract_updatedAt rt ctx f c"] updatedAt_nulls assms) simp_all
qed

lemma ContractEdge_nulls:
  assumes "gqlgen_documented rt" and "gc_UpdatedAt (edge_Node e) = 0"
    and "g \<in> set sel" and "cf_Name g = ''node''" and "selects (cf_Selections g) ''updatedAt''"
  shows "nulls (ec_ContractEdge rt ctx sel e)"
proof -
  have "nulls (ec_ContractEdge_node rt ctx g e)"
    by (auto simp: ec_ContractEdge_node_def marshalNContract2ptr_def marshal_ptr_def intro!: nulls_recover Contract_nulls assms)
  then show ?thesis unfolding ec_ContractEdge_def
    by (intro nulls_object [OF assms(3), where m = "ec_ContractEdge_node rt ctx g e"]) (simp_all add: assms(4))
qed

lemma ContractConnection_nulls:
  fixes rt :: "'e gqlgen"
  assumes "gqlgen_documented rt" and "valid_sel ''ContractConnection'' sel"
    and "e \<in> set (Edges c)" and "gc_UpdatedAt (edge_Node e) = 0"
    and "f \<in> set sel" and "cf_Name f = ''edges''" and "g \<in> set (cf_Selections f)" and "cf_Name g = ''node''"
    and "selects (cf_Selections g) ''updatedAt''"
  shows "nulls (ec_ContractConnection rt ctx sel c :: (gval, 'e, 's) ex)"
proof -
  have v: "valid_sel ''ContractEdge'' (cf_Selections f)"
    using valid_sel_mem [OF assms(2,5)] assms(6) by (auto simp: schema_simps)
  have "nulls (marshalNContractEdge2slice rt (cf_Selections f) ctx' (map Some (Edges c)) :: (gval, 'e, 's) ex)" for ctx'
    unfolding marshalNContractEdge2slice_def
  proof (rule nulls_slice)
    show "Some e \<in> set (map Some (Edges c))" using assms(3) by simp
    show "nulls (marshalNContractEdge2ptr rt (cf_Selections f) ctx'' (Some e))" for ctx''
      using ContractEdge_nulls [OF assms(1,4,7-9)] by (simp add: marshalNContractEdge2ptr_def marshal_ptr_def)
    fix ctx'' v and es es' :: "'e \<times> 's"
    have "runs rt (ok_val (cf_Selections f) (NonNull (Named ''ContractEdge''))) False
        (marshalNContractEdge2ptr rt (cf_Selections f) ctx'' v :: (gval, 'e, 's) ex)"
      unfolding marshalNContractEdge2ptr_def by (rule runs_marshal_ptr [OF assms(1) runs_ContractEdge [OF assms(1) v]])
    from runs_Panics [OF this] show "marshalNContractEdge2ptr rt (cf_Selections f) ctx'' v es \<noteq> Panics es'"
      by (cases es, cases es') auto
  qed
  then have "nulls (ec_ContractConnection_edges rt ctx f c :: (gval, 'e, 's) ex)"
    by (auto simp: ec_ContractConnection_edges_def intro!: nulls_recover)
  then show ?thesis unfolding ec_ContractConnection_def
    by (intro nulls_object [OF assms(5), where m = "ec_ContractConnection_edges rt ctx f c"]) (simp_all add: assms(6))
qed

lemma ContractConnection_null:
  fixes rt :: "'e gqlgen" and s :: 's
  assumes "gqlgen_documented rt" and "valid_sel ''ContractConnection'' sel"
    and "nulls (ec_ContractConnection rt ctx sel c :: (gval, 'e, 's) ex)"
  shows "\<exists>e' s'. ec_ContractConnection rt ctx sel c (e, s) = Returns (GNull, e', s') \<and> GetErrors rt e' \<noteq> []"
proof (cases "ec_ContractConnection rt ctx sel c (e, s)")
  case (Returns r)
  obtain v e' s' where r: "r = (v, e', s')" by (cases r)
  have "v = GNull" by (rule nullsD [OF assms(3) Returns [unfolded r]])
  moreover from runs_Returns [OF runs_ContractConnection [OF assms(1,2)] Returns [unfolded r]]
  have "ok_val sel (NonNull (Named ''ContractConnection'')) v (failed rt e')" by simp
  ultimately show ?thesis using Returns r by (simp add: ok_val_def failed_def)
next
  case (Panics es)
  then obtain e' s' where "ec_ContractConnection rt ctx sel c (e, s) = Panics (e', s')" by (cases es) simp
  from runs_Panics [OF runs_ContractConnection [OF assms(1,2)] this] show ?thesis by simp
next
  case (Blocks es)
  then show ?thesis using nonblocking_ContractConnection [unfolded nonblocking_def] by blast
qed

lemma contracts_query_page:
  assumes "gqlgen_documented rt" and "limit_documented ge" and "db_faults (w_db w) = Background" and "servable ge sel (w_db w)"
    and "times_set sel (w_db w)" and "valid_sel ''Query'' [CollectedField al ''contracts'' args sel]"
    and "field_Query_contracts_args rt [PName al] args = Inr a" and "ca_limit a = Some l" and "0 < l" and "l < 2 ^ 63"
    and "cursor_position (ca_after a) = Inr k"
  shows "\<exists>es. ec_Query rt ix (Resolver js ge nt) [] [CollectedField al ''contracts'' args sel] (e, w)
       = Returns (GObject [(al, render_ContractConnection sel \<lparr>Edges = es, page_Info = page_info l es\<rparr>)], e, w)
     \<and> list_all2 (edge_for ge sel) (take (nat l) (matching (slice_of (ca_networkIds a)) (slice_of (ca_blockNumbers a))
         (slice_of (ca_blockHashes a)) (slice_of (ca_transactionHashes a)) (slice_of (ca_addresses a)) k (w_db w))) es"
proof -
  note valid = assms(6) [unfolded valid_sel_contracts]
  from Resolver_contracts_page [OF assms(2-4,8-11), of js nt] obtain es where
    q: "Query_Contracts (Resolver js ge nt) sel (ca_networkIds a) (ca_blockNumbers a) (ca_blockHashes a)
         (ca_transactionHashes a) (ca_addresses a) (ca_limit a) (ca_first a) (ca_after a) w
       = Returns (Inr (Some \<lparr>Edges = es, page_Info = page_info l es\<rparr>), w)"
    and es: "list_all2 (edge_for ge sel) (take (nat l) (matching (slice_of (ca_networkIds a)) (slice_of (ca_blockNumbers a))
         (slice_of (ca_blockHashes a)) (slice_of (ca_transactionHashes a)) (slice_of (ca_addresses a)) k (w_db w))) es" by blast
  have "Connection_complete sel \<lparr>Edges = es, page_Info = page_info l es\<rparr>"
    by (rule page_complete [OF valid assms(5) _ es]) (use matching_subset set_take_subset in fastforce)
  then have "ec_ContractConnection rt [PName al] sel \<lparr>Edges = es, page_Info = page_info l es\<rparr> (e, w)
      = Returns (render_ContractConnection sel \<lparr>Edges = es, page_Info = page_info l es\<rparr>, e, w)"
    by (simp add: ContractConnection_renders [OF assms(1) valid] ex_return_def)
  from contracts_query_runs [OF assms(7) q this] es show ?thesis by (auto simp: render_ContractConnection_def)
qed

lemma row_on_page:
  assumes "db_wf db" and "r \<in> set (db_rows db)" and "r_network_id r \<in> set ns" and "r_block_number r \<in> set bs"
    and "length (db_rows db) \<le> nat l"
  shows "r \<in> set (take (nat l) (matching ns bs [] [] [] 0 db))"
proof -
  have "1 \<le> r_id r" using assms(1,2) by (simp add: db_wf_def)
  with assms(2-4) have "r \<in> set (matching ns bs [] [] [] 0 db)" by (auto simp: matching_def contracts_where_def optional_in_def big_Int64_def go_int64_def)
  moreover have "length (matching ns bs [] [] [] 0 db) \<le> nat l"
    using assms(5) by (auto simp: matching_def intro: order_trans [OF length_filter_le])
  ultimately show ?thesis by simp
qed

lemma edge_for_node: "edge_for ge columns r e \<Longrightarrow> scan_row (gr_codec ge) r = Inr c \<Longrightarrow> \<exists>n. edge_Node e = to_gql_Contract ge n c"
  by (auto simp: edge_for_def)

text \<open>A stored row is on the page of the queries for its network and block.\<close>

lemma stored_row_queryable:
  assumes "gqlgen_documented rt" and "limit_documented ge" and "db_faults (w_db w) = Background" and "servable ge sel (w_db w)"
    and "times_set sel (w_db w)" and "valid_sel ''Query'' [CollectedField al ''contracts'' args sel]"
    and "field_Query_contracts_args rt [PName al] args = Inr a" and "ca_limit a = Some l" and "0 < l" and "l < 2 ^ 63"
    and "ca_after a = None" and "int (length (db_rows (w_db w))) \<le> l" and "db_wf (w_db w)"
    and "r \<in> set (db_rows (w_db w))" and "scan_row (gr_codec ge) r = Inr c"
    and "r_network_id r \<in> set (slice_of (ca_networkIds a))" and "r_block_number r \<in> set (slice_of (ca_blockNumbers a))"
    and "slice_of (ca_blockHashes a) = []" and "slice_of (ca_transactionHashes a) = []" and "slice_of (ca_addresses a) = []"
  shows "\<exists>es x n. ec_Query rt ix (Resolver js ge nt) [] [CollectedField al ''contracts'' args sel] (e, w)
       = Returns (GObject [(al, render_ContractConnection sel \<lparr>Edges = es, page_Info = page_info l es\<rparr>)], e, w)
     \<and> x \<in> set es \<and> edge_Node x = to_gql_Contract ge n c"
proof -
  have "cursor_position (ca_after a) = Inr 0" using assms(11) by (simp add: cursor_position_def)
  from contracts_query_page [OF assms(1-10) this, of ix js nt e] obtain es where
    q: "ec_Query rt ix (Resolver js ge nt) [] [CollectedField al ''contracts'' args sel] (e, w)
       = Returns (GObject [(al, render_ContractConnection sel \<lparr>Edges = es, page_Info = page_info l es\<rparr>)], e, w)"
    and es: "list_all2 (edge_for ge sel) (take (nat l) (matching (slice_of (ca_networkIds a)) (slice_of (ca_blockNumbers a))
         [] [] [] 0 (w_db w))) es" by (auto simp: assms(18-20))
  have "r \<in> set (take (nat l) (matching (slice_of (ca_networkIds a)) (slice_of (ca_blockNumbers a)) [] [] [] 0 (w_db w)))"
    by (rule row_on_page [OF assms(13,14,16,17)]) (use assms(12) in simp)
  from edge_of_row [OF es this] obtain x where "x \<in> set es" "edge_for ge sel r x" by blast
  with q edge_for_node [OF _ assms(15)] show ?thesis by blast
qed

section \<open>An instance\<close>

definition no_json :: json where
  "no_json = \<lparr>MarshalUnpack = (\<lambda>e. Inl (Errorf ''no'')), json_Unmarshal = (\<lambda>_. Inl (Errorf ''no''))\<rparr>"

definition no_broker :: "'w broker" where
  "no_broker = \<lparr>SubscribeSync = (\<lambda>_. Some (Errorf ''no'')), nats_Publish = (\<lambda>_ _ w. (Some (Errorf ''no''), w)),
     NextMsg = (\<lambda>_ w. (Inl (Errorf ''no''), w))\<rparr>"

definition page_world :: "(string \<rightharpoonup> byte list, string) world" where
  "page_world = \<lparr>w_sync = state_New Map.empty, w_db = page_db, w_files = (\<lambda>_. None), w_clock = (\<lambda>_. 7),
     w_published = [], w_tasks = []\<rparr>"

text \<open>A page of one contract with the given fields of the contract.\<close>

definition node_query :: "CollectedField list \<Rightarrow> CollectedField list" where
  "node_query sel = [CollectedField ''edges'' ''edges'' [] [CollectedField ''node'' ''node'' [] sel]]"

definition first_page :: "(string \<times> raw_arg) list" where
  "first_page = [(''limit'', Raw_int 1)]"

definition first_page_args :: contracts_args where
  "first_page_args = \<lparr>ca_networkIds = None, ca_blockNumbers = None, ca_blockHashes = None, ca_transactionHashes = None,
     ca_addresses = None, ca_limit = Some 1, ca_first = None, ca_after = None\<rparr>"

lemma first_page_parsed: "field_Query_contracts_args plain_gqlgen [PName ''page''] first_page = Inr first_page_args"
  by code_simp

lemma page_world_db [simp]: "w_db page_world = page_db"
  by (simp add: page_world_def)

lemma page_matching: "take (Suc 0) (matching [] [] [] [] [] 0 page_db) = [hd (db_rows page_db)]"
  by code_simp

section \<open>Properties\<close>

text \<open>The executor equals the reference rendering: on a connection whose contracts have the network and the times
  that the selection asks for, executing the selection returns the selected values under their aliases and
  records no error.\<close>

theorem connection_matches_reference:
  assumes "gqlgen_documented rt" and "valid_sel ''ContractConnection'' sel" and "Connection_complete sel conn"
  shows "ec_ContractConnection rt ctx sel conn (e, s) = Returns (render_ContractConnection sel conn, e, s)"
  by (simp add: ContractConnection_renders [OF assms] ex_return_def)

theorem connection_matches_reference_witness:
  "ec_ContractConnection plain_gqlgen [] [CollectedField ''p'' ''pageInfo'' [] [CollectedField ''more'' ''hasNextPage'' [] []]]
     \<lparr>Edges = [], page_Info = page_info 3 []\<rparr> ([], 0)
   = Returns (GObject [(''p'', GObject [(''more'', GBool False)])], [], 0)"
proof -
  let ?sel = "[CollectedField ''p'' ''pageInfo'' [] [CollectedField ''more'' ''hasNextPage'' [] []]]"
  have "valid_sel ''ContractConnection'' ?sel" "Connection_complete ?sel \<lparr>Edges = [], page_Info = page_info 3 []\<rparr>"
    by (simp_all add: schema_simps Connection_complete_def)
  moreover have "render_ContractConnection ?sel \<lparr>Edges = [], page_Info = page_info 3 []\<rparr>
      = GObject [(''p'', GObject [(''more'', GBool False)])]" by code_simp
  ultimately show ?thesis
    using connection_matches_reference [OF plain_gqlgen_documented, of ?sel "\<lparr>Edges = [], page_Info = page_info 3 []\<rparr>" "[]" "[]" 0]
    by simp
qed

text \<open>C13. The contracts query from the stored rows to the response: with the resolvers of the service, no engine failure,
  decodable rows of configured networks and times that are set where the query asks for them, the response is
  the rendered page of the first \<open>limit\<close> matching contracts after the cursor, and no error is recorded; in
  particular a selected network is always present.\<close>

theorem contracts_query_answers_page:
  assumes "gqlgen_documented rt" and "limit_documented ge" and "db_faults (w_db w) = Background" and "servable ge sel (w_db w)"
    and "times_set sel (w_db w)" and "valid_sel ''Query'' [CollectedField al ''contracts'' args sel]"
    and "field_Query_contracts_args rt [PName al] args = Inr a" and "ca_limit a = Some l" and "0 < l" and "l < 2 ^ 63"
    and "cursor_position (ca_after a) = Inr k"
  shows "\<exists>es. ec_Query rt ix (Resolver js ge nt) [] [CollectedField al ''contracts'' args sel] (e, w)
       = Returns (GObject [(al, render_ContractConnection sel \<lparr>Edges = es, page_Info = page_info l es\<rparr>)], e, w)
     \<and> list_all2 (edge_for ge sel) (take (nat l) (matching (slice_of (ca_networkIds a)) (slice_of (ca_blockNumbers a))
         (slice_of (ca_blockHashes a)) (slice_of (ca_transactionHashes a)) (slice_of (ca_addresses a)) k (w_db w))) es"
  by (rule contracts_query_page [OF assms])

theorem contracts_query_answers_page_witness:
  "\<exists>es. ec_Query plain_gqlgen no_introspection (Resolver no_json plain_graph no_broker) []
         [CollectedField ''page'' ''contracts'' first_page network_query] ([], page_world)
       = Returns (GObject [(''page'', render_ContractConnection network_query \<lparr>Edges = es, page_Info = page_info 1 es\<rparr>)], [], page_world)
     \<and> length es = 1"
proof -
  have "valid_sel ''Query'' [CollectedField ''page'' ''contracts'' first_page network_query]"
    by (simp add: network_query_def schema_simps)
  moreover have "times_set network_query page_db" by code_simp
  ultimately show ?thesis
    using contracts_query_answers_page [OF plain_gqlgen_documented limit_documented_plain, of page_world network_query "''page''" first_page
        first_page_args 1 0 no_introspection no_json no_broker "[]"]
    by (auto simp: page_db_wf servable_page_db first_page_parsed first_page_args_def cursor_position_def slice_of_def page_matching
        list_all2_Cons1)
qed

text \<open>C36. A time that was never set nulls the whole response: the first unpacking of a contract stores it with an unset
  \<open>updated_at\<close>, the library writes an unset time as null, the schema does not allow null for \<open>updatedAt\<close>, and
  every position above it is non-null too. So a query that asks for \<open>updatedAt\<close> gets no data at all as soon as one
  such contract is on the page.\<close>

theorem unset_updatedAt_nulls_response:
  assumes "gqlgen_documented rt" and "limit_documented ge" and "db_faults (w_db w) = Background" and "servable ge sel (w_db w)"
    and "valid_sel ''Query'' [CollectedField al ''contracts'' args sel]"
    and "field_Query_contracts_args rt [PName al] args = Inr a" and "ca_limit a = Some l" and "0 < l" and "l < 2 ^ 63"
    and "cursor_position (ca_after a) = Inr k"
    and "f \<in> set sel" and "cf_Name f = ''edges''" and "g \<in> set (cf_Selections f)" and "cf_Name g = ''node''"
    and "selects (cf_Selections g) ''updatedAt''"
    and "r \<in> set (take (nat l) (matching (slice_of (ca_networkIds a)) (slice_of (ca_blockNumbers a))
         (slice_of (ca_blockHashes a)) (slice_of (ca_transactionHashes a)) (slice_of (ca_addresses a)) k (w_db w)))"
    and "r_updated_at r = 0"
  shows "\<exists>e' w'. ec_Query rt ix (Resolver js ge nt) [] [CollectedField al ''contracts'' args sel] (e, w) = Returns (GNull, e', w')
     \<and> GetErrors rt e' \<noteq> []"
proof -
  note valid = assms(5) [unfolded valid_sel_contracts]
  from Resolver_contracts_page [OF assms(2-4,7-10), of js nt] obtain es where
    q: "Query_Contracts (Resolver js ge nt) sel (ca_networkIds a) (ca_blockNumbers a) (ca_blockHashes a)
         (ca_transactionHashes a) (ca_addresses a) (ca_limit a) (ca_first a) (ca_after a) w
       = Returns (Inr (Some \<lparr>Edges = es, page_Info = page_info l es\<rparr>), w)"
    and es: "list_all2 (edge_for ge sel) (take (nat l) (matching (slice_of (ca_networkIds a)) (slice_of (ca_blockNumbers a))
         (slice_of (ca_blockHashes a)) (slice_of (ca_transactionHashes a)) (slice_of (ca_addresses a)) k (w_db w))) es" by blast
  from es assms(16) obtain x where x: "x \<in> set es" "edge_for ge sel r x"
    using edge_of_row by blast
  then have "gc_UpdatedAt (edge_Node x) = 0"
    using assms(17) scan_row_times by (fastforce simp: edge_for_def to_gql_Contract_def Let_def)
  from ContractConnection_nulls [OF assms(1) valid _ this assms(11-15), of "\<lparr>Edges = es, page_Info = page_info l es\<rparr>"] x(1)
  have "nulls (ec_ContractConnection rt [PName al] sel \<lparr>Edges = es, page_Info = page_info l es\<rparr> :: (gval, 'a, ('b, 'c) world) ex)"
    by simp
  from ContractConnection_null [OF assms(1) valid this, of e w] obtain e' w' where
    n: "ec_ContractConnection rt [PName al] sel \<lparr>Edges = es, page_Info = page_info l es\<rparr> (e, w) = Returns (GNull, e', w')"
      "GetErrors rt e' \<noteq> []" by blast
  from contracts_query_runs [OF assms(6) q n(1), of ix] n(2) show ?thesis by auto
qed

theorem unset_updatedAt_nulls_response_witness:
  "\<exists>e' w'. ec_Query plain_gqlgen no_introspection (Resolver no_json plain_graph no_broker) []
       [CollectedField ''page'' ''contracts'' first_page (node_query [CollectedField ''updatedAt'' ''updatedAt'' [] []])] ([], page_world)
     = Returns (GNull, e', w') \<and> GetErrors plain_gqlgen e' \<noteq> []"
proof -
  let ?sel = "node_query [CollectedField ''updatedAt'' ''updatedAt'' [] []]"
  have v: "valid_sel ''Query'' [CollectedField ''page'' ''contracts'' first_page ?sel]" by (simp add: node_query_def schema_simps)
  have db: "db_faults (w_db page_world) = Background" "servable plain_graph ?sel (w_db page_world)"
    unfolding page_world_db page_db_wf(2) by (rule refl, code_simp)
  have upd: "r_updated_at (hd (db_rows page_db)) = 0" by code_simp
  have f: "hd ?sel \<in> set ?sel" "cf_Name (hd ?sel) = ''edges''" "hd (cf_Selections (hd ?sel)) \<in> set (cf_Selections (hd ?sel))"
    "cf_Name (hd (cf_Selections (hd ?sel))) = ''node''" "selects (cf_Selections (hd (cf_Selections (hd ?sel)))) ''updatedAt''"
    by (simp_all add: node_query_def selects_def)
  show ?thesis
    by (rule unset_updatedAt_nulls_response [OF plain_gqlgen_documented limit_documented_plain db v first_page_parsed _ _ _ _ f _ upd,
          where l = 1 and k = 0])
       (simp_all add: first_page_args_def cursor_position_def slice_of_def page_matching)
qed

end
