(* ===== verification/Introspection_Contexts.thy ===== *)
theory Introspection_Contexts
  imports Introspection
begin

text \<open>
  The field contexts of the introspection types (src/pkg/graph/generated.go, functions
  \<open>fieldContext___Directive_name\<close> to \<open>fieldContext___Type_specifiedByURL\<close>, with the contexts of the query fields
  \<open>__type\<close> and \<open>__schema\<close>): one definition per function, and one for the switch over the child fields that all
  contexts of one object type share.

  The contexts of types contain each other without end and are built only when the library asks for a child, so
  the functions take the child function of types as the argument \<open>tc\<close>, and \<open>child___Type\<close> ties the knot down to
  a depth, in the way of \<open>ec___Type\<close>. A child with arguments reads them: \<open>Inl\<close> is then the error that was
  reported.
\<close>

named_theorems context_defs \<open>definitions of the contexts of introspection fields\<close>

type_synonym child = "gpath \<Rightarrow> CollectedField \<Rightarrow> error + FieldContext"

section \<open>__InputValue\<close>

definition fieldContext___InputValue_name :: "CollectedField \<Rightarrow> FieldContext" where
  [context_defs]: "fieldContext___InputValue_name field = FieldContext ''__InputValue'' field False False (no_children ''String'')"

definition fieldContext___InputValue_description :: "CollectedField \<Rightarrow> FieldContext" where
  [context_defs]: "fieldContext___InputValue_description field = FieldContext ''__InputValue'' field True False (no_children ''String'')"

definition fieldContext___InputValue_type :: "child \<Rightarrow> CollectedField \<Rightarrow> FieldContext" where
  [context_defs]: "fieldContext___InputValue_type tc field = FieldContext ''__InputValue'' field False False tc"

definition fieldContext___InputValue_defaultValue :: "CollectedField \<Rightarrow> FieldContext" where
  [context_defs]: "fieldContext___InputValue_defaultValue field = FieldContext ''__InputValue'' field False False (no_children ''String'')"

definition child___InputValue :: "child \<Rightarrow> child" where
  "child___InputValue tc ctx field =
    (if cf_Name field = ''name'' then Inr (fieldContext___InputValue_name field)
     else if cf_Name field = ''description'' then Inr (fieldContext___InputValue_description field)
     else if cf_Name field = ''type'' then Inr (fieldContext___InputValue_type tc field)
     else if cf_Name field = ''defaultValue'' then Inr (fieldContext___InputValue_defaultValue field)
     else Inl (no_field_named field ''__InputValue''))"

section \<open>__EnumValue\<close>

definition fieldContext___EnumValue_name :: "CollectedField \<Rightarrow> FieldContext" where
  [context_defs]: "fieldContext___EnumValue_name field = FieldContext ''__EnumValue'' field False False (no_children ''String'')"

definition fieldContext___EnumValue_description :: "CollectedField \<Rightarrow> FieldContext" where
  [context_defs]: "fieldContext___EnumValue_description field = FieldContext ''__EnumValue'' field True False (no_children ''String'')"

definition fieldContext___EnumValue_isDeprecated :: "CollectedField \<Rightarrow> FieldContext" where
  [context_defs]: "fieldContext___EnumValue_isDeprecated field = FieldContext ''__EnumValue'' field True False (no_children ''Boolean'')"

definition fieldContext___EnumValue_deprecationReason :: "CollectedField \<Rightarrow> FieldContext" where
  [context_defs]: "fieldContext___EnumValue_deprecationReason field = FieldContext ''__EnumValue'' field True False (no_children ''String'')"

definition child___EnumValue :: "child" where
  "child___EnumValue ctx field =
    (if cf_Name field = ''name'' then Inr (fieldContext___EnumValue_name field)
     else if cf_Name field = ''description'' then Inr (fieldContext___EnumValue_description field)
     else if cf_Name field = ''isDeprecated'' then Inr (fieldContext___EnumValue_isDeprecated field)
     else if cf_Name field = ''deprecationReason'' then Inr (fieldContext___EnumValue_deprecationReason field)
     else Inl (no_field_named field ''__EnumValue''))"

section \<open>__Field\<close>

definition fieldContext___Field_name :: "CollectedField \<Rightarrow> FieldContext" where
  [context_defs]: "fieldContext___Field_name field = FieldContext ''__Field'' field False False (no_children ''String'')"

definition fieldContext___Field_description :: "CollectedField \<Rightarrow> FieldContext" where
  [context_defs]: "fieldContext___Field_description field = FieldContext ''__Field'' field True False (no_children ''String'')"

definition fieldContext___Field_args :: "child \<Rightarrow> CollectedField \<Rightarrow> FieldContext" where
  [context_defs]: "fieldContext___Field_args tc field = FieldContext ''__Field'' field False False (child___InputValue tc)"

definition fieldContext___Field_type :: "child \<Rightarrow> CollectedField \<Rightarrow> FieldContext" where
  [context_defs]: "fieldContext___Field_type tc field = FieldContext ''__Field'' field False False tc"

definition fieldContext___Field_isDeprecated :: "CollectedField \<Rightarrow> FieldContext" where
  [context_defs]: "fieldContext___Field_isDeprecated field = FieldContext ''__Field'' field True False (no_children ''Boolean'')"

definition fieldContext___Field_deprecationReason :: "CollectedField \<Rightarrow> FieldContext" where
  [context_defs]: "fieldContext___Field_deprecationReason field = FieldContext ''__Field'' field True False (no_children ''String'')"

definition child___Field :: "child \<Rightarrow> child" where
  "child___Field tc ctx field =
    (if cf_Name field = ''name'' then Inr (fieldContext___Field_name field)
     else if cf_Name field = ''description'' then Inr (fieldContext___Field_description field)
     else if cf_Name field = ''args'' then Inr (fieldContext___Field_args tc field)
     else if cf_Name field = ''type'' then Inr (fieldContext___Field_type tc field)
     else if cf_Name field = ''isDeprecated'' then Inr (fieldContext___Field_isDeprecated field)
     else if cf_Name field = ''deprecationReason'' then Inr (fieldContext___Field_deprecationReason field)
     else Inl (no_field_named field ''__Field''))"

section \<open>__Directive\<close>

definition fieldContext___Directive_name :: "CollectedField \<Rightarrow> FieldContext" where
  [context_defs]: "fieldContext___Directive_name field = FieldContext ''__Directive'' field False False (no_children ''String'')"

definition fieldContext___Directive_description :: "CollectedField \<Rightarrow> FieldContext" where
  [context_defs]: "fieldContext___Directive_description field = FieldContext ''__Directive'' field True False (no_children ''String'')"

definition fieldContext___Directive_locations :: "CollectedField \<Rightarrow> FieldContext" where
  [context_defs]: "fieldContext___Directive_locations field = FieldContext ''__Directive'' field False False (no_children ''__DirectiveLocation'')"

definition fieldContext___Directive_args :: "child \<Rightarrow> CollectedField \<Rightarrow> FieldContext" where
  [context_defs]: "fieldContext___Directive_args tc field = FieldContext ''__Directive'' field False False (child___InputValue tc)"

definition fieldContext___Directive_isRepeatable :: "CollectedField \<Rightarrow> FieldContext" where
  [context_defs]: "fieldContext___Directive_isRepeatable field = FieldContext ''__Directive'' field False False (no_children ''Boolean'')"

definition child___Directive :: "child \<Rightarrow> child" where
  "child___Directive tc ctx field =
    (if cf_Name field = ''name'' then Inr (fieldContext___Directive_name field)
     else if cf_Name field = ''description'' then Inr (fieldContext___Directive_description field)
     else if cf_Name field = ''locations'' then Inr (fieldContext___Directive_locations field)
     else if cf_Name field = ''args'' then Inr (fieldContext___Directive_args tc field)
     else if cf_Name field = ''isRepeatable'' then Inr (fieldContext___Directive_isRepeatable field)
     else Inl (no_field_named field ''__Directive''))"

section \<open>__Schema\<close>

definition fieldContext___Schema_description :: "CollectedField \<Rightarrow> FieldContext" where
  [context_defs]: "fieldContext___Schema_description field = FieldContext ''__Schema'' field True False (no_children ''String'')"

definition fieldContext___Schema_types :: "child \<Rightarrow> CollectedField \<Rightarrow> FieldContext" where
  [context_defs]: "fieldContext___Schema_types tc field = FieldContext ''__Schema'' field True False tc"

definition fieldContext___Schema_queryType :: "child \<Rightarrow> CollectedField \<Rightarrow> FieldContext" where
  [context_defs]: "fieldContext___Schema_queryType tc field = FieldContext ''__Schema'' field True False tc"

definition fieldContext___Schema_mutationType :: "child \<Rightarrow> CollectedField \<Rightarrow> FieldContext" where
  [context_defs]: "fieldContext___Schema_mutationType tc field = FieldContext ''__Schema'' field True False tc"

definition fieldContext___Schema_subscriptionType :: "child \<Rightarrow> CollectedField \<Rightarrow> FieldContext" where
  [context_defs]: "fieldContext___Schema_subscriptionType tc field = FieldContext ''__Schema'' field True False tc"

definition fieldContext___Schema_directives :: "child \<Rightarrow> CollectedField \<Rightarrow> FieldContext" where
  [context_defs]: "fieldContext___Schema_directives tc field = FieldContext ''__Schema'' field True False (child___Directive tc)"

definition child___Schema :: "child \<Rightarrow> child" where
  "child___Schema tc ctx field =
    (if cf_Name field = ''description'' then Inr (fieldContext___Schema_description field)
     else if cf_Name field = ''types'' then Inr (fieldContext___Schema_types tc field)
     else if cf_Name field = ''queryType'' then Inr (fieldContext___Schema_queryType tc field)
     else if cf_Name field = ''mutationType'' then Inr (fieldContext___Schema_mutationType tc field)
     else if cf_Name field = ''subscriptionType'' then Inr (fieldContext___Schema_subscriptionType tc field)
     else if cf_Name field = ''directives'' then Inr (fieldContext___Schema_directives tc field)
     else Inl (no_field_named field ''__Schema''))"

section \<open>__Type\<close>

definition fieldContext___Type_kind :: "CollectedField \<Rightarrow> FieldContext" where
  [context_defs]: "fieldContext___Type_kind field = FieldContext ''__Type'' field True False (no_children ''__TypeKind'')"

definition fieldContext___Type_name :: "CollectedField \<Rightarrow> FieldContext" where
  [context_defs]: "fieldContext___Type_name field = FieldContext ''__Type'' field True False (no_children ''String'')"

definition fieldContext___Type_description :: "CollectedField \<Rightarrow> FieldContext" where
  [context_defs]: "fieldContext___Type_description field = FieldContext ''__Type'' field True False (no_children ''String'')"

definition context___Type_fields :: "child \<Rightarrow> CollectedField \<Rightarrow> FieldContext" where
  [context_defs]: "context___Type_fields tc field = FieldContext ''__Type'' field True False (child___Field tc)"

definition fieldContext___Type_interfaces :: "child \<Rightarrow> CollectedField \<Rightarrow> FieldContext" where
  [context_defs]: "fieldContext___Type_interfaces tc field = FieldContext ''__Type'' field True False tc"

definition fieldContext___Type_possibleTypes :: "child \<Rightarrow> CollectedField \<Rightarrow> FieldContext" where
  [context_defs]: "fieldContext___Type_possibleTypes tc field = FieldContext ''__Type'' field True False tc"

definition context___Type_enumValues :: "CollectedField \<Rightarrow> FieldContext" where
  [context_defs]: "context___Type_enumValues field = FieldContext ''__Type'' field True False child___EnumValue"

definition fieldContext___Type_inputFields :: "child \<Rightarrow> CollectedField \<Rightarrow> FieldContext" where
  [context_defs]: "fieldContext___Type_inputFields tc field = FieldContext ''__Type'' field True False (child___InputValue tc)"

definition fieldContext___Type_ofType :: "child \<Rightarrow> CollectedField \<Rightarrow> FieldContext" where
  [context_defs]: "fieldContext___Type_ofType tc field = FieldContext ''__Type'' field True False tc"

definition fieldContext___Type_specifiedByURL :: "CollectedField \<Rightarrow> FieldContext" where
  [context_defs]: "fieldContext___Type_specifiedByURL field = FieldContext ''__Type'' field True False (no_children ''String'')"

definition child___Type_step :: "'e gqlgen \<Rightarrow> child \<Rightarrow> child" where
  "child___Type_step rt tc ctx field =
    (if cf_Name field = ''kind'' then Inr (fieldContext___Type_kind field)
     else if cf_Name field = ''name'' then Inr (fieldContext___Type_name field)
     else if cf_Name field = ''description'' then Inr (fieldContext___Type_description field)
     else if cf_Name field = ''fields'' then map_sum id (\<lambda>_. context___Type_fields tc field)
         (field___Type_fields_args rt (WithFieldContext ctx (context___Type_fields tc field)) (cf_Args field))
     else if cf_Name field = ''interfaces'' then Inr (fieldContext___Type_interfaces tc field)
     else if cf_Name field = ''possibleTypes'' then Inr (fieldContext___Type_possibleTypes tc field)
     else if cf_Name field = ''enumValues'' then map_sum id (\<lambda>_. context___Type_enumValues field)
         (field___Type_enumValues_args rt (WithFieldContext ctx (context___Type_enumValues field)) (cf_Args field))
     else if cf_Name field = ''inputFields'' then Inr (fieldContext___Type_inputFields tc field)
     else if cf_Name field = ''ofType'' then Inr (fieldContext___Type_ofType tc field)
     else if cf_Name field = ''specifiedByURL'' then Inr (fieldContext___Type_specifiedByURL field)
     else Inl (no_field_named field ''__Type''))"

text \<open>At depth 0 there is no answer.\<close>

fun child___Type :: "nat \<Rightarrow> 'e gqlgen \<Rightarrow> child" where
  "child___Type 0 rt ctx field = Inl (Errorf ''depth'')"
| "child___Type (Suc n) rt ctx field = child___Type_step rt (child___Type n rt) ctx field"

section \<open>The fields of the query\<close>

definition context_Query___type :: "child \<Rightarrow> CollectedField \<Rightarrow> FieldContext" where
  [context_defs]: "context_Query___type tc field = FieldContext ''Query'' field True False tc"

definition fieldContext_Query___type ::
  "'e gqlgen \<Rightarrow> child \<Rightarrow> gpath \<Rightarrow> CollectedField \<Rightarrow> (error + FieldContext \<times> string, 'e, 's) ex" where
  "fieldContext_Query___type rt tc ctx field =
     (let fc = context_Query___type tc field in
      field_args rt (WithFieldContext ctx fc)
        (Some (map_sum id (Pair fc) (field_Query___type_args rt (WithFieldContext ctx fc) (cf_Args field)))))"

definition fieldContext_Query___schema :: "child \<Rightarrow> CollectedField \<Rightarrow> FieldContext" where
  [context_defs]: "fieldContext_Query___schema tc field = FieldContext ''Query'' field True False (child___Schema tc)"

section \<open>Contexts and execution\<close>

text \<open>Where a field has no context the object function panics, and only there: field functions recover.\<close>

definition panics :: "('a, 'e, 's) ex \<Rightarrow> 'e \<times> 's \<Rightarrow> bool" where
  "panics m es \<longleftrightarrow> (case m es of Panics _ \<Rightarrow> True | _ \<Rightarrow> False)"

lemma panics_recover [simp]: "\<not> panics (ex_recover rt ctx a m) es"
  by (cases es) (auto simp: panics_def ex_recover_def ex_error_def split: go.splits)

lemma panics_field [simp]: "\<not> panics (field_N rt ctx r m) es" "\<not> panics (field_O rt ctx r m) es"
  by (simp_all add: field_N_def field_O_def)

lemma panics_return [simp]: "\<not> panics (ex_return a) es"
  by (simp add: panics_def ex_return_def)

lemma panics_bind: "\<not> panics m es \<Longrightarrow> (\<And>a es'. \<not> panics (f a) es') \<Longrightarrow> \<not> panics (ex_bind m f) es"
  by (cases "m es") (force simp: panics_def ex_bind_def)+

lemma panics_field_args [simp]: "\<not> panics (field_args rt ctx parsed) es"
  by (cases es) (auto simp: panics_def field_args_def ex_error_def ex_return_def split: option.splits sum.splits)

lemma panics_args_then [simp]:
  "(\<And>x es'. \<not> panics (g x) es') \<Longrightarrow> \<not> panics (ex_bind (field_args rt ctx p) (case_sum (\<lambda>_. ex_return a) g)) es"
  by (rule panics_bind) (auto split: sum.split)

text \<open>An object function on a single field panics exactly when its switch has no case for the field.\<close>

lemma panics_single:
  assumes "\<And>b m. switch f = Some (b, m) \<Longrightarrow> \<not> panics m es"
  shows "panics (object_set switch [f]) es \<longleftrightarrow> switch f = None"
proof (cases "switch f")
  case None
  then show ?thesis by (simp add: object_set_def panics_def ex_bind_def ex_panic_def)
next
  case (Some bm)
  then obtain b m where s: "switch f = Some (b, m)" by (cases bm) auto
  with assms have "\<not> panics m es" by blast
  then have "\<not> panics (object_set switch [f]) es"
    by (simp add: object_set_def s) (intro panics_bind, auto intro!: panics_bind split: prod.split)
  with s show ?thesis by simp
qed

lemma args_absent [simp]: "arg_or zero g ctx [] k = Inr zero"
  by (simp add: arg_or_def)

lemmas object_funs = ec___InputValue_def ec___EnumValue_def ec___Field_def ec___Directive_def ec___Schema_def ec___Type_step_def

lemmas child_funs = child___InputValue_def child___EnumValue_def child___Field_def child___Directive_def child___Schema_def
  child___Type_step_def field___Type_fields_args_def field___Type_enumValues_args_def

lemma panics_typename: "typename rt n = Some (b, m) \<Longrightarrow> \<not> panics m es"
  by (auto simp: typename_def)

lemma panics_object_funs:
  "\<And>typ. panics (ec___InputValue rt typ ctx [f] iv) es \<longleftrightarrow> cf_Name f \<noteq> ''__typename'' \<and> isl (child___InputValue tc ctx f)"
  "panics (ec___EnumValue rt ctx [f] ev) es \<longleftrightarrow> cf_Name f \<noteq> ''__typename'' \<and> isl (child___EnumValue ctx f)"
  "\<And>typ. panics (ec___Field rt typ ctx [f] fi) es \<longleftrightarrow> cf_Name f \<noteq> ''__typename'' \<and> isl (child___Field tc ctx f)"
  "\<And>typ. panics (ec___Directive rt typ ctx [f] d) es \<longleftrightarrow> cf_Name f \<noteq> ''__typename'' \<and> isl (child___Directive tc ctx f)"
  "\<And>typ. panics (ec___Schema rt typ ctx [f] sc) es \<longleftrightarrow> cf_Name f \<noteq> ''__typename'' \<and> isl (child___Schema tc ctx f)"
  unfolding object_funs child_funs
  by (subst panics_single; auto simp: exec_defs typename_def split: if_splits)+

lemma panics_Type:
  assumes "cf_Args f = []"
  shows "panics (ec___Type_step rt it typ ctx [f] t) es \<longleftrightarrow> cf_Name f \<noteq> ''__typename'' \<and> isl (child___Type_step rt tc ctx f)"
  unfolding object_funs child_funs
  by (subst panics_single; auto simp: exec_defs typename_def assms fieldContext___Type_fields_def
      fieldContext___Type_enumValues_def split: if_splits)

end
