(* ===== verification/Operations.thy ===== *)
theory Operations
  imports Rendering Introspection_Contexts
begin

text \<open>
  Properties of whole operations: the introspection fields terminate on every finite selection, the
  response handler answers once, arguments that cannot be read are reported before any resolver runs, and
  the child contexts that the executor offers follow the schema.
\<close>

section \<open>Introspection terminates\<close>

text \<open>The depth of a selection; the executor of types goes one level down with every call.\<close>

fun depth :: "CollectedField list \<Rightarrow> nat" where
  "depth [] = 0"
| "depth (CollectedField al name args sels # fs) = max (Suc (depth sels)) (depth fs)"

lemma depth_mem: "f \<in> set sel \<Longrightarrow> depth (cf_Selections f) < depth sel"
  by (induction sel rule: depth.induct) auto

lemma depth_mem_le: "f \<in> set sel \<Longrightarrow> depth sel \<le> n \<Longrightarrow> depth (cf_Selections f) \<le> n"
  using depth_mem [of f sel] by simp

definition nonblocking_below :: "nat \<Rightarrow> ('t, 'e, 's) type_executor \<Rightarrow> bool" where
  "nonblocking_below n typ \<longleftrightarrow> (\<forall>ctx sel t. depth sel < n \<longrightarrow> nonblocking (typ ctx sel t))"

lemma nonblocking_belowD: "nonblocking_below n typ \<Longrightarrow> depth sel < n \<Longrightarrow> nonblocking (typ ctx sel t)"
  by (simp add: nonblocking_below_def)

lemma nonblocking_below_mono: "nonblocking_below n typ \<Longrightarrow> m \<le> n \<Longrightarrow> nonblocking_below m typ"
  by (auto simp: nonblocking_below_def)

text \<open>As \<open>nonblocking_object\<close>, for the fields of the selection only.\<close>

lemma nonblocking_object_sel:
  assumes "\<And>f nn m. f \<in> set sel \<Longrightarrow> switch f = Some (nn, m) \<Longrightarrow> nonblocking m"
  shows "nonblocking (object_set switch sel)"
proof -
  have "nonblocking (field_loop switch sel)" using assms
    by (induction sel) (auto intro!: nonblocking_basic nonblocking_bind split: option.splits)
  then show ?thesis by (auto simp: object_set_def intro!: nonblocking_bind nonblocking_basic)
qed

lemma nonblocking_optional: "(\<And>v. nonblocking (f v)) \<Longrightarrow> nonblocking (marshal_optional f p)"
  by (auto simp: marshal_optional_def nonblocking_basic split: option.splits)

lemma nonblocking_locations: "nonblocking (marshalN__DirectiveLocation2slice rt ctx v)" "nonblocking (marshalN__TypeKind2string rt ctx k)"
  by (auto simp: marshalN__DirectiveLocation2slice_def marshalN__DirectiveLocation2string_def marshalN__TypeKind2string_def
      check_null_def intro!: nonblocking_marshal nonblocking_basic)

lemmas nonblocking_intros = nonblocking_recover nonblocking_scalars nonblocking_basic nonblocking_marshal nonblocking_optional nonblocking_locations nonblocking_bind

lemma nonblocking_type_ptr:
  assumes "nonblocking_below n typ" and "depth sel < n"
  shows "nonblocking (marshalN__Type2ptr rt typ sel ctx p)" "nonblocking (marshalO__Type2ptr typ sel ctx p)"
    "nonblocking (marshalN__Type2slice rt typ sel ctx ts)" "nonblocking (marshalO__Type2slice rt typ sel ctx q)"
  using nonblocking_belowD [OF assms]
  by (auto simp: marshalN__Type2ptr_def marshalO__Type2ptr_def marshalN__Type2slice_def marshalO__Type2slice_def marshalN__Type2val_def
      intro!: nonblocking_intros)

lemma nonblocking_EnumValue: "nonblocking (ec___EnumValue rt ctx sel v)"
  unfolding ec___EnumValue_def by (rule nonblocking_object) (auto simp: exec_defs typename_def intro!: nonblocking_intros split: if_splits)

lemma nonblocking_InputValue:
  assumes "nonblocking_below n typ" and "depth sel \<le> n"
  shows "nonblocking (ec___InputValue rt typ ctx sel v)"
  unfolding ec___InputValue_def
  by (rule nonblocking_object_sel)
     (use assms in \<open>auto simp: exec_defs typename_def dest: depth_mem intro!: nonblocking_intros nonblocking_type_ptr split: if_splits\<close>)

lemma nonblocking_InputValue_slices:
  assumes "nonblocking_below n typ" and "depth sel \<le> n"
  shows "nonblocking (marshalN__InputValue2slice rt typ sel ctx vs)" "nonblocking (marshalO__InputValue2slice rt typ sel ctx q)"
  using nonblocking_InputValue [OF assms]
  by (auto simp: marshalN__InputValue2slice_def marshalO__InputValue2slice_def marshalN__InputValue2val_def intro!: nonblocking_intros)

lemma nonblocking_Field:
  assumes "nonblocking_below n typ" and "depth sel \<le> n"
  shows "nonblocking (ec___Field rt typ ctx sel v)"
  unfolding ec___Field_def
  by (rule nonblocking_object_sel)
     (use assms in \<open>auto simp: exec_defs typename_def dest: depth_mem intro!: nonblocking_intros nonblocking_type_ptr nonblocking_InputValue_slices split: if_splits\<close>)

lemma nonblocking_Field_slice:
  assumes "nonblocking_below n typ" and "depth sel \<le> n"
  shows "nonblocking (marshalO__Field2slice rt typ sel ctx q)"
  using nonblocking_Field [OF assms] by (auto simp: marshalO__Field2slice_def marshalN__Field2val_def intro!: nonblocking_intros)

lemma nonblocking_field_args: "nonblocking (field_args rt ctx parsed)"
  by (auto simp: field_args_def nonblocking_basic split: option.splits sum.splits)

lemma nonblocking_Type_step:
  assumes "nonblocking_below n typ" and "depth sel \<le> n"
  shows "nonblocking (ec___Type_step rt it typ ctx sel t)"
  unfolding ec___Type_step_def
  by (rule nonblocking_object_sel)
     (use assms in \<open>auto simp: exec_defs typename_def fieldContext___Type_fields_def fieldContext___Type_enumValues_def
        marshalO__EnumValue2slice_def marshalN__EnumValue2val_def dest: depth_mem
        intro: depth_mem_le intro!: nonblocking_intros nonblocking_type_ptr nonblocking_InputValue_slices nonblocking_Field_slice nonblocking_field_args nonblocking_EnumValue
        split: if_splits sum.splits\<close>)

lemma nonblocking_Type: "nonblocking_below n (ec___Type n rt it)"
proof (induction n)
  case (Suc n)
  show ?case unfolding nonblocking_below_def using nonblocking_Type_step [OF Suc] by auto
qed (simp add: nonblocking_below_def)

lemma nonblocking_Directive_slice:
  assumes "nonblocking_below n typ" and "depth sel \<le> n"
  shows "nonblocking (marshalN__Directive2slice rt typ sel ctx q)"
proof -
  have "nonblocking (ec___Directive rt typ ctx' sel d)" for ctx' d
    unfolding ec___Directive_def
    by (rule nonblocking_object_sel)
       (use assms in \<open>auto simp: exec_defs typename_def intro: depth_mem_le intro!: nonblocking_intros nonblocking_InputValue_slices split: if_splits\<close>)
  then show ?thesis by (auto simp: marshalN__Directive2slice_def marshalN__Directive2val_def intro!: nonblocking_intros)
qed

lemma nonblocking_Schema:
  assumes "nonblocking_below n typ" and "depth sel \<le> n"
  shows "nonblocking (ec___Schema rt typ ctx sel sc)"
  unfolding ec___Schema_def
  by (rule nonblocking_object_sel)
     (use assms in \<open>auto simp: exec_defs typename_def dest: depth_mem intro: depth_mem_le intro!: nonblocking_intros nonblocking_type_ptr nonblocking_Directive_slice
        split: if_splits\<close>)

lemma nonblocking_field_O: "nonblocking r \<Longrightarrow> (\<And>x. nonblocking (f ctx x)) \<Longrightarrow> nonblocking (field_O rt ctx r f)"
  unfolding field_O_def by (intro nonblocking_recover nonblocking_bind) (auto intro: nonblocking_basic split: sum.splits option.splits)

section \<open>Operations\<close>

text \<open>The arguments of the contracts field when one of them cannot be read.\<close>

lemma contracts_args_error:
  assumes "field_Query_contracts_args rt [PName al] args = Inl err"
  shows "ec_Query_contracts rt rs [] (CollectedField al ''contracts'' args sel) (e, s)
     = Returns (GNull, ec_Error rt [PName al] err e, s)"
  using assms
  by (simp add: ec_Query_contracts_def fieldContext_Query_contracts_def field_args_def WithFieldContext_def ex_bind_def ex_error_def
      ex_return_def Let_def)

text \<open>Calling the response handler until it answers nil, at most \<open>n\<close> times.\<close>

fun drain :: "nat \<Rightarrow> (executionContext \<Rightarrow> ((error + Response) option \<times> executionContext, 'e, 's) ex) \<Rightarrow> executionContext
   \<Rightarrow> ((error + Response) list, 'e, 's) ex" where
  "drain 0 h ec = (\<lambda>es. Blocks es)"
| "drain (Suc n) h ec = ex_bind (h ec) (\<lambda>(r, ec'). case r of
     None \<Rightarrow> ex_return []
   | Some resp \<Rightarrow> ex_bind (drain n h ec') (\<lambda>rs. ex_return (resp # rs)))"

lemma Exec_done: "\<not> ec_first ec \<Longrightarrow> ec_pendingDeferred ec = 0 \<Longrightarrow> Exec rt ix rs op sel ec = ex_return (None, ec)"
  by (cases op) (simp_all add: Exec_def)

lemma Exec_again: "Exec rt ix rs op sel (Exec_begin\<lparr>ec_first := False\<rparr>) = ex_return (None, Exec_begin\<lparr>ec_first := False\<rparr>)"
  by (rule Exec_done) (simp_all add: Exec_begin_def)

lemma Exec_query: "Exec rt ix rs Query sel Exec_begin =
    ex_bind (ec_Query rt ix rs [] sel) (\<lambda>data.
      ex_return (Some (Inr \<lparr>resp_Data = data, resp_HasNext = None\<rparr>), Exec_begin\<lparr>ec_first := False\<rparr>))"
  by (simp add: Exec_def Exec_begin_def query_response_def Let_def)

lemma ex_bind_assoc: "ex_bind (ex_bind m f) g = ex_bind m (\<lambda>a. ex_bind (f a) g)"
  by (simp add: ex_bind_def go_bind_assoc case_prod_unfold fun_eq_iff)

section \<open>An instance\<close>

text \<open>A schema whose only type is a non-null of itself without end.\<close>

definition endless :: "unit introspector" where
  "endless = no_introspection\<lparr>DisableIntrospection := False, WrapTypeFromDef := (\<lambda>_. Some ()),
     intro_methods := (intro_methods no_introspection)\<lparr>it_Kind := (\<lambda>_. ''NON_NULL''), it_OfType := (\<lambda>_. Some ())\<rparr>, intro_fuel := 3\<rparr>"

definition endless_field :: CollectedField where
  "endless_field = CollectedField ''t'' ''__type'' [(''name'', Raw_string ''T'')]
     [CollectedField ''ofType'' ''ofType'' [] [CollectedField ''kind'' ''kind'' [] []]]"

section \<open>Properties\<close>

text \<open>C34. Introspection terminates: although types refer to each other without end, a fuel above the depth of the
  selection is enough for the fields \<open>__type\<close> and \<open>__schema\<close> to return.\<close>

theorem introspection_terminates:
  assumes "depth (cf_Selections field) < intro_fuel ix"
  shows "ec_Query___type rt ix ctx field es \<noteq> Blocks es' \<and> ec_Query___schema rt ix ctx field es \<noteq> Blocks es'"
proof -
  have 1: "nonblocking (marshalO__Type2ptr (ec___Type (intro_fuel ix) rt (intro_methods ix)) (cf_Selections field) ctx' v :: (gval, 'b, 'c) ex)" for ctx' v
    by (rule nonblocking_type_ptr [OF nonblocking_Type assms])
  have 2: "nonblocking (marshalO__Schema2ptr rt (ec___Type (intro_fuel ix) rt (intro_methods ix)) (cf_Selections field) ctx' v :: (gval, 'b, 'c) ex)" for ctx' v
    unfolding marshalO__Schema2ptr_def by (intro nonblocking_optional nonblocking_Schema [OF nonblocking_Type less_imp_le [OF assms]])
  have "nonblocking (ec_Query___type rt ix ctx field :: (gval, 'b, 'c) ex)"
    using 1 by (auto simp: ec_Query___type_def Let_def intro!: nonblocking_bind nonblocking_field_args nonblocking_field_O nonblocking_basic split: sum.splits)
  moreover have "nonblocking (ec_Query___schema rt ix ctx field :: (gval, 'b, 'c) ex)"
    unfolding ec_Query___schema_def by (intro nonblocking_field_O nonblocking_basic 2)
  ultimately show ?thesis unfolding nonblocking_def by blast
qed

theorem introspection_terminates_witness:
  "ec_Query___type plain_gqlgen endless [] endless_field ([], 0 :: nat)
     = Returns (GObject [(''ofType'', GObject [(''kind'', GString ''NON_NULL'')])], [], 0 :: nat)
   \<and> ec_Query___schema plain_gqlgen endless [] endless_field ([], 0 :: nat) \<noteq> Blocks ([], 0 :: nat)"
proof -
  have "depth (cf_Selections endless_field) < intro_fuel endless" by code_simp
  from introspection_terminates [OF this, of plain_gqlgen "[]" "([], 0 :: nat)" "([], 0 :: nat)"]
  have "ec_Query___schema plain_gqlgen endless [] endless_field ([], 0 :: nat) \<noteq> Blocks ([], 0 :: nat)" by blast
  moreover have "ec_Query___type plain_gqlgen endless [] endless_field ([], 0 :: nat)
     = Returns (GObject [(''ofType'', GObject [(''kind'', GString ''NON_NULL'')])], [], 0)" by code_simp
  ultimately show ?thesis by blast
qed

text \<open>One response per operation: the handler of a query answers the executed data once, without a \<open>HasNext\<close>, and
  then nil, because nothing in this schema is deferred.\<close>

theorem query_answers_once:
  assumes "2 \<le> n"
  shows "drain n (Exec rt ix rs Query sel) Exec_begin
     = ex_bind (ec_Query rt ix rs [] sel) (\<lambda>data. ex_return [Inr \<lparr>resp_Data = data, resp_HasNext = None\<rparr>])"
proof -
  obtain m where "n = Suc (Suc m)" using assms by (metis Suc_le_D numeral_2_eq_2 Suc_le_mono)
  then show ?thesis
    by (simp add: Exec_query ex_bind_assoc Exec_again)
qed

theorem query_answers_once_witness:
  "drain 2 (Exec plain_gqlgen no_introspection failing_resolvers Query [CollectedField ''t'' ''__typename'' [] []]) Exec_begin ([], 0)
     = Returns ([Inr \<lparr>resp_Data = GObject [(''t'', GString ''Query'')], resp_HasNext = None\<rparr>], [], 0)"
proof -
  have "ec_Query plain_gqlgen no_introspection failing_resolvers [] [CollectedField ''t'' ''__typename'' [] []] ([], 0)
      = Returns (GObject [(''t'', GString ''Query'')], [], 0)" by code_simp
  then show ?thesis
    using fun_cong [OF query_answers_once [of 2 plain_gqlgen no_introspection failing_resolvers "[CollectedField ''t'' ''__typename'' [] []]"], of "([], 0)"]
    by (simp add: ex_bind_def ex_return_def)
qed

text \<open>An argument of the contracts field that cannot be read is the only error of the response: the data is null, the
  error is recorded at the field, and no resolver runs, so the state of the service is untouched.\<close>

theorem bad_contracts_argument:
  assumes "field_Query_contracts_args rt [PName al] args = Inl err"
  shows "ec_Query rt ix rs [] [CollectedField al ''contracts'' args sel] (e, s) = Returns (GNull, ec_Error rt [PName al] err e, s)"
  using contracts_args_error [OF assms, of rs sel e s]
  by (simp add: ec_Query_def root_field_def ex_bind_def ex_return_def ex_recover_def)

theorem bad_contracts_argument_witness:
  "ec_Query plain_gqlgen no_introspection failing_resolvers []
     [CollectedField ''page'' ''contracts'' [(''limit'', Raw_int 3), (''networkIds'', Raw_list [Raw_int 1, Raw_bool True])] []] ([], 0)
   = Returns (GNull, ec_Error plain_gqlgen [PName ''page''] (Errorf ''not an int'') [], 0)"
proof -
  have "field_Query_contracts_args plain_gqlgen [PName ''page'']
     [(''limit'', Raw_int 3), (''networkIds'', Raw_list [Raw_int 1, Raw_bool True])] = Inl (Errorf ''not an int'')" by code_simp
  then show ?thesis by (rule bad_contracts_argument)
qed

text \<open>The child contexts follow the schema: below a field whose type is an object, a child context exists exactly for the
  fields that the schema gives the object's type.\<close>

theorem child_contexts_follow_schema:
  "(isl (fc_Child (fieldContext_Contract_network field) ctx f) \<longleftrightarrow> field_type ''Network'' (cf_Name f) = None)
   \<and> (isl (fc_Child (fieldContext_ContractEdge_node field) ctx f) \<longleftrightarrow> field_type ''Contract'' (cf_Name f) = None)
   \<and> (isl (fc_Child (fieldContext_ContractConnection_edges field) ctx f) \<longleftrightarrow> field_type ''ContractEdge'' (cf_Name f) = None)
   \<and> (isl (fc_Child (fieldContext_ContractConnection_pageInfo field) ctx f) \<longleftrightarrow> field_type ''PageInfo'' (cf_Name f) = None)"
  by (simp add: fieldContext_Contract_network_def fieldContext_ContractEdge_node_def fieldContext_ContractConnection_edges_def
      fieldContext_ContractConnection_pageInfo_def schema_simps)

text \<open>C35. The two generated tables of the introspection types agree: for a field other than the type name, whose arguments are
  absent, the object function of a type executes the field exactly when the type's contexts have a child of that name, and
  panics otherwise, whatever the wrapped schema is.\<close>

theorem introspection_contexts_match_executor:
  assumes "cf_Name f \<noteq> ''__typename''" and "cf_Args f = []"
  shows "(panics (ec___InputValue rt typ ctx [f] iv) es \<longleftrightarrow> isl (fc_Child (fieldContext___Field_args tc field) ctx f))
    \<and> (panics (ec___EnumValue rt ctx [f] ev) es \<longleftrightarrow> isl (fc_Child (context___Type_enumValues field) ctx f))
    \<and> (panics (ec___Field rt typ ctx [f] fi) es \<longleftrightarrow> isl (fc_Child (context___Type_fields tc field) ctx f))
    \<and> (panics (ec___Directive rt typ ctx [f] d) es \<longleftrightarrow> isl (fc_Child (fieldContext___Schema_directives tc field) ctx f))
    \<and> (panics (ec___Schema rt typ ctx [f] sc) es \<longleftrightarrow> isl (fc_Child (fieldContext_Query___schema tc field) ctx f))
    \<and> (panics (ec___Type (Suc n) rt it ctx [f] t) es
        \<longleftrightarrow> isl (fc_Child (fieldContext___Type_ofType (child___Type (Suc m) rt) field) ctx f))"
  using assms(1) by (simp add: context_defs panics_object_funs(2) panics_object_funs(1,3,4,5) [where tc = tc]
      panics_Type [where tc = "child___Type m rt", OF assms(2)])

theorem introspection_contexts_match_executor_witness:
  "isl (fc_Child (fieldContext___Type_ofType (child___Type 1 plain_gqlgen) endless_field) [] (CollectedField ''o'' ''isOneOf'' [] []))
   \<and> panics (ec___Type 1 plain_gqlgen (intro_methods endless) [] [CollectedField ''o'' ''isOneOf'' [] []] ()) ([], 0 :: nat)"
proof -
  let ?f = "CollectedField ''o'' ''isOneOf'' [] []"
  have "isl (fc_Child (fieldContext___Type_ofType (child___Type (Suc 0) plain_gqlgen) endless_field) [] ?f)" by code_simp
  moreover have "panics (ec___Type (Suc 0) plain_gqlgen (intro_methods endless) [] [?f] ()) ([], 0 :: nat)
      \<longleftrightarrow> isl (fc_Child (fieldContext___Type_ofType (child___Type (Suc 0) plain_gqlgen) endless_field) [] ?f)"
    by (rule introspection_contexts_match_executor [THEN conjunct2, THEN conjunct2, THEN conjunct2, THEN conjunct2, THEN conjunct2]) simp_all
  ultimately show ?thesis by simp
qed

end
