(* ===== verification/Concurrency.thy ===== *)
theory Concurrency
  imports Conformance "HOL-Library.Sublist"
begin

text \<open>
  The lists of objects in a response are marshalled by one goroutine per element (src/pkg/graph/generated.go, the
  functions \<open>marshalN...2slice\<close>), where theory \<open>Executor\<close> takes the elements in order. Here the goroutines run in
  any order, on the response context they share, and the outcome is shown not to depend on it.

  A goroutine is taken to the end of its element before another runs. The elements touch only the errors of the response, under
  paths of their own, and every addition of an error holds the lock of the response context, so finer interleavings add the
  same errors in yet other orders.
  A goroutine that panics calls \<open>wg.Done\<close> before its recovery runs, so \<open>Wait\<close> may return too early there; the model waits
  for the recovery, and the schedules the property is about contain no panic.
\<close>

section \<open>Goroutines\<close>

text \<open>The body of the goroutine of element \<open>i\<close>: the assignment to a slot panics when the array was dropped, and a panic
  drops it.\<close>

definition set_slot :: "nat \<Rightarrow> gval list option \<Rightarrow> gval \<Rightarrow> (gval list option, 'e, 's) ex" where
  "set_slot i ret x = (case ret of None \<Rightarrow> ex_panic | Some xs \<Rightarrow> ex_return (Some (xs[i := x])))"

definition list_goroutine ::
  "'e gqlgen \<Rightarrow> gpath \<Rightarrow> (gpath \<Rightarrow> 'a \<Rightarrow> (gval, 'e, 's) ex) \<Rightarrow> 'a list \<Rightarrow> nat \<Rightarrow> gval list option \<Rightarrow> (gval list option, 'e, 's) ex" where
  "list_goroutine rt ctx f v i ret =
     (let ctx' = ctx @ [PIndex i] in ex_recover rt ctx' None (ex_bind (f ctx' (v ! i)) (set_slot i ret)))"

text \<open>The goroutines in the order in which they are scheduled, and the list they produce.\<close>

fun run_goroutines ::
  "'e gqlgen \<Rightarrow> gpath \<Rightarrow> (gpath \<Rightarrow> 'a \<Rightarrow> (gval, 'e, 's) ex) \<Rightarrow> 'a list \<Rightarrow> nat list \<Rightarrow> gval list option \<Rightarrow> (gval list option, 'e, 's) ex" where
  "run_goroutines rt ctx f v [] ret = ex_return ret"
| "run_goroutines rt ctx f v (i # order) ret = ex_bind (list_goroutine rt ctx f v i ret) (run_goroutines rt ctx f v order)"

definition marshal_scheduled ::
  "nat list \<Rightarrow> 'e gqlgen \<Rightarrow> gpath \<Rightarrow> (gpath \<Rightarrow> 'a \<Rightarrow> (gval, 'e, 's) ex) \<Rightarrow> 'a list \<Rightarrow> (gval, 'e, 's) ex" where
  "marshal_scheduled order rt ctx f v =
     ex_bind (run_goroutines rt ctx f v order (Some (replicate (length v) GNil))) (\<lambda>ret.
       ex_return (case ret of None \<Rightarrow> GArray [] | Some xs \<Rightarrow> array_or_null xs))"

definition scheduled_ContractEdge2slice ::
  "nat list \<Rightarrow> 'e gqlgen \<Rightarrow> CollectedField list \<Rightarrow> gpath \<Rightarrow> ContractEdge option list \<Rightarrow> (gval, 'e, 's) ex" where
  "scheduled_ContractEdge2slice order rt sel ctx v = marshal_scheduled order rt ctx (marshalNContractEdge2ptr rt sel) v"

definition scheduled_Network2slice ::
  "nat list \<Rightarrow> 'e gqlgen \<Rightarrow> CollectedField list \<Rightarrow> gpath \<Rightarrow> gql_Network option list \<Rightarrow> (gval, 'e, 's) ex" where
  "scheduled_Network2slice order rt sel ctx v = marshal_scheduled order rt ctx (marshalNNetwork2ptr rt sel) v"

section \<open>Local computations\<close>

text \<open>A computation is local to a path if it looks only at the errors at or below the path, reports errors only there, and
  leaves the state of the service alone: two response contexts that agree below the path give the same outcome and the same new errors.\<close>

definition agree :: "'e gqlgen \<Rightarrow> gpath \<Rightarrow> 'e \<Rightarrow> 'e \<Rightarrow> bool" where
  "agree rt p e1 e2 \<longleftrightarrow> filter (\<lambda>q. prefix p (fst q)) (GetErrors rt e1) = filter (\<lambda>q. prefix p (fst q)) (GetErrors rt e2)"

definition adds :: "'e gqlgen \<Rightarrow> (gpath \<times> error) list \<Rightarrow> 'e \<Rightarrow> 'e \<Rightarrow> bool" where
  "adds rt L e e' \<longleftrightarrow> GetErrors rt e' = GetErrors rt e @ L"

definition outcome ::
  "'e gqlgen \<Rightarrow> gpath \<Rightarrow> ('a option \<times> (gpath \<times> error) list) \<Rightarrow> ('a, 'e, 's) ex \<Rightarrow> 'e \<Rightarrow> 's \<Rightarrow> bool" where
  "outcome rt p xL m e s \<longleftrightarrow> (\<forall>q \<in> set (snd xL). prefix p (fst q)) \<and>
     (\<exists>e'. adds rt (snd xL) e e' \<and> m (e, s) = (case fst xL of Some x \<Rightarrow> Returns (x, e', s) | None \<Rightarrow> Panics (e', s)))"

definition local :: "'e gqlgen \<Rightarrow> gpath \<Rightarrow> ('a, 'e, 's) ex \<Rightarrow> bool" where
  "local rt p m \<longleftrightarrow> (\<forall>e1. \<exists>xL. \<forall>e2 s. agree rt p e1 e2 \<longrightarrow> outcome rt p xL m e2 s)"

lemma agree_refl [simp]: "agree rt p e e"
  by (simp add: agree_def)

lemma agree_sym: "agree rt p e1 e2 \<Longrightarrow> agree rt p e2 e1"
  by (simp add: agree_def)

lemma agree_trans: "agree rt p e1 e2 \<Longrightarrow> agree rt p e2 e3 \<Longrightarrow> agree rt p e1 e3"
  by (simp add: agree_def)

lemma agree_adds: "agree rt p e1 e2 \<Longrightarrow> adds rt L e1 e1' \<Longrightarrow> adds rt L e2 e2' \<Longrightarrow> agree rt p e1' e2'"
  by (simp add: agree_def adds_def)

lemma agree_longer: "agree rt p e1 e2 \<Longrightarrow> agree rt (p @ q) e1 e2"
proof -
  have "filter (\<lambda>x. prefix (p @ q) (fst x)) xs = filter (\<lambda>x. prefix (p @ q) (fst x)) (filter (\<lambda>x. prefix p (fst x)) xs)" for xs :: "(gpath \<times> error) list"
    by (auto intro!: filter_cong dest: append_prefixD)
  then show "agree rt p e1 e2 \<Longrightarrow> agree rt (p @ q) e1 e2" unfolding agree_def by metis
qed

lemma adds_trans: "adds rt L e e1 \<Longrightarrow> adds rt M e1 e2 \<Longrightarrow> adds rt (L @ M) e e2"
  by (simp add: adds_def)

lemma localI: "(\<And>e1 e2 s. agree rt p e1 e2 \<Longrightarrow> outcome rt p (g e1) m e2 s) \<Longrightarrow> local rt p m"
  unfolding local_def by blast

lemma local_return: "local rt p (ex_return a)"
  by (rule localI [where g = "\<lambda>_. (Some a, [])"]) (simp add: outcome_def adds_def ex_return_def)

lemma local_panic: "local rt p ex_panic"
  by (rule localI [where g = "\<lambda>_. (None, [])"]) (simp add: outcome_def adds_def ex_panic_def)

lemma local_error: "gqlgen_documented rt \<Longrightarrow> local rt p (ex_error rt p err a)"
  by (rule localI [where g = "\<lambda>_. (Some a, [(p, err)])"]) (simp add: outcome_def adds_def ex_error_def gqlgen_documented_def)

lemma HasFieldError_agree: "gqlgen_documented rt \<Longrightarrow> agree rt p e1 e2 \<Longrightarrow> HasFieldError rt e1 p = HasFieldError rt e2 p"
proof -
  have "p \<in> fst ` set xs \<longleftrightarrow> p \<in> fst ` set (filter (\<lambda>q. prefix p (fst q)) xs)" for xs :: "(gpath \<times> error) list" by force
  then show "gqlgen_documented rt \<Longrightarrow> agree rt p e1 e2 \<Longrightarrow> ?thesis" unfolding gqlgen_documented_def agree_def by metis
qed

lemma local_error_once:
  assumes "gqlgen_documented rt"
  shows "local rt p (ex_error_once rt p msg a)"
  using HasFieldError_agree [OF assms, of p] assms
  by (intro localI [where g = "\<lambda>e1. (Some a, if HasFieldError rt e1 p then [] else [(p, Errorf msg)])"])
    (auto simp: outcome_def adds_def ex_error_once_def ex_error_def gqlgen_documented_def)

lemma local_bind:
  assumes "local rt p m" and "\<And>a. local rt p (f a)"
  shows "local rt p (ex_bind m f)"
  unfolding local_def
proof
  fix e1
  from assms(1) obtain x L where m: "\<And>e2 s. agree rt p e1 e2 \<Longrightarrow> outcome rt p (x, L) m e2 s"
    unfolding local_def by (metis surj_pair)
  show "\<exists>xL. \<forall>e2 s. agree rt p e1 e2 \<longrightarrow> outcome rt p xL (ex_bind m f) e2 s"
  proof (cases x)
    case None
    have "outcome rt p (None, L) (ex_bind m f) e2 s" if "agree rt p e1 e2" for e2 s
      using m [OF that, of s] None by (auto simp: outcome_def ex_bind_def)
    then show ?thesis by blast
  next
    case (Some a)
    obtain e1' where e1': "adds rt L e1 e1'" using m [of e1] by (auto simp: outcome_def)
    from assms(2) [of a] obtain y M where f: "\<And>e2 s. agree rt p e1' e2 \<Longrightarrow> outcome rt p (y, M) (f a) e2 s"
      unfolding local_def by (metis surj_pair)
    have "outcome rt p (y, L @ M) (ex_bind m f) e2 s" if "agree rt p e1 e2" for e2 s
    proof -
      from m [OF that] Some obtain e2' where 1: "adds rt L e2 e2'" "m (e2, s) = Returns (a, e2', s)"
        and L: "\<forall>q \<in> set L. prefix p (fst q)" by (auto simp: outcome_def)
      from f [OF agree_adds [OF that e1' 1(1)]] have "outcome rt p (y, M) (f a) e2' s" .
      with 1 L show ?thesis by (fastforce simp: outcome_def ex_bind_def intro: adds_trans split: option.splits)
    qed
    then show ?thesis by blast
  qed
qed

lemma local_recover:
  assumes "gqlgen_documented rt" and "local rt p m"
  shows "local rt p (ex_recover rt p a m)"
  unfolding local_def
proof
  fix e1
  from assms(2) obtain x L where m: "\<And>e2 s. agree rt p e1 e2 \<Longrightarrow> outcome rt p (x, L) m e2 s"
    unfolding local_def by (metis surj_pair)
  let ?xL = "case x of Some b \<Rightarrow> (Some b, L) | None \<Rightarrow> (Some a, L @ [(p, ec_Recover rt)])"
  have "outcome rt p ?xL (ex_recover rt p a m) e2 s" if "agree rt p e1 e2" for e2 s
    using m [OF that, of s] assms(1)
    by (auto simp: outcome_def ex_recover_def ex_error_def adds_def gqlgen_documented_def split: option.splits)
  then show "\<exists>xL. \<forall>e2 s. agree rt p e1 e2 \<longrightarrow> outcome rt p xL (ex_recover rt p a m) e2 s" by blast
qed

lemma local_shorter:
  assumes "local rt (p @ q) m"
  shows "local rt p m"
  unfolding local_def
proof
  fix e1
  from assms obtain xL where m: "\<And>e2 s. agree rt (p @ q) e1 e2 \<Longrightarrow> outcome rt (p @ q) xL m e2 s" unfolding local_def by metis
  have "outcome rt p xL m e2 s" if "agree rt p e1 e2" for e2 s
    using m [OF agree_longer [OF that]] by (auto simp: outcome_def dest: append_prefixD)
  then show "\<exists>xL. \<forall>e2 s. agree rt p e1 e2 \<longrightarrow> outcome rt p xL m e2 s" by blast
qed

section \<open>The executor is local\<close>

lemma local_step: "local rt (p @ [x]) m \<Longrightarrow> local rt p m"
  by (rule local_shorter)

lemma local_check_null: "gqlgen_documented rt \<Longrightarrow> local rt p (check_null rt p v)"
  by (simp add: check_null_def local_return local_error_once)

lemma local_scalars:
  assumes "gqlgen_documented rt"
  shows "local rt p (marshalNBoolean2bool rt p b)" "local rt p (marshalNInt2int rt p i)" "local rt p (marshalNString2string rt p str)"
    "local rt p (marshalNTime2Time rt p t)" "local rt p (marshalOString2ptr rt p sp)"
  by (simp_all add: marshalNBoolean2bool_def marshalNInt2int_def marshalNString2string_def marshalNTime2Time_def
      marshalOString2ptr_def local_check_null [OF assms] local_return)

lemma local_marshal_each: "(\<And>v. local rt p (f v)) \<Longrightarrow> local rt p (marshal_each f vs)"
  by (induction vs) (auto intro!: local_bind local_return)

lemma local_string_lists:
  assumes "gqlgen_documented rt"
  shows "local rt p (marshalNString2slice rt p xs)" "local rt p (marshalOString2slice rt p sp)"
  by (auto simp: marshalNString2slice_def marshalOString2slice_def intro!: local_bind local_return local_marshal_each local_scalars assms
      split: option.split)

lemma local_marshal_ptr: "gqlgen_documented rt \<Longrightarrow> (\<And>x. local rt p (f x)) \<Longrightarrow> local rt p (marshal_ptr rt p f v)"
  by (simp add: marshal_ptr_def local_error_once split: option.split)

lemma local_fields:
  assumes "gqlgen_documented rt" and "\<And>r. local rt (p @ [x]) (marshal (p @ [x]) r)"
  shows "local rt p (field_N rt (p @ [x]) (got v) marshal)" "local rt p (field_O rt (p @ [x]) (got v) marshal)"
  unfolding field_N_def field_O_def got_def ex_bind_return
  by (rule local_step, rule local_recover [OF assms(1)], simp add: assms(2))+

lemma local_field_loop:
  assumes "\<And>f nn m. switch f = Some (nn, m) \<Longrightarrow> local rt p m"
  shows "local rt p (field_loop switch sel)"
proof (induction sel)
  case (Cons f fs)
  then show ?case
    using assms by (auto intro!: local_bind local_return local_panic split: option.split)
qed (simp add: local_return)

lemma local_object_set:
  assumes "\<And>f nn m. switch f = Some (nn, m) \<Longrightarrow> local rt p m"
  shows "local rt p (object_set switch sel)"
  unfolding object_set_def
  by (rule local_bind, rule local_field_loop, erule assms) (simp add: local_return split: prod.split)

lemma local_typename: "typename rt n = Some (nn, m) \<Longrightarrow> local rt p m"
  by (auto simp: typename_def local_return)

lemmas local_rules = local_fields local_scalars local_string_lists

lemma local_Network: "gqlgen_documented rt \<Longrightarrow> local rt p (ec_Network rt p sel obj)"
  unfolding ec_Network_def
  by (rule local_object_set) (auto simp: exec_defs WithFieldContext_def intro!: local_rules intro: local_typename split: if_splits)

lemma local_Network_ptr: "gqlgen_documented rt \<Longrightarrow> local rt p (marshalNNetwork2ptr rt sel p v)"
  by (simp add: marshalNNetwork2ptr_def local_marshal_ptr local_Network)

lemma local_Contract: "gqlgen_documented rt \<Longrightarrow> local rt p (ec_Contract rt p sel obj)"
  unfolding ec_Contract_def
  by (rule local_object_set) (auto simp: exec_defs WithFieldContext_def intro!: local_rules local_Network_ptr intro: local_typename split: if_splits)

lemma local_Contract_ptr: "gqlgen_documented rt \<Longrightarrow> local rt p (marshalNContract2ptr rt sel p v)"
  by (simp add: marshalNContract2ptr_def local_marshal_ptr local_Contract)

lemma local_ContractEdge: "gqlgen_documented rt \<Longrightarrow> local rt p (ec_ContractEdge rt p sel obj)"
  unfolding ec_ContractEdge_def
  by (rule local_object_set) (auto simp: exec_defs WithFieldContext_def intro!: local_rules local_Contract_ptr intro: local_typename split: if_splits)

lemma local_ContractEdge_ptr: "gqlgen_documented rt \<Longrightarrow> local rt p (marshalNContractEdge2ptr rt sel p v)"
  by (simp add: marshalNContractEdge2ptr_def local_marshal_ptr local_ContractEdge)


section \<open>Schedules\<close>

text \<open>What the element \<open>i\<close> answers and reports, whatever the other elements have reported.\<close>

definition elements ::
  "'e gqlgen \<Rightarrow> gpath \<Rightarrow> (gpath \<Rightarrow> 'a \<Rightarrow> (gval, 'e, 's) ex) \<Rightarrow> 'a list \<Rightarrow> 'e \<Rightarrow> (nat \<Rightarrow> gval) \<Rightarrow> (nat \<Rightarrow> (gpath \<times> error) list) \<Rightarrow> bool" where
  "elements rt ctx f v e0 X L \<longleftrightarrow>
     (\<forall>i e s. agree rt (ctx @ [PIndex i]) e0 e \<longrightarrow> outcome rt (ctx @ [PIndex i]) (Some (X i), L i) (f (ctx @ [PIndex i]) (v ! i)) e s)"

lemma elements_exist:
  fixes f :: "gpath \<Rightarrow> 'a \<Rightarrow> (gval, 'e, 's) ex"
  assumes "\<And>p x. local rt p (f p x)" and "\<And>p x. runs rt P False (f p x)"
  shows "\<exists>X L. elements rt ctx f v e0 X L"
proof -
  have "\<exists>x L. \<forall>e s. agree rt (ctx @ [PIndex i]) e0 e \<longrightarrow> outcome rt (ctx @ [PIndex i]) (Some x, L) (f (ctx @ [PIndex i]) (v ! i)) e s" for i
  proof -
    from assms(1) obtain x L where out: "\<And>e s. agree rt (ctx @ [PIndex i]) e0 e \<Longrightarrow> outcome rt (ctx @ [PIndex i]) (x, L) (f (ctx @ [PIndex i]) (v ! i)) e s"
      unfolding local_def by (metis surj_pair)
    have "x \<noteq> None"
    proof
      assume "x = None"
      with out [OF agree_refl] obtain e' where "f (ctx @ [PIndex i]) (v ! i) (e0, undefined) = Panics (e', undefined)"
        by (auto simp: outcome_def)
      from runs_Panics [OF assms(2) this] show False by simp
    qed
    with out show ?thesis by blast
  qed
  then obtain X where "\<forall>i. \<exists>L. \<forall>e s. agree rt (ctx @ [PIndex i]) e0 e \<longrightarrow> outcome rt (ctx @ [PIndex i]) (Some (X i), L) (f (ctx @ [PIndex i]) (v ! i)) e s"
    by metis
  then show ?thesis unfolding elements_def by metis
qed

lemma elements_step:
  assumes "elements rt ctx f v e0 X L" and "agree rt (ctx @ [PIndex i]) e0 e"
  obtains e1 where "f (ctx @ [PIndex i]) (v ! i) (e, s) = Returns (X i, e1, s)" "adds rt (L i) e e1"
    "\<And>j. j \<noteq> i \<Longrightarrow> agree rt (ctx @ [PIndex j]) e0 e \<Longrightarrow> agree rt (ctx @ [PIndex j]) e0 e1"
proof -
  from assms obtain e1 where e1: "f (ctx @ [PIndex i]) (v ! i) (e, s) = Returns (X i, e1, s)" "adds rt (L i) e e1"
    and L: "\<forall>q \<in> set (L i). prefix (ctx @ [PIndex i]) (fst q)"
    by (fastforce simp: elements_def outcome_def)
  have "filter (\<lambda>q. prefix (ctx @ [PIndex j]) (fst q)) (L i) = []" if "j \<noteq> i" for j
    using L that by (auto simp: filter_empty_conv prefix_def)
  with e1(2) have "agree rt (ctx @ [PIndex j]) e0 e1" if "j \<noteq> i" "agree rt (ctx @ [PIndex j]) e0 e" for j
    using that by (simp add: agree_def adds_def)
  with e1 that show ?thesis by blast
qed

lemma run_goroutines_scheduled:
  assumes "elements rt ctx f v e0 X L" and "distinct order" and "\<And>i. i \<in> set order \<Longrightarrow> agree rt (ctx @ [PIndex i]) e0 e"
  shows "\<exists>e'. run_goroutines rt ctx f v order (Some xs) (e, s) = Returns (Some (foldl (\<lambda>xs i. xs[i := X i]) xs order), e', s)
     \<and> adds rt (concat (map L order)) e e'"
  using assms(2,3)
proof (induction order arbitrary: xs e)
  case Nil
  then show ?case by (simp add: ex_return_def adds_def)
next
  case (Cons i order)
  obtain e1 where e1: "f (ctx @ [PIndex i]) (v ! i) (e, s) = Returns (X i, e1, s)" "adds rt (L i) e e1"
    and other: "\<And>j. j \<noteq> i \<Longrightarrow> agree rt (ctx @ [PIndex j]) e0 e \<Longrightarrow> agree rt (ctx @ [PIndex j]) e0 e1"
    using elements_step [OF assms(1) Cons.prems(2), where s = s] by (metis list.set_intros(1))
  have step: "list_goroutine rt ctx f v i (Some xs) (e, s) = Returns (Some (xs[i := X i]), e1, s)"
    by (simp add: list_goroutine_def Let_def ex_recover_def ex_bind_def e1(1) set_slot_def ex_return_def)
  have "agree rt (ctx @ [PIndex j]) e0 e1" if "j \<in> set order" for j
    using Cons.prems that by (intro other) auto
  with Cons.IH [of e1 "xs[i := X i]"] Cons.prems(1) obtain e' where
    "run_goroutines rt ctx f v order (Some (xs[i := X i])) (e1, s)
       = Returns (Some (foldl (\<lambda>xs i. xs[i := X i]) (xs[i := X i]) order), e', s)" "adds rt (concat (map L order)) e1 e'"
    by auto
  with step e1(2) show ?case by (auto simp: ex_bind_def intro: adds_trans)
qed

lemma marshal_objects_in_order:
  assumes "elements rt ctx f v e0 X L" and "vs = drop i v" and "\<And>j. i \<le> j \<Longrightarrow> agree rt (ctx @ [PIndex j]) e0 e"
  shows "\<exists>e'. marshal_objects rt ctx f i vs (Some xs) (e, s) = Returns (Some (xs @ map X [i..<length v]), e', s)
     \<and> adds rt (concat (map L [i..<length v])) e e'"
  using assms(2,3)
proof (induction vs arbitrary: i xs e)
  case Nil
  then show ?case by (simp add: ex_return_def adds_def)
next
  case (Cons x vs)
  then have i: "i < length v" "v ! i = x" "vs = drop (Suc i) v"
    by (metis drop_all list.distinct(1) not_le, metis nth_via_drop, metis drop_Suc list.sel(3) tl_drop)
  obtain e1 where e1: "f (ctx @ [PIndex i]) x (e, s) = Returns (X i, e1, s)" "adds rt (L i) e e1"
    and other: "\<And>j. j \<noteq> i \<Longrightarrow> agree rt (ctx @ [PIndex j]) e0 e \<Longrightarrow> agree rt (ctx @ [PIndex j]) e0 e1"
    using elements_step [OF assms(1) Cons.prems(2) [OF order_refl], where s = s] i(2) by metis
  have "agree rt (ctx @ [PIndex j]) e0 e1" if "Suc i \<le> j" for j using Cons.prems(2) [of j] that by (intro other) auto
  with Cons.IH [OF i(3), of e1 "xs @ [X i]"] obtain e' where
    "marshal_objects rt ctx f (Suc i) vs (Some (xs @ [X i])) (e1, s) = Returns (Some (xs @ X i # map X [Suc i..<length v]), e', s)"
    "adds rt (concat (map L [Suc i..<length v])) e1 e'" by auto
  with e1 i(1) show ?case
    by (auto simp: Let_def ex_bind_def ex_recover_def set_element_def ex_return_def upt_conv_Cons intro: adds_trans)
qed

lemma foldl_slots:
  assumes "distinct order" and "set order \<subseteq> {..<length xs}"
  shows "foldl (\<lambda>xs i. xs[i := X i]) xs order = map (\<lambda>k. if k \<in> set order then X k else xs ! k) [0..<length xs]"
  using assms
proof (induction order arbitrary: xs)
  case Nil
  then show ?case by (simp add: map_nth)
next
  case (Cons i order)
  then show ?case by (auto intro!: nth_equalityI simp: nth_list_update)
qed

text \<open>Every schedule gives the list of the sequential order, and the same errors in another order.\<close>

lemma marshal_scheduled_slice:
  fixes f :: "gpath \<Rightarrow> 'a \<Rightarrow> (gval, 'e, 's) ex"
  assumes "\<And>p x. local rt p (f p x)" and "\<And>p x. runs rt P False (f p x)" and "mset order = mset [0..<length v]"
  shows "\<exists>a e1 e2. marshal_slice rt ctx f v (e, s) = Returns (a, e1, s) \<and> marshal_scheduled order rt ctx f v (e, s) = Returns (a, e2, s)
     \<and> mset (GetErrors rt e1) = mset (GetErrors rt e2)"
proof -
  obtain X L where el: "elements rt ctx f v e X L" using elements_exist [where f = f, OF assms(1,2)] by blast
  have order: "distinct order" "set order = {..<length v}"
    using assms(3) by (metis distinct_upt mset_eq_imp_distinct_iff, metis atLeast_upt mset_eq_setD)
  obtain e1 where 1: "marshal_objects rt ctx f 0 v (Some []) (e, s) = Returns (Some (map X [0..<length v]), e1, s)"
    "adds rt (concat (map L [0..<length v])) e e1"
    using marshal_objects_in_order [OF el, of v 0 e "[]" s] by auto
  obtain e2 where 2: "run_goroutines rt ctx f v order (Some (replicate (length v) GNil)) (e, s)
       = Returns (Some (foldl (\<lambda>xs i. xs[i := X i]) (replicate (length v) GNil) order), e2, s)" "adds rt (concat (map L order)) e e2"
    using run_goroutines_scheduled [OF el order(1), of e "replicate (length v) GNil" s] by auto
  have "foldl (\<lambda>xs i. xs[i := X i]) (replicate (length v) GNil) order = map X [0..<length v]"
    using order by (simp add: foldl_slots)
  with 1 2 show ?thesis
    using mset_concat_perm [OF assms(3), of L] by (simp add: marshal_slice_def marshal_scheduled_def ex_bind_def ex_return_def adds_def)
qed

section \<open>Properties\<close>

text \<open>C14. The goroutines that marshal a list of contract edges or of networks may be scheduled in any order: for a valid selection
  every schedule returns, with the list that the sequential order gives and the same errors up to their order, and leaves the
  state of the service alone.\<close>

theorem list_schedule_irrelevant:
  assumes "gqlgen_documented rt" and "valid_sel ''ContractEdge'' esel" and "valid_sel ''Network'' nsel"
    and "mset order = mset [0..<length es]" and "mset order' = mset [0..<length ns]"
  shows "(\<exists>a e1 e2. marshalNContractEdge2slice rt esel ctx es (e, s) = Returns (a, e1, s)
        \<and> scheduled_ContractEdge2slice order rt esel ctx es (e, s) = Returns (a, e2, s)
        \<and> mset (GetErrors rt e1) = mset (GetErrors rt e2))
     \<and> (\<exists>a e1 e2. marshalNNetwork2slice rt nsel ctx ns (e, s) = Returns (a, e1, s)
        \<and> scheduled_Network2slice order' rt nsel ctx ns (e, s) = Returns (a, e2, s)
        \<and> mset (GetErrors rt e1) = mset (GetErrors rt e2))"
proof
  have edges: "runs rt (ok_val esel (NonNull (Named ''ContractEdge''))) False (marshalNContractEdge2ptr rt esel p x)" for p x
    unfolding marshalNContractEdge2ptr_def by (rule runs_marshal_ptr [OF assms(1) runs_ContractEdge [OF assms(1,2)]])
  show "\<exists>a e1 e2. marshalNContractEdge2slice rt esel ctx es (e, s) = Returns (a, e1, s)
      \<and> scheduled_ContractEdge2slice order rt esel ctx es (e, s) = Returns (a, e2, s) \<and> mset (GetErrors rt e1) = mset (GetErrors rt e2)"
    unfolding marshalNContractEdge2slice_def scheduled_ContractEdge2slice_def
    by (rule marshal_scheduled_slice [OF local_ContractEdge_ptr [OF assms(1)] edges assms(4)])
  show "\<exists>a e1 e2. marshalNNetwork2slice rt nsel ctx ns (e, s) = Returns (a, e1, s)
      \<and> scheduled_Network2slice order' rt nsel ctx ns (e, s) = Returns (a, e2, s) \<and> mset (GetErrors rt e1) = mset (GetErrors rt e2)"
    unfolding marshalNNetwork2slice_def scheduled_Network2slice_def
    by (rule marshal_scheduled_slice [OF local_Network_ptr [OF assms(1)] runs_Network_ptr [OF assms(1,3)] assms(5)])
qed

theorem list_schedule_irrelevant_witness:
  "scheduled_ContractEdge2slice [1, 0] plain_gqlgen [CollectedField ''c'' ''cursor'' [] []] [] [None, None] ([], 0 :: nat)
     = Returns (GNull, [([PIndex 1], Errorf null_not_allowed), ([PIndex 0], Errorf null_not_allowed)], 0)
   \<and> (\<exists>e. marshalNContractEdge2slice plain_gqlgen [CollectedField ''c'' ''cursor'' [] []] [] [None, None] ([], 0 :: nat) = Returns (GNull, e, 0)
       \<and> size (mset e) = 2)"
proof -
  let ?sel = "[CollectedField ''c'' ''cursor'' [] []]"
  have run: "scheduled_ContractEdge2slice [1, 0] plain_gqlgen ?sel [] [None, None] ([], 0 :: nat)
     = Returns (GNull, [([PIndex 1], Errorf null_not_allowed), ([PIndex 0], Errorf null_not_allowed)], 0)" by code_simp
  have "valid_sel ''ContractEdge'' ?sel" "valid_sel ''Network'' []" by (simp_all add: schema_simps)
  from list_schedule_irrelevant [OF plain_gqlgen_documented this, of "[1, 0]" "[None, None]" "[]" "[]" "[]" "[]" "0 :: nat"]
  obtain e where e: "marshalNContractEdge2slice plain_gqlgen ?sel [] [None, None] ([], 0 :: nat) = Returns (GNull, e, 0)"
    and errs: "mset (GetErrors plain_gqlgen e) = mset [([PIndex 1], Errorf null_not_allowed), ([PIndex 0], Errorf null_not_allowed)]"
    unfolding run by (auto simp: upt_rec plain_gqlgen_def)
  have "size (mset e) = 2" using arg_cong [OF errs, of size] by (simp add: plain_gqlgen_def)
  with e run show ?thesis by blast
qed

end
