(* ===== verification/Persistence.thy ===== *)
theory Persistence
  imports Unpack
begin

text \<open>
  What an unpacking leaves in place of what others stored (src/pkg/unpacker, src/pkg/models): the id under which a contract is
  stored never changes and no row is lost, because a run updates only the row that discovery found under the network, the
  block and the address of its own descriptor; and a run that completes the final state has a row for its contract, whoever
  wrote it.
\<close>

section \<open>Ids and keys\<close>

text \<open>The ids of the table with the contracts stored under them.\<close>

definition row_ids :: "contracts_db \<Rightarrow> (int \<times> dbkey) set" where
  "row_ids t = (\<lambda>r. (r_id r, row_key r)) ` set (db_rows t)"

lemma row_ids_faults [simp]: "row_ids (t\<lparr>db_faults := f\<rparr>) = row_ids t"
  by (simp add: row_ids_def)

lemma row_ids_map: "row_ids t = set (map (\<lambda>r. (r_id r, row_key r)) (db_rows t))"
  by (simp add: row_ids_def)

lemma row_ids_insert: "row_ids t \<subseteq> row_ids (snd (exec_insert r t))"
  by (auto simp: exec_insert_def row_ids_def)

text \<open>An update of the row of an id under its own key, or of no row, moves nothing.\<close>

lemma row_ids_update:
  assumes "db_wf t" and "i \<in> r_id ` set (db_rows t) \<Longrightarrow> (i, row_key r) \<in> row_ids t"
  shows "row_ids (snd (exec_update r i t)) = row_ids t"
proof (cases "i \<in> r_id ` set (db_rows t)")
  case True
  have "row_key x = row_key r" if "x \<in> set (db_rows t)" "r_id x = i" for x
  proof -
    obtain y where y: "y \<in> set (db_rows t)" "r_id y = i" "row_key y = row_key r" using assms(2) [OF True] by (auto simp: row_ids_def)
    moreover have "inj_on r_id (set (db_rows t))" using assms(1) by (simp add: db_wf_def distinct_map)
    ultimately show ?thesis using that by (metis inj_onD)
  qed
  moreover have "row_key (r\<lparr>r_id := i, r_created_at := c\<rparr>) = row_key r" for c by (simp add: row_key_def)
  ultimately have "map (\<lambda>r. (r_id r, row_key r)) (map (\<lambda>x. if r_id x = i then r\<lparr>r_id := i, r_created_at := r_created_at x\<rparr> else x) (db_rows t))
      = map (\<lambda>r. (r_id r, row_key r)) (db_rows t)" by simp
  then have "snd (exec_update r i t) = t
      \<or> map (\<lambda>r. (r_id r, row_key r)) (db_rows (snd (exec_update r i t))) = map (\<lambda>r. (r_id r, row_key r)) (db_rows t)"
    by (simp only: exec_update_def split: if_splits) simp
  then show ?thesis by (elim disjE) (simp_all only: row_ids_map)
qed (simp add: exec_update_absent)

lemma row_ids_Save: "row_ids t \<subseteq> row_ids (snd (SaveContract cd c t))"
  using row_ids_insert
  by (fastforce simp: SaveContract_def db_poll_def Let_def case_prod_unfold split: sum.splits option.splits)

lemma row_ids_Update:
  assumes "db_wf t" and "c_Id c \<in> r_id ` set (db_rows t) \<Longrightarrow> (c_Id c, contract_key cd c) \<in> row_ids t"
  shows "row_ids (snd (UpdateContract cd c t)) = row_ids t"
proof -
  have "row_ids (snd (exec_update (contract_row cd c fs) (c_Id c) (t\<lparr>db_faults := f\<rparr>))) = row_ids t" for fs f
    using row_ids_update [of "t\<lparr>db_faults := f\<rparr>" "c_Id c" "contract_row cd c fs"] assms by (simp add: db_wf_def)
  then show ?thesis
    by (simp add: UpdateContract_def db_poll_def Let_def case_prod_unfold split: sum.splits option.splits)
qed

section \<open>What a stage settles\<close>

text \<open>The key of a descriptor, and the condition on the stored contract that it carries: the id is in the table, under that key.\<close>

definition descriptor_key :: "'x env \<Rightarrow> 'x Descriptor \<Rightarrow> dbkey option" where
  "descriptor_key env x = map_option (\<lambda>h. (big_Uint64 (ToBig (e_solgo env) (d_NetworkID x)), big_Uint64 (hd_Number h),
     addr_Hex (e_codec env) (d_Addr x))) (d_Header x)"

definition model_at :: "'x env \<Rightarrow> 'x Descriptor \<Rightarrow> contracts_db \<Rightarrow> bool" where
  "model_at env x t \<longleftrightarrow> (\<forall>m. contractModel x = Some m \<longrightarrow> (\<exists>k. descriptor_key env x = Some k \<and> (c_Id m, k) \<in> row_ids t))"

definition settled :: "'x env \<Rightarrow> 'x data \<Rightarrow> bool" where
  "settled env d \<longleftrightarrow> db_wf (dt_db d) \<and> model_at env (dt_descriptor d) (dt_db d)"

definition settles :: "'x env \<Rightarrow> 'x data \<Rightarrow> 'x data \<Rightarrow> bool" where
  "settles env d d' \<longleftrightarrow> (settled env d \<longrightarrow> settled env d' \<and> row_ids (dt_db d) \<subseteq> row_ids (dt_db d'))"

lemma model_at_mono: "model_at env x t \<Longrightarrow> row_ids t \<subseteq> row_ids t' \<Longrightarrow> model_at env x t'"
  by (fastforce simp: model_at_def)

lemma settles_refl [simp]: "settles env d d"
  by (simp add: settles_def)

lemma settles_trans: "settles env d d' \<Longrightarrow> settles env d' d'' \<Longrightarrow> settles env d d''"
  by (auto simp: settles_def)

lemma descriptor_key_identity: "identity x = identity y \<Longrightarrow> descriptor_key env x = descriptor_key env y"
  by (simp add: identity_def descriptor_key_def)

lemma settles_upd:
  assumes "identity (f (dt_descriptor d)) = identity (dt_descriptor d)" and "contractModel (f (dt_descriptor d)) = contractModel (dt_descriptor d)"
  shows "settles env d (upd f d)"
  using assms(2) descriptor_key_identity [OF assms(1)] by (simp add: settles_def settled_def model_at_def)

text \<open>No failure of the engine reads like a violated constraint.\<close>

definition honest_faults :: "contracts_db \<Rightarrow> bool" where
  "honest_faults t \<longleftrightarrow> (\<forall>i e. db_faults t i = Some e \<longrightarrow> \<not> strings_Contains (Error e) ''UNIQUE constraint failed'')"

text \<open>A descriptor with the final state completed has a row.\<close>

definition stored_if_final :: "'x env \<Rightarrow> 'x Descriptor \<Rightarrow> contracts_db \<Rightarrow> bool" where
  "stored_if_final env x t \<longleftrightarrow> (FinalState \<in> set (completedStates x) \<longrightarrow> (\<exists>k. descriptor_key env x = Some k \<and> k \<in> snd ` row_ids t))"

definition landed :: "'x env \<Rightarrow> 'x data \<Rightarrow> bool" where
  "landed env d \<longleftrightarrow> codec_documented (e_codec env) \<and> honest_faults (dt_db d) \<and> stored_if_final env (dt_descriptor d) (dt_db d)"

definition lands :: "'x env \<Rightarrow> 'x data \<Rightarrow> 'x data \<Rightarrow> bool" where
  "lands env d d' \<longleftrightarrow> settles env d d' \<and> (honest_faults (dt_db d) \<longrightarrow> honest_faults (dt_db d'))
     \<and> (settled env d \<longrightarrow> landed env d \<longrightarrow> landed env d')"

lemma stored_if_final_mono: "stored_if_final env x t \<Longrightarrow> row_ids t \<subseteq> row_ids t' \<Longrightarrow> stored_if_final env x t'"
  by (fastforce simp: stored_if_final_def)

lemma honest_advance: "honest_faults t \<Longrightarrow> honest_faults (t\<lparr>db_faults := advance (db_faults t)\<rparr>)"
  by (simp add: honest_faults_def advance_def)

lemma lands_refl [simp]: "lands env d d"
  by (simp add: lands_def)

lemma lands_trans: "lands env d d' \<Longrightarrow> lands env d' d'' \<Longrightarrow> lands env d d''"
  by (auto simp: lands_def settles_def)

lemma lands_upd:
  assumes "identity (f (dt_descriptor d)) = identity (dt_descriptor d)" and "contractModel (f (dt_descriptor d)) = contractModel (dt_descriptor d)"
    and "FinalState \<in> set (completedStates (f (dt_descriptor d))) \<Longrightarrow> FinalState \<in> set (completedStates (dt_descriptor d))"
  shows "lands env d (upd f d)"
  using settles_upd [of f d env, OF assms(1,2)] descriptor_key_identity [OF assms(1)] assms(3)
  by (auto simp: lands_def landed_def stored_if_final_def)

interpretation landing: stage_relation "lands env" for env
  by unfold_locales (auto intro: lands_trans intro!: lands_upd)

lemma lands_fields [simp]:
  "lands env d (d'\<lparr>dt_files := f\<rparr>) = lands env d d'" "lands env d (d'\<lparr>dt_clock := c\<rparr>) = lands env d d'"
  by (simp_all add: lands_def landed_def settles_def settled_def)

section \<open>The handlers\<close>

lemma settles_db:
  assumes "settled env d \<Longrightarrow> db_wf t \<and> row_ids (dt_db d) \<subseteq> row_ids t"
  shows "settles env d (d\<lparr>dt_db := t\<rparr>)"
  using assms by (auto simp: settles_def settled_def intro: model_at_mono)

text \<open>A statement that leaves the rows of the others in place lands.\<close>

lemma lands_db:
  assumes "settled env d \<Longrightarrow> db_wf t \<and> row_ids (dt_db d) \<subseteq> row_ids t" and "honest_faults (dt_db d) \<Longrightarrow> honest_faults t"
  shows "lands env d (d\<lparr>dt_db := t\<rparr>)"
  using settles_db [of env d t] assms by (auto simp: lands_def landed_def intro: stored_if_final_mono)

lemma honest_Save: "honest_faults t \<Longrightarrow> honest_faults (snd (SaveContract cd c t))"
  by (auto simp: SaveContract_def db_poll_def Let_def case_prod_unfold exec_insert_def honest_faults_def advance_def split: sum.splits option.splits)

lemma honest_Update: "honest_faults t \<Longrightarrow> honest_faults (snd (UpdateContract cd c t))"
  by (auto simp: UpdateContract_def db_poll_def Let_def case_prod_unfold exec_update_def honest_faults_def advance_def split: sum.splits option.splits)

text \<open>An entry that belongs to the descriptor: it has the descriptor's key and the id of the model, or none.\<close>

definition entry_of :: "'x env \<Rightarrow> Contract \<Rightarrow> 'x Descriptor \<Rightarrow> bool" where
  "entry_of env entry x \<longleftrightarrow> descriptor_key env x = Some (contract_key (e_codec env) entry)
     \<and> c_Id entry = (case contractModel x of None \<Rightarrow> 0 | Some m \<Rightarrow> c_Id m)"

lemma GetContractEntry_entry_of:
  "GetContractEntry (e_solgo env) clock x = Some (entry, t) \<Longrightarrow> entry_of env entry x"
  by (auto simp: GetContractEntry_def Let_def entry_of_def descriptor_key_def contract_key_def split: option.splits)

lemma settles_Update:
  assumes "entry_of env entry (dt_descriptor d)"
  shows "settles env d (d\<lparr>dt_db := snd (UpdateContract (e_codec env) entry (dt_db d))\<rparr>)"
proof (rule settles_db)
  assume s: "settled env d"
  have "(c_Id entry, contract_key (e_codec env) entry) \<in> row_ids (dt_db d)" if "c_Id entry \<in> r_id ` set (db_rows (dt_db d))"
  proof (cases "contractModel (dt_descriptor d)")
    case None
    with assms that s show ?thesis by (auto simp: entry_of_def settled_def db_wf_def)
  next
    case (Some m)
    with assms s show ?thesis by (auto simp: entry_of_def settled_def model_at_def)
  qed
  then have "row_ids (snd (UpdateContract (e_codec env) entry (dt_db d))) = row_ids (dt_db d)"
    using s by (intro row_ids_Update) (simp_all add: settled_def)
  with s show "db_wf (snd (UpdateContract (e_codec env) entry (dt_db d)))
      \<and> row_ids (dt_db d) \<subseteq> row_ids (snd (UpdateContract (e_codec env) entry (dt_db d)))"
    by (simp add: settled_def UpdateContract_wf)
qed

lemma contains_after:
  assumes "hd p \<notin> set u" and "p \<noteq> []"
  shows "strings_Contains (u @ s) p = strings_Contains s p"
  using assms(1)
proof (induction u)
  case (Cons c u)
  then have "\<not> strings_HasPrefix (c # u @ s) p" using assms(2) by (cases p) (auto simp: strings_HasPrefix_iff)
  with Cons show ?case by simp
qed simp

text \<open>An INSERT that is refused for the constraint finds the contract stored.\<close>

lemma clash_stored:
  assumes "SaveContract cd c t = (Some err, t')" and "strings_Contains (Error err) ''UNIQUE constraint failed''"
    and "honest_faults t" and "codec_documented cd"
  shows "contract_key cd c \<in> snd ` row_ids t"
proof -
  obtain fs where fs: "ToJSON_strings cd (c_FailedStates c) = Inr fs" using assms(4) by (metis codec_documented_def)
  have pre: "strings_Contains (''error preparing insert statement: '' @ s) ''UNIQUE constraint failed'' = strings_Contains s ''UNIQUE constraint failed''"
    "strings_Contains (''error executing insert statement: '' @ s) ''UNIQUE constraint failed'' = strings_Contains s ''UNIQUE constraint failed''" for s
    by (rule contains_after; simp)+
  have no: "\<not> strings_Contains (Error uint64_arg_error) ''UNIQUE constraint failed''" "\<not> strings_Contains (Error full_error) ''UNIQUE constraint failed''"
    by code_simp+
  have h: "db_faults t i = Some e \<Longrightarrow> \<not> strings_Contains (Error e) ''UNIQUE constraint failed''" for i e
    using assms(3) by (simp add: honest_faults_def)
  have "contract_key cd c \<in> row_key ` set (db_rows t)"
    using assms(1,2) fs
    by (auto simp: SaveContract_def db_poll_def exec_insert_def poll_def advance_def pre no h Let_def
        simp del: strings_Contains.simps append.simps split: option.splits if_splits)
  then show ?thesis by (force simp: row_ids_def)
qed

lemma find_stored: "db_find t k = Some r \<Longrightarrow> k \<in> snd ` row_ids t"
  by (auto simp: db_find_def row_ids_def image_image dest!: find_Some_mem)

lemma lands_final_failed: "landing.stage env d (final_failed d)"
proof -
  have "lands env d' (upd (AppendFailedState FinalState) d')" for d' by (rule lands_upd) simp_all
  then show ?thesis by (auto simp: final_failed_def intro!: landing.stage_bind)
qed

lemma lands_Save: "lands env d (d\<lparr>dt_db := snd (SaveContract cd c (dt_db d))\<rparr>)"
  by (rule lands_db) (simp_all add: settled_def SaveContract_wf row_ids_Save honest_Save)

lemma lands_Update:
  assumes "entry_of env entry (dt_descriptor d)"
  shows "lands env d (d\<lparr>dt_db := snd (UpdateContract (e_codec env) entry (dt_db d))\<rparr>)"
  using settles_Update [OF assms] by (intro lands_db) (auto simp: settles_def settled_def honest_Update)

lemma lands_final_update: "entry_of env entry (dt_descriptor d) \<Longrightarrow> landing.stage env d (final_update env entry d)"
  using landing.stage_trans [OF lands_Update lands_final_failed] lands_Update
  by (auto simp: final_update_def case_prod_unfold)

lemma lands_final_store:
  assumes "entry_of env entry (dt_descriptor d)"
  shows "landing.stage env d (final_store env entry d)"
proof (cases "SaveContract (e_codec env) entry (dt_db d)")
  case (Pair e t)
  then have s: "lands env d (d\<lparr>dt_db := t\<rparr>)" using lands_Save [of env d "e_codec env" entry] by simp
  from lands_final_update [of env entry "d\<lparr>dt_db := t\<rparr>"] assms
  have "landing.stage env d (final_update env entry (d\<lparr>dt_db := t\<rparr>))" by (simp add: landing.stage_trans [OF s])
  with Pair s assms show ?thesis
    by (auto simp: final_store_def lands_final_update split: option.splits intro: landing.stage_trans [OF _ lands_final_failed])
qed

lemma lands_final_sources: "landing.stage env d (final_sources env cdesc d)"
proof -
  have "landing.stage env d (final_failed (d\<lparr>dt_files := f\<rparr>))" for f
    by (rule landing.stage_trans [OF _ lands_final_failed]) simp
  then show ?thesis by (auto simp: final_sources_def split: option.splits prod.splits)
qed

text \<open>When the final state has written its entry without failing, the contract has a row, its own or that of whoever was first.\<close>

lemma final_store_stored:
  assumes "entry_of env entry (dt_descriptor d)" and "settled env d" and "landed env d"
    and "final_store env entry d = Returns d2" and "\<not> HasFailedState (dt_descriptor d2) FinalState"
  shows "contract_key (e_codec env) entry \<in> snd ` row_ids (dt_db d2)"
proof -
  have ids: "row_ids (dt_db d) \<subseteq> row_ids (dt_db d2)"
    using lands_final_store [OF assms(1)] assms(2,4) by (simp add: lands_def settles_def)
  show ?thesis
  proof (cases "contractModel (dt_descriptor d)")
    case (Some m)
    with assms(1,2) have "contract_key (e_codec env) entry \<in> snd ` row_ids (dt_db d)"
      by (force simp: entry_of_def settled_def model_at_def)
    with ids show ?thesis by blast
  next
    case None
    obtain e t where s: "SaveContract (e_codec env) entry (dt_db d) = (e, t)" by force
    show ?thesis
    proof (cases e)
      case None
      from SaveContract_find [of "e_codec env" entry "dt_db d" t] s None obtain r where
        "db_find t (contract_key (e_codec env) entry) = Some r" by auto
      then have "contract_key (e_codec env) entry \<in> snd ` row_ids t" by (rule find_stored)
      moreover have "dt_db d2 = t"
        using assms(4) s None \<open>contractModel (dt_descriptor d) = None\<close> by (auto simp: final_store_def split: if_splits)
      ultimately show ?thesis by simp
    next
      case (Some err)
      show ?thesis
      proof (cases "strings_Contains (Error err) ''UNIQUE constraint failed''")
        case True
        with clash_stored [of "e_codec env" entry "dt_db d" err t] s Some assms(3) ids show ?thesis by (auto simp: landed_def)
      next
        case False
        with assms(4,5) s Some \<open>contractModel (dt_descriptor d) = None\<close> show ?thesis
          by (auto simp: final_store_def failed.has_iff failed.get_add simp del: strings_Contains.simps split: if_splits dest!: final_failed_Returns)
      qed
    qed
  qed
qed

definition process_lands :: "'x env \<Rightarrow> 'x data \<Rightarrow> (State \<times> 'x data \<times> error option, 'x data) go \<Rightarrow> bool" where
  "process_lands env d r \<longleftrightarrow> go_all (\<lambda>(n, d', e). lands env d d') (lands env d) r"

lemma process_stage_lands: "landing.process_stage env n d r \<Longrightarrow> process_lands env d r"
  unfolding landing.process_stage_def process_lands_def by (erule go_all_mono) auto

lemma lands_forward:
  assumes "HasCompletedState (dt_descriptor d) DiscoverState \<Longrightarrow> process_lands env d r"
    and "\<not> HasCompletedState (dt_descriptor d) DiscoverState \<Longrightarrow> r = Returns (DiscoverState, upd (SetNextState MetadataState) d, None) \<or> r = Panics d"
  shows "process_lands env d r"
proof (cases "HasCompletedState (dt_descriptor d) DiscoverState")
  case False
  have "lands env d (upd (SetNextState MetadataState) d)" by (rule lands_upd) simp_all
  with assms(2) [OF False] show ?thesis by (auto simp: process_lands_def)
qed (rule assms(1))

lemma lands_completed:
  assumes "lands env d d3" and "settled env d \<Longrightarrow> landed env d \<Longrightarrow> \<exists>k. descriptor_key env (dt_descriptor d3) = Some k \<and> k \<in> snd ` row_ids (dt_db d3)"
  shows "lands env d (upd (AppendCompletedState FinalState) d3)"
proof -
  have key: "descriptor_key env (AppendCompletedState FinalState x) = descriptor_key env x" for x :: "'a Descriptor"
    by (rule descriptor_key_identity) simp
  have "settles env d3 (upd (AppendCompletedState FinalState) d3)" by (rule settles_upd) simp_all
  with assms show ?thesis by (auto simp: lands_def landed_def stored_if_final_def key intro: settles_trans)
qed

lemma lands_final: "HasCompletedState (dt_descriptor d) DiscoverState \<Longrightarrow> process_lands env d (final_Process env d)"
proof -
  assume comp: "HasCompletedState (dt_descriptor d) DiscoverState"
  let ?d1 = "upd (\<lambda>x. x\<lparr>d_Processed := True\<rparr>) d"
  have d1: "lands env d ?d1" by (rule lands_upd) simp_all
  have "process_lands env d (go_bind (final_store env entry (?d1\<lparr>dt_clock := c\<rparr>)) (\<lambda>d2.
      go_bind (final_sources env cdesc d2) (\<lambda>d3. Returns (DoneState,
        (if \<not> HasFailedState (dt_descriptor d3) FinalState then upd (AppendCompletedState FinalState) d3 else d3), None))))"
    (is "process_lands env d (go_bind ?store (\<lambda>d2. go_bind (final_sources env cdesc d2) (\<lambda>d3. Returns (DoneState, ?end d3, None))))")
    if entry: "entry_of env entry (dt_descriptor ?d1)" for entry c cdesc
  proof -
    have start: "lands env d (?d1\<lparr>dt_clock := c\<rparr>)" using d1 by simp
    have store: "landing.stage env d ?store"
      by (rule landing.stage_trans [OF start lands_final_store]) (use entry in simp)
    show ?thesis
  proof (cases ?store)
    case (Returns d2)
    have d2: "lands env d d2" using store Returns by simp
    have stored: "contract_key (e_codec env) entry \<in> snd ` row_ids (dt_db d2)"
      if "settled env d" "landed env d" "\<not> HasFailedState (dt_descriptor d2) FinalState"
      by (rule final_store_stored [OF _ _ _ Returns]) (use entry start that in \<open>auto simp: lands_def settles_def\<close>)
    show ?thesis
    proof (cases "final_sources env cdesc d2")
      case (Returns d3)
      with d2 lands_final_sources [of env d2 cdesc] have d3: "lands env d d3" by (auto intro: lands_trans)
      have same: "dt_db d3 = dt_db d2" "\<not> HasFailedState (dt_descriptor d3) FinalState \<Longrightarrow> \<not> HasFailedState (dt_descriptor d2) FinalState"
        using final_sources_Returns [OF Returns] by (auto simp: failed.has_iff)
      have same_identity: "identity (dt_descriptor d3) = identity (dt_descriptor ?d1)"
        using moves_final_store [of "?d1\<lparr>dt_clock := c\<rparr>" env entry] moves_final_sources [of d2 env cdesc] \<open>?store = Returns d2\<close> Returns
        by (simp add: moves_def evolves_def)
      have "lands env d (upd (AppendCompletedState FinalState) d3)" if "\<not> HasFailedState (dt_descriptor d3) FinalState"
        by (rule lands_completed [OF d3])
           (use stored same that entry descriptor_key_identity [OF same_identity] in \<open>auto simp: entry_of_def\<close>)
      with Returns \<open>?store = Returns d2\<close> d3 show ?thesis by (simp add: process_lands_def)
    qed (use \<open>?store = Returns d2\<close> d2 lands_final_sources [of env d2 cdesc] in \<open>auto simp: process_lands_def intro: lands_trans\<close>)
  qed (use store in \<open>auto simp: process_lands_def\<close>)
  qed
  with comp d1 show ?thesis
    using GetContractEntry_entry_of [of env]
    by (auto simp: final_Process_def Let_def process_lands_def split: option.split)
qed

text \<open>Discovery takes the model of the row that it finds under the descriptor's key.\<close>

lemma lookup_lands:
  assumes "GetContractByUniqueIndex (e_codec env) (ToBig (e_solgo env) (d_NetworkID (dt_descriptor d))) (hd_Number h) (d_Addr (dt_descriptor d)) (dt_db d)
      = (Inr c, t)" and "d_Header (dt_descriptor d) = Some h"
  shows "lands env d (upd (SetContractModel (Some c)) (d\<lparr>dt_db := t\<rparr>))"
proof -
  obtain r where r: "db_find (dt_db d) (big_Uint64 (ToBig (e_solgo env) (d_NetworkID (dt_descriptor d))), big_Uint64 (hd_Number h),
      addr_Hex (e_codec env) (d_Addr (dt_descriptor d))) = Some r" "scan_row (e_codec env) r = Inr c"
    using GetContractByUniqueIndex_find [OF assms(1)] by blast
  have t: "t = dt_db d\<lparr>db_faults := advance (db_faults (dt_db d))\<rparr>"
    using assms(1) GetContractByUniqueIndex_db by (metis snd_conv)
  have key: "descriptor_key env (SetContractModel (Some c) x) = descriptor_key env x" for x :: "'a Descriptor"
    by (rule descriptor_key_identity) simp
  have "r \<in> set (db_rows (dt_db d))" "row_key r = (big_Uint64 (ToBig (e_solgo env) (d_NetworkID (dt_descriptor d))), big_Uint64 (hd_Number h),
      addr_Hex (e_codec env) (d_Addr (dt_descriptor d)))"
    using r(1) by (auto simp: db_find_def find_Some_iff)
  then have "\<exists>k. descriptor_key env (dt_descriptor d) = Some k \<and> (c_Id c, k) \<in> row_ids (dt_db d)"
    using scan_row_id [OF r(2)] assms(2) by (force simp: descriptor_key_def row_ids_def)
  then show ?thesis
    by (simp add: lands_def landed_def stored_if_final_def settles_def settled_def model_at_def t key db_wf_def honest_advance)
qed

lemma lands_discover_finish: "lands env d d' \<Longrightarrow> process_lands env d (discover_finish d')"
proof -
  assume s: "lands env d d'"
  have "lands env d' (upd (SetNextState n) d')" for n by (rule lands_upd) simp_all
  with s show ?thesis by (auto simp: process_lands_def discover_finish_def intro: lands_trans)
qed

lemma lands_lookup:
  assumes "d_Header (dt_descriptor d) = Some h"
  shows "process_lands env d (discover_lookup env h d)"
proof -
  obtain res t where q: "GetContractByUniqueIndex (e_codec env) (ToBig (e_solgo env) (d_NetworkID (dt_descriptor d))) (hd_Number h)
      (d_Addr (dt_descriptor d)) (dt_db d) = (res, t)" by force
  then have t: "t = dt_db d\<lparr>db_faults := advance (db_faults (dt_db d))\<rparr>" using GetContractByUniqueIndex_db by (metis snd_conv)
  have done': "lands env d (upd (AppendCompletedState DiscoverState) d')" if "lands env d d'" for d'
    using that by (rule lands_trans) (rule lands_upd, simp_all)
  show ?thesis
  proof (cases res)
    case (Inl err)
    have db: "lands env d (d\<lparr>dt_db := t\<rparr>)" by (rule lands_db) (simp_all add: settled_def t db_wf_def honest_advance)
    have key: "descriptor_key env (SetContractModel None x) = descriptor_key env x" for x :: "'a Descriptor"
      by (rule descriptor_key_identity) simp
    have "lands env (d\<lparr>dt_db := t\<rparr>) (upd (SetContractModel None) (d\<lparr>dt_db := t\<rparr>))"
      by (simp add: lands_def landed_def stored_if_final_def settles_def settled_def model_at_def key)
    with db have "lands env d (upd (SetContractModel None) (d\<lparr>dt_db := t\<rparr>))" by (rule lands_trans)
    with db show ?thesis
      using q Inl lands_discover_finish [OF done']
      by (auto simp: discover_lookup_def Let_def process_lands_def go_all_log_provider)
  next
    case (Inr c)
    with lookup_lands [of env d h c t] q assms have "lands env d (upd (SetContractModel (Some c)) (d\<lparr>dt_db := t\<rparr>))" by simp
    with q Inr lands_discover_finish [OF done'] show ?thesis
      by (auto simp: discover_lookup_def Let_def process_lands_def split: option.split)
  qed
qed

lemma lands_discover: "process_lands env d (discover_Process env d)"
proof (cases "d_Header (dt_descriptor d)")
  case (Some h)
  note stage = landing.stage_discover_validate [of env d env]
  have "process_lands env d (go_bind (discover_validate env d)
      (\<lambda>d1. if u_db (e_unpacker env) = None then Panics d1 else discover_lookup env h d1))"
  proof (cases "discover_validate env d")
    case (Returns d1)
    then have d1: "lands env d d1" "quiet d d1" using stage quiet.stage_discover_validate [of d env] by simp_all
    then have "process_lands env d1 (discover_lookup env h d1)"
      using Some by (intro lands_lookup) (simp add: quiet_def identity_def)
    with d1(1) have "process_lands env d (discover_lookup env h d1)"
      unfolding process_lands_def by (auto elim!: go_all_mono intro: lands_trans)
    with Returns d1(1) show ?thesis by (simp add: process_lands_def)
  qed (use stage in \<open>auto simp: process_lands_def\<close>)
  with Some show ?thesis by (simp add: discover_Process_def process_lands_def discover_error_def)
qed (simp add: discover_Process_def discover_error_def process_lands_def)

lemma lands_middle:
  "process_lands env d (metadata_Process env d)" "process_lands env d (providers_Process env d)"
  "process_lands env d (sources_Process env d)" "process_lands env d (parser_Process env d)"
  "process_lands env d (constructor_Process env d)" "process_lands env d (final_Process env d)"
  by (rule lands_forward [OF process_stage_lands [OF landing.process_stages(1)]]
      lands_forward [OF process_stage_lands [OF landing.process_stages(2)]]
      lands_forward [OF process_stage_lands [OF landing.process_stages(3)]]
      lands_forward [OF process_stage_lands [OF landing.process_stages(4)]]
      lands_forward [OF process_stage_lands [OF landing.process_stages(5)]]
      lands_forward [OF lands_final], assumption,
      simp add: need_discovery_def metadata_Process_def providers_Process_def sources_Process_def
        parser_Process_def constructor_Process_def final_Process_def)+

lemma lands_process: "process_of env s = Some g \<Longrightarrow> process_lands env d (g d)"
  using lands_discover lands_middle
  by (auto simp: process_of_def error_Process_def process_lands_def go_all_log_provider split: if_splits)

section \<open>Runs\<close>

interpretation landing_run: run_relation env "lands env" for env
  by unfold_locales (auto simp: process_lands_def [symmetric] intro: lands_trans lands_process)

lemmas Unpack_lands = landing_run.run_related

end
