(* ===== verification/Syncer.thy ===== *)
theory Syncer
  imports Subscribers Persistence
begin

text \<open>
  The syncer service (src/services/syncer): the block and request interceptors, the three ways to
  unpack a contract (from the command line, from a chain entry, over RPC), the injection of the
  subscribers and the construction of the service.

  A goroutine launched by the block interceptor is a pending task of the world; \<open>sync_step\<close> runs
  any pending task, so that its traces are all the orders in which the goroutines can finish their
  work. A panic that leaves a goroutine ends the process.
\<close>

section \<open>Environment\<close>

text \<open>What the service uses of solgo, go-ethereum and the broker beyond the unpacker's libraries.\<close>

record ('r, 'x) service =
  sv_env :: "'x env"
  sv_chain :: "('r, ('r, 'x) world) chain_env"
  sv_json :: json
  NewContract :: "string \<Rightarrow> Address \<Rightarrow> error + 'x contract"
  DiscoverChainInfo :: "bool \<Rightarrow> (error option, 'x) solgo_call"
  GetBlock :: "'x contract \<Rightarrow> Header option"
  GetContractTx :: "'x contract \<Rightarrow> Transaction option"
  GetContractReceipt :: "'x contract \<Rightarrow> Receipt option"
  SetChainInfo :: "Header \<Rightarrow> Transaction \<Rightarrow> Receipt \<Rightarrow> 'x contract \<Rightarrow> 'x contract"
  Sender :: "Transaction \<Rightarrow> error + Address"
  ToNetwork :: "int \<Rightarrow> string"
  GetNetworkFromID :: "int \<Rightarrow> error + string"
  GetNetworkID_of :: "string \<Rightarrow> int"
  Publish :: "string \<Rightarrow> byte list \<Rightarrow> error option"
  ToProto :: "'x \<Rightarrow> string"

definition HeadSyncDirection :: string where "HeadSyncDirection = ''head''"
definition ArchiveSyncDirection :: string where "ArchiveSyncDirection = ''archive''"

section \<open>Running the unpacker on the shared world\<close>

definition to_data :: "'x Descriptor \<Rightarrow> ('r, 'x) world \<Rightarrow> 'x data" where
  "to_data d w = \<lparr>dt_descriptor = d, dt_db = w_db w, dt_files = w_files w, dt_clock = w_clock w\<rparr>"

definition from_data :: "('r, 'x) world \<Rightarrow> 'x data \<Rightarrow> ('r, 'x) world" where
  "from_data w d = w\<lparr>w_db := dt_db d, w_files := dt_files d, w_clock := dt_clock d\<rparr>"

text \<open>\<open>srv.unpacker.Unpack\<close>: the descriptor it was given, or nil with an error.\<close>

definition world_Unpack ::
  "('r, 'x) service \<Rightarrow> gocontext \<Rightarrow> 'x Descriptor \<Rightarrow> State \<Rightarrow> ('r, 'x) world
   \<Rightarrow> (('x Descriptor option \<times> error option) \<times> ('r, 'x) world, ('r, 'x) world) go" where
  "world_Unpack srv ctx desc state w =
     (case Unpack (sv_env srv) ctx state (to_data desc w) of
        None \<Rightarrow> Blocks w
      | Some r \<Rightarrow>
          map_go (\<lambda>(err, d). (if err = None then (Some (dt_descriptor d), None) else (None, err), from_data w d))
            (from_data w) r)"

text \<open>The deferred function that recovers from a panic logs the block number and the transaction of the
  entry; when one of them is nil it panics itself, and the panic goes on.\<close>

definition recover_entry :: "Entry \<Rightarrow> 'r \<Rightarrow> 'w \<Rightarrow> ('r \<times> Entry \<times> 'w, Entry \<times> 'w) go" where
  "recover_entry e r w =
     (if en_Header e = None \<or> en_Tx e = None then Panics (e, w) else Returns (r, e, w))"

section \<open>Unpacking an entry\<close>

definition ots_enabled :: "('r, 'x) service \<Rightarrow> bool option" where
  "ots_enabled srv = map_option (\<lambda>o'. OtsEnabled (opt_Unpacker o')) (e_options (sv_env srv))"

definition entry_body ::
  "('r, 'x) service \<Rightarrow> gocontext \<Rightarrow> Entry \<Rightarrow> State \<Rightarrow> ('r, 'x) world
   \<Rightarrow> (('x Descriptor option \<times> error option) \<times> Entry \<times> ('r, 'x) world, Entry \<times> ('r, 'x) world) go" where
  "entry_body srv ctx entry state w =
     (case NewContract srv (en_Network entry) (en_ContractAddr entry) of
        Inl err \<Rightarrow> Returns ((None, Some err), entry, w)
      | Inr contract \<Rightarrow>
     (case (en_Header entry, en_Tx entry, en_Receipt entry) of
        (Some header, Some tx, Some receipt) \<Rightarrow>
          map_go (\<lambda>(r, w'). (r, entry, w')) (\<lambda>w'. (entry, w'))
            (world_Unpack srv ctx (GetDescriptor (e_unpacker (sv_env srv))
               (Some (SetChainInfo srv header tx receipt contract)) entry) state w)
      | _ \<Rightarrow>
     (case ots_enabled srv of
        None \<Rightarrow> Panics (entry, w)
      | Some ots \<Rightarrow>
     (case DiscoverChainInfo srv ots contract of
        Panics _ \<Rightarrow> Panics (entry, w)
      | Blocks _ \<Rightarrow> Blocks (entry, w)
      | Returns (Some err, _) \<Rightarrow> Returns ((None, Some err), entry, w)
      | Returns (None, c) \<Rightarrow>
          (let entry' = entry\<lparr>en_Header := GetBlock srv c, en_Tx := GetContractTx srv c,
                              en_Receipt := GetContractReceipt srv c\<rparr>
           in map_go (\<lambda>(r, w'). (r, entry', w')) (\<lambda>w'. (entry', w'))
                (world_Unpack srv ctx (GetDescriptor (e_unpacker (sv_env srv)) (Some c) entry') state w))))))"

definition UnpackFromEntry ::
  "('r, 'x) service \<Rightarrow> gocontext \<Rightarrow> Entry \<Rightarrow> State \<Rightarrow> ('r, 'x) world
   \<Rightarrow> (('x Descriptor option \<times> error option) \<times> Entry \<times> ('r, 'x) world, Entry \<times> ('r, 'x) world) go" where
  "UnpackFromEntry srv ctx entry state w =
     (case entry_body srv ctx entry state w of
        Panics (e, w') \<Rightarrow> recover_entry e (None, None) w'
      | r \<Rightarrow> r)"

section \<open>The block interceptor\<close>

text \<open>The loop over the transactions of a block: only contract creations with a valid signature are
  turned into goroutines.\<close>

fun intercept_loop ::
  "('r, 'x) service \<Rightarrow> string \<Rightarrow> int \<Rightarrow> string \<Rightarrow> Block \<Rightarrow> Transaction list \<Rightarrow> ('r, 'x) world
   \<Rightarrow> (Block option \<times> error option) \<times> ('r, 'x) world" where
  "intercept_loop srv network networkId direction block [] w = ((Some block, None), w)"
| "intercept_loop srv network networkId direction block (tx # txs) w =
     (case Sender srv tx of
        Inl err \<Rightarrow> intercept_loop srv network networkId direction block txs w
      | Inr from \<Rightarrow>
          if tx_To tx \<noteq> None then intercept_loop srv network networkId direction block txs w
          else if GetClientByGroup (sv_chain srv) (ce_network_String (sv_chain srv) network) = None
          then ((Some block, Some (Errorf (''failure to discover '' @ quoted (ce_network_String (sv_chain srv) network)
                   @ '' client - rejecting ransaction processing''))), w)
          else intercept_loop srv network networkId direction block txs
                 (w\<lparr>w_tasks := w_tasks w @ [(direction,
                    \<lparr>en_Network = network, en_NetworkID = networkId, en_Header = Some (blk_Header block),
                     en_CreatorAddr = from, en_Tx = Some tx, en_Receipt = None, en_ContractAddr = 0\<rparr>)]\<rparr>))"

definition BlockInterceptor ::
  "('r, 'x) service \<Rightarrow> string \<Rightarrow> int \<Rightarrow> string \<Rightarrow> ('r, 'x) world BlockHookFn" where
  "BlockInterceptor srv network networkId direction block w =
     Returns (intercept_loop srv network networkId direction block (blk_Transactions block) w)"

text \<open>The goroutine of one contract creation.\<close>

definition contract_task ::
  "('r, 'x) service \<Rightarrow> gocontext \<Rightarrow> string \<Rightarrow> Entry \<Rightarrow> ('r, 'x) world
   \<Rightarrow> (('r, 'x) world, ('r, 'x) world) go" where
  "contract_task srv ctx direction entry w =
     (case (GetClientByGroup (sv_chain srv) (ce_network_String (sv_chain srv) (en_Network entry)), en_Tx entry) of
        (Some client, Some tx) \<Rightarrow>
          (case TransactionReceipt client (tx_Hash tx) of
             Inl err \<Rightarrow> Returns w
           | Inr receipt \<Rightarrow>
               (let entry1 = entry\<lparr>en_Receipt := Some receipt, en_ContractAddr := ContractAddress receipt\<rparr>
                in go_bind (map_go id snd (UnpackFromEntry srv ctx entry1 DiscoverState w)) (\<lambda>((desc, err), entry2, w2).
                     if err \<noteq> None then Returns w2
                     else (case Option.bind desc d_Header of
                             None \<Rightarrow> Panics w2
                           | Some header \<Rightarrow>
                               go_bind (world_Set (ce_redis (sv_chain srv))
                                   (fst (GetHeadBlockKeyByDirection direction)) (hd_Number header) w2)
                                 (\<lambda>(err, w3). Returns w3)))))
      | _ \<Rightarrow> Panics w)"

section \<open>Unpacking requests\<close>

definition request_entry :: "string \<Rightarrow> int \<Rightarrow> Address \<Rightarrow> Entry" where
  "request_entry network networkId addr =
     \<lparr>en_Network = network, en_NetworkID = networkId, en_Header = None, en_CreatorAddr = 0, en_Tx = None,
      en_Receipt = None, en_ContractAddr = addr\<rparr>"

text \<open>The part that the request interceptor and the command line share: the chain information is
  discovered on the contract, the entry keeps its nil block, transaction and receipt. For such an entry
  the deferred recovery always panics itself, so that nothing after a panic of the unpacker runs.\<close>

definition request_Unpack ::
  "('r, 'x) service \<Rightarrow> gocontext \<Rightarrow> Entry \<Rightarrow> ('r, 'x) world
   \<Rightarrow> (error option \<times> Entry \<times> ('r, 'x) world, Entry \<times> ('r, 'x) world) go" where
  "request_Unpack srv ctx entry w =
     (case NewContract srv (en_Network entry) (en_ContractAddr entry) of
        Inl err \<Rightarrow> Returns (Some err, entry, w)
      | Inr contract \<Rightarrow>
     (case ots_enabled srv of
        None \<Rightarrow> Panics (entry, w)
      | Some ots \<Rightarrow>
     (case DiscoverChainInfo srv ots contract of
        Panics _ \<Rightarrow> Panics (entry, w)
      | Blocks _ \<Rightarrow> Blocks (entry, w)
      | Returns (Some err, _) \<Rightarrow> Returns (Some err, entry, w)
      | Returns (None, c) \<Rightarrow>
          (case world_Unpack srv ctx (GetDescriptor (e_unpacker (sv_env srv)) (Some c) entry) DiscoverState w of
             Returns ((desc, err), w') \<Rightarrow> Returns (err, entry, w')
           | Panics w' \<Rightarrow> recover_entry entry None w'
           | Blocks w' \<Rightarrow> Blocks (entry, w')))))"

definition UnpackerInterceptor ::
  "('r, 'x) service \<Rightarrow> gocontext \<Rightarrow> ('r, 'x) world UnpackerHookFn" where
  "UnpackerInterceptor srv ctx event w =
     (let networkId = ev_NetworkId event; network = ToNetwork srv networkId
      in go_bind (map_go id snd (request_Unpack srv ctx (request_entry network networkId (ev_Address event)) w)) (\<lambda>(err, entry, w1).
           if err \<noteq> None then Returns (err, event, w1)
           else
             (let event' = event\<lparr>Resolved := True\<rparr>
              in case MarshalBinary (sv_json srv) event' of
                   Inl e \<Rightarrow> Returns (Some (Errorf (''failure to marshal unpacker response event: '' @ Error e)), event', w1)
                 | Inr dataBytes \<Rightarrow>
                     (case Publish srv (CorrelationID event') dataBytes of
                        Some e \<Rightarrow> Returns (Some (Wrapf (''failure to publish unpacker correlation event acknowledgement ''
                            @ quoted (CorrelationID event') @ '': '') e), event', w1)
                      | None \<Rightarrow> Returns (None, event', w1\<lparr>w_published := w_published w1 @ [(CorrelationID event', dataBytes)]\<rparr>)))))"

definition Service_Unpack ::
  "('r, 'x) service \<Rightarrow> gocontext \<Rightarrow> string \<Rightarrow> string \<Rightarrow> ('r, 'x) world
   \<Rightarrow> (error option \<times> ('r, 'x) world, ('r, 'x) world) go" where
  "Service_Unpack srv ctx addrArg networkArg w =
     (if \<not> IsHexAddress (e_codec (sv_env srv)) addrArg
      then Returns (Some (Errorf (''invalid ethereum hex address provided: '' @ addrArg)), w)
      else (case GetNetworkFromString (sv_chain srv) networkArg of
              Inl _ \<Rightarrow> Returns (Some (Errorf (''failure to discover provided network '' @ quoted networkArg)), w)
            | Inr network \<Rightarrow>
                map_go (\<lambda>(err, _, w'). (err, w')) snd
                  (request_Unpack srv ctx (request_entry network (GetNetworkID_of srv network)
                     (HexToAddress (e_codec (sv_env srv)) addrArg)) w)))"

section \<open>RPC\<close>

datatype queue_status = CQR_UNKNOWN | CQR_FOUND

record pb_contract =
  pb_NetworkId :: int
  pb_Address :: string
  pb_Name :: string
  pb_Abi :: string
  pb_License :: string
  pb_CompilerVersion :: string
  pb_BlockNumber :: int
  pb_BlockHash :: string
  pb_TransactionHash :: string
  pb_Verified :: bool
  pb_Optimized :: bool
  pb_IsProxy :: bool
  pb_OptimizationRuns :: int
  pb_Sources :: "string option"

record queue_response =
  qr_Status :: queue_status
  qr_Contract :: "pb_contract option"

record unpack_response =
  rs_Status :: bool
  rs_NetworkId :: int
  rs_Contracts :: "queue_response list"

text \<open>\<open>GetStorageCachePath\<close> of src/pkg/helpers/storage.go.\<close>

definition helpers_GetStorageCachePath :: "codec \<Rightarrow> 'x solgo \<Rightarrow> string \<Rightarrow> string \<Rightarrow> Address \<Rightarrow> string" where
  "helpers_GetStorageCachePath cd sg network blockNumber addr =
     filepath_Join [CHR ''_'' # strings_ToLower (network_String sg network), ''mainnet'', ''contracts'',
       blockNumber, addr_Hex cd addr]"

definition stored_pb :: "('r, 'x) service \<Rightarrow> int \<Rightarrow> string \<Rightarrow> Contract \<Rightarrow> pb_contract" where
  "stored_pb srv networkId addrHex c =
     (let cd = e_codec (sv_env srv); sg = e_solgo (sv_env srv) in
      \<lparr>pb_NetworkId = big_Int64 (ToBig sg networkId), pb_Address = addrHex, pb_Name = c_Name c, pb_Abi = c_ABI c,
       pb_License = c_License c, pb_CompilerVersion = c_CompilerVersion c, pb_BlockNumber = big_Int64 (c_BlockNumber c),
       pb_BlockHash = hash_Hex cd (c_BlockHash c), pb_TransactionHash = hash_Hex cd (c_TransactionHash c),
       pb_Verified = c_Verified c, pb_Optimized = c_Optimized c, pb_IsProxy = c_Proxy c,
       pb_OptimizationRuns = go_int32 (c_OptimizationRuns c), pb_Sources = None\<rparr>)"

text \<open>\<open>cd_Block\<close> and \<open>cd_Tx\<close> are the block and the transaction of the solgo descriptor.\<close>

definition unpacked_pb ::
  "('r, 'x) service \<Rightarrow> ('x cdescriptor \<Rightarrow> Header option) \<Rightarrow> ('x cdescriptor \<Rightarrow> Transaction option) \<Rightarrow> int \<Rightarrow> string
   \<Rightarrow> 'x cdescriptor \<Rightarrow> pb_contract option" where
  "unpacked_pb srv cd_Block cd_Tx networkId addrHex cdesc =
     (let cd = e_codec (sv_env srv); sg = e_solgo (sv_env srv) in
      case (cd_Block cdesc, cd_Tx cdesc) of
        (Some block, Some tx) \<Rightarrow>
          Some \<lparr>pb_NetworkId = big_Int64 (ToBig sg networkId), pb_Address = addrHex, pb_Name = GetName sg cdesc,
            pb_Abi = GetABI sg cdesc, pb_License = GetLicense sg cdesc, pb_CompilerVersion = GetCompilerVersion sg cdesc,
            pb_BlockNumber = big_Int64 (hd_Number block), pb_BlockHash = hash_Hex cd (hd_Hash block),
            pb_TransactionHash = hash_Hex cd (tx_Hash tx), pb_Verified = IsVerified sg cdesc,
            pb_Optimized = IsOptimized sg cdesc, pb_IsProxy = cd_Proxy cdesc,
            pb_OptimizationRuns = go_int32 (GetOptimizationRuns sg cdesc),
            pb_Sources = (if HasSources sg cdesc then map_option (ToProto srv) (cd_Sources cdesc) else None)\<rparr>
      | _ \<Rightarrow> None)"

text \<open>One address of a request. \<open>Next\<close> appends a response and goes on; \<open>Stop\<close> ends the call with
  an error (\<open>Returns\<close>) or a panic.\<close>

definition rpc_unpack_address ::
  "('r, 'x) service \<Rightarrow> ('x cdescriptor \<Rightarrow> Header option) \<Rightarrow> ('x cdescriptor \<Rightarrow> Transaction option) \<Rightarrow> gocontext
   \<Rightarrow> int \<Rightarrow> string \<Rightarrow> string \<Rightarrow> queue_response \<Rightarrow> ('r, 'x) world
   \<Rightarrow> (queue_response \<times> ('r, 'x) world, (error \<times> ('r, 'x) world, ('r, 'x) world) go) loop" where
  "rpc_unpack_address srv cd_Block cd_Tx ctx networkId network addrHex resp w =
     (case UnpackFromEntry srv ctx (request_entry network networkId (HexToAddress (e_codec (sv_env srv)) addrHex))
             DiscoverState w of
        Panics (_, w') \<Rightarrow> Stop (Panics w')
      | Blocks (_, w') \<Rightarrow> Stop (Blocks w')
      | Returns ((desc, Some err), _, w') \<Rightarrow> Stop (Returns (err, w'))
      | Returns ((None, None), _, w') \<Rightarrow> Stop (Panics w')
      | Returns ((Some d, None), _, w') \<Rightarrow>
          (case cdescriptor_of d of
             None \<Rightarrow> Next (resp, w')
           | Some cdesc \<Rightarrow>
               (case unpacked_pb srv cd_Block cd_Tx networkId addrHex cdesc of
                  None \<Rightarrow> Stop (Panics w')
                | Some pb \<Rightarrow> Next (\<lparr>qr_Status = CQR_FOUND, qr_Contract = Some pb\<rparr>, w'))))"

definition rpc_address ::
  "('r, 'x) service \<Rightarrow> (row list \<Rightarrow> row list) \<Rightarrow> ('x cdescriptor \<Rightarrow> Header option) \<Rightarrow> ('x cdescriptor \<Rightarrow> Transaction option)
   \<Rightarrow> gocontext \<Rightarrow> int \<Rightarrow> string \<Rightarrow> ('r, 'x) world
   \<Rightarrow> (queue_response \<times> ('r, 'x) world, (error \<times> ('r, 'x) world, ('r, 'x) world) go) loop" where
  "rpc_address srv scan_order cd_Block cd_Tx ctx networkId addrHex w =
     (let cd = e_codec (sv_env srv); sg = e_solgo (sv_env srv) in
      if \<not> IsHexAddress cd addrHex
      then Stop (Returns (Errorf (''invalid ethereum hex address provided: '' @ addrHex), w))
      else (case GetNetworkFromID srv networkId of
        Inl err \<Rightarrow> Stop (Returns (err, w))
      | Inr network \<Rightarrow>
     (case GetContractByAddress cd scan_order (ToBig sg networkId) (HexToAddress cd addrHex) (w_db w) of
        (Inl err, t) \<Rightarrow>
          if \<not> errors_Is err ErrNoRows then Stop (Returns (err, w\<lparr>w_db := t\<rparr>))
          else rpc_unpack_address srv cd_Block cd_Tx ctx networkId network addrHex
                 \<lparr>qr_Status = CQR_UNKNOWN, qr_Contract = None\<rparr> (w\<lparr>w_db := t\<rparr>)
      | (Inr c, t) \<Rightarrow>
          (let w1 = w\<lparr>w_db := t\<rparr>; pb = stored_pb srv networkId addrHex c in
           case e_options (sv_env srv) of
             None \<Rightarrow> Stop (Panics w1)
           | Some opts \<Rightarrow>
               (case NewSourcesFromPath sg (c_Name c) (filepath_Join [ContractsPath (opt_Storage opts),
                    helpers_GetStorageCachePath cd sg network (big_String (c_BlockNumber c)) (HexToAddress cd addrHex)])
                    (w_files w1) of
                  Inr sources \<Rightarrow>
                    Next (\<lparr>qr_Status = CQR_FOUND, qr_Contract = Some (pb\<lparr>pb_Sources := Some (ToProto srv sources)\<rparr>)\<rparr>, w1)
                | Inl _ \<Rightarrow>
                    rpc_unpack_address srv cd_Block cd_Tx ctx networkId network addrHex
                      \<lparr>qr_Status = CQR_FOUND, qr_Contract = Some pb\<rparr> w1)))))"

text \<open>The call. A panic is recovered: the named results hold the response built so far and no error.\<close>

fun rpc_loop ::
  "(string \<Rightarrow> 'w \<Rightarrow> (queue_response \<times> 'w, (error \<times> 'w, 'w) go) loop) \<Rightarrow> unpack_response \<Rightarrow> string list \<Rightarrow> 'w
   \<Rightarrow> ((unpack_response option \<times> error option) \<times> 'w, 'w) go" where
  "rpc_loop on_addr resp [] w = Returns ((Some resp, None), w)"
| "rpc_loop on_addr resp (a # as) w =
     (case on_addr a w of
        Next (r, w') \<Rightarrow> rpc_loop on_addr (resp\<lparr>rs_Contracts := rs_Contracts resp @ [r]\<rparr>) as w'
      | Stop (Returns (err, w')) \<Rightarrow> Returns ((None, Some err), w')
      | Stop (Panics w') \<Rightarrow> Returns ((Some resp, None), w')
      | Stop (Blocks w') \<Rightarrow> Blocks w')"

definition Server_Unpack ::
  "('r, 'x) service \<Rightarrow> (row list \<Rightarrow> row list) \<Rightarrow> ('x cdescriptor \<Rightarrow> Header option) \<Rightarrow> ('x cdescriptor \<Rightarrow> Transaction option)
   \<Rightarrow> gocontext \<Rightarrow> int \<Rightarrow> string list \<Rightarrow> ('r, 'x) world
   \<Rightarrow> ((unpack_response option \<times> error option) \<times> ('r, 'x) world, ('r, 'x) world) go" where
  "Server_Unpack srv scan_order cd_Block cd_Tx ctx networkId addresses w =
     rpc_loop (rpc_address srv scan_order cd_Block cd_Tx ctx networkId)
       \<lparr>rs_Status = True, rs_NetworkId = networkId, rs_Contracts = []\<rparr> addresses w"

section \<open>Subscribers\<close>

text \<open>The constructors of \<open>subsMap\<close>, looked up by name.\<close>

definition subsMap ::
  "('r, 'x) service \<Rightarrow> gocontext \<Rightarrow> string \<Rightarrow> int \<Rightarrow> SubscriberType
   \<Rightarrow> (error + ('r, 'x) world Subscriber, unit) go" where
  "subsMap srv ctx network networkId name =
     (case e_options (sv_env srv) of
        None \<Rightarrow> Panics ()
      | Some g \<Rightarrow>
          Returns (case GetByType (opt_Syncer g) name of
             Inl err \<Rightarrow> Inl err
           | Inr opts \<Rightarrow>
               if name = HeadBlockSubscriber
               then map_sum id SHead (NewHeadBlock opts [PostHook \<mapsto> [BlockInterceptor srv network networkId HeadSyncDirection]])
               else if name = ArchiveBlockSubscriber
               then map_sum id SArchive (NewArchiveBlock opts [PostHook \<mapsto> [BlockInterceptor srv network networkId ArchiveSyncDirection]])
               else map_sum id SUnpacker (NewUnpackerSub opts [PostHook \<mapsto> [UnpackerInterceptor srv ctx]])))"

text \<open>The range over \<open>subsMap\<close>; \<open>names\<close> is the iteration order of the map.\<close>

fun InjectSubscribers ::
  "(SubscriberType \<Rightarrow> (error + 's, unit) go) \<Rightarrow> SubscriberType list \<Rightarrow> 's Manager \<Rightarrow> (error option \<times> 's Manager, 's Manager) go" where
  "InjectSubscribers subFn [] m = Returns (None, m)"
| "InjectSubscribers subFn (name # names) m =
     (case subFn name of
        Returns (Inl err) \<Rightarrow> Returns (Some err, m)
      | Returns (Inr sub) \<Rightarrow>
          (case manager_Register name sub m of
             (Some err, m') \<Rightarrow> Returns (Some err, m')
           | (None, m') \<Rightarrow> InjectSubscribers subFn names m')
      | _ \<Rightarrow> Panics m)"

section \<open>Interleavings\<close>

text \<open>Any pending goroutine runs next.\<close>

inductive sync_step :: "('r, 'x) service \<Rightarrow> ('r, 'x) world \<Rightarrow> ('r, 'x) world \<Rightarrow> bool" for srv where
  run: "w_tasks w = ts1 @ (dir, e) # ts2 \<Longrightarrow> contract_task srv ctx dir e (w\<lparr>w_tasks := ts1 @ ts2\<rparr>) = Returns w'
    \<Longrightarrow> sync_step srv w w'"
| block: "BlockInterceptor srv network networkId dir b w = Returns ((r, err), w') \<Longrightarrow> sync_step srv w w'"
| request: "UnpackerInterceptor srv ctx ev w = Returns (err, ev', w') \<Longrightarrow> sync_step srv w w'"

inductive sync_reachable :: "('r, 'x) service \<Rightarrow> ('r, 'x) world \<Rightarrow> ('r, 'x) world \<Rightarrow> bool" for srv w0 where
  init: "sync_reachable srv w0 w0"
| step: "sync_reachable srv w0 w \<Longrightarrow> sync_step srv w w' \<Longrightarrow> sync_reachable srv w0 w'"

section \<open>An instance\<close>

definition plain_contract :: "string contract" where
  "plain_contract = \<lparr>ct_descriptor = Some plain_cdescriptor, ct_private = []\<rparr>"

type_synonym plain_world = "(string \<rightharpoonup> byte list, string) world"

definition plain_client :: "plain_world client" where
  "plain_client =
     \<lparr>BlockByNumber = (\<lambda>n w. (Inl (Errorf ''unknown block''), w)),
      TransactionReceipt = (\<lambda>h. Inr \<lparr>ContractAddress = 5\<rparr>), SubscribeNewHead = (\<lambda>w. (None, w))\<rparr>"

definition plain_chain :: "(string \<rightharpoonup> byte list, plain_world) chain_env" where
  "plain_chain = \<lparr>ce_redis = plain_redis, GetNetworkFromString = Inr, ce_network_String = (\<lambda>n. n),
     GetClientByGroup = (\<lambda>_. Some plain_client)\<rparr>"

definition plain_json :: json where
  "plain_json = \<lparr>MarshalUnpack = (\<lambda>e. Inr [if Resolved e then 1 else 0]), json_Unmarshal = (\<lambda>_. Inl (Errorf ''no''))\<rparr>"

definition plain_service :: "(string \<rightharpoonup> byte list, string) service" where
  "plain_service =
     \<lparr>sv_env = example_env, sv_chain = plain_chain, sv_json = plain_json,
      NewContract = (\<lambda>n a. Inr plain_contract),
      DiscoverChainInfo = (\<lambda>ots c. Returns (None, c)), GetBlock = (\<lambda>c. Some \<lparr>hd_Number = 17, hd_Hash = 3\<rparr>),
      GetContractTx = (\<lambda>c. Some \<lparr>tx_Hash = 4, tx_To = None\<rparr>), GetContractReceipt = (\<lambda>c. Some \<lparr>ContractAddress = 5\<rparr>),
      SetChainInfo = (\<lambda>h t r c. c), Sender = (\<lambda>tx. Inr 9), ToNetwork = (\<lambda>i. ''ethereum''), GetNetworkFromID = (\<lambda>i. Inr ''ethereum''),
      GetNetworkID_of = (\<lambda>n. 1), Publish = (\<lambda>subj msg. None), ToProto = (\<lambda>s. s)\<rparr>"

text \<open>The same service with a parser that panics.\<close>

definition panicking_service :: "(string \<rightharpoonup> byte list, string) service" where
  "panicking_service = plain_service\<lparr>sv_env := example_env\<lparr>e_solgo := plain_solgo\<lparr>ParseContract := (\<lambda>c. Panics c)\<rparr>\<rparr>\<rparr>"

definition plain_world :: plain_world where
  "plain_world = \<lparr>w_sync = state_New Map.empty, w_db = empty_db, w_files = (\<lambda>_. None), w_clock = (\<lambda>_. 7),
     w_published = [], w_tasks = []\<rparr>"

definition creation_entry :: "int \<Rightarrow> Entry" where
  "creation_entry n = \<lparr>en_Network = ''ethereum'', en_NetworkID = 1, en_Header = Some \<lparr>hd_Number = n, hd_Hash = 3\<rparr>,
     en_CreatorAddr = 9, en_Tx = Some \<lparr>tx_Hash = 4, tx_To = None\<rparr>, en_Receipt = None, en_ContractAddr = 0\<rparr>"

section \<open>Lemmas\<close>

lemma from_to_data [simp]: "from_data w (to_data d w) = w"
  by (simp add: from_data_def to_data_def)

lemma GetDescriptor_simps [simp]:
  "d_Header (GetDescriptor u c e) = en_Header e" "d_Tx (GetDescriptor u c e) = en_Tx e"
  "d_Receipt (GetDescriptor u c e) = en_Receipt e" "d_Addr (GetDescriptor u c e) = en_ContractAddr e"
  "d_Network (GetDescriptor u c e) = en_Network e" "d_NetworkID (GetDescriptor u c e) = en_NetworkID e"
  "d_nextState (GetDescriptor u c e) = []" "completedStates (GetDescriptor u c e) = []"
  "failedStates (GetDescriptor u c e) = []" "contractModel (GetDescriptor u c e) = None"
  by (simp_all add: GetDescriptor_def SetContract_def NewDescriptor_def)

text \<open>A call of the unpacker keeps the table's constraints and every stored contract under its id, leaves the synchronisation state alone and
  returns a descriptor with the header it was given.\<close>

definition db_kept :: "('r, 'x) world \<Rightarrow> ('r, 'x) world \<Rightarrow> bool" where
  "db_kept w w' \<longleftrightarrow> (db_wf (w_db w) \<longrightarrow> db_wf (w_db w') \<and> row_ids (w_db w) \<subseteq> row_ids (w_db w'))
     \<and> (honest_faults (w_db w) \<longrightarrow> honest_faults (w_db w'))"

definition call_ok :: "('r, 'x) world \<Rightarrow> Header option \<Rightarrow> 'x Descriptor option \<Rightarrow> ('r, 'x) world \<Rightarrow> bool" where
  "call_ok w h d w' \<longleftrightarrow> db_kept w w' \<and> w_sync w' = w_sync w \<and> (\<forall>x. d = Some x \<longrightarrow> d_Header x = h)"

lemma db_kept_refl [simp]: "db_kept w w"
  by (simp add: db_kept_def)

lemma call_ok_None [simp]: "call_ok w h None w"
  by (simp add: call_ok_def)

lemma world_Unpack_keeps:
  assumes "h = en_Header e"
  shows "go_all (\<lambda>p. call_ok w h (fst (fst p)) (snd p)) (db_kept w) (world_Unpack srv ctx (GetDescriptor u c e) s w)"
proof (cases "Unpack (sv_env srv) ctx s (to_data (GetDescriptor u c e) w)")
  case (Some r)
  let ?d = "to_data (GetDescriptor u c e) w"
  let ?R = "\<lambda>d'. evolves ?d d' \<and> lands (sv_env srv) ?d d'"
  have start: "db_wf (w_db w) \<Longrightarrow> settled (sv_env srv) ?d" by (simp add: settled_def model_at_def to_data_def)
  have kept: "db_kept w (from_data w d')" if "?R d'" for d'
    using that start by (auto simp: lands_def settles_def settled_def from_data_def to_data_def db_kept_def)
  have hdr: "d_Header (dt_descriptor d') = h" if "?R d'" for d'
    using that assms by (simp add: evolves_def to_data_def identity_def)
  have sync: "w_sync (from_data w d') = w_sync w" for d' by (simp add: from_data_def)
  have "go_all (\<lambda>(err, d'). ?R d') ?R r"
    using Unpack_evolves [OF Some] Unpack_lands [OF Some] by (cases r) auto
  then have
    "go_all (\<lambda>(err, d). call_ok w h (if err = None then Some (dt_descriptor d) else None) (from_data w d))
       (\<lambda>d. db_kept w (from_data w d)) r"
    by (rule go_all_mono) (auto simp: call_ok_def kept hdr sync)
  then show ?thesis
    by (simp add: world_Unpack_def Some case_prod_unfold) (auto elim!: go_all_mono split: if_splits)
qed (simp add: world_Unpack_def)

lemma entry_body_keeps:
  "go_all (\<lambda>p. call_ok w (en_Header (fst (snd p))) (fst (fst p)) (snd (snd p))) (\<lambda>p. db_kept w (snd p))
     (entry_body srv ctx entry s w)"
  by (auto simp: entry_body_def Let_def case_prod_unfold world_Unpack_keeps split: sum.splits option.splits go.splits)

lemma UnpackFromEntry_keeps:
  "go_all (\<lambda>p. call_ok w (en_Header (fst (snd p))) (fst (fst p)) (snd (snd p)) \<or> (fst (fst p) = None \<and> db_kept w (snd (snd p))))
     (\<lambda>p. db_kept w (snd p)) (UnpackFromEntry srv ctx entry s w)"
  using entry_body_keeps [of w srv ctx entry s]
  by (cases "entry_body srv ctx entry s w") (auto simp: UnpackFromEntry_def recover_entry_def)

lemma world_Set_db [simp]: "go_all (\<lambda>(e, w'). w_db w' = w_db w) (\<lambda>w'. w_db w' = w_db w) (world_Set rc k v w)"
  by (simp add: world_Set_def case_prod_unfold) (cases "state_Set rc k (Some v) (w_sync w)"; simp)

lemma contract_task_keeps: "go_all (db_kept w) (db_kept w) (contract_task srv ctx dir e w)"
proof -
  let ?set = "\<lambda>h w2. go_bind (world_Set (ce_redis (sv_chain srv)) (fst (GetHeadBlockKeyByDirection dir)) (hd_Number h) w2)
      (\<lambda>(err, w3). Returns w3)"
  have set: "go_all (db_kept w) (db_kept w) (?set h w2)" if "db_kept w w2" for h w2
    using world_Set_db [of w2 "ce_redis (sv_chain srv)" "fst (GetHeadBlockKeyByDirection dir)" "hd_Number h"] that
    by (auto simp: db_kept_def case_prod_unfold elim!: go_all_mono)
  have "go_all (db_kept w) (db_kept w) (go_bind (map_go id snd (UnpackFromEntry srv ctx e1 DiscoverState w))
      (\<lambda>((desc, err), e2, w2). if err \<noteq> None then Returns w2
        else (case Option.bind desc d_Header of None \<Rightarrow> Panics w2 | Some h \<Rightarrow> ?set h w2)))" for e1
    using UnpackFromEntry_keeps [of w srv ctx e1 DiscoverState]
    by (cases "UnpackFromEntry srv ctx e1 DiscoverState w")
       (auto simp: call_ok_def set [unfolded go_all_bind] split: option.splits)
  then show ?thesis
    by (auto simp: contract_task_def Let_def split: option.splits sum.splits)
qed

text \<open>The creations of a block: transactions without a recipient whose sender can be recovered.\<close>

definition creations :: "('r, 'x) service \<Rightarrow> Transaction list \<Rightarrow> (Transaction \<times> Address) list" where
  "creations srv txs =
     concat (map (\<lambda>tx. case Sender srv tx of Inl _ \<Rightarrow> [] | Inr from \<Rightarrow> if tx_To tx = None then [(tx, from)] else []) txs)"

definition creation_task :: "string \<Rightarrow> int \<Rightarrow> string \<Rightarrow> Block \<Rightarrow> Transaction \<times> Address \<Rightarrow> string \<times> Entry" where
  "creation_task network networkId direction block p =
     (direction, \<lparr>en_Network = network, en_NetworkID = networkId, en_Header = Some (blk_Header block),
        en_CreatorAddr = snd p, en_Tx = Some (fst p), en_Receipt = None, en_ContractAddr = 0\<rparr>)"

lemma intercept_loop_tasks:
  assumes "GetClientByGroup (sv_chain srv) (ce_network_String (sv_chain srv) network) \<noteq> None"
  shows "intercept_loop srv network networkId direction block txs w =
     ((Some block, None), w\<lparr>w_tasks := w_tasks w @ map (creation_task network networkId direction block) (creations srv txs)\<rparr>)"
  using assms
  by (induction txs arbitrary: w) (auto simp: creations_def creation_task_def split: sum.splits)

lemma intercept_loop_db: "w_db (snd (intercept_loop srv network networkId direction block txs w)) = w_db w"
  by (induction txs arbitrary: w) (auto split: sum.splits)

text \<open>A request reaches the unpacker without chain information, so nothing is unpacked.\<close>

lemma world_Unpack_no_chain_info:
  assumes "en_Header e = None" and "poll ctx = None"
  shows "world_Unpack srv ctx (GetDescriptor u c e) DiscoverState w = Returns ((Some (GetDescriptor u c e), None), w)"
  using chain_info_missing [of "to_data (GetDescriptor u c e) w" ctx "sv_env srv"] assms
  by (simp add: world_Unpack_def) (simp add: to_data_def from_data_def)

lemma UnpackerInterceptor_acknowledges:
  assumes "NewContract srv (ToNetwork srv (ev_NetworkId ev)) (ev_Address ev) = Inr c" and "ots_enabled srv = Some ots"
    and "DiscoverChainInfo srv ots c = Returns (None, c')" and "poll ctx = None"
    and "MarshalBinary (sv_json srv) (ev\<lparr>Resolved := True\<rparr>) = Inr msg" and "Publish srv (CorrelationID ev) msg = None"
  shows "UnpackerInterceptor srv ctx ev w =
     Returns (None, ev\<lparr>Resolved := True\<rparr>, w\<lparr>w_published := w_published w @ [(CorrelationID ev, msg)]\<rparr>)"
  using assms
  by (simp add: UnpackerInterceptor_def request_Unpack_def request_entry_def world_Unpack_no_chain_info)

lemma request_Unpack_keeps:
  "go_all (\<lambda>(err, e', w'). db_kept w w') (\<lambda>(e', w'). db_kept w w') (request_Unpack srv ctx e w)"
proof -
  have k: "go_all (\<lambda>p. db_kept w (snd p)) (db_kept w) (world_Unpack srv ctx (GetDescriptor u c e) DiscoverState w)" for u c
    using world_Unpack_keeps [OF refl, where w = w and e = e and srv = srv and ctx = ctx and u = u and c = c and s = DiscoverState]
    by (auto simp: call_ok_def elim!: go_all_mono)
  have "db_kept w w'" if "world_Unpack srv ctx (GetDescriptor u c e) DiscoverState w = Returns (x, w')" for u c x w'
    using k [of u c] that by simp
  moreover have "db_kept w w'" if "world_Unpack srv ctx (GetDescriptor u c e) DiscoverState w = Panics w'" for u c w'
    using k [of u c] that by simp
  moreover have "db_kept w w'" if "world_Unpack srv ctx (GetDescriptor u c e) DiscoverState w = Blocks w'" for u c w'
    using k [of u c] that by simp
  ultimately show ?thesis
    by (auto simp: request_Unpack_def recover_entry_def split: sum.splits option.splits go.splits)
qed

lemma UnpackerInterceptor_keeps:
  assumes "UnpackerInterceptor srv ctx ev w = Returns (err, ev', w')"
  shows "db_kept w w'"
proof -
  let ?e = "request_entry (ToNetwork srv (ev_NetworkId ev)) (ev_NetworkId ev) (ev_Address ev)"
  obtain err1 e1 w1 where r: "request_Unpack srv ctx ?e w = Returns (err1, e1, w1)"
    using assms by (cases "request_Unpack srv ctx ?e w") (auto simp: UnpackerInterceptor_def Let_def)
  have "db_kept w w1" using request_Unpack_keeps [of w srv ctx ?e] r by simp
  moreover have "w_db w' = w_db w1"
    using assms r by (auto simp: UnpackerInterceptor_def Let_def split: if_splits sum.splits option.splits)
  ultimately show ?thesis by (simp add: db_kept_def)
qed

lemma contract_task_sets:
  assumes "GetClientByGroup (sv_chain srv) (ce_network_String (sv_chain srv) (en_Network e)) = Some client"
    and "en_Tx e = Some tx" and "TransactionReceipt client (tx_Hash tx) = Inr rc"
    and "UnpackFromEntry srv ctx (e\<lparr>en_Receipt := Some rc, en_ContractAddr := ContractAddress rc\<rparr>) DiscoverState w
      = Returns ((Some d, None), e2, w2)" and "d_Header d = Some h"
  shows "\<exists>w3. contract_task srv ctx ''archive'' e w = Returns w3
    \<and> sd_LatestInspectedArchiveBlock (st_descriptor (w_sync w3)) = Some (hd_Number h)"
proof -
  have "\<exists>err w3. world_Set (ce_redis (sv_chain srv)) LatestInspectedArchiveBlock (hd_Number h) w2 = Returns (err, w3)
     \<and> sd_LatestInspectedArchiveBlock (st_descriptor (w_sync w3)) = Some (hd_Number h)"
    by (auto simp: world_Set_def state_Set_def SetDescriptorKey_def key_defs split: prod.splits)
  with assms show ?thesis by (auto simp: contract_task_def GetHeadBlockKeyByDirection_def)
qed

lemma UnpackFromEntry_completes:
  assumes "UnpackFromEntry srv ctx e s w = Returns ((Some d, None), e2, w2)"
    and "en_Header e = Some h" and "en_Tx e = Some tx" and "en_Receipt e = Some rc"
  obtains c dd where "Unpack (sv_env srv) ctx s (to_data (GetDescriptor (e_unpacker (sv_env srv)) c e) w) = Some (Returns (None, dd))"
    "d = dt_descriptor dd" "w2 = from_data w dd"
  using assms
  by (auto simp: UnpackFromEntry_def entry_body_def world_Unpack_def recover_entry_def map_go_Returns_iff
      split: sum.splits go.splits option.splits if_splits)

lemma world_Set_returns: "\<exists>err w'. world_Set rc k v w = Returns (err, w') \<and> w_db w' = w_db w"
proof -
  have "\<exists>err w'. world_Set rc k v w = Returns (err, w')"
    by (auto simp: world_Set_def state_Set_def SetDescriptorKey_def key_defs split: prod.splits)
  then obtain err w' where set: "world_Set rc k v w = Returns (err, w')" by blast
  with world_Set_db [of w rc k v] show ?thesis by (simp add: set)
qed

lemma contract_task_returns:
  assumes "GetClientByGroup (sv_chain srv) (ce_network_String (sv_chain srv) (en_Network e)) = Some client"
    and "en_Tx e = Some tx" and "TransactionReceipt client (tx_Hash tx) = Inr rc"
    and "UnpackFromEntry srv ctx (e\<lparr>en_Receipt := Some rc, en_ContractAddr := ContractAddress rc\<rparr>) DiscoverState w
      = Returns ((Some d, None), e2, w2)" and "d_Header d = Some h"
  shows "\<exists>w3. contract_task srv ctx dir e w = Returns w3 \<and> w_db w3 = w_db w2"
  using world_Set_returns [of "ce_redis (sv_chain srv)" "fst (GetHeadBlockKeyByDirection dir)" "hd_Number h" w2] assms
  by (auto simp: contract_task_def)

text \<open>The goroutine of a creation whose unpacking completed leaves a row of the contract in the table.\<close>

lemma creation_stored:
  assumes "GetClientByGroup (sv_chain srv) (ce_network_String (sv_chain srv) (en_Network en)) = Some client"
    and "en_Header en = Some h" and "en_Tx en = Some tx" and "TransactionReceipt client (tx_Hash tx) = Inr rc"
    and "codec_documented (e_codec (sv_env srv))" and "db_wf (w_db w)" and "readable (e_codec (sv_env srv)) (w_db w)"
    and "db_faults (w_db w) = Background" and "\<forall>i < 7. ctx i = None"
    and "ToBig (e_solgo (sv_env srv)) (en_NetworkID en) = n" and "0 \<le> n" and "n < 2 ^ 63"
    and "0 \<le> hd_Number h" and "hd_Number h < 2 ^ 63"
    and "UnpackFromEntry srv ctx (en\<lparr>en_Receipt := Some rc, en_ContractAddr := ContractAddress rc\<rparr>) DiscoverState w
      = Returns ((Some d, None), e2, w2)" and "HasCompletedState d FinalState"
  obtains w' r c where "contract_task srv ctx dir en w = Returns w'" "w_db w' = w_db w2" "db_wf (w_db w')" "db_faults (w_db w') = Background"
    "r \<in> set (db_rows (w_db w'))" "scan_row (e_codec (sv_env srv)) r = Inr c" "r_network_id r = n" "r_block_number r = hd_Number h"
    "c_BlockNumber c = hd_Number h" "c_Address c = ContractAddress rc" "c_Processed c" "c_FailedStates c = failedStates d"
    "c_CompletedStates c @ [FinalState] = completedStates d"
proof -
  let ?en = "en\<lparr>en_Receipt := Some rc, en_ContractAddr := ContractAddress rc\<rparr>"
  from UnpackFromEntry_completes [OF assms(15), of h tx rc] assms(2,3) obtain c dd where
    u: "Unpack (sv_env srv) ctx DiscoverState (to_data (GetDescriptor (e_unpacker (sv_env srv)) c ?en) w) = Some (Returns (None, dd))"
    and d: "d = dt_descriptor dd" and w2: "w2 = from_data w dd" by auto
  have "d_Header d = Some h" using Unpack_evolves [OF u] assms(2) by (simp add: d evolves_def identity_def to_data_def)
  from contract_task_returns [OF assms(1,3,4,15) this] obtain w' where t: "contract_task srv ctx dir en w = Returns w'"
    and w': "w_db w' = w_db w2" by blast
  have wf: "db_wf (w_db w')" using contract_task_keeps [of w srv ctx dir en] assms(6) t by (simp add: db_kept_def)
  have dd: "w_db w' = dt_db dd" using w2 w' by (simp add: from_data_def)
  obtain r k where r: "db_find (dt_db dd) (n, hd_Number h, addr_Hex (e_codec (sv_env srv)) (ContractAddress rc)) = Some r"
      "scan_row (e_codec (sv_env srv)) r = Inr k" "db_faults (dt_db dd) = Background" "c_BlockNumber k = hd_Number h" "c_Address k = ContractAddress rc"
      "c_Processed k" "c_FailedStates k = failedStates d" "c_CompletedStates k @ [FinalState] = completedStates d"
    by (rule completed_run_row [OF assms(5) _ _ _ _ _ assms(9) u, of h])
       (use assms(2,6-8,10-14,16) in \<open>simp_all add: to_data_def d HasCompletedState_iff\<close>)
  have "r \<in> set (db_rows (dt_db dd))" "r_network_id r = n" "r_block_number r = hd_Number h"
    using r(1) wf by (auto simp: db_find_iff dd row_key_def)
  with r show ?thesis by (intro that [OF t w' wf, of r k]) (simp_all add: dd)
qed

text \<open>The goroutine of a creation in block 17 on an empty table.\<close>

lemma example_creation:
  assumes "w_db w = empty_db" and "w_files w = (\<lambda>_. None)" and "w_clock w = (\<lambda>_. 7)"
  shows "UnpackFromEntry plain_service Background ((creation_entry 17)\<lparr>en_Receipt := Some \<lparr>ContractAddress = 5\<rparr>, en_ContractAddr := 5\<rparr>)
      DiscoverState w
    = Returns ((Some (dt_descriptor example_result), None),
        (creation_entry 17)\<lparr>en_Receipt := Some \<lparr>ContractAddress = 5\<rparr>, en_ContractAddr := 5\<rparr>, from_data w example_result)"
proof -
  let ?e = "(creation_entry 17)\<lparr>en_Receipt := Some \<lparr>ContractAddress = 5\<rparr>, en_ContractAddr := 5\<rparr>"
  have "to_data (GetDescriptor (e_unpacker example_env) (Some plain_contract) ?e) w = example_data"
    by (simp add: to_data_def GetDescriptor_def SetContract_def example_data_def plain_contract_def creation_entry_def
        example_env_def NewDescriptor_def assms)
  then show ?thesis
    by (simp add: UnpackFromEntry_def entry_body_def world_Unpack_def creation_entry_def plain_service_def example_run)
qed

section \<open>Properties\<close>

text \<open>C18. The block interceptor launches exactly one goroutine per contract creation of the block, in the
  order of the transactions and with the block's header and the recovered sender, and does nothing else.\<close>

theorem BlockInterceptor_launches_creations:
  assumes "GetClientByGroup (sv_chain srv) (ce_network_String (sv_chain srv) network) \<noteq> None"
  shows "BlockInterceptor srv network networkId direction block w =
     Returns ((Some block, None),
       w\<lparr>w_tasks := w_tasks w @ map (creation_task network networkId direction block) (creations srv (blk_Transactions block))\<rparr>)"
  using intercept_loop_tasks [OF assms] by (simp add: BlockInterceptor_def)

theorem BlockInterceptor_launches_creations_witness:
  "BlockInterceptor plain_service ''ethereum'' 1 ''head''
     \<lparr>blk_Header = \<lparr>hd_Number = 17, hd_Hash = 3\<rparr>, blk_Transactions = [\<lparr>tx_Hash = 1, tx_To = Some 2\<rparr>, \<lparr>tx_Hash = 4, tx_To = None\<rparr>]\<rparr> plain_world
   = Returns ((Some \<lparr>blk_Header = \<lparr>hd_Number = 17, hd_Hash = 3\<rparr>,
        blk_Transactions = [\<lparr>tx_Hash = 1, tx_To = Some 2\<rparr>, \<lparr>tx_Hash = 4, tx_To = None\<rparr>]\<rparr>, None),
       plain_world\<lparr>w_tasks := [(''head'', creation_entry 17)]\<rparr>)"
  by (subst BlockInterceptor_launches_creations)
     (simp_all add: plain_service_def plain_chain_def creations_def creation_task_def plain_world_def creation_entry_def)

text \<open>C20. An unpacking request is acknowledged without being served: with a contract that exists and chain
  information that is found, the interceptor hands the unpacker a descriptor without block, transaction and
  receipt, the unpacker stops without an error, and the event is published as resolved although the
  contracts table and the cached sources are unchanged.\<close>

theorem request_resolved_but_not_stored:
  assumes "NewContract srv (ToNetwork srv (ev_NetworkId ev)) (ev_Address ev) = Inr c" and "ots_enabled srv = Some ots"
    and "DiscoverChainInfo srv ots c = Returns (None, c')" and "poll ctx = None"
    and "MarshalBinary (sv_json srv) (ev\<lparr>Resolved := True\<rparr>) = Inr msg" and "Publish srv (CorrelationID ev) msg = None"
  shows "UnpackerInterceptor srv ctx ev w =
     Returns (None, ev\<lparr>Resolved := True\<rparr>, w\<lparr>w_published := w_published w @ [(CorrelationID ev, msg)]\<rparr>)"
  by (rule UnpackerInterceptor_acknowledges [OF assms])

theorem request_resolved_but_not_stored_witness:
  "UnpackerInterceptor plain_service Background \<lparr>CorrelationID = ''c'', ev_NetworkId = 1, ev_Address = 5, Resolved = False\<rparr> plain_world
   = Returns (None, \<lparr>CorrelationID = ''c'', ev_NetworkId = 1, ev_Address = 5, Resolved = True\<rparr>,
       plain_world\<lparr>w_published := [(''c'', [1])]\<rparr>)"
  by (subst request_resolved_but_not_stored [where c = plain_contract and c' = plain_contract and ots = False and msg = "[1]"])
     (simp_all add: plain_service_def ots_enabled_def example_env_def example_options_def MarshalBinary_def plain_json_def
       plain_world_def)

text \<open>C29. The recovery from a panic in the unpacking of a new contract crashes the process: the recovered
  call returns neither a descriptor nor an error, and the goroutine that called it goes on to read the
  header of the missing descriptor.\<close>

theorem recovered_panic_crashes_task:
  assumes "GetClientByGroup (sv_chain srv) (ce_network_String (sv_chain srv) (en_Network e)) = Some client"
    and "en_Tx e = Some tx" and "en_Header e = Some h" and "TransactionReceipt client (tx_Hash tx) = Inr rc"
    and "NewContract srv (en_Network e) (ContractAddress rc) = Inr c"
    and "Unpack (sv_env srv) ctx DiscoverState (to_data (GetDescriptor (e_unpacker (sv_env srv)) (Some (SetChainInfo srv h tx rc c))
        (e\<lparr>en_Receipt := Some rc, en_ContractAddr := ContractAddress rc\<rparr>)) w) = Some (Panics d)"
  shows "contract_task srv ctx dir e w = Panics (from_data w d)"
  using assms
  by (simp add: contract_task_def UnpackFromEntry_def entry_body_def world_Unpack_def recover_entry_def)

theorem recovered_panic_crashes_task_witness:
  "\<exists>w'. contract_task panicking_service Background ''head'' (creation_entry 17) plain_world = Panics w'"
proof -
  let ?e = "(creation_entry 17)\<lparr>en_Receipt := Some \<lparr>ContractAddress = 5\<rparr>, en_ContractAddr := 5\<rparr>"
  let ?d = "to_data (GetDescriptor (e_unpacker (sv_env panicking_service)) (Some plain_contract) ?e) plain_world"
  have "(case follow (pipeline (sv_env panicking_service)) ?d of Panics _ \<Rightarrow> True | _ \<Rightarrow> False)" by code_simp
  then obtain d where "follow (pipeline (sv_env panicking_service)) ?d = Panics d" by (auto split: go.splits)
  then have "Unpack (sv_env panicking_service) Background DiscoverState ?d = Some (Panics d)"
    by (subst Unpack_pipeline) (simp_all add: to_data_def Background_def)
  then show ?thesis
    using recovered_panic_crashes_task [of panicking_service "creation_entry 17" plain_client "\<lparr>tx_Hash = 4, tx_To = None\<rparr>"
        "\<lparr>hd_Number = 17, hd_Hash = 3\<rparr>" "\<lparr>ContractAddress = 5\<rparr>" plain_contract Background plain_world d "''head''"]
    by (auto simp: panicking_service_def plain_service_def plain_chain_def creation_entry_def plain_client_def)
qed

text \<open>The recorded progress can go backwards: a goroutine that finishes records the block of its own
  contract, whatever is recorded already, so when goroutines finish out of order the last inspected block
  is not the highest one and a resumed archive run inspects blocks again.\<close>

theorem progress_goes_back:
  assumes "GetClientByGroup (sv_chain srv) (ce_network_String (sv_chain srv) (en_Network e)) = Some client"
    and "en_Tx e = Some tx" and "TransactionReceipt client (tx_Hash tx) = Inr rc"
    and "UnpackFromEntry srv ctx (e\<lparr>en_Receipt := Some rc, en_ContractAddr := ContractAddress rc\<rparr>) DiscoverState w
      = Returns ((Some d, None), e2, w2)" and "d_Header d = Some h"
    and "sd_LatestInspectedArchiveBlock (st_descriptor (w_sync w)) = Some n" and "hd_Number h < n"
  shows "\<exists>w3 m. contract_task srv ctx ''archive'' e w = Returns w3
    \<and> sd_LatestInspectedArchiveBlock (st_descriptor (w_sync w3)) = Some m \<and> m < n"
  using contract_task_sets [OF assms(1-5)] assms(7) by auto

theorem progress_goes_back_witness:
  "\<exists>w3 m. contract_task plain_service Background ''archive'' (creation_entry 17)
       (plain_world\<lparr>w_sync := (w_sync plain_world)\<lparr>st_descriptor := (st_descriptor (w_sync plain_world))
          \<lparr>sd_LatestInspectedArchiveBlock := Some 40\<rparr>\<rparr>\<rparr>) = Returns w3
     \<and> sd_LatestInspectedArchiveBlock (st_descriptor (w_sync w3)) = Some m \<and> m < 40"
proof -
  let ?w = "plain_world\<lparr>w_sync := (w_sync plain_world)\<lparr>st_descriptor := (st_descriptor (w_sync plain_world))
          \<lparr>sd_LatestInspectedArchiveBlock := Some 40\<rparr>\<rparr>\<rparr>"
  let ?e = "(creation_entry 17)\<lparr>en_Receipt := Some \<lparr>ContractAddress = 5\<rparr>, en_ContractAddr := 5\<rparr>"
  let ?d = "to_data (GetDescriptor (e_unpacker (sv_env plain_service)) (Some plain_contract) ?e) ?w"
  have "(case follow (pipeline (sv_env plain_service)) ?d of Returns (None, _) \<Rightarrow> True | _ \<Rightarrow> False)" by code_simp
  then obtain d where "follow (pipeline (sv_env plain_service)) ?d = Returns (None, d)" by (auto split: go.splits option.splits)
  then have u: "Unpack (sv_env plain_service) Background DiscoverState ?d = Some (Returns (None, d))"
    by (subst Unpack_pipeline) (simp_all add: to_data_def Background_def)
  then have "d_Header (dt_descriptor d) = Some \<lparr>hd_Number = 17, hd_Hash = 3\<rparr>"
    using Unpack_evolves [OF u] by (simp add: evolves_def identity_def to_data_def creation_entry_def)
  moreover from u have "UnpackFromEntry plain_service Background ?e DiscoverState ?w
      = Returns ((Some (dt_descriptor d), None), ?e, from_data ?w d)"
    by (simp add: UnpackFromEntry_def entry_body_def world_Unpack_def creation_entry_def plain_service_def)
  ultimately show ?thesis
    using progress_goes_back [of plain_service "creation_entry 17" plain_client "\<lparr>tx_Hash = 4, tx_To = None\<rparr>" "\<lparr>ContractAddress = 5\<rparr>"
        Background ?w "dt_descriptor d" ?e "from_data ?w d" "\<lparr>hd_Number = 17, hd_Hash = 3\<rparr>" 40]
    by (simp add: plain_service_def plain_chain_def plain_client_def creation_entry_def)
qed

end
