(* ===== verification/Services.thy ===== *)
theory Services
  imports Syncer
begin

text \<open>
  Construction and start-up of the two services: \<open>NewService\<close>, \<open>Start\<close> and \<open>Run\<close> of
  src/services/syncer (service.go, entrypoint.go) and of src/services/query (service.go, entrypoint.go).
  The constructors of the libraries are parameters. A goroutine of an errgroup is described by when it
  ends: by itself, when the group's context is cancelled, or never.
\<close>

section \<open>Construction\<close>

text \<open>\<open>handle\<close> is the pointer under which the state manager is passed to the unpacker.\<close>

record ('r, 'x) libs =
  NewClientPool :: "error + 'x"
  nats_Connect :: "string \<Rightarrow> error + 'x"
  sql_open :: "string \<Rightarrow> error + 'x"
  exec_pragma :: "'x \<Rightarrow> string \<Rightarrow> error option"
  bindings_NewManager :: "'x \<Rightarrow> error + 'x"
  redis_NewClient :: "redis_Options \<Rightarrow> 'r redis \<times> 'r"
  NewEtherScanProvider :: "'r redis \<Rightarrow> error + 'x"
  handle :: "'r sync_state \<Rightarrow> 'x"

record ('r, 'x) Service =
  srv_ctx :: gocontext
  srv_pool :: 'x
  srv_nats :: 'x
  srv_db :: 'x
  srv_subs :: "('r, 'x) world Subscriber Manager"
  srv_unpacker :: "'x Unpacker"
  srv_etherscan :: 'x
  srv_bindManager :: 'x
  srv_cache :: "'r redis"
  srv_state :: "'r sync_state"
  srv_rpc :: bool

text \<open>A constructor's error, wrapped with the message of the step, or the rest with its value.\<close>

definition step :: "string \<Rightarrow> error + 'a \<Rightarrow> ('a \<Rightarrow> error + 'b) \<Rightarrow> error + 'b" where
  "step msg r f = (case r of Inl err \<Rightarrow> Inl (Wrapf msg err) | Inr a \<Rightarrow> f a)"

text \<open>Without global options the embedded client options are dereferenced through a nil pointer. The
  service is built without its RPC server, which is attached last.\<close>

definition NewService :: "('r, 'x) libs \<Rightarrow> Options option \<Rightarrow> gocontext \<Rightarrow> (error + ('r, 'x) Service, unit) go" where
  "NewService lb globals ctx =
     (case G globals of
        None \<Rightarrow> Panics ()
      | Some opts \<Rightarrow> Returns
          (step ''failure to validate service options: '' (case Options_Validate opts of Some e \<Rightarrow> Inl e | None \<Rightarrow> Inr ()) (\<lambda>_.
           step ''failure to create clients pool: '' (NewClientPool lb) (\<lambda>clientsPool.
           step ''failure to connect to the nats server: '' (nats_Connect lb (nats_Addr (opt_Nats opts))) (\<lambda>nsConn.
           step ''failure to open up the sqlite database: '' (NewDB (sql_open lb) (exec_pragma lb) opts) (\<lambda>dDb.
           step ''failure to create new subscriber manager: '' (Inr NewManager) (\<lambda>subManager.
           step ''failure to create bindings manager: '' (bindings_NewManager lb clientsPool) (\<lambda>bindManager.
           step ''failure to create redis client: '' (cache_New (redis_NewClient lb) (opt_Cache opts)) (\<lambda>(cacheClient, server).
           step ''failure to create state manager: '' (Inr (state_New server)) (\<lambda>stateManager.
           step ''failure to create new etherscan provider: '' (NewEtherScanProvider lb (GetClient (cacheClient, server))) (\<lambda>etherscanProvider.
           step ''failure to initiate new unpacker instance: ''
             (NewUnpacker ctx [WithNats (Some nsConn), WithPool (Some clientsPool), WithDb (Some dDb),
                WithBindingsManager (Some bindManager), WithEtherScanProvider (Some etherscanProvider),
                WithStateManager (Some (handle lb stateManager))]) (\<lambda>unp.
             (let toReturn = \<lparr>srv_ctx = ctx, srv_pool = clientsPool, srv_nats = nsConn, srv_db = dDb, srv_subs = subManager,
                srv_unpacker = unp, srv_etherscan = etherscanProvider, srv_bindManager = bindManager, srv_cache = cacheClient,
                srv_state = stateManager, srv_rpc = False\<rparr>
              in Inr (toReturn\<lparr>srv_rpc := True\<rparr>))))))))))))))"

section \<open>Goroutine groups\<close>

datatype routine = Ends "error option" | UntilCancel "error option" | Forever

text \<open>The context of a group is cancelled when its parent is done or when a goroutine returns an error.
  \<open>Wait\<close> returns the first error once every goroutine has ended, and blocks (\<open>None\<close>) otherwise. The
  list is in the order in which the goroutines end.\<close>

definition group_cancelled :: "bool \<Rightarrow> routine list \<Rightarrow> bool" where
  "group_cancelled parent_done rs \<longleftrightarrow> parent_done \<or> list_ex (\<lambda>r. case r of Ends (Some _) \<Rightarrow> True | _ \<Rightarrow> False) rs"

definition routine_result :: "routine \<Rightarrow> error option" where
  "routine_result r = (case r of Ends e \<Rightarrow> e | UntilCancel e \<Rightarrow> e | Forever \<Rightarrow> None)"

definition group_Wait :: "bool \<Rightarrow> routine list \<Rightarrow> error option option" where
  "group_Wait parent_done rs =
     (if list_ex (\<lambda>r. r = Forever) rs
         \<or> (list_ex (\<lambda>r. case r of UntilCancel _ \<Rightarrow> True | _ \<Rightarrow> False) rs \<and> \<not> group_cancelled parent_done rs)
      then None
      else Some (errgroup_Wait (map routine_result
             (filter (\<lambda>r. case r of Ends _ \<Rightarrow> True | _ \<Rightarrow> False) rs @ filter (\<lambda>r. case r of Ends _ \<Rightarrow> False | _ \<Rightarrow> True) rs))))"

section \<open>The syncer\<close>

text \<open>\<open>order\<close> is the order in which the goroutines end; the monitor ends with the group's context.
  After \<open>Wait\<close> the group's context is cancelled, so the final \<open>select\<close> does not block.\<close>

definition syncer_routines :: "Options \<Rightarrow> routine \<Rightarrow> routine \<Rightarrow> routine \<Rightarrow> routine list" where
  "syncer_routines opts subscribe pprof rpc =
     [subscribe]
     @ (if endpoint_Enabled (opt_Pprof opts) then [pprof] else [])
     @ (if endpoint_Enabled (opt_Rpc opts) then [rpc] else [])
     @ [UntilCancel None]"

definition syncer_Start ::
  "'r redis \<Rightarrow> Options option \<Rightarrow> (SubscriberType \<Rightarrow> (error + 's, unit) go) \<Rightarrow> SubscriberType list
   \<Rightarrow> (routine list \<Rightarrow> routine list) \<Rightarrow> bool \<Rightarrow> ('s Manager \<Rightarrow> routine) \<Rightarrow> routine \<Rightarrow> routine
   \<Rightarrow> 'r sync_state \<times> 's Manager \<Rightarrow> (error option \<times> 'r sync_state \<times> 's Manager, 'r sync_state \<times> 's Manager) go" where
  "syncer_Start rc globals subFn names order parent_done subscribe pprof rpc s =
     (case state_Load rc (fst s) of
        (Some err, st) \<Rightarrow> Returns (Some (Wrapf ''failure to load synchronization state: '' err), st, snd s)
      | (None, st) \<Rightarrow>
     (case InjectSubscribers subFn names (snd s) of
        Panics m \<Rightarrow> Panics (st, m)
      | Blocks m \<Rightarrow> Blocks (st, m)
      | Returns (Some err, m) \<Rightarrow> Returns (Some (Wrapf ''failure to inject subscribers: '' err), st, m)
      | Returns (None, m) \<Rightarrow>
     (case G globals of
        None \<Rightarrow> Panics (st, m)
      | Some opts \<Rightarrow>
          (case group_Wait parent_done (order (syncer_routines opts (subscribe m) pprof rpc)) of
             None \<Rightarrow> Blocks (st, m)
           | Some err \<Rightarrow> Returns (err, st, m)))))"

text \<open>\<open>New\<close> builds the service in the context of the command.\<close>

definition syncer_New :: "('r, 'x) libs \<Rightarrow> Options option \<Rightarrow> gocontext \<Rightarrow> (error + ('r, 'x) Service, unit) go" where
  "syncer_New lb globals ctx =
     go_bind (NewService lb globals ctx) (\<lambda>r. Returns (case r of Inl err \<Rightarrow> Inl err | Inr service \<Rightarrow> Inr service))"

text \<open>\<open>Run\<close>: build the service, find the network, start.\<close>

definition syncer_Run ::
  "(error + 'srv) \<Rightarrow> (string \<Rightarrow> error + string) \<Rightarrow> ('srv \<Rightarrow> string \<Rightarrow> (error option, 'w) go) \<Rightarrow> string
   \<Rightarrow> (error option, 'w) go" where
  "syncer_Run new network_of start networkArg =
     (case new of
        Inl err \<Rightarrow> Returns (Some err)
      | Inr service \<Rightarrow>
          (case network_of networkArg of
             Inl _ \<Rightarrow> Returns (Some (Errorf (''failure to discover provided network '' @ quoted networkArg)))
           | Inr network \<Rightarrow>
               map_go (map_option (\<lambda>e. Errorf (''failure to start syncer service: '' @ Error e))) id (start service network)))"

section \<open>The query service\<close>

record ('r, 'x) QueryService =
  qs_ctx :: gocontext
  qs_pool :: 'x
  qs_nats :: 'x
  qs_db :: 'x
  qs_etherscan :: 'x
  qs_bindManager :: 'x
  qs_cache :: "'r redis"

definition query_NewService :: "('r, 'x) libs \<Rightarrow> Options option \<Rightarrow> gocontext \<Rightarrow> (error + ('r, 'x) QueryService, unit) go" where
  "query_NewService lb globals ctx =
     (case G globals of
        None \<Rightarrow> Panics ()
      | Some opts \<Rightarrow> Returns
          (step ''failure to validate service options: '' (case Options_Validate opts of Some e \<Rightarrow> Inl e | None \<Rightarrow> Inr ()) (\<lambda>_.
           step ''failure to create clients pool: '' (NewClientPool lb) (\<lambda>clientsPool.
           step ''failure to connect to the nats server: '' (nats_Connect lb (nats_Addr (opt_Nats opts))) (\<lambda>nsConn.
           step ''failure to open up the sqlite database: '' (NewDB (sql_open lb) (exec_pragma lb) opts) (\<lambda>dDb.
           step ''failure to create bindings manager: '' (bindings_NewManager lb clientsPool) (\<lambda>bindManager.
           step ''failure to create redis client: '' (cache_New (redis_NewClient lb) (opt_Cache opts)) (\<lambda>(cacheClient, server).
           step ''failure to create new etherscan provider: '' (NewEtherScanProvider lb (GetClient (cacheClient, server))) (\<lambda>etherscanProvider.
             Inr \<lparr>qs_ctx = ctx, qs_pool = clientsPool, qs_nats = nsConn, qs_db = dDb, qs_etherscan = etherscanProvider,
               qs_bindManager = bindManager, qs_cache = cacheClient\<rparr>)))))))))"

definition query_Start :: "Options option \<Rightarrow> (routine list \<Rightarrow> routine list) \<Rightarrow> bool \<Rightarrow> routine \<Rightarrow> routine \<Rightarrow> (error option, unit) go" where
  "query_Start globals order parent_done serveGraphQL pprof =
     (case G globals of
        None \<Rightarrow> Panics ()
      | Some opts \<Rightarrow>
          (case group_Wait parent_done (order ([serveGraphQL] @ (if endpoint_Enabled (opt_Pprof opts) then [pprof] else []))) of
             None \<Rightarrow> Blocks ()
           | Some err \<Rightarrow> Returns err))"

definition query_Run :: "(error + 'srv) \<Rightarrow> ('srv \<Rightarrow> (error option, 'w) go) \<Rightarrow> (error option, 'w) go" where
  "query_Run new start =
     (case new of
        Inl err \<Rightarrow> Returns (Some err)
      | Inr service \<Rightarrow> map_go (map_option (\<lambda>e. Errorf (''failure to start syncer service: '' @ Error e))) id (start service))"

section \<open>Lemmas\<close>

lemma step_Inr_iff: "step msg r f = Inr b \<longleftrightarrow> (\<exists>a. r = Inr a \<and> f a = Inr b)"
  by (cases r) (auto simp: step_def)

lemma NewUnpacker_all:
  "NewUnpacker c [WithNats (Some n), WithPool (Some p), WithDb (Some d), WithBindingsManager (Some b),
      WithEtherScanProvider (Some e), WithStateManager (Some s)]
   = Inr \<lparr>u_ctx = c, u_pool = Some p, u_etherscan = Some e, u_nats = Some n, u_js = None, u_db = Some d,
        u_bindManager = Some b, u_state = Some s\<rparr>"
  by (simp add: NewUnpacker_def WithNats_def WithPool_def WithDb_def WithBindingsManager_def
      WithEtherScanProvider_def WithStateManager_def)

lemma is_failure: "(case r of Ends (Some _) \<Rightarrow> True | _ \<Rightarrow> False) \<longleftrightarrow> (\<exists>e. r = Ends (Some e))"
  by (cases r) (auto split: option.splits)

lemma group_Wait_live:
  assumes "UntilCancel None \<in> set rs" and "\<forall>e. UntilCancel (Some e) \<notin> set rs"
  shows "(\<exists>e. group_Wait False rs = Some e) \<longleftrightarrow> Forever \<notin> set rs \<and> (\<exists>e. Ends (Some e) \<in> set rs)"
    and "group_Wait False rs \<noteq> Some None"
proof -
  have c: "group_cancelled False rs \<longleftrightarrow> (\<exists>e. Ends (Some e) \<in> set rs)"
    by (auto simp: group_cancelled_def list_ex_iff is_failure)
  have u: "list_ex (\<lambda>r. case r of UntilCancel _ \<Rightarrow> True | _ \<Rightarrow> False) rs"
    unfolding list_ex_iff using assms(1) by (intro bexI [of _ "UntilCancel None"]) simp_all
  show iff: "(\<exists>e. group_Wait False rs = Some e) \<longleftrightarrow> Forever \<notin> set rs \<and> (\<exists>e. Ends (Some e) \<in> set rs)"
    using c u by (auto simp: group_Wait_def list_ex_iff)
  show "group_Wait False rs \<noteq> Some None"
  proof
    assume w: "group_Wait False rs = Some None"
    then obtain e where e: "Ends (Some e) \<in> set rs" using iff by blast
    then have "routine_result (Ends (Some e)) \<in> routine_result ` {x \<in> set rs. case x of Ends x \<Rightarrow> True | _ \<Rightarrow> False}"
      by (intro imageI) simp
    with w have "routine_result (Ends (Some e)) = None"
      by (auto simp: group_Wait_def errgroup_Wait_None ball_Un simp del: image_eqI split: if_splits)
    then show False by (simp add: routine_result_def)
  qed
qed

section \<open>An instance\<close>

definition plain_libs :: "(string \<rightharpoonup> byte list, string) libs" where
  "plain_libs = \<lparr>NewClientPool = Inr ''pool'', nats_Connect = (\<lambda>a. Inr ''nats''), sql_open = (\<lambda>p. Inr ''db''),
     exec_pragma = (\<lambda>h p. None), bindings_NewManager = (\<lambda>p. Inr ''bindings''),
     redis_NewClient = (\<lambda>o'. (plain_redis, Map.empty)), NewEtherScanProvider = (\<lambda>rc. Inr ''etherscan''),
     handle = (\<lambda>s. ''state'')\<rparr>"

definition service_options :: Options where
  "service_options = example_options\<lparr>opt_Cache := (opt_Cache example_options)\<lparr>cache_Addr := ''localhost:6379''\<rparr>,
     opt_Rpc := \<lparr>endpoint_Enabled = True, endpoint_Addr = '':9090''\<rparr>\<rparr>"

section \<open>Properties\<close>

text \<open>A service that was built is complete: its unpacker has every handle that the handlers dereference,
  each the one of the service, no subscriber is registered, the state starts empty on the cache's server,
  the RPC server is attached, and the query service built from the same libraries succeeds as well with
  the same handles.\<close>

theorem NewService_complete:
  assumes "NewService lb (Some opts) ctx = Returns (Inr srv)"
  shows "srv_unpacker srv = \<lparr>u_ctx = ctx, u_pool = Some (srv_pool srv), u_etherscan = Some (srv_etherscan srv),
      u_nats = Some (srv_nats srv), u_js = None, u_db = Some (srv_db srv), u_bindManager = Some (srv_bindManager srv),
      u_state = Some (handle lb (srv_state srv))\<rparr>
    \<and> srv_subs srv = Map.empty \<and> st_descriptor (srv_state srv) = st_descriptor (state_New (st_server (srv_state srv))) \<and> srv_rpc srv
    \<and> query_NewService lb (Some opts) ctx = Returns (Inr \<lparr>qs_ctx = ctx, qs_pool = srv_pool srv, qs_nats = srv_nats srv,
        qs_db = srv_db srv, qs_etherscan = srv_etherscan srv, qs_bindManager = srv_bindManager srv, qs_cache = srv_cache srv\<rparr>)"
proof -
  from assms obtain p n d b rc sv e where lib: "NewClientPool lb = Inr p" "nats_Connect lb (nats_Addr (opt_Nats opts)) = Inr n"
    "NewDB (sql_open lb) (exec_pragma lb) opts = Inr d" "bindings_NewManager lb p = Inr b"
    "cache_New (redis_NewClient lb) (opt_Cache opts) = Inr (rc, sv)" "NewEtherScanProvider lb rc = Inr e"
    by (auto simp: NewService_def G_def step_Inr_iff split: prod.splits)
  with assms show ?thesis
    by (auto simp: NewService_def query_NewService_def G_def step_def NewUnpacker_all Options_Validate_def NewManager_def state_New_def)
qed

theorem NewService_complete_witness:
  "\<exists>srv. NewService plain_libs (Some service_options) Background = Returns (Inr srv) \<and> u_db (srv_unpacker srv) = Some (srv_db srv)"
proof -
  have "redis_Ping plain_redis s = None" for s by (simp add: plain_redis_def)
  then have "\<exists>srv. NewService plain_libs (Some service_options) Background = Returns (Inr srv)"
    by (simp add: NewService_def G_def step_def plain_libs_def service_options_def example_options_def cache_New_def
        ValidateOptions_def NewDB_def NewUnpacker_all Options_Validate_def Let_def)
  then obtain srv where s: "NewService plain_libs (Some service_options) Background = Returns (Inr srv)" by blast
  from NewService_complete [OF this] s show ?thesis by auto
qed

text \<open>C33. While the context of the service is live, a started syncer never stops quietly: once the state is
  loaded and the subscribers are injected, \<open>Start\<close> returns only if one of its goroutines fails and none
  of the others runs for ever, and then with an error. In particular a failing RPC server is not reported
  as long as a subscriber or the profiling server goes on.\<close>

theorem Start_returns_iff:
  assumes "\<forall>rs. set (order rs) = set rs" and "state_Load rc st = (None, st')"
    and "InjectSubscribers subFn names m = Returns (None, m')"
    and "\<forall>e. UntilCancel e \<notin> {subscribe m', pprof, rpc}"
    and "R = set (syncer_routines opts (subscribe m') pprof rpc)"
  shows "((\<exists>e. syncer_Start rc (Some opts) subFn names order False subscribe pprof rpc (st, m) = Returns (e, st', m'))
      \<longleftrightarrow> Forever \<notin> R \<and> (\<exists>e. Ends (Some e) \<in> R))
    \<and> syncer_Start rc (Some opts) subFn names order False subscribe pprof rpc (st, m) \<noteq> Returns (None, st', m')"
proof -
  let ?rs = "order (syncer_routines opts (subscribe m') pprof rpc)"
  have set: "set ?rs = R" using assms(1,5) by simp
  have u: "UntilCancel None \<in> set ?rs" "\<forall>e. UntilCancel (Some e) \<notin> set ?rs"
    unfolding set assms(5) using assms(4) by (auto simp: syncer_routines_def)
  have s: "syncer_Start rc (Some opts) subFn names order False subscribe pprof rpc (st, m)
      = (case group_Wait False ?rs of None \<Rightarrow> Blocks (st', m') | Some err \<Rightarrow> Returns (err, st', m'))"
    using assms(2,3) by (simp add: syncer_Start_def G_def)
  show ?thesis
    using group_Wait_live [OF u] unfolding s set by (auto split: option.splits)
qed

text \<open>The RPC server fails to listen while the subscribers run: \<open>Start\<close> blocks.\<close>

theorem Start_returns_iff_witness:
  "\<not> (\<exists>e. syncer_Start plain_redis (Some service_options) (\<lambda>n. Returns (Inr ())) [''head''] (\<lambda>rs. rs) False (\<lambda>m. Forever)
        (Ends None) (Ends (Some (Errorf ''failure to listen''))) (state_New Map.empty, Map.empty)
      = Returns (e, state_New Map.empty, [''head'' \<mapsto> ()]))"
proof -
  have l: "state_Load plain_redis (state_New Map.empty) = (None, state_New Map.empty)"
    by (simp add: state_Load_def load_key_def state_Get_def cache_Get_def plain_redis_def and_then_def state_New_def)
  have i: "InjectSubscribers (\<lambda>n. Returns (Inr ())) [''head''] Map.empty = Returns (None, [''head'' \<mapsto> ()])"
    by (simp add: manager_Register_def register_check_def register_put_def manager_Exists_def)
  show ?thesis
    using Start_returns_iff [of "\<lambda>rs. rs" plain_redis "state_New Map.empty" "state_New Map.empty" "\<lambda>n. Returns (Inr ())" "[''head'']"
        Map.empty "[''head'' \<mapsto> ()]" "\<lambda>m. Forever" "Ends None" "Ends (Some (Errorf ''failure to listen''))" _ service_options, OF _ l i _ refl]
    by (simp add: syncer_routines_def)
qed

end
