(* ===== verification/Commands.thy ===== *)
theory Commands
  imports Services
begin

text \<open>
  The program around the services: the logger (src/pkg/logger), the command-line application
  (src/pkg/app) with its command tables (src/cmd) and \<open>main\<close> (src/main.go), the GraphQL and RPC
  listeners (src/services/query/graphql.go, src/services/syncer/rpc.go, src/pkg/rpc, src/pkg/pprof), and
  the assembly of the GraphQL schema (src/schemas, src/pkg/graph/generate.go).

  The logging library, the command-line library, the migration library, the network and the file
  system are parameters. A goroutine or a listener is described by how it ends, as in theory \<open>Services\<close>.
\<close>

section \<open>Logger\<close>

text \<open>A zap configuration as far as the program sets it: the library's base configuration, the level and
  the encoder of level names.\<close>

datatype zap_base = NewProductionConfig | NewDevelopmentConfig

record zap_config =
  cfg_base :: zap_base
  cfg_Level :: int
  cfg_ColorLevels :: bool

record 'l zap =
  ParseAtomicLevel :: "string \<Rightarrow> error + int"
  config_Build :: "zap_config \<Rightarrow> error + 'l"

definition GetProductionLogger :: "'l zap \<Rightarrow> int \<Rightarrow> error + 'l" where
  "GetProductionLogger z level = config_Build z \<lparr>cfg_base = NewProductionConfig, cfg_Level = level, cfg_ColorLevels = False\<rparr>"

definition GetDevelopmentLogger :: "'l zap \<Rightarrow> int \<Rightarrow> error + 'l" where
  "GetDevelopmentLogger z level = config_Build z \<lparr>cfg_base = NewDevelopmentConfig, cfg_Level = level, cfg_ColorLevels = True\<rparr>"

definition GetLogger :: "'l zap \<Rightarrow> string \<Rightarrow> string \<Rightarrow> error + 'l" where
  "GetLogger z env level =
     (case ParseAtomicLevel z level of
        Inl err \<Rightarrow> Inl (Errorf (''invalid logger level provided: '' @ level @ '' - err: '' @ Error err))
      | Inr configLevel \<Rightarrow>
          if env = ''development'' then GetDevelopmentLogger z configLevel
          else if env = ''production'' then GetProductionLogger z configLevel
          else Inl (Errorf (''failure to construct logger for env: '' @ env)))"

text \<open>The helpers write one entry to the global logger; \<open>Fatal\<close> then ends the process with code 1.\<close>

datatype log_level = FatalLevel | ErrorLevel | WarnLevel | InfoLevel | DebugLevel
datatype log_field = Field string string | Field_error error

record log_entry =
  le_level :: log_level
  le_message :: string
  le_fields :: "log_field list"

datatype exit_status = Running | Exited int

definition log_Fatal :: "string \<Rightarrow> error \<Rightarrow> log_field list \<Rightarrow> log_entry list \<Rightarrow> log_entry list \<times> exit_status" where
  "log_Fatal message err fs log =
     (log @ [\<lparr>le_level = FatalLevel, le_message = message, le_fields = fs @ [Field_error err]\<rparr>], Exited 1)"

definition log_Error :: "string \<Rightarrow> error \<Rightarrow> log_field list \<Rightarrow> log_entry list \<Rightarrow> log_entry list" where
  "log_Error message err fs log =
     log @ [\<lparr>le_level = ErrorLevel, le_message = message, le_fields = fs @ [Field_error err]\<rparr>]"

definition log_Warn :: "string \<Rightarrow> log_field list \<Rightarrow> log_entry list \<Rightarrow> log_entry list" where
  "log_Warn message fs log = log @ [\<lparr>le_level = WarnLevel, le_message = message, le_fields = fs\<rparr>]"

definition log_Info :: "string \<Rightarrow> log_field list \<Rightarrow> log_entry list \<Rightarrow> log_entry list" where
  "log_Info message fs log = log @ [\<lparr>le_level = InfoLevel, le_message = message, le_fields = fs\<rparr>]"

definition log_Debug :: "string \<Rightarrow> log_field list \<Rightarrow> log_entry list \<Rightarrow> log_entry list" where
  "log_Debug message fs log = log @ [\<lparr>le_level = DebugLevel, le_message = message, le_fields = fs\<rparr>]"

section \<open>Commands\<close>

text \<open>The actions of the program, what they run is below.\<close>

datatype action = SyncerStart | SyncerOne | QueryStart | RunnerStart | MigrationsUp | MigrationsDown

record flag =
  flag_Name :: string
  flag_Required :: bool
  flag_Value :: string

datatype Command = Command
  (cmd_Name: string) (cmd_Usage: string) (cmd_Flags: "flag list") (cmd_Action: "action option") (cmd_Subcommands: "Command list")

text \<open>\<open>ethereum\<close> is solgo's name of the network, the default of the flag.\<close>

definition network_flag :: "string \<Rightarrow> flag" where
  "network_flag ethereum = \<lparr>flag_Name = ''network'', flag_Required = True, flag_Value = ethereum\<rparr>"

definition GetSyncerCommands :: "string \<Rightarrow> Command list" where
  "GetSyncerCommands ethereum =
     [Command ''syncer'' ''Downloads and syncs blockchain smart contract information'' [] None
        [Command ''start'' ''Starts the downloader service'' [network_flag ethereum] (Some SyncerStart) [],
         Command ''one'' ''Synchronizes a specific contract by its address''
           [network_flag ethereum, \<lparr>flag_Name = ''addr'', flag_Required = True, flag_Value = []\<rparr>] (Some SyncerOne) []]]"

definition GetQueryCommands :: "Command list" where
  "GetQueryCommands =
     [Command ''query'' ''Dataset querying related services'' [] None
        [Command ''start'' ''Starts the query service'' [] (Some QueryStart) []]]"

definition GetCompressionCommands :: "Command list" where
  "GetCompressionCommands = []"

definition GetRunnerCommands :: "string \<Rightarrow> Command list" where
  "GetRunnerCommands ethereum =
     [Command ''start'' ''Starts all or selected downloader services'' [network_flag ethereum] (Some RunnerStart) []]"

definition GetMigrationCommands :: "Command list" where
  "GetMigrationCommands =
     [Command ''migrations'' ''Dataset (database) migration related commands'' [] None
        [Command ''up'' ''Do the database migrations'' [] (Some MigrationsUp) [],
         Command ''down'' ''Rollback the database migrations'' [] (Some MigrationsDown) []]]"

definition cmd_registry :: "string \<Rightarrow> (string \<times> Command list) list" where
  "cmd_registry ethereum =
     [(''syncer'', GetSyncerCommands ethereum), (''query'', GetQueryCommands), (''compression'', GetCompressionCommands),
      (''runner'', GetRunnerCommands ethereum), (''migrations'', GetMigrationCommands)]"

definition GetCommands :: "string \<Rightarrow> (string \<times> Command list) list" where
  "GetCommands ethereum = cmd_registry ethereum"

text \<open>The migration actions: \<open>migrate_Exec\<close> is the migration library's function on the opened database, its
  dialect, the directory of the migrations and the direction; it answers the number of migrations.\<close>

datatype direction = Up | Down

definition migration_action ::
  "(Options \<Rightarrow> error + 'h) \<Rightarrow> ('h \<Rightarrow> string \<Rightarrow> string \<Rightarrow> direction \<Rightarrow> error + nat) \<Rightarrow> Options option \<Rightarrow> direction
   \<Rightarrow> (error option, unit) go" where
  "migration_action newDB migrate_Exec globals dir =
     (case G globals of
        None \<Rightarrow> Panics ()
      | Some opts \<Rightarrow>
     (case newDB opts of
        Inl err \<Rightarrow> Returns (Some err)
      | Inr db \<Rightarrow>
     (case migrate_Exec db (GetDialect opts) (db_MigrationDir (opt_Db opts)) dir of
        Inl err \<Rightarrow> Returns (Some err)
      | Inr n \<Rightarrow> Returns None)))"

definition migrations_up ::
  "(Options \<Rightarrow> error + 'h) \<Rightarrow> ('h \<Rightarrow> string \<Rightarrow> string \<Rightarrow> direction \<Rightarrow> error + nat) \<Rightarrow> Options option \<Rightarrow> (error option, unit) go" where
  "migrations_up newDB migrate_Exec globals = migration_action newDB migrate_Exec globals Up"

definition migrations_down ::
  "(Options \<Rightarrow> error + 'h) \<Rightarrow> ('h \<Rightarrow> string \<Rightarrow> string \<Rightarrow> direction \<Rightarrow> error + nat) \<Rightarrow> Options option \<Rightarrow> (error option, unit) go" where
  "migrations_down newDB migrate_Exec globals = migration_action newDB migrate_Exec globals Down"

text \<open>The action of the runner waits for the one goroutine it starts.\<close>

definition runner_action :: "bool \<Rightarrow> routine \<Rightarrow> error option option" where
  "runner_action parent_done syncer = group_Wait parent_done [syncer]"

definition one_action :: "error + 'srv \<Rightarrow> ('srv \<Rightarrow> (error option, 'w) go) \<Rightarrow> (error option, 'w) go" where
  "one_action new unpack = (case new of Inl err \<Rightarrow> Returns (Some err) | Inr service \<Rightarrow> unpack service)"

section \<open>The application\<close>

record app_Descriptor =
  ad_Name :: string
  ad_Version :: string
  ad_HelpName :: string
  ad_Description :: string
  ad_Usage :: string

record cli_App =
  cli_Name :: string
  cli_Version :: string
  cli_HelpName :: string
  cli_Description :: string
  cli_Usage :: string
  cli_Commands :: "Command list"

record App =
  app_ctx :: gocontext
  app_App :: "cli_App option"

definition app_New :: "gocontext \<Rightarrow> app_Descriptor \<Rightarrow> error + App" where
  "app_New ctx desc =
     Inr \<lparr>app_ctx = ctx,
          app_App = Some \<lparr>cli_Name = ad_Name desc, cli_Version = ad_Version desc, cli_HelpName = ad_HelpName desc,
            cli_Description = ad_Description desc, cli_Usage = ad_Usage desc, cli_Commands = []\<rparr>\<rparr>"

definition RegisterCommands :: "Command list \<Rightarrow> App \<Rightarrow> error option \<times> App" where
  "RegisterCommands commands a =
     (case app_App a of
        None \<Rightarrow> (Some (Errorf ''application not initialized''), a)
      | Some app \<Rightarrow> (None, a\<lparr>app_App := Some (app\<lparr>cli_Commands := cli_Commands app @ commands\<rparr>)\<rparr>))"

text \<open>\<open>cli_Run\<close> is the command-line library: it picks the command of the arguments and runs its action, which may return,
  panic or never end. A nil application panics.\<close>

definition app_Run :: "(cli_App \<Rightarrow> string list \<Rightarrow> (error option, unit) go) \<Rightarrow> string list \<Rightarrow> App \<Rightarrow> (error option, unit) go" where
  "app_Run cli_Run args a = (case app_App a of None \<Rightarrow> Panics () | Some app \<Rightarrow> cli_Run app args)"

section \<open>The main function\<close>

text \<open>How the process ends, with the application that was run and the globals it ran under: the options and the
  logger.\<close>

record 'l process =
  pr_App :: App
  pr_globals :: "Options option"
  pr_logger :: 'l

text \<open>\<open>Main_panics\<close> is a panic before a command runs, \<open>Main_crashes\<close> a panic of the command, \<open>Main_runs\<close> a command that
  never returns.\<close>

datatype 'l main_result =
    Main_panics string | Main_exits int "'l process" | Main_returns "'l process" | Main_crashes "'l process" | Main_runs "'l process"

text \<open>\<open>me_cli_Run\<close> runs the command of the arguments; its actions read the global options.\<close>

record 'l main_env =
  me_options_path :: string
  me_Load :: "string list \<Rightarrow> error + Options"
  me_zap :: "'l zap"
  me_ethereum :: string
  me_version :: string
  me_cli_Run :: "Options option \<Rightarrow> cli_App \<Rightarrow> string list \<Rightarrow> (error option, unit) go"
  me_args :: "string list"

fun register_loop :: "(string \<times> Command list) list \<Rightarrow> App \<Rightarrow> (App, App) loop" where
  "register_loop [] a = Next a"
| "register_loop ((module, commands) # rest) a =
     (case RegisterCommands commands a of (Some _, a') \<Rightarrow> Stop a' | (None, a') \<Rightarrow> register_loop rest a')"

text \<open>\<open>order\<close> is the order in which the range over the map of commands visits it.\<close>

definition main ::
  "'l main_env \<Rightarrow> ((string \<times> Command list) list \<Rightarrow> (string \<times> Command list) list) \<Rightarrow> Options option \<Rightarrow> 'l main_result" where
  "main me order globals =
     (if length (me_options_path me) < 1
      then Main_panics ''Options path is not set. You need to set `INSPECTOR_OPTIONS_PATH` environment variable''
      else (case NewDefaultOptions (me_Load me) (PathToSlice (me_options_path me)) of
        Inl err \<Rightarrow> Main_panics (Error err)
      | Inr opts \<Rightarrow>
          let globals1 = SetGlobalOptions opts globals in
     (case GetLogger (me_zap me) (logger_Env (opt_Logger opts)) (logger_Level (opt_Logger opts)) of
        Inl err \<Rightarrow> Main_panics (Error err)
      | Inr zlog \<Rightarrow>
     (case app_New Background
         \<lparr>ad_Name = ''(Un)Pack Inspector'', ad_Version = CHR ''v'' # me_version me, ad_HelpName = ''inspector'', ad_Description = [],
          ad_Usage = ''Ethereum Smart Contracts Downloader and Storage Manager''\<rparr> of
        Inl _ \<Rightarrow> Main_panics ''nil pointer''
      | Inr baseApp \<Rightarrow>
     (case register_loop (order (GetCommands (me_ethereum me))) baseApp of
        Stop a \<Rightarrow> Main_exits 1 \<lparr>pr_App = a, pr_globals = globals1, pr_logger = zlog\<rparr>
      | Next a \<Rightarrow>
     (case app_Run (me_cli_Run me globals1) (me_args me) a of
        Returns None \<Rightarrow> Main_returns \<lparr>pr_App = a, pr_globals = globals1, pr_logger = zlog\<rparr>
      | Returns (Some _) \<Rightarrow> Main_exits 1 \<lparr>pr_App = a, pr_globals = globals1, pr_logger = zlog\<rparr>
      | Panics _ \<Rightarrow> Main_crashes \<lparr>pr_App = a, pr_globals = globals1, pr_logger = zlog\<rparr>
      | Blocks _ \<Rightarrow> Main_runs \<lparr>pr_App = a, pr_globals = globals1, pr_logger = zlog\<rparr>))))))"

section \<open>Listeners\<close>

text \<open>The profiler: \<open>ListenAndServe\<close> of the HTTP library returns only with an error.\<close>

record Pprof =
  pp_ctx :: gocontext
  pp_opts :: Endpoint

definition pprof_New :: "gocontext \<Rightarrow> Endpoint \<Rightarrow> Pprof" where
  "pprof_New ctx opts = \<lparr>pp_ctx = ctx, pp_opts = opts\<rparr>"

definition pprof_Start :: "(string \<Rightarrow> error option) \<Rightarrow> Pprof \<Rightarrow> error option" where
  "pprof_Start listenAndServe p = listenAndServe (endpoint_Addr (pp_opts p))"

text \<open>The GraphQL server: the handler with its transports and extensions, and the two routes.\<close>

datatype transport = Websocket | Options_transport | GET | POST
datatype extension = AutomaticPersistedQuery int | Introspection_extension

record gql_handler =
  gh_transports :: "transport list"
  gh_extensions :: "extension list"

record cors_options =
  co_AllowedOrigins :: "string list"
  co_AllowCredentials :: bool
  co_Debug :: bool
  co_AllowedMethods :: "string list"
  co_MaxAge :: int
  co_OptionsPassthrough :: bool
  co_AllowedHeaders :: "string list"

datatype route = Playground string | Guarded cors_options gql_handler

definition cors_of :: "Cors \<Rightarrow> cors_options" where
  "cors_of c =
     \<lparr>co_AllowedOrigins = cors_AllowedOrigins c, co_AllowCredentials = cors_AllowCredentials c, co_Debug = cors_Debug c,
      co_AllowedMethods = cors_AllowedMethods c, co_MaxAge = cors_MaxAge c, co_OptionsPassthrough = cors_OptionsPassthrough c,
      co_AllowedHeaders = cors_AllowedHeaders c\<rparr>"

definition graphql_handler :: "GraphQL \<Rightarrow> gql_handler" where
  "graphql_handler opts =
     \<lparr>gh_transports = (if TransportEnabled opts ''ws'' then [Websocket] else []) @ [Options_transport, GET, POST],
      gh_extensions = [AutomaticPersistedQuery (gcache_QueryCacheDuration (graphql_Cache opts)), Introspection_extension]\<rparr>"

definition graphql_router :: "GraphQL \<Rightarrow> (string \<times> route) list" where
  "graphql_router opts =
     [(''/'', Playground ''/query''), (''/query'', Guarded (cors_of (graphql_Cors opts)) (graphql_handler opts))]"

text \<open>\<open>newCache\<close> makes the cache of persisted queries.\<close>

definition serveGraphQL ::
  "(int \<Rightarrow> error option) \<Rightarrow> (string \<Rightarrow> (string \<times> route) list \<Rightarrow> error option) \<Rightarrow> Options option \<Rightarrow> (error option, unit) go" where
  "serveGraphQL newCache listenAndServe globals =
     (case G globals of
        None \<Rightarrow> Panics ()
      | Some o' \<Rightarrow>
          (let opts = opt_Graphql o' in
           case newCache (gcache_QueryCacheDuration (graphql_Cache opts)) of
             Some err \<Rightarrow> Returns (Some err)
           | None \<Rightarrow> Returns (listenAndServe (graphql_Addr opts) (graphql_router opts))))"

text \<open>The gRPC server of the syncer: \<open>serve\<close> ends with an error, with nil once it was stopped, or never
  (\<open>None\<close>); afterwards the server waits for its context.\<close>

record 'srv GRPC_Server =
  gs_ctx :: gocontext
  gs_Service :: 'srv
  gs_processingContracts :: "string set"

definition NewGRPCServer :: "gocontext \<Rightarrow> 'srv \<Rightarrow> error + 'srv GRPC_Server" where
  "NewGRPCServer ctx service = Inr \<lparr>gs_ctx = ctx, gs_Service = service, gs_processingContracts = {}\<rparr>"

definition GRPC_Start :: "(string \<Rightarrow> error option) \<Rightarrow> error option option \<Rightarrow> bool \<Rightarrow> Options option \<Rightarrow> (error option, unit) go" where
  "GRPC_Start listen serve ctx_done globals =
     (case G globals of
        None \<Rightarrow> Panics ()
      | Some opts \<Rightarrow>
          if \<not> endpoint_Enabled (opt_Rpc opts) then Returns None
          else (case listen (endpoint_Addr (opt_Rpc opts)) of
                  Some err \<Rightarrow> Returns (Some (Wrapf ''failure to listen (rpc): '' err))
                | None \<Rightarrow>
               (case serve of
                  None \<Rightarrow> Blocks ()
                | Some (Some err) \<Rightarrow> Returns (Some (Wrapf ''failed to serve (rpc): '' err))
                | Some None \<Rightarrow> if ctx_done then Returns None else Blocks ())))"

text \<open>The JSON-RPC server of package \<open>rpc\<close>. The error of \<open>Serve\<close> is logged only if it is the one of a server that was
  closed; a failing shutdown ends the process.\<close>

record RPC_Server =
  rs_ctx :: gocontext
  rs_opts :: Endpoint
  rs_handlers :: "string list"

definition ErrServerClosed :: error where
  "ErrServerClosed = Sentinel ''http: Server closed''"

definition rpc_NewServer :: "gocontext \<Rightarrow> Endpoint \<Rightarrow> error + RPC_Server" where
  "rpc_NewServer ctx opts = Inr \<lparr>rs_ctx = ctx, rs_opts = opts, rs_handlers = []\<rparr>"

text \<open>\<open>registerName\<close> is what the RPC library says to a name and its handler.\<close>

definition RegisterHandler :: "(string \<Rightarrow> error option) \<Rightarrow> string \<Rightarrow> RPC_Server \<Rightarrow> error option \<times> RPC_Server" where
  "RegisterHandler registerName name s =
     (case registerName name of
        Some err \<Rightarrow> (Some err, s)
      | None \<Rightarrow> (None, s\<lparr>rs_handlers := rs_handlers s @ [name]\<rparr>))"

datatype http_answer = Method_not_allowed string | Served

definition rpc_handle :: "(string \<Rightarrow> error option) \<Rightarrow> string \<Rightarrow> string \<Rightarrow> log_entry list \<Rightarrow> http_answer \<times> log_entry list" where
  "rpc_handle serveRequest method body log =
     (if method \<noteq> ''POST'' then (Method_not_allowed ''Only POST method is allowed'', log)
      else (case serveRequest body of
              None \<Rightarrow> (Served, log)
            | Some err \<Rightarrow> (Served, log_Error ''failure while serving rpc request'' err [] log)))"

definition serve_log :: "error \<Rightarrow> log_entry list" where
  "serve_log err = (if errors_Is err ErrServerClosed then log_Error ''failure to serve RPC server'' err [] [] else [])"

text \<open>\<open>serve\<close> is the error \<open>Serve\<close> has ended with on its own, if it has; a shutdown makes it end with
  \<open>ErrServerClosed\<close>. The goroutine that serves and \<open>Start\<close> write to the log side by side: \<open>k1\<close> is the number of entries that
  the goroutine writes before \<open>Start\<close> writes its first, \<open>k2\<close> the number of those between the two entries of \<open>Start\<close>. It cannot
  learn of the shutdown before the first. The last component of the result is what it has still to write when \<open>Start\<close> is done.\<close>

definition rpc_Start ::
  "(string \<Rightarrow> error option) \<Rightarrow> error option \<Rightarrow> bool \<Rightarrow> error option \<Rightarrow> nat \<Rightarrow> nat \<Rightarrow> RPC_Server \<Rightarrow> log_entry list
   \<Rightarrow> (error option \<times> log_entry list \<times> exit_status \<times> log_entry list, log_entry list) go" where
  "rpc_Start listen serve ctx_done shutdown k1 k2 s log =
     (case listen (endpoint_Addr (rs_opts s)) of
        Some err \<Rightarrow> Returns (Some err, log, Running, [])
      | None \<Rightarrow>
          let started = log_Info ''RPC Server started on'' [Field ''addr'' (endpoint_Addr (rs_opts s) @ ''/rpc'')] [];
              own = started @ (case serve of None \<Rightarrow> [] | Some err \<Rightarrow> serve_log err);
              log1 = log @ take k1 own in
          if \<not> ctx_done then Blocks log1
          else
            let left = drop k1 own @ (case serve of None \<Rightarrow> serve_log ErrServerClosed | Some _ \<Rightarrow> []);
                log2 = log_Info ''Shutting down server...'' [] log1 @ take k2 left in
            (case shutdown of
               Some err \<Rightarrow> (case log_Fatal ''Server shutdown failed'' err [] log2 of (log3, st) \<Rightarrow> Returns (None, log3, st, []))
             | None \<Rightarrow> Returns (None, log_Info ''Server gracefully stopped'' [] log2, Running, drop k2 left)))"

record Client =
  client_ctx :: gocontext

definition client_New :: "gocontext \<Rightarrow> error + Client" where
  "client_New ctx = Inr \<lparr>client_ctx = ctx\<rparr>"

section \<open>The GraphQL schema\<close>

definition HasSuffix :: "string \<Rightarrow> string \<Rightarrow> bool" where
  "HasSuffix s suffix = strings_HasPrefix (rev s) (rev suffix)"

text \<open>\<open>String\<close> walks the embedded files: each step of the walk is an error of the walk or a path, and \<open>readFile\<close>
  answers the content of a path. The buffer written so far is returned with an error too.\<close>

fun schema_walk :: "(string \<Rightarrow> error + string) \<Rightarrow> (error + string) list \<Rightarrow> string \<Rightarrow> error option \<times> string" where
  "schema_walk readFile [] buf = (None, buf)"
| "schema_walk readFile (Inl err # entries) buf = (Some (Wrapf ''walking dir: '' err), buf)"
| "schema_walk readFile (Inr path # entries) buf =
     (if \<not> HasSuffix path ''.graphqls'' then schema_walk readFile entries buf
      else (case readFile path of
              Inl err \<Rightarrow> (Some (Wrapf (''reading file '' @ CHR 0x22 # path @ [CHR 0x22] @ '': '') err), buf)
            | Inr b \<Rightarrow> schema_walk readFile entries (buf @ b @ [CHR 0x0A, CHR 0x0A])))"

definition schemas_String :: "(string \<Rightarrow> error + string) \<Rightarrow> (error + string) list \<Rightarrow> string \<times> error option" where
  "schemas_String readFile walk =
     (case schema_walk readFile walk [] of
        (Some err, buf) \<Rightarrow> (buf, Some (Wrapf ''walking content directory: '' err))
      | (None, buf) \<Rightarrow> (buf, None))"

text \<open>The files of the generator: a map from paths to contents; \<open>os_remove\<close> and \<open>writeToFile\<close> may fail. A path whose
  \<open>Stat\<close> fails counts as absent.\<close>

type_synonym files = "string \<rightharpoonup> string"

definition schemas_Remove :: "(string \<Rightarrow> error option) \<Rightarrow> string \<Rightarrow> files \<Rightarrow> error option \<times> files" where
  "schemas_Remove os_remove path fs =
     (if fs path \<noteq> None then (case os_remove path of Some err \<Rightarrow> (Some err, fs) | None \<Rightarrow> (None, fs(path := None)))
      else (None, fs))"

definition schemas_Write :: "(string \<Rightarrow> error option) \<Rightarrow> string \<Rightarrow> string \<Rightarrow> files \<Rightarrow> error option \<times> files" where
  "schemas_Write writeToFile path content fs =
     (case writeToFile path of Some err \<Rightarrow> (Some err, fs) | None \<Rightarrow> (None, fs(path \<mapsto> content)))"

definition schemaPath :: string where
  "schemaPath = ''../../schemas/dist/schema.graphqls''"

text \<open>The generator: its exit code and the files it leaves. \<open>loadConfig\<close> and \<open>generate\<close> are gqlgen's.\<close>

definition generate_main ::
  "(string \<Rightarrow> error + string) \<Rightarrow> (error + string) list \<Rightarrow> (string \<Rightarrow> error option) \<Rightarrow> (string \<Rightarrow> error option)
   \<Rightarrow> error + 'c \<Rightarrow> ('c \<Rightarrow> files \<Rightarrow> error option \<times> files) \<Rightarrow> files \<Rightarrow> int \<times> files" where
  "generate_main readFile walk os_remove writeToFile loadConfig generate fs =
     (case schemas_String readFile walk of
        (_, Some _) \<Rightarrow> (2, fs)
      | (schema, None) \<Rightarrow>
     (case schemas_Remove os_remove schemaPath fs of
        (Some _, fs1) \<Rightarrow> (2, fs1)
      | (None, fs1) \<Rightarrow>
     (case schemas_Write writeToFile schemaPath schema fs1 of
        (Some _, fs2) \<Rightarrow> (2, fs2)
      | (None, fs2) \<Rightarrow>
     (case loadConfig of
        Inl _ \<Rightarrow> (2, fs2)
      | Inr cfg \<Rightarrow>
     (case generate cfg fs2 of (Some _, fs3) \<Rightarrow> (3, fs3) | (None, fs3) \<Rightarrow> (0, fs3))))))"

section \<open>Lemmas\<close>

lemma register_loop_Next:
  "app_App a = Some app \<Longrightarrow>
     register_loop cs a = Next (a\<lparr>app_App := Some (app\<lparr>cli_Commands := cli_Commands app @ concat (map snd cs)\<rparr>)\<rparr>)"
  by (induction cs a arbitrary: app rule: register_loop.induct) (simp_all add: RegisterCommands_def)

lemma errors_Is_ErrServerClosed: "errors_Is ErrServerClosed ErrServerClosed"
  by (simp add: ErrServerClosed_def)

lemma schema_walk_files:
  assumes "\<And>p. p \<in> set paths \<Longrightarrow> HasSuffix p ''.graphqls'' \<Longrightarrow> readFile p = Inr (contents p)"
  shows "schema_walk readFile (map Inr paths) buf
     = (None, buf @ concat (map (\<lambda>p. contents p @ [CHR 0x0A, CHR 0x0A]) (filter (\<lambda>p. HasSuffix p ''.graphqls'') paths)))"
  using assms by (induction paths arbitrary: buf) simp_all

section \<open>An instance\<close>

definition plain_main :: "string main_env" where
  "plain_main =
     \<lparr>me_options_path = ''opts.yaml'', me_Load = (\<lambda>ps. Inr (example_options\<lparr>opt_Logger := \<lparr>logger_Env = ''production'', logger_Level = ''info''\<rparr>\<rparr>)),
      me_zap = \<lparr>ParseAtomicLevel = (\<lambda>l. if l = ''info'' then Inr 0 else Inl (Errorf ''unrecognized level'')), config_Build = (\<lambda>c. Inr ''zap'')\<rparr>,
      me_ethereum = ''ethereum'', me_version = ''1.0'', me_cli_Run = (\<lambda>globals app args. if args = [] then Blocks () else Returns None), me_args = [''inspector'', ''query'', ''start'']\<rparr>"

section \<open>Properties\<close>

text \<open>C37. The process start: with loadable options and a valid logger configuration the application that runs has every
  command of the registry exactly once, in whatever order the map of commands is visited; the command sees the loaded
  options as the global ones, and the process ends the way the command does: with code 1 exactly when the command returns an
  error, normally when it returns without one, with a panic when it panics, and not at all when the command never returns.\<close>

theorem main_runs_registered_commands:
  assumes "me_options_path me \<noteq> []" and "NewDefaultOptions (me_Load me) (PathToSlice (me_options_path me)) = Inr opts"
    and "GetLogger (me_zap me) (logger_Env (opt_Logger opts)) (logger_Level (opt_Logger opts)) = Inr zlog"
    and "mset (order (GetCommands (me_ethereum me))) = mset (GetCommands (me_ethereum me))"
  shows "\<exists>p app. app_App (pr_App p) = Some app \<and> pr_globals p = Some opts \<and> pr_logger p = zlog
     \<and> mset (cli_Commands app) = mset (concat (map snd (cmd_registry (me_ethereum me))))
     \<and> main me order globals
         = (case me_cli_Run me (Some opts) app (me_args me) of
              Returns None \<Rightarrow> Main_returns p | Returns (Some _) \<Rightarrow> Main_exits 1 p | Panics _ \<Rightarrow> Main_crashes p | Blocks _ \<Rightarrow> Main_runs p)"
proof -
  have "mset (concat (map snd (order (GetCommands (me_ethereum me))))) = mset (concat (map snd (cmd_registry (me_ethereum me))))"
    using mset_concat_perm [OF assms(4), of snd] by (simp add: GetCommands_def)
  moreover let ?app = "\<lparr>cli_Name = ''(Un)Pack Inspector'', cli_Version = CHR ''v'' # me_version me, cli_HelpName = ''inspector'',
    cli_Description = [], cli_Usage = ''Ethereum Smart Contracts Downloader and Storage Manager'',
    cli_Commands = concat (map snd (order (GetCommands (me_ethereum me))))\<rparr>"
  let ?p = "\<lparr>pr_App = \<lparr>app_ctx = Background, app_App = Some ?app\<rparr>, pr_globals = Some opts, pr_logger = zlog\<rparr>"
  have "main me order globals
      = (case me_cli_Run me (Some opts) ?app (me_args me) of
           Returns None \<Rightarrow> Main_returns ?p | Returns (Some _) \<Rightarrow> Main_exits 1 ?p | Panics _ \<Rightarrow> Main_crashes ?p | Blocks _ \<Rightarrow> Main_runs ?p)"
    using assms(1-3)
    by (simp add: main_def app_New_def app_Run_def register_loop_Next SetGlobalOptions_def split: option.split go.split)
  ultimately show ?thesis
    by (intro exI [of _ ?p] exI [of _ ?app]) simp
qed

theorem main_runs_registered_commands_witness:
  "\<exists>p app. app_App (pr_App p) = Some app \<and> size (mset (cli_Commands app)) = 4 \<and> pr_logger p = ''zap''
     \<and> main plain_main rev None = Main_returns p \<and> (\<exists>q. main (plain_main\<lparr>me_args := []\<rparr>) rev None = Main_runs q)"
proof -
  let ?opts = "example_options\<lparr>opt_Logger := \<lparr>logger_Env = ''production'', logger_Level = ''info''\<rparr>\<rparr>"
  have "size (mset (concat (map snd (cmd_registry ''ethereum'')))) = 4" by code_simp
  then show ?thesis
    using main_runs_registered_commands [of plain_main ?opts "''zap''" rev None]
      main_runs_registered_commands [of "plain_main\<lparr>me_args := []\<rparr>" ?opts "''zap''" rev None]
    by (auto simp: plain_main_def NewDefaultOptions_def GetLogger_def GetProductionLogger_def dest: mset_eq_length)
qed

text \<open>C38. The test on the error of \<open>Serve\<close> is inverted: a server that stops serving for any other reason than a shutdown
  leaves no entry in the log and \<open>Start\<close> goes on waiting, while every regular shutdown is logged as an error. This holds for
  every order in which the goroutine and \<open>Start\<close> write: the entry of the error is in the log when \<open>Start\<close> returns if
  the goroutine has written its two entries by then, and is still to come otherwise.\<close>

theorem rpc_serve_error_inverted:
  assumes "listen (endpoint_Addr (rs_opts s)) = None" and "\<not> errors_Is err ErrServerClosed"
  shows "rpc_Start listen (Some err) False shutdown k1 k2 s log = rpc_Start listen None False shutdown k1 k2 s log
     \<and> (\<exists>log1 rest e. rpc_Start listen None True None k1 k2 s log = Returns (None, log @ log1, Running, rest)
          \<and> e \<in> set (log1 @ rest) \<and> le_level e = ErrorLevel \<and> (2 \<le> min 1 k1 + k2 \<longrightarrow> e \<in> set log1 \<and> rest = []))"
proof
  show "rpc_Start listen (Some err) False shutdown k1 k2 s log = rpc_Start listen None False shutdown k1 k2 s log"
    using assms by (simp add: rpc_Start_def serve_log_def)
  let ?e = "\<lparr>le_level = ErrorLevel, le_message = ''failure to serve RPC server'', le_fields = [Field_error ErrServerClosed]\<rparr>"
  let ?info = "\<lambda>m fs. \<lparr>le_level = InfoLevel, le_message = m, le_fields = fs\<rparr>"
  let ?own = "[?info ''RPC Server started on'' [Field ''addr'' (endpoint_Addr (rs_opts s) @ ''/rpc'')]]"
  let ?left = "drop k1 ?own @ [?e]"
  let ?log1 = "take k1 ?own @ ?info ''Shutting down server...'' [] # take k2 ?left @ [?info ''Server gracefully stopped'' []]"
  have "rpc_Start listen None True None k1 k2 s log = Returns (None, log @ ?log1, Running, drop k2 ?left)"
    using assms(1) by (simp add: rpc_Start_def serve_log_def errors_Is_ErrServerClosed log_Info_def log_Error_def Let_def)
  moreover have "?e \<in> set (take k2 ?left @ drop k2 ?left)" by (simp only: append_take_drop_id) simp
  then have "?e \<in> set (?log1 @ drop k2 ?left)" by auto
  moreover have "le_level ?e = ErrorLevel" by simp
  moreover have "?e \<in> set ?log1 \<and> drop k2 ?left = []" if "2 \<le> min 1 k1 + k2"
  proof -
    have "length ?left \<le> k2" using that by simp
    then have "take k2 ?left = ?left" "drop k2 ?left = []" by (simp_all only: take_all drop_all)
    then show ?thesis by simp
  qed
  ultimately show "\<exists>log1 rest e. rpc_Start listen None True None k1 k2 s log = Returns (None, log @ log1, Running, rest)
      \<and> e \<in> set (log1 @ rest) \<and> le_level e = ErrorLevel \<and> (2 \<le> min 1 k1 + k2 \<longrightarrow> e \<in> set log1 \<and> rest = [])" by blast
qed

theorem rpc_serve_error_inverted_witness:
  "let s = \<lparr>rs_ctx = Background, rs_opts = opt_Rpc example_options, rs_handlers = []\<rparr> in
   rpc_Start (\<lambda>_. None) (Some (Errorf ''accept'')) False None 1 1 s [] = rpc_Start (\<lambda>_. None) None False None 1 1 s []
   \<and> (\<exists>log1 e. rpc_Start (\<lambda>_. None) None True None 1 1 s [] = Returns (None, log1, Running, []) \<and> e \<in> set log1 \<and> le_level e = ErrorLevel)"
proof -
  let ?s = "\<lparr>rs_ctx = Background, rs_opts = opt_Rpc example_options, rs_handlers = []\<rparr>"
  from rpc_serve_error_inverted [of "\<lambda>_. None" ?s "Errorf ''accept''" None 1 1 "[]"] show ?thesis
    by (auto simp: ErrServerClosed_def)
qed

text \<open>The schema is the concatenation of the embedded GraphQL files in the order of the walk, each followed by an
  empty line; files with another suffix are left out.\<close>

theorem schema_concatenates_files:
  assumes "\<And>p. p \<in> set paths \<Longrightarrow> HasSuffix p ''.graphqls'' \<Longrightarrow> readFile p = Inr (contents p)"
  shows "schemas_String readFile (map Inr paths)
     = (concat (map (\<lambda>p. contents p @ [CHR 0x0A, CHR 0x0A]) (filter (\<lambda>p. HasSuffix p ''.graphqls'') paths)), None)"
  using schema_walk_files [of paths readFile contents "[]", OF assms] by (simp add: schemas_String_def)

theorem schema_concatenates_files_witness:
  "schemas_String (\<lambda>p. if p = ''a.graphqls'' then Inr ''type A'' else Inl (Errorf ''no'')) [Inr ''.'', Inr ''a.graphqls'', Inr ''x.go'']
     = (''type A'' @ [CHR 0x0A, CHR 0x0A], None)"
proof -
  let ?read = "\<lambda>p :: string. if p = ''a.graphqls'' then Inr ''type A'' else Inl (Errorf ''no'')"
  have "?read p = Inr ''type A''" if "p \<in> set [''.'', ''a.graphqls'', ''x.go'']" "HasSuffix p ''.graphqls''" for p
    using that by (auto simp: HasSuffix_def)
  from schema_concatenates_files [of "[''.'', ''a.graphqls'', ''x.go'']" ?read "\<lambda>_. ''type A''", OF this] show ?thesis by (simp add: HasSuffix_def)
qed

end
