(* ===== verification/Store.thy ===== *)
theory Store
  imports Models
begin

text \<open>
  What the contracts table promises to the rest of the program, as an abstract store: a map from the network,
  block number and address of a contract to the contract, with a counter of ids. The operations of
  src/pkg/models/contracts.go on the table of theory \<open>Models\<close> are shown to implement the store, for every
  sequence of operations and every schedule of engine failures.
\<close>

section \<open>Runs and their refinement\<close>

text \<open>The results of a sequence of operations, and the runs of a specification given as a step relation.\<close>

fun exec_all :: "('o \<Rightarrow> 's \<Rightarrow> 'r \<times> 's) \<Rightarrow> 'o list \<Rightarrow> 's \<Rightarrow> 'r list \<times> 's" where
  "exec_all exec [] s = ([], s)"
| "exec_all exec (x # xs) s = (case exec x s of (r, s1) \<Rightarrow> (case exec_all exec xs s1 of (rs, s2) \<Rightarrow> (r # rs, s2)))"

inductive spec_run :: "('a \<Rightarrow> 'o \<Rightarrow> 'r \<Rightarrow> 'a \<Rightarrow> bool) \<Rightarrow> 'a \<Rightarrow> 'o list \<Rightarrow> 'r list \<Rightarrow> 'a \<Rightarrow> bool" for spec where
  spec_run_Nil: "spec_run spec a [] [] a"
| spec_run_Cons: "spec a x r b \<Longrightarrow> spec_run spec b xs rs c \<Longrightarrow> spec_run spec a (x # xs) (r # rs) c"

inductive_cases spec_run_ConsE: "spec_run spec a (x # xs) (r # rs) c"

text \<open>The interface between an implementation and its specification: one operation on a state of the
  invariant is a step of the specification between the abstractions.\<close>

locale data_refinement =
  fixes inv :: "'s \<Rightarrow> bool"
    and abs :: "'s \<Rightarrow> 'a"
    and legal :: "'o \<Rightarrow> bool"
    and exec :: "'o \<Rightarrow> 's \<Rightarrow> 'r \<times> 's"
    and spec :: "'a \<Rightarrow> 'o \<Rightarrow> 'r \<Rightarrow> 'a \<Rightarrow> bool"
  assumes simulates: "inv s \<Longrightarrow> legal x \<Longrightarrow> exec x s = (r, s') \<Longrightarrow> inv s' \<and> spec (abs s) x r (abs s')"
begin

lemma run_refines:
  "inv s \<Longrightarrow> list_all legal xs \<Longrightarrow> exec_all exec xs s = (rs, s') \<Longrightarrow> inv s' \<and> spec_run spec (abs s) xs rs (abs s')"
proof (induction xs arbitrary: s rs)
  case Nil
  then show ?case by (simp add: spec_run_Nil)
next
  case (Cons x xs)
  obtain r s1 rs1 where x: "exec x s = (r, s1)" and xs: "exec_all exec xs s1 = (rs1, s')" and rs: "rs = r # rs1"
    using Cons.prems(3) by (auto split: prod.splits)
  have 1: "inv s1 \<and> spec (abs s) x r (abs s1)" using simulates [OF _ _ x] Cons.prems(1,2) by simp
  then have "inv s' \<and> spec_run spec (abs s1) xs rs1 (abs s')" using Cons.IH [OF _ _ xs] Cons.prems(2) by simp
  with 1 rs show ?case by (auto intro: spec_run_Cons)
qed

end

section \<open>The abstract store\<close>

type_synonym contract_id = "int \<times> int \<times> Address"

record store =
  st_contracts :: "contract_id \<rightharpoonup> Contract"
  st_seq :: int

datatype store_op = Save Contract | Update Contract | Lookup contract_id
datatype answer = Done | Refused | Found Contract | Missing

definition ckey :: "Contract \<Rightarrow> contract_id" where
  "ckey c = (c_NetworkId c, c_BlockNumber c, c_Address c)"

text \<open>The flag of a result says that the engine may have failed during the operation. Only then may an operation be
  refused, or a lookup report nothing, without a reason in the store; even then the store is unchanged.\<close>

inductive store_step :: "store \<Rightarrow> store_op \<Rightarrow> bool \<times> answer \<Rightarrow> store \<Rightarrow> bool" where
  save_new: "st_contracts st (ckey c) = None \<Longrightarrow> st_seq st < 2 ^ 63 - 1 \<Longrightarrow>
    store_step st (Save c) (d, Done)
      (st\<lparr>st_contracts := (st_contracts st)(ckey c \<mapsto> c\<lparr>c_Id := st_seq st + 1\<rparr>), st_seq := st_seq st + 1\<rparr>)"
| save_refused: "st_contracts st (ckey c) \<noteq> None \<or> 2 ^ 63 - 1 \<le> st_seq st \<Longrightarrow> store_step st (Save c) (d, Refused) st"
| update_entry: "st_contracts st k = Some c0 \<Longrightarrow> c_Id c0 = c_Id c \<Longrightarrow> ckey c = k \<or> st_contracts st (ckey c) = None \<Longrightarrow>
    store_step st (Update c) (d, Done)
      (st\<lparr>st_contracts := (st_contracts st)(k := None, ckey c \<mapsto> c\<lparr>c_CreatedAt := c_CreatedAt c0\<rparr>)\<rparr>)"
| update_clash: "st_contracts st k = Some c0 \<Longrightarrow> c_Id c0 = c_Id c \<Longrightarrow> ckey c \<noteq> k \<Longrightarrow> st_contracts st (ckey c) \<noteq> None \<Longrightarrow>
    store_step st (Update c) (d, Refused) st"
| update_nothing: "\<forall>k c0. st_contracts st k = Some c0 \<longrightarrow> c_Id c0 \<noteq> c_Id c \<Longrightarrow> store_step st (Update c) (d, Done) st"
| lookup_found: "st_contracts st k = Some c \<Longrightarrow> store_step st (Lookup k) (d, Found c) st"
| lookup_missing: "st_contracts st k = None \<Longrightarrow> store_step st (Lookup k) (d, Missing) st"
| disturbed: "a \<in> {Refused, Missing} \<Longrightarrow> store_step st x (True, a) st"

section \<open>The table as an implementation\<close>

definition id_key :: "codec \<Rightarrow> contract_id \<Rightarrow> dbkey" where
  "id_key cd k = (case k of (n, b, a) \<Rightarrow> (n, b, addr_Hex cd a))"

definition abs_contract :: "codec \<Rightarrow> row \<Rightarrow> Contract option" where
  "abs_contract cd r = (case scan_row cd r of Inl _ \<Rightarrow> None | Inr c \<Rightarrow> Some c)"

definition abs_store :: "codec \<Rightarrow> contracts_db \<Rightarrow> store" where
  "abs_store cd db =
     \<lparr>st_contracts = (\<lambda>k. Option.bind (db_find db (id_key cd k)) (abs_contract cd)), st_seq = db_seq db\<rparr>"

text \<open>The tables the program can reach: the constraints hold and every row can be read.\<close>

definition table_ok :: "codec \<Rightarrow> contracts_db \<Rightarrow> bool" where
  "table_ok cd db \<longleftrightarrow> db_wf db \<and> (\<forall>r \<in> set (db_rows db). abs_contract cd r \<noteq> None \<and> r_address r \<in> range (addr_Hex cd))"

definition legal_id :: "contract_id \<Rightarrow> bool" where
  "legal_id k = (case k of (n, b, a) \<Rightarrow> 0 \<le> n \<and> n < 2 ^ 63 \<and> 0 \<le> b \<and> b < 2 ^ 63)"

fun legal_op :: "store_op \<Rightarrow> bool" where
  "legal_op (Save c) \<longleftrightarrow> legal_id (ckey c) \<and> c_OptimizationRuns c < 2 ^ 63"
| "legal_op (Update c) \<longleftrightarrow> legal_id (ckey c) \<and> c_OptimizationRuns c < 2 ^ 63"
| "legal_op (Lookup k) \<longleftrightarrow> legal_id k"

text \<open>An operation uses the first two entries of the schedule at most.\<close>

definition engine_fails :: "contracts_db \<Rightarrow> bool" where
  "engine_fails db \<longleftrightarrow> poll (db_faults db) \<noteq> None \<or> poll (advance (db_faults db)) \<noteq> None"

definition written :: "error option \<Rightarrow> answer" where
  "written err = (case err of None \<Rightarrow> Done | Some _ \<Rightarrow> Refused)"

definition looked_up :: "error + Contract \<Rightarrow> answer" where
  "looked_up r = (case r of Inl err \<Rightarrow> if errors_Is err ErrNoRows then Missing else Refused | Inr c \<Rightarrow> Found c)"

fun table_op :: "codec \<Rightarrow> store_op \<Rightarrow> contracts_db \<Rightarrow> (bool \<times> answer) \<times> contracts_db" where
  "table_op cd (Save c) db = map_prod (\<lambda>err. (engine_fails db, written err)) id (SaveContract cd c db)"
| "table_op cd (Update c) db = map_prod (\<lambda>err. (engine_fails db, written err)) id (UpdateContract cd c db)"
| "table_op cd (Lookup (n, b, a)) db = map_prod (\<lambda>r. (engine_fails db, looked_up r)) id (GetContractByUniqueIndex cd n b a db)"

section \<open>Lemmas\<close>

lemma db_wf_ids: "db_wf db \<Longrightarrow> x \<in> set (db_rows db) \<Longrightarrow> y \<in> set (db_rows db) \<Longrightarrow> r_id x = r_id y \<Longrightarrow> x = y"
  by (auto simp: db_wf_def distinct_map dest: inj_onD)

lemma db_wf_keys: "db_wf db \<Longrightarrow> x \<in> set (db_rows db) \<Longrightarrow> y \<in> set (db_rows db) \<Longrightarrow> row_key x = row_key y \<Longrightarrow> x = y"
  by (auto simp: db_wf_def distinct_map dest: inj_onD)

lemma db_find_None: "db_find db k = None \<longleftrightarrow> k \<notin> row_key ` set (db_rows db)"
  by (simp add: db_find_def find_None_iff_key)

lemma bind_compose_update: "inj K \<Longrightarrow> (\<lambda>k. Option.bind ((F(K k0 := v)) (K k)) f) = (\<lambda>k. Option.bind (F (K k)) f)(k0 := Option.bind v f)"
  by (rule ext) (simp add: inj_eq)

lemma id_key_inj: "codec_documented cd \<Longrightarrow> inj (id_key cd)"
  unfolding codec_documented_def by (intro injI) (auto simp: id_key_def split: prod.splits, metis)

lemma contract_key_ckey: "legal_id (ckey c) \<Longrightarrow> contract_key cd c = id_key cd (ckey c)"
  by (simp add: contract_key_def id_key_def ckey_def legal_id_def big_Uint64_id)

lemma abs_contract_row:
  assumes "codec_documented cd" and "legal_id (ckey c)" and "ToJSON_strings cd (c_FailedStates c) = Inr fs"
  shows "abs_contract cd ((contract_row cd c fs)\<lparr>r_id := i, r_created_at := t\<rparr>) = Some (c\<lparr>c_Id := i, c_CreatedAt := t\<rparr>)"
proof -
  have "(contract_row cd c fs)\<lparr>r_id := i, r_created_at := t\<rparr> = (contract_row cd (c\<lparr>c_CreatedAt := t\<rparr>) fs)\<lparr>r_id := i\<rparr>"
    by (simp add: contract_row_def)
  then show ?thesis
    using scan_contract_row [OF assms(1), of "c\<lparr>c_CreatedAt := t\<rparr>" fs i] assms(2,3)
    by (simp add: abs_contract_def legal_id_def ckey_def)
qed

lemma abs_store_faults [simp]: "abs_store cd (db\<lparr>db_faults := f\<rparr>) = abs_store cd db"
  by (simp add: abs_store_def)

lemma table_ok_faults [simp]: "table_ok cd (db\<lparr>db_faults := f\<rparr>) = table_ok cd db"
  by (simp add: table_ok_def)

lemma abs_store_Some:
  assumes "table_ok cd db"
  shows "st_contracts (abs_store cd db) k = Some c
     \<longleftrightarrow> (\<exists>r \<in> set (db_rows db). row_key r = id_key cd k \<and> abs_contract cd r = Some c)"
  using assms by (auto simp: abs_store_def table_ok_def bind_eq_Some_conv db_find_iff)

lemma abs_store_None:
  assumes "table_ok cd db"
  shows "st_contracts (abs_store cd db) k = None \<longleftrightarrow> id_key cd k \<notin> row_key ` set (db_rows db)"
proof (cases "db_find db (id_key cd k)")
  case None
  then have "id_key cd k \<notin> row_key ` set (db_rows db)" by (simp add: db_find_None)
  with None show ?thesis by (simp add: abs_store_def)
next
  case (Some r)
  then have "r \<in> set (db_rows db)" "row_key r = id_key cd k" using assms by (auto simp: table_ok_def db_find_iff)
  with Some assms show ?thesis by (auto simp: abs_store_def table_ok_def intro: rev_image_eqI)
qed

lemma abs_contract_id: "abs_contract cd r = Some c \<Longrightarrow> c_Id c = r_id r \<and> c_CreatedAt c = r_created_at r"
  by (auto simp: abs_contract_def scan_row_id split: sum.splits)

lemma exec_insert_refines:
  assumes cd: "codec_documented cd" and ok: "table_ok cd db" and legal: "legal_id (ckey c)"
    and fs: "ToJSON_strings cd (c_FailedStates c) = Inr fs" and ins: "exec_insert (contract_row cd c fs) db = (err, db')"
  shows "table_ok cd db' \<and> store_step (abs_store cd db) (Save c) (d, written err) (abs_store cd db')"
proof (cases err)
  case None
  let ?r = "(contract_row cd c fs)\<lparr>r_id := db_seq db + 1\<rparr>"
  have key: "row_key (contract_row cd c fs) = id_key cd (ckey c)" using contract_key_ckey [OF legal] by simp
  have row: "abs_contract cd ?r = Some (c\<lparr>c_Id := db_seq db + 1\<rparr>)"
    using abs_contract_row [OF cd legal fs, where i = "db_seq db + 1" and t = "c_CreatedAt c"] by (simp add: contract_row_created)
  from ins None have new: "db_find db (id_key cd (ckey c)) = None" "db_find db' = (db_find db)(id_key cd (ckey c) \<mapsto> ?r)"
    using exec_insert_find [of "contract_row cd c fs" db db'] key by simp_all
  from ins None have seq: "db_seq db < 2 ^ 63 - 1" "db_seq db' = db_seq db + 1" "db_rows db' = db_rows db @ [?r]"
    by (auto simp: exec_insert_def split: if_splits)
  have "abs_store cd db' = (abs_store cd db)\<lparr>st_contracts := (st_contracts (abs_store cd db))(ckey c \<mapsto> c\<lparr>c_Id := db_seq db + 1\<rparr>),
      st_seq := db_seq db + 1\<rparr>"
    using row seq by (simp add: abs_store_def new(2) bind_compose_update [OF id_key_inj [OF cd]] del: fun_upd_apply)
  moreover have "table_ok cd db'"
    using ok row seq exec_insert_wf [of db "contract_row cd c fs"] ins by (auto simp: table_ok_def contract_row_def)
  ultimately show ?thesis
    using None new(1) seq(1) save_new [of "abs_store cd db" c d] by (simp add: written_def abs_store_def)
next
  case (Some e)
  with ins have "id_key cd (ckey c) \<in> row_key ` set (db_rows db) \<or> 2 ^ 63 - 1 \<le> db_seq db" "db' = db"
    using contract_key_ckey [OF legal, of cd] by (auto simp: exec_insert_def split: if_splits)
  then have "st_contracts (abs_store cd db) (ckey c) \<noteq> None \<or> 2 ^ 63 - 1 \<le> st_seq (abs_store cd db)"
    unfolding abs_store_None [OF ok] by (simp add: abs_store_def)
  with Some ok \<open>db' = db\<close> show ?thesis by (simp add: written_def save_refused)
qed

lemma written_map [simp]: "written (map_option f e) = written e"
  by (simp add: written_def split: option.split)

lemma contract_args_legal: "legal_id (ckey c) \<Longrightarrow> c_OptimizationRuns c < 2 ^ 63 \<Longrightarrow> contract_args_ok c"
  by (simp add: contract_args_ok_def uint64_args_ok_def legal_id_def ckey_def big_Uint64_id)

lemma write_outcome: "err \<noteq> None \<Longrightarrow> written err = Refused"
  by (auto simp: written_def)

lemma SaveContract_run:
  assumes "ToJSON_strings cd (c_FailedStates c) = Inr fs" and "contract_args_ok c" and "SaveContract cd c db = (err, db')"
  shows "engine_fails db \<and> err \<noteq> None \<and> (\<exists>f. db' = db\<lparr>db_faults := f\<rparr>)
     \<or> (case exec_insert (contract_row cd c fs) (db\<lparr>db_faults := advance (advance (db_faults db))\<rparr>) of
          (e, db1) \<Rightarrow> db1 = db' \<and> written err = written e)"
  using assms
  by (auto simp: SaveContract_def db_poll_def engine_fails_def Let_def split: option.splits if_splits prod.splits)

lemma UpdateContract_run:
  assumes "ToJSON_strings cd (c_FailedStates c) = Inr fs" and "contract_args_ok c" and "UpdateContract cd c db = (err, db')"
  shows "engine_fails db \<and> err \<noteq> None \<and> (\<exists>f. db' = db\<lparr>db_faults := f\<rparr>)
     \<or> (case exec_update (contract_row cd c fs) (c_Id c) (db\<lparr>db_faults := advance (advance (db_faults db))\<rparr>) of
          (e, db1) \<Rightarrow> db1 = db' \<and> written err = written e)"
  using assms
  by (auto simp: UpdateContract_def db_poll_def engine_fails_def Let_def split: option.splits if_splits prod.splits)

lemma SaveContract_refines:
  assumes "codec_documented cd" and "table_ok cd db" and "legal_op (Save c)" and "SaveContract cd c db = (err, db')"
  shows "table_ok cd db' \<and> store_step (abs_store cd db) (Save c) (engine_fails db, written err) (abs_store cd db')"
proof -
  from assms(1) obtain fs where fs: "ToJSON_strings cd (c_FailedStates c) = Inr fs" unfolding codec_documented_def by blast
  from assms(3) have args: "contract_args_ok c" by (simp add: contract_args_legal)
  let ?db = "db\<lparr>db_faults := advance (advance (db_faults db))\<rparr>"
  from SaveContract_run [OF fs args assms(4)] show ?thesis
  proof (elim disjE exE conjE)
    fix f assume "engine_fails db" "err \<noteq> None" "db' = db\<lparr>db_faults := f\<rparr>"
    with assms(2) show ?thesis by (simp add: write_outcome disturbed)
  next
    assume "case exec_insert (contract_row cd c fs) ?db of (e, db1) \<Rightarrow> db1 = db' \<and> written err = written e"
    then obtain e where ins: "exec_insert (contract_row cd c fs) ?db = (e, db')" and e: "written err = written e" by auto
    from exec_insert_refines [OF assms(1) _ _ fs ins, of "engine_fails db"] assms(2,3) e show ?thesis by simp
  qed
qed

lemma exec_update_find_all:
  assumes "db_wf db" and "r \<in> set (db_rows db)" and "exec_update x (r_id r) db = (None, db')"
  shows "db_find db' = (db_find db)(row_key r := None, row_key x \<mapsto> x\<lparr>r_id := r_id r, r_created_at := r_created_at r\<rparr>)"
proof -
  let ?u = "\<lambda>y. if r_id y = r_id r then x\<lparr>r_id := r_id r, r_created_at := r_created_at y\<rparr> else y"
  have rows: "db_rows db' = map ?u (db_rows db)" and free: "row_key x \<notin> row_key ` {y \<in> set (db_rows db). r_id y \<noteq> r_id r}"
    using assms(2,3) by (auto simp: exec_update_def split: if_splits)
  have same: "y = r" if "y \<in> set (db_rows db)" "r_id y = r_id r" for y
    using db_wf_ids [OF assms(1) _ assms(2)] that by blast
  have wf': "db_wf db'" using exec_update_wf [OF assms(1), of x "r_id r"] assms(3) by simp
  have mem: "y \<in> set (db_rows db') \<longleftrightarrow> y = x\<lparr>r_id := r_id r, r_created_at := r_created_at r\<rparr> \<or> y \<in> set (db_rows db) \<and> y \<noteq> r" for y
    using assms(2) same by (auto simp: rows image_iff)
  show ?thesis
  proof (rule ext)
    fix k
    consider "k = row_key x" | "k \<noteq> row_key x" "k = row_key r" | "k \<noteq> row_key x" "k \<noteq> row_key r" by blast
    then show "db_find db' k = ((db_find db)(row_key r := None, row_key x \<mapsto> x\<lparr>r_id := r_id r, r_created_at := r_created_at r\<rparr>)) k"
    proof cases
      case 1
      then show ?thesis using exec_update_find [OF assms] by simp
    next
      case 2
      then have "db_find db' k = None"
        using db_wf_keys [OF assms(1) _ assms(2)] by (auto simp: db_find_None mem)
      with 2 show ?thesis by simp
    next
      case 3
      then have "(db_find db' k = Some y) = (db_find db k = Some y)" for y
        by (auto simp: db_find_iff [OF wf'] db_find_iff [OF assms(1)] mem)
      then have "db_find db' k = db_find db k" by (cases "db_find db k") (metis not_Some_eq)+
      with 3 show ?thesis by simp
    qed
  qed
qed

text \<open>Every row of a readable table is an entry of the store.\<close>

lemma row_entry:
  assumes "table_ok cd db" and "r \<in> set (db_rows db)"
  obtains k c where "id_key cd k = row_key r" "abs_contract cd r = Some c" "st_contracts (abs_store cd db) k = Some c"
proof -
  from assms obtain c a where c: "abs_contract cd r = Some c" and a: "r_address r = addr_Hex cd a"
    unfolding table_ok_def by (metis imageE not_Some_eq)
  let ?k = "(r_network_id r, r_block_number r, a)"
  have k: "id_key cd ?k = row_key r" by (simp add: id_key_def row_key_def a)
  with c assms(2) have "st_contracts (abs_store cd db) ?k = Some c" by (auto simp: abs_store_Some [OF assms(1)])
  with k c that show ?thesis by blast
qed

lemma exec_update_entry_refines:
  assumes cd: "codec_documented cd" and ok: "table_ok cd db" and legal: "legal_id (ckey c)"
    and fs: "ToJSON_strings cd (c_FailedStates c) = Inr fs" and upd: "exec_update (contract_row cd c fs) (c_Id c) db = (None, db')"
    and r: "r \<in> set (db_rows db)" "r_id r = c_Id c" and k: "id_key cd k = row_key r" and c0: "abs_contract cd r = Some c0"
  shows "table_ok cd db'"
    and "abs_store cd db' = (abs_store cd db)\<lparr>st_contracts :=
      (st_contracts (abs_store cd db))(k := None, ckey c \<mapsto> c\<lparr>c_CreatedAt := c_CreatedAt c0\<rparr>)\<rparr>"
    and "ckey c = k \<or> st_contracts (abs_store cd db) (ckey c) = None"
proof -
  let ?x = "contract_row cd c fs"
  let ?r = "?x\<lparr>r_id := c_Id c, r_created_at := r_created_at r\<rparr>"
  have key: "row_key ?x = id_key cd (ckey c)" using contract_key_ckey [OF legal] by simp
  have wf: "db_wf db" using ok by (simp add: table_ok_def)
  have ids: "y = r" if "y \<in> set (db_rows db)" "r_id y = c_Id c" for y
    using db_wf_ids [OF wf _ r(1)] that r(2) by simp
  have row: "abs_contract cd ?r = Some (c\<lparr>c_CreatedAt := c_CreatedAt c0\<rparr>)"
    using abs_contract_row [OF cd legal fs, where i = "c_Id c" and t = "r_created_at r"] abs_contract_id [OF c0] by simp
  have "db_find db' = (db_find db)(id_key cd k := None, id_key cd (ckey c) \<mapsto> ?r)"
    using exec_update_find_all [OF wf r(1)] upd r(2) k key by simp
  then show "abs_store cd db' = (abs_store cd db)\<lparr>st_contracts :=
      (st_contracts (abs_store cd db))(k := None, ckey c \<mapsto> c\<lparr>c_CreatedAt := c_CreatedAt c0\<rparr>)\<rparr>"
    using row upd exec_update_seq [of ?x "c_Id c" db]
    by (simp add: abs_store_def bind_compose_update [OF id_key_inj [OF cd]] del: fun_upd_apply)
  show "ckey c = k \<or> st_contracts (abs_store cd db) (ckey c) = None"
  proof (rule disjCI)
    assume "st_contracts (abs_store cd db) (ckey c) \<noteq> None"
    then obtain y where y: "y \<in> set (db_rows db)" "row_key y = id_key cd (ckey c)" unfolding abs_store_None [OF ok] by auto
    have "id_key cd (ckey c) \<notin> row_key ` {y \<in> set (db_rows db). r_id y \<noteq> c_Id c}"
      using upd key imageI [OF r(1), of r_id] r(2) by (simp add: exec_update_def split: if_splits)
    with y have "r_id y = c_Id c" by (metis (mono_tags, lifting) imageI mem_Collect_eq)
    with y ids have "y = r" by blast
    with y k show "ckey c = k" using id_key_inj [OF cd] by (simp add: inj_eq)
  qed
  show "table_ok cd db'"
    using ok row upd exec_update_wf [OF wf, of ?x "c_Id c"] ids
    by (auto simp: table_ok_def exec_update_def contract_row_def split: if_splits)
qed

lemma exec_update_refines:
  assumes cd: "codec_documented cd" and ok: "table_ok cd db" and legal: "legal_id (ckey c)"
    and fs: "ToJSON_strings cd (c_FailedStates c) = Inr fs" and upd: "exec_update (contract_row cd c fs) (c_Id c) db = (err, db')"
  shows "table_ok cd db' \<and> store_step (abs_store cd db) (Update c) (d, written err) (abs_store cd db')"
proof (cases "c_Id c \<in> r_id ` set (db_rows db)")
  case False
  then have "\<forall>k c0. st_contracts (abs_store cd db) k = Some c0 \<longrightarrow> c_Id c0 \<noteq> c_Id c"
    by (auto simp: abs_store_Some [OF ok] image_iff) (metis abs_contract_id)
  moreover have "err = None" "db' = db" using upd exec_update_absent [OF False] by auto
  ultimately show ?thesis using ok by (simp add: written_def update_nothing)
next
  case True
  then obtain r where r: "r \<in> set (db_rows db)" "r_id r = c_Id c" by auto
  from row_entry [OF ok r(1)] obtain k c0 where k: "id_key cd k = row_key r" and c0: "abs_contract cd r = Some c0"
    and st: "st_contracts (abs_store cd db) k = Some c0" by blast
  have id: "c_Id c0 = c_Id c" using abs_contract_id [OF c0] r(2) by simp
  show ?thesis
  proof (cases err)
    case None
    note entry = exec_update_entry_refines [OF cd ok legal fs upd [unfolded None] r k c0]
    show ?thesis using None entry update_entry [OF st id entry(3)] by (simp add: written_def)
  next
    case (Some e)
    with upd have "db' = db" and clash: "id_key cd (ckey c) \<in> row_key ` {y \<in> set (db_rows db). r_id y \<noteq> c_Id c}"
      using contract_key_ckey [OF legal, of cd] by (auto simp: exec_update_def split: if_splits)
    have "db_wf db" using ok by (simp add: table_ok_def)
    with clash k r(2) have "ckey c \<noteq> k" using db_wf_keys [OF _ _ r(1)] by fastforce
    moreover from clash have "st_contracts (abs_store cd db) (ckey c) \<noteq> None" unfolding abs_store_None [OF ok] by auto
    ultimately show ?thesis using Some ok \<open>db' = db\<close> update_clash [OF st id] by (simp add: written_def)
  qed
qed

lemma UpdateContract_refines:
  assumes "codec_documented cd" and "table_ok cd db" and "legal_op (Update c)" and "UpdateContract cd c db = (err, db')"
  shows "table_ok cd db' \<and> store_step (abs_store cd db) (Update c) (engine_fails db, written err) (abs_store cd db')"
proof -
  from assms(1) obtain fs where fs: "ToJSON_strings cd (c_FailedStates c) = Inr fs" unfolding codec_documented_def by blast
  from assms(3) have args: "contract_args_ok c" by (simp add: contract_args_legal)
  let ?db = "db\<lparr>db_faults := advance (advance (db_faults db))\<rparr>"
  from UpdateContract_run [OF fs args assms(4)] show ?thesis
  proof (elim disjE exE conjE)
    fix f assume "engine_fails db" "err \<noteq> None" "db' = db\<lparr>db_faults := f\<rparr>"
    with assms(2) show ?thesis by (simp add: write_outcome disturbed)
  next
    assume "case exec_update (contract_row cd c fs) (c_Id c) ?db of (e, db1) \<Rightarrow> db1 = db' \<and> written err = written e"
    then obtain e where upd: "exec_update (contract_row cd c fs) (c_Id c) ?db = (e, db')" and e: "written err = written e" by auto
    from exec_update_refines [OF assms(1) _ _ fs upd, of "engine_fails db"] assms(2,3) e show ?thesis by simp
  qed
qed

lemma GetContractByUniqueIndex_refines:
  assumes "codec_documented cd" and "table_ok cd db" and "legal_id (n, b, a)" and "GetContractByUniqueIndex cd n b a db = (r, db')"
  shows "table_ok cd db' \<and> store_step (abs_store cd db) (Lookup (n, b, a)) (engine_fails db, looked_up r) (abs_store cd db')"
proof -
  have db': "db' = db\<lparr>db_faults := advance (db_faults db)\<rparr>" using GetContractByUniqueIndex_db [of cd n b a db] assms(4) by simp
  have args: "big_Uint64 n = n" "big_Uint64 b = b" "uint64_args_ok [n, b]"
    using assms(3) by (simp_all add: legal_id_def big_Uint64_id uint64_args_ok_def)
  show ?thesis
  proof (cases "poll (db_faults db)")
    case (Some err)
    then have "engine_fails db" "looked_up r \<in> {Refused, Missing}"
      using assms(4) args by (auto simp: engine_fails_def looked_up_def GetContractByUniqueIndex_def db_poll_def split: sum.splits if_splits)
    with assms(2) db' show ?thesis by (auto intro: disturbed)
  next
    case None
    then have r: "r = (case db_find db (id_key cd (n, b, a)) of None \<Rightarrow> Inl (query_error ErrNoRows) | Some x \<Rightarrow> scan_row cd x)"
      using assms(4) args by (auto simp: GetContractByUniqueIndex_def db_poll_def id_key_def)
    show ?thesis
    proof (cases "st_contracts (abs_store cd db) (n, b, a)")
      case None
      then have "db_find db (id_key cd (n, b, a)) = None" using abs_store_None [OF assms(2)] db_find_None by blast
      then have "looked_up r = Missing" using r by (simp add: looked_up_def query_error_def ErrNoRows_def)
      with None assms(2) db' show ?thesis by (simp add: lookup_missing)
    next
      case (Some c)
      then obtain x where "db_find db (id_key cd (n, b, a)) = Some x" "abs_contract cd x = Some c"
        by (auto simp: abs_store_def bind_eq_Some_conv)
      then have "looked_up r = Found c" using r by (simp add: abs_contract_def looked_up_def split: sum.splits)
      with Some assms(2) db' show ?thesis by (simp add: lookup_found)
    qed
  qed
qed

interpretation contract_store: data_refinement "\<lambda>db. codec_documented cd \<and> table_ok cd db" "abs_store cd" legal_op "table_op cd" store_step for cd
proof unfold_locales
  fix db x r db'
  assume inv: "codec_documented cd \<and> table_ok cd db" and "legal_op x" and "table_op cd x db = (r, db')"
  then show "(codec_documented cd \<and> table_ok cd db') \<and> store_step (abs_store cd db) x r (abs_store cd db')"
    using SaveContract_refines [of cd db] UpdateContract_refines [of cd db] GetContractByUniqueIndex_refines [of cd db]
    by (cases "(cd, x, db)" rule: table_op.cases) (auto simp: map_prod_def split: prod.splits)
qed

section \<open>Properties\<close>

text \<open>C11. The contracts table implements the abstract store: every sequence of saves, updates and lookups on a reachable table,
  with engine failures at any point, answers as the store does and leaves the table that stands for the store's final state.
  A write is refused, and a lookup finds nothing, only for a reason in the store or where the engine failed.\<close>

theorem table_refines_store:
  assumes "codec_documented cd" and "table_ok cd db" and "list_all legal_op ops" and "exec_all (table_op cd) ops db = (rs, db')"
  shows "table_ok cd db' \<and> spec_run store_step (abs_store cd db) ops rs (abs_store cd db')"
  using contract_store.run_refines [OF _ assms(3,4)] assms(1,2) by blast

theorem table_refines_store_witness:
  "\<exists>st. spec_run store_step \<lparr>st_contracts = Map.empty, st_seq = 0\<rparr>
     [Save example_contract, Save example_contract, Lookup (1, 17, 5), Update (example_contract\<lparr>c_Id := 1, c_Name := ''New''\<rparr>), Lookup (1, 17, 5)]
     [(False, Done), (False, Refused), (False, Found (example_contract\<lparr>c_Id := 1\<rparr>)), (False, Done),
      (False, Found (example_contract\<lparr>c_Id := 1, c_Name := ''New''\<rparr>))] st"
proof -
  let ?ops = "[Save example_contract, Save example_contract, Lookup (1, 17, 5), Update (example_contract\<lparr>c_Id := 1, c_Name := ''New''\<rparr>), Lookup (1, 17, 5)]"
  have "fst (exec_all (table_op plain_codec) ?ops empty_db) =
     [(False, Done), (False, Refused), (False, Found (example_contract\<lparr>c_Id := 1\<rparr>)), (False, Done),
      (False, Found (example_contract\<lparr>c_Id := 1, c_Name := ''New''\<rparr>))]" by code_simp
  moreover have "list_all legal_op ?ops" by code_simp
  moreover have "table_ok plain_codec empty_db" by (simp add: table_ok_def) (simp add: empty_db_def)
  moreover have "abs_store plain_codec empty_db = \<lparr>st_contracts = Map.empty, st_seq = 0\<rparr>"
    by (simp add: abs_store_def empty_db_def db_find_def)
  ultimately show ?thesis
    using table_refines_store [OF plain_codec_documented, of empty_db ?ops] by (metis prod.collapse)
qed

end
