(* ===== verification/Progress.thy ===== *)
theory Progress
  imports Sync_State Store
begin

text \<open>
  What the state manager (src/pkg/state over src/pkg/cache) promises to the syncer, as an abstract progress store: the five
  numbers as they are known in memory and as they are stored, and the calls that the server has failed. The operations of theory
  \<open>Sync_State\<close> are shown to implement it for every sequence of operations and restarts and every failure of the server, with the
  documented behaviour of the server as the only hypothesis. An operation fails only if the server failed a call of it,
  or if its key is not one of the five: the failures are counted at the client, beside the code.
\<close>

section \<open>The abstract progress\<close>

record progress =
  pg_memory :: "Key \<rightharpoonup> int"
  pg_stored :: "Key \<rightharpoonup> int"
  pg_failures :: nat

datatype progress_op = Set_op Key int | Get_op Key | Exists_op Key | Load_op | Restart_op

datatype progress_answer = Accepted | Failed | Value int | Absent | Present bool | Crashed

definition progress_keys :: "Key list" where
  "progress_keys = [CurrentBlockHead, LatestInspectedHeadBlock, LatestInspectedArchiveBlock, ArchiveStartBlockNumber, ArchiveEndBlockNumber]"

definition loaded :: "(Key \<rightharpoonup> int) \<Rightarrow> (Key \<rightharpoonup> int) \<Rightarrow> Key list \<Rightarrow> Key \<rightharpoonup> int" where
  "loaded stored memory ks = (\<lambda>k. if k \<in> set ks then stored k else memory k)"

definition one_failure :: "progress \<Rightarrow> progress" where
  "one_failure p = p\<lparr>pg_failures := Suc (pg_failures p)\<rparr>"

text \<open>A failing server may refuse any operation on it, and then the operation fails, with exactly one call of it. A refused
  \<open>Set\<close> has still changed the number in memory, and perhaps the stored one; a refused load has read the first of
  the keys. An absent number is no failure. A restart forgets the memory and loads.\<close>

inductive progress_step :: "progress \<Rightarrow> progress_op \<Rightarrow> progress_answer \<Rightarrow> progress \<Rightarrow> bool" where
  set_stored: "k \<in> set progress_keys \<Longrightarrow>
    progress_step p (Set_op k n) Accepted (p\<lparr>pg_memory := (pg_memory p)(k \<mapsto> n), pg_stored := (pg_stored p)(k \<mapsto> n)\<rparr>)"
| set_refused: "k \<in> set progress_keys \<Longrightarrow>
    progress_step p (Set_op k n) Failed (one_failure (p\<lparr>pg_memory := (pg_memory p)(k \<mapsto> n)\<rparr>))"
| set_unanswered: "k \<in> set progress_keys \<Longrightarrow>
    progress_step p (Set_op k n) Failed (one_failure (p\<lparr>pg_memory := (pg_memory p)(k \<mapsto> n), pg_stored := (pg_stored p)(k \<mapsto> n)\<rparr>))"
| set_unknown: "k \<notin> set progress_keys \<Longrightarrow> progress_step p (Set_op k n) Failed p"
| get_value: "pg_stored p k = Some n \<Longrightarrow> progress_step p (Get_op k) (Value n) p"
| get_absent: "pg_stored p k = None \<Longrightarrow> progress_step p (Get_op k) Absent p"
| get_failed: "progress_step p (Get_op k) Failed (one_failure p)"
| exists_known: "progress_step p (Exists_op k) (Present (pg_stored p k \<noteq> None)) p"
| exists_failed: "progress_step p (Exists_op k) Failed (one_failure p)"
| load_done: "progress_step p Load_op Accepted (p\<lparr>pg_memory := loaded (pg_stored p) (pg_memory p) progress_keys\<rparr>)"
| load_failed: "i < 5 \<Longrightarrow>
    progress_step p Load_op Failed (one_failure (p\<lparr>pg_memory := loaded (pg_stored p) (pg_memory p) (take i progress_keys)\<rparr>))"
| restart: "progress_step (p\<lparr>pg_memory := Map.empty\<rparr>) Load_op a q \<Longrightarrow> progress_step p Restart_op a q"

section \<open>Counting the failures of the server\<close>

text \<open>A client that does what the given one does and counts the calls that the server fails. The reply that a key is absent
  is an answer, not a failure.\<close>

definition counting :: "'r redis \<Rightarrow> ('r \<times> nat) redis" where
  "counting rc =
     \<lparr>redis_Ping = (\<lambda>(s, n). redis_Ping rc s),
      redis_Get = (\<lambda>k (s, n). case redis_Get rc k s of
          (Inl e, s') \<Rightarrow> (Inl e, (s', if errors_Is e RedisNil then n else Suc n)) | (Inr v, s') \<Rightarrow> (Inr v, (s', n))),
      redis_Set = (\<lambda>k v ttl (s, n). case redis_Set rc k v ttl s of (Some e, s') \<Rightarrow> (Some e, (s', Suc n)) | (None, s') \<Rightarrow> (None, (s', n))),
      redis_Exists = (\<lambda>k (s, n). case redis_Exists rc k s of (Inl e, s') \<Rightarrow> (Inl e, (s', Suc n)) | (Inr x, s') \<Rightarrow> (Inr x, (s', n)))\<rparr>"

text \<open>The state without the count.\<close>

definition uncounted :: "('r \<times> nat) sync_state \<Rightarrow> 'r sync_state" where
  "uncounted s = \<lparr>st_descriptor = st_descriptor s, st_server = fst (st_server s)\<rparr>"

section \<open>The manager as an implementation\<close>

definition memory_of :: "state_descriptor \<Rightarrow> Key \<rightharpoonup> int" where
  "memory_of d k =
     (if k = CurrentBlockHead then CurrentBlockHeadNumber d
      else if k = LatestInspectedHeadBlock then sd_LatestInspectedHeadBlock d
      else if k = LatestInspectedArchiveBlock then sd_LatestInspectedArchiveBlock d
      else if k = ArchiveStartBlockNumber then sd_StartBlockNumber d
      else if k = ArchiveEndBlockNumber then sd_EndBlockNumber d
      else None)"

definition abs_progress :: "('r \<Rightarrow> string \<rightharpoonup> byte list) \<Rightarrow> ('r \<times> nat) sync_state \<Rightarrow> progress" where
  "abs_progress contents s =
     \<lparr>pg_memory = memory_of (st_descriptor s), pg_stored = (\<lambda>k. map_option big_SetBytes (contents (fst (st_server s)) k)),
      pg_failures = snd (st_server s)\<rparr>"

definition legal_progress :: "progress_op \<Rightarrow> bool" where
  "legal_progress x \<longleftrightarrow> (case x of Set_op k n \<Rightarrow> 0 \<le> n | _ \<Rightarrow> True)"

definition answered :: "error option \<Rightarrow> progress_answer" where
  "answered err = (case err of None \<Rightarrow> Accepted | Some _ \<Rightarrow> Failed)"

fun state_op :: "'r redis \<Rightarrow> progress_op \<Rightarrow> 'r sync_state \<Rightarrow> progress_answer \<times> 'r sync_state" where
  "state_op rc (Set_op k n) s =
     (case state_Set rc k (Some n) s of Returns (err, s') \<Rightarrow> (answered err, s') | Panics s' \<Rightarrow> (Crashed, s') | Blocks s' \<Rightarrow> (Crashed, s'))"
| "state_op rc (Get_op k) s =
     (case state_Get rc k s of
        (Inl err, s') \<Rightarrow> (if errors_Is err RedisNil then Absent else Failed, s')
      | (Inr v, s') \<Rightarrow> (Value v, s'))"
| "state_op rc (Exists_op k) s =
     (case state_Exists rc k s of (Inl err, s') \<Rightarrow> (Failed, s') | (Inr b, s') \<Rightarrow> (Present b, s'))"
| "state_op rc Load_op s = (case state_Load rc s of (err, s') \<Rightarrow> (answered err, s'))"
| "state_op rc Restart_op s = (case state_Load rc (state_New (st_server s)) of (err, s') \<Rightarrow> (answered err, s'))"

section \<open>Lemmas\<close>

lemma progress_keys_mem [simp]: "k \<in> set progress_keys \<longleftrightarrow> k = CurrentBlockHead \<or> k = LatestInspectedHeadBlock
    \<or> k = LatestInspectedArchiveBlock \<or> k = ArchiveStartBlockNumber \<or> k = ArchiveEndBlockNumber"
  by (auto simp: progress_keys_def)

lemma SetDescriptorKey_known: "k \<in> set progress_keys \<Longrightarrow> memory_of (snd (SetDescriptorKey k v d)) = (memory_of d)(k := v)"
  by (auto simp: SetDescriptorKey_def memory_of_def fun_eq_iff)

lemma SetDescriptorKey_unknown: "k \<notin> set progress_keys \<Longrightarrow> \<exists>e. SetDescriptorKey k v d = (Some e, d)"
  by (auto simp: SetDescriptorKey_def)

lemma counting_documented: "redis_documented rc contents \<Longrightarrow> redis_documented (counting rc) (contents \<circ> fst)"
  unfolding redis_documented_def [of "counting rc"]
  by (auto simp: counting_def split: prod.splits sum.splits option.splits if_splits
      dest: documented_Set documented_Get documented_Exists)

lemma counted_Set:
  "state_Set (counting rc) k (Some v) s = Returns (e, s') \<Longrightarrow>
     snd (st_server s') = snd (st_server s) + (if e = None \<or> fst (SetDescriptorKey k (Some v) (st_descriptor s)) \<noteq> None then 0 else 1)"
  by (auto simp: state_Set_def cache_Write_def counting_def split: prod.splits option.splits)

lemma counted_Get:
  "state_Get (counting rc) k s = (r, s') \<Longrightarrow>
     snd (st_server s') = snd (st_server s) + (case r of Inl e \<Rightarrow> if errors_Is e RedisNil then 0 else 1 | Inr v \<Rightarrow> 0)"
  by (auto simp: state_Get_def cache_Get_def counting_def split: prod.splits sum.splits)

lemma counted_Exists:
  "state_Exists (counting rc) k s = (r, s') \<Longrightarrow> snd (st_server s') = snd (st_server s) + (case r of Inl e \<Rightarrow> 1 | Inr b \<Rightarrow> 0)"
  by (auto simp: state_Exists_def cache_Exists_def counting_def split: prod.splits sum.splits)

lemma state_Set_refines:
  assumes "redis_documented rc contents" and "0 \<le> n" and "state_op (counting rc) (Set_op k n) s = (a, s')"
  shows "progress_step (abs_progress contents s) (Set_op k n) a (abs_progress contents s')"
proof -
  let ?p = "abs_progress contents s"
  obtain err s1 where set: "state_Set (counting rc) k (Some n) s = Returns (err, s1)"
    by (cases "state_Set (counting rc) k (Some n) s") (auto simp: state_Set_def split: prod.splits option.splits)
  with assms(3) have a: "a = answered err" "s' = s1" by simp_all
  note w = state_Set_writes [OF counting_documented [OF assms(1)] set] counted_Set [OF set]
  show ?thesis
  proof (cases "k \<in> set progress_keys")
    case True
    with SetDescriptorKey_known [of k "Some n" "st_descriptor s"] w(1)
    have m: "memory_of (st_descriptor s1) = (memory_of (st_descriptor s))(k \<mapsto> n)" by simp
    have known: "fst (SetDescriptorKey k (Some n) (st_descriptor s)) = None" using True by (auto simp: SetDescriptorKey_def)
    let ?in = "?p\<lparr>pg_memory := (pg_memory ?p)(k \<mapsto> n), pg_stored := (pg_stored ?p)(k \<mapsto> n)\<rparr>"
    have bytes: "(\<lambda>j. map_option big_SetBytes (((contents (fst (st_server s)))(k \<mapsto> big_Bytes n)) j)) = (pg_stored ?p)(k \<mapsto> n)"
      using assms(2) by (auto simp: abs_progress_def fun_eq_iff big_SetBytes_Bytes)
    show ?thesis
    proof (cases err)
      case None
      with w m bytes have "abs_progress contents s' = ?in" by (simp add: abs_progress_def a)
      with None True show ?thesis by (simp add: a answered_def set_stored del: progress_keys_mem)
    next
      case (Some e)
      with w m bytes known have "abs_progress contents s' \<in> {one_failure ?in, one_failure (?p\<lparr>pg_memory := (pg_memory ?p)(k \<mapsto> n)\<rparr>)}"
        by (auto simp: abs_progress_def a one_failure_def)
      with Some True show ?thesis
        using set_refused [of k ?p n] set_unanswered [of k ?p n] by (auto simp: a answered_def simp del: progress_keys_mem)
    qed
  next
    case False
    with SetDescriptorKey_unknown obtain e where e: "SetDescriptorKey k (Some n) (st_descriptor s) = (Some e, st_descriptor s)" by blast
    then have "s1 = s" "err = Some e" using set by (simp_all add: state_Set_def)
    with False show ?thesis by (simp add: a answered_def set_unknown del: progress_keys_mem)
  qed
qed

lemma state_Get_refines:
  assumes "redis_documented rc contents" and "state_op (counting rc) (Get_op k) s = (a, s')"
  shows "progress_step (abs_progress contents s) (Get_op k) a (abs_progress contents s')"
proof -
  let ?p = "abs_progress contents s"
  obtain r s1 where g: "state_Get (counting rc) k s = (r, s1)" by fastforce
  note w = state_Get_reads [OF counting_documented [OF assms(1)] g] counted_Get [OF g]
  have s': "s1 = s'" using g assms(2) by (auto split: sum.splits)
  show ?thesis
  proof (cases r)
    case (Inl e)
    with w s' have "abs_progress contents s' = (if errors_Is e RedisNil then ?p else one_failure ?p)"
      by (simp add: abs_progress_def one_failure_def)
    moreover have "errors_Is e RedisNil \<Longrightarrow> pg_stored ?p k = None" using w(1) Inl by (simp add: abs_progress_def)
    ultimately show ?thesis using g assms(2) Inl get_absent get_failed by auto
  next
    case (Inr v)
    with w s' have "abs_progress contents s' = ?p" "pg_stored ?p k = Some v" by (simp_all add: abs_progress_def)
    then show ?thesis using g assms(2) Inr get_value by auto
  qed
qed

lemma state_Exists_refines:
  assumes "redis_documented rc contents" and "state_op (counting rc) (Exists_op k) s = (a, s')"
  shows "progress_step (abs_progress contents s) (Exists_op k) a (abs_progress contents s')"
proof -
  let ?p = "abs_progress contents s"
  obtain r s1 where x: "state_Exists (counting rc) k s = (r, s1)" by fastforce
  have s': "s1 = s'" using x assms(2) by (auto split: sum.splits)
  obtain y srv where y: "redis_Exists rc k (fst (st_server s)) = (y, srv)" by fastforce
  note doc = documented_Exists [OF assms(1) y]
  have st: "st_descriptor s1 = st_descriptor s" "fst (st_server s1) = srv" "r = map_sum id (\<lambda>n. n = 1) y"
    using x y by (auto simp: state_Exists_def cache_Exists_def counting_def split: prod.splits sum.splits)
  note n = counted_Exists [OF x]
  show ?thesis
  proof (cases y)
    case (Inl e)
    with doc st n s' have "abs_progress contents s' = one_failure ?p" by (simp add: abs_progress_def one_failure_def)
    then show ?thesis using x assms(2) Inl st(3) exists_failed by auto
  next
    case (Inr n')
    with doc st n s' have "abs_progress contents s' = ?p" "(n' = 1) = (pg_stored ?p k \<noteq> None)" by (simp_all add: abs_progress_def)
    then show ?thesis using x assms(2) Inr st(3) exists_known [of ?p k] by (auto simp del: not_None_eq)
  qed
qed

lemma load_key_outcome:
  assumes "redis_documented rc contents" and "load_key (counting rc) k assign s = (err, s')"
  shows "contents (fst (st_server s')) = contents (fst (st_server s)) \<and> st_descriptor s' =
     (if err = None then assign (map_option big_SetBytes (contents (fst (st_server s)) k)) (st_descriptor s) else st_descriptor s)
     \<and> snd (st_server s') = snd (st_server s) + (if err = None then 0 else 1)"
proof (cases "state_Get (counting rc) k s")
  case (Pair r t)
  from state_Get_reads [OF counting_documented [OF assms(1)] Pair] counted_Get [OF Pair] assms(2) Pair show ?thesis
    by (cases r) (auto simp: load_key_def split: if_splits)
qed

text \<open>The state after the first \<open>i\<close> keys of a load, with the failures counted so far.\<close>

definition loading :: "('r \<Rightarrow> string \<rightharpoonup> byte list) \<Rightarrow> progress \<Rightarrow> nat \<Rightarrow> nat \<Rightarrow> ('r \<times> nat) sync_state \<Rightarrow> bool" where
  "loading contents p i n s \<longleftrightarrow>
     pg_stored (abs_progress contents s) = pg_stored p \<and> pg_failures (abs_progress contents s) = n
     \<and> pg_memory (abs_progress contents s) = loaded (pg_stored p) (pg_memory p) (take i progress_keys)"

lemma load_key_loading:
  assumes "redis_documented rc contents" and "loading contents p i n s" and "load_key (counting rc) (progress_keys ! i) assign s = (err, s')"
    and "i < 5" and "\<And>v d. memory_of (assign v d) = (memory_of d)(progress_keys ! i := v)"
  shows "loading contents p (if err = None then Suc i else i) (if err = None then n else Suc n) s'"
proof -
  note out = load_key_outcome [OF assms(1,3)]
  have "set (take (Suc i) progress_keys) = insert (progress_keys ! i) (set (take i progress_keys))"
    using assms(4) take_Suc_conv_app_nth [of i progress_keys] by (simp add: progress_keys_def)
  moreover have "map_option big_SetBytes (contents (fst (st_server s)) k) = pg_stored p k" for k
    using fun_cong [of _ _ k] assms(2) by (fastforce simp: loading_def abs_progress_def)
  ultimately show ?thesis
    using out assms(2,5) by (simp add: loading_def abs_progress_def loaded_def fun_eq_iff)
qed

lemma memory_of_assign:
  "memory_of (CurrentBlockHeadNumber_update (\<lambda>_. v) d) = (memory_of d)(CurrentBlockHead := v)"
  "memory_of (sd_LatestInspectedHeadBlock_update (\<lambda>_. v) d) = (memory_of d)(LatestInspectedHeadBlock := v)"
  "memory_of (sd_LatestInspectedArchiveBlock_update (\<lambda>_. v) d) = (memory_of d)(LatestInspectedArchiveBlock := v)"
  "memory_of (sd_StartBlockNumber_update (\<lambda>_. v) d) = (memory_of d)(ArchiveStartBlockNumber := v)"
  "memory_of (sd_EndBlockNumber_update (\<lambda>_. v) d) = (memory_of d)(ArchiveEndBlockNumber := v)"
  using key_neqs by (auto simp: memory_of_def fun_eq_iff)

text \<open>\<open>Load\<close> as a fold over its steps.\<close>

definition load_steps :: "(Key \<times> (int option \<Rightarrow> state_descriptor \<Rightarrow> state_descriptor)) list" where
  "load_steps =
     [(CurrentBlockHead, \<lambda>v. CurrentBlockHeadNumber_update (\<lambda>_. v)),
      (LatestInspectedHeadBlock, \<lambda>v. sd_LatestInspectedHeadBlock_update (\<lambda>_. v)),
      (LatestInspectedArchiveBlock, \<lambda>v. sd_LatestInspectedArchiveBlock_update (\<lambda>_. v)),
      (ArchiveStartBlockNumber, \<lambda>v. sd_StartBlockNumber_update (\<lambda>_. v)),
      (ArchiveEndBlockNumber, \<lambda>v. sd_EndBlockNumber_update (\<lambda>_. v))]"

fun load_all :: "'r redis \<Rightarrow> (Key \<times> (int option \<Rightarrow> state_descriptor \<Rightarrow> state_descriptor)) list \<Rightarrow> 'r sync_state \<Rightarrow> error option \<times> 'r sync_state" where
  "load_all rc [] s = (None, s)"
| "load_all rc ((k, assign) # xs) s = and_then (load_key rc k assign s) (load_all rc xs)"

lemma and_then_pure: "and_then r (\<lambda>s. (None, s)) = r"
  by (cases r; cases "fst r") (auto simp: and_then_def)

lemma load_all_fun:
  "load_all rc [] = (\<lambda>s. (None, s))" "load_all rc ((k, assign) # xs) = (\<lambda>s. and_then (load_key rc k assign s) (load_all rc xs))"
  by (simp_all add: fun_eq_iff)

lemma state_Load_steps: "state_Load rc s = load_all rc load_steps s"
  unfolding state_Load_def load_steps_def load_all_fun and_then_pure ..

lemma load_steps_keys: "length load_steps = 5" "i < 5 \<Longrightarrow> fst (load_steps ! i) = progress_keys ! i"
  by (simp_all add: load_steps_def progress_keys_def less_Suc_eq numeral_eq_Suc) auto

lemma load_steps_assign: "i < 5 \<Longrightarrow> memory_of (snd (load_steps ! i) v d) = (memory_of d)(progress_keys ! i := v)"
  by (auto simp: load_steps_def progress_keys_def less_Suc_eq numeral_eq_Suc memory_of_assign)

lemma load_all_loading:
  assumes "redis_documented rc contents" and "loading contents p i n s" and "xs = drop i load_steps" and "i \<le> 5"
    and "load_all (counting rc) xs s = (err, s')"
  shows "\<exists>j \<le> 5. loading contents p j (if err = None then n else Suc n) s' \<and> (err = None \<longleftrightarrow> j = 5)"
  using assms(2-5)
proof (induction xs arbitrary: i s)
  case Nil
  then have "i = 5" using load_steps_keys(1) by simp
  with Nil show ?case by auto
next
  case (Cons x xs)
  then have i: "i < 5" "load_steps ! i = x" "xs = drop (Suc i) load_steps"
    using load_steps_keys(1) by (metis drop_all linorder_not_less list.distinct(1), metis nth_via_drop, metis drop_Suc list.sel(3) tl_drop)
  obtain k f where x: "x = (k, f)" by fastforce
  obtain e t where l: "load_key (counting rc) k f s = (e, t)" by fastforce
  have "loading contents p (if e = None then Suc i else i) (if e = None then n else Suc n) t"
    using load_key_loading [OF assms(1) Cons.prems(1), of f e t] l i(1,2) x load_steps_keys(2) [OF i(1)] load_steps_assign [OF i(1)]
    by simp
  with Cons.IH [OF _ i(3), of t] Cons.prems(4) i(1) show ?case
    by (cases e) (auto simp: x l and_then_def intro: exI [of _ i])
qed

lemma state_Load_refines:
  assumes "redis_documented rc contents" and "state_op (counting rc) Load_op s = (a, s')"
  shows "progress_step (abs_progress contents s) Load_op a (abs_progress contents s')"
proof -
  let ?p = "abs_progress contents s"
  obtain err where l: "state_Load (counting rc) s = (err, s')" and a: "a = answered err" using assms(2) by (auto split: prod.splits)
  have "loading contents ?p 0 (pg_failures ?p) s" by (simp add: loading_def loaded_def)
  from load_all_loading [OF assms(1) this _ _ l [unfolded state_Load_steps]] obtain j where
    j: "j \<le> 5" "loading contents ?p j (if err = None then pg_failures ?p else Suc (pg_failures ?p)) s'" "err = None \<longleftrightarrow> j = 5" by auto
  have s': "abs_progress contents s' = ?p\<lparr>pg_memory := loaded (pg_stored ?p) (pg_memory ?p) (take j progress_keys),
      pg_failures := (if err = None then pg_failures ?p else Suc (pg_failures ?p))\<rparr>"
    using j(2) by (cases "abs_progress contents s'") (simp add: loading_def abs_progress_def)
  have "take 5 progress_keys = progress_keys" by (simp add: progress_keys_def)
  with j s' a show ?thesis
    using load_done [of ?p] load_failed [of j ?p]
    by (cases err) (auto simp: answered_def one_failure_def abs_progress_def)
qed

lemma state_Restart_refines:
  assumes "redis_documented rc contents" and "state_op (counting rc) Restart_op s = (a, s')"
  shows "progress_step (abs_progress contents s) Restart_op a (abs_progress contents s')"
proof -
  have "abs_progress contents (state_New (st_server s)) = (abs_progress contents s)\<lparr>pg_memory := Map.empty\<rparr>"
    by (auto simp: abs_progress_def state_New_def memory_of_def)
  with state_Load_refines [OF assms(1), of "state_New (st_server s)" a s'] assms(2) show ?thesis
    by (auto intro: restart)
qed

interpretation progress_store: data_refinement "\<lambda>s. redis_documented rc contents" "abs_progress contents" legal_progress "state_op (counting rc)" progress_step
  for rc contents
proof unfold_locales
  fix s x a s'
  assume "redis_documented rc contents" and "legal_progress x" and "state_op (counting rc) x s = (a, s')"
  then show "redis_documented rc contents \<and> progress_step (abs_progress contents s) x a (abs_progress contents s')"
    using state_Set_refines state_Get_refines state_Exists_refines state_Load_refines state_Restart_refines
    by (cases x) (auto simp: legal_progress_def simp del: state_op.simps)
qed

subsection \<open>Counting changes nothing else\<close>

lemma uncounted_Set:
  "state_Set rc k v (uncounted s) = map_go (map_prod id uncounted) uncounted (state_Set (counting rc) k v s)"
  by (auto simp: state_Set_def cache_Write_def counting_def uncounted_def split: prod.splits option.splits)

lemma uncounted_Get: "state_Get rc k (uncounted s) = map_prod id uncounted (state_Get (counting rc) k s)"
  by (auto simp: state_Get_def cache_Get_def counting_def uncounted_def split: prod.splits sum.splits)

lemma uncounted_Exists: "state_Exists rc k (uncounted s) = map_prod id uncounted (state_Exists (counting rc) k s)"
  by (auto simp: state_Exists_def cache_Exists_def counting_def uncounted_def split: prod.splits sum.splits)

lemma uncounted_load_key: "load_key rc k assign (uncounted s) = map_prod id uncounted (load_key (counting rc) k assign s)"
  by (auto simp: load_key_def uncounted_Get split: prod.splits sum.splits) (auto simp: uncounted_def)

lemma uncounted_load_all: "load_all rc xs (uncounted s) = map_prod id uncounted (load_all (counting rc) xs s)"
  by (induction xs arbitrary: s) (auto simp: uncounted_load_key and_then_def split: prod.splits option.splits)

lemma uncounted_Load: "state_Load rc (uncounted s) = map_prod id uncounted (state_Load (counting rc) s)"
  by (simp add: state_Load_steps uncounted_load_all)

lemma uncounted_New: "uncounted (state_New srv) = state_New (st_server (uncounted \<lparr>st_descriptor = d, st_server = srv\<rparr>))"
  by (simp add: uncounted_def state_New_def)

lemma uncounted_op: "state_op rc x (uncounted s) = map_prod id uncounted (state_op (counting rc) x s)"
proof (cases x)
  case (Set_op k n)
  then show ?thesis by (cases "state_Set (counting rc) k (Some n) s") (auto simp: uncounted_Set)
next
  case Restart_op
  have "state_New (st_server (uncounted s)) = uncounted (state_New (st_server s))" by (simp add: uncounted_def state_New_def)
  with Restart_op show ?thesis by (auto simp: uncounted_Load split: prod.splits)
qed (auto simp: uncounted_Get uncounted_Exists uncounted_Load split: prod.splits sum.splits)

lemma uncounted_run: "exec_all (state_op rc) ops (uncounted s) = map_prod id uncounted (exec_all (state_op (counting rc)) ops s)"
  by (induction ops arbitrary: s) (auto simp: uncounted_op split: prod.splits)

section \<open>Properties\<close>

text \<open>C21. The state manager implements the abstract progress store: for every sequence of operations and restarts, whatever the
  server fails, the answers are those of the store and the numbers in memory and on the server are the store's. In particular no
  operation panics, a stored number is read back until it is overwritten, also after a restart, a refused write still
  changes the memory, and an operation on one of the five keys fails only with a call that the server failed, so that a number that
  was never stored is absent and no error. The failures are counted by a client that does nothing else: the
  run with the client itself gives the same answers and the same state.\<close>

theorem state_refines_progress:
  assumes "redis_documented rc contents" and "list_all legal_progress ops" and "exec_all (state_op (counting rc)) ops s = (answers, s')"
  shows "spec_run progress_step (abs_progress contents s) ops answers (abs_progress contents s')
     \<and> exec_all (state_op rc) ops (uncounted s) = (answers, uncounted s')"
  using progress_store.run_refines [OF assms] uncounted_run [of rc ops s] assms(3) by simp

theorem state_refines_progress_witness:
  "\<exists>p. spec_run progress_step \<lparr>pg_memory = Map.empty, pg_stored = Map.empty, pg_failures = 0\<rparr>
     [Set_op LatestInspectedArchiveBlock 300, Set_op UnknownHeadBlock 1, Get_op CurrentBlockHead, Restart_op, Get_op LatestInspectedArchiveBlock]
     [Accepted, Failed, Absent, Accepted, Value 300] p \<and> pg_memory p LatestInspectedArchiveBlock = Some 300 \<and> pg_failures p = 0"
proof -
  let ?ops = "[Set_op LatestInspectedArchiveBlock 300, Set_op UnknownHeadBlock 1, Get_op CurrentBlockHead, Restart_op, Get_op LatestInspectedArchiveBlock]"
  let ?run = "exec_all (state_op (counting plain_redis)) ?ops (state_New (Map.empty, 0))"
  obtain answers s' where run: "?run = (answers, s')" by fastforce
  have "fst ?run = [Accepted, Failed, Absent, Accepted, Value 300]"
    "sd_LatestInspectedArchiveBlock (st_descriptor (snd ?run)) = Some 300" "snd (st_server (snd ?run)) = 0"
    by code_simp+
  then have s': "answers = [Accepted, Failed, Absent, Accepted, Value 300]" "sd_LatestInspectedArchiveBlock (st_descriptor s') = Some 300"
    "snd (st_server s') = 0"
    unfolding run by simp_all
  have "abs_progress (\<lambda>s. s) (state_New (Map.empty, 0)) = \<lparr>pg_memory = Map.empty, pg_stored = Map.empty, pg_failures = 0\<rparr>"
    by (auto simp: abs_progress_def state_New_def memory_of_def)
  moreover have "pg_memory (abs_progress (\<lambda>s. s) s') LatestInspectedArchiveBlock = Some 300" "pg_failures (abs_progress (\<lambda>s. s) s') = 0"
    using key_neqs s'(2,3) by (auto simp: abs_progress_def memory_of_def)
  moreover have "list_all legal_progress ?ops" by (simp add: legal_progress_def)
  ultimately show ?thesis
    using state_refines_progress [OF plain_redis_documented _ run] s'(1) by auto
qed

end
