(* ===== verification/Resumption.thy ===== *)
theory Resumption
  imports Syncer
begin

text \<open>
  A restart of the syncer while goroutines of contract creations are pending: what the last finished goroutine stored
  (src/services/syncer/interceptors.go), what the state manager loads (src/pkg/state) and where the archive subscriber goes on
  (src/pkg/subscribers/blocks_archive.go).
\<close>

section \<open>Lemmas\<close>

text \<open>A number that was stored is where a restarted archive subscriber goes on.\<close>

lemma restart_start_block:
  assumes "redis_documented rc contents" and "state_Set rc LatestInspectedArchiveBlock (Some n) s = Returns (None, s1)"
    and "state_Load rc (state_New (st_server s1)) = (None, s2)" and "0 \<le> n" and "n < 2 ^ 63"
    and "sub_Resumption opts" and "sub_StartBlockNumber opts \<le> n"
  shows "archive_start_block opts (st_descriptor s2) = n"
proof -
  have "contents (st_server s1) LatestInspectedArchiveBlock = Some (big_Bytes n)" using state_Set_writes [OF assms(1,2)] by simp
  then have "sd_LatestInspectedArchiveBlock (st_descriptor s2) = Some n"
    using Load_fields [OF assms(1,3)] assms(4) by (simp add: state_New_def big_SetBytes_Bytes)
  moreover have "sd_LatestInspectedArchiveBlock (state_Descriptor d) = sd_LatestInspectedArchiveBlock d" for d
    by (simp add: state_Descriptor_def Let_def split: option.splits)
  ultimately show ?thesis using assms(4-7) by (simp add: archive_start_block_def big_Int64_id)
qed

lemma contract_task_world:
  assumes "GetClientByGroup (sv_chain srv) (ce_network_String (sv_chain srv) (en_Network e)) = Some client"
    and "en_Tx e = Some tx" and "TransactionReceipt client (tx_Hash tx) = Inr rc"
    and "UnpackFromEntry srv ctx (e\<lparr>en_Receipt := Some rc, en_ContractAddr := ContractAddress rc\<rparr>) DiscoverState w
      = Returns ((Some d, None), e2, w2)" and "d_Header d = Some h"
    and "state_Set (ce_redis (sv_chain srv)) LatestInspectedArchiveBlock (Some (hd_Number h)) (w_sync w2) = Returns (err, s1)"
  shows "contract_task srv ctx ''archive'' e w = Returns (w2\<lparr>w_sync := s1\<rparr>)"
  using assms by (simp add: contract_task_def GetHeadBlockKeyByDirection_def world_Set_def)

section \<open>An instance\<close>

lemma plain_load_key: "fst (load_key plain_redis k f s) = None"
  by (simp add: load_key_def state_Get_def cache_Get_def plain_redis_def RedisNil_def split: option.split)

lemma and_then_returns: "fst r = None \<Longrightarrow> (\<And>s. fst (f s) = None) \<Longrightarrow> fst (and_then r f) = None"
  by (cases r) (simp add: and_then_def)

lemma plain_Load: "fst (state_Load plain_redis s) = None"
  unfolding state_Load_def by (intro and_then_returns plain_load_key)

definition resuming_archive :: "plain_world ArchiveBlock" where
  "resuming_archive = \<lparr>ab_opts = \<lparr>sub_Enabled = True, sub_SubjectName = [], sub_Network = ''ethereum'', sub_Resumption = True,
      sub_Type = ''archive'', sub_StartBlockNumber = 10, sub_EndBlockNumber = 18\<rparr>,
     ab_status = StatusNotActive, ab_done = False, ab_hooks = Map.empty\<rparr>"

section \<open>Properties\<close>

text \<open>C22. A restart loses the creations that are still pending: the goroutine of a creation in block \<open>n\<close> records \<open>n\<close> as the last
  inspected archive block without waiting for the goroutines of earlier blocks, which stay pending, and a restarted archive
  subscriber with resumption visits the blocks from \<open>n\<close> on and no others. A creation of an earlier block whose goroutine
  had not finished is never unpacked.\<close>

theorem restart_skips_pending:
  assumes "redis_documented (ce_redis (sv_chain srv)) contents"
    and "GetClientByGroup (sv_chain srv) (ce_network_String (sv_chain srv) (en_Network e)) = Some client"
    and "en_Header e = Some h" and "en_Tx e = Some tx" and "TransactionReceipt client (tx_Hash tx) = Inr rc"
    and "UnpackFromEntry srv ctx (e\<lparr>en_Receipt := Some rc, en_ContractAddr := ContractAddress rc\<rparr>) DiscoverState w
      = Returns ((Some d, None), e2, w2)" and "0 \<le> hd_Number h" and "hd_Number h < 2 ^ 63"
    and "state_Set (ce_redis (sv_chain srv)) LatestInspectedArchiveBlock (Some (hd_Number h)) (w_sync w2) = Returns (None, s1)"
    and "state_Load (ce_redis (sv_chain srv)) (state_New (st_server s1)) = (None, w_sync v)"
    and "sub_Resumption (ab_opts b)" and "sub_StartBlockNumber (ab_opts b) \<le> hd_Number h"
    and "sub_EndBlockNumber (ab_opts b) < 2 ^ 63 - 1"
  shows "\<exists>w'. contract_task srv ctx ''archive'' e w = Returns w' \<and> w_tasks w' = w_tasks w \<and> w_sync w' = s1
     \<and> archive_run b visit v = Some (map_go (\<lambda>x. (None, b\<lparr>ab_status := StatusNotActive\<rparr>, x)) (\<lambda>x. (b\<lparr>ab_status := StatusNotActive\<rparr>, x))
         (visit_all visit [hd_Number h..sub_EndBlockNumber (ab_opts b)] (archive_touch (ab_opts b) v)))"
proof -
  from UnpackFromEntry_completes [OF assms(6), of h tx rc] assms(3,4) obtain c dd where
    u: "Unpack (sv_env srv) ctx DiscoverState (to_data (GetDescriptor (e_unpacker (sv_env srv)) c
          (e\<lparr>en_Receipt := Some rc, en_ContractAddr := ContractAddress rc\<rparr>)) w) = Some (Returns (None, dd))"
    and d: "d = dt_descriptor dd" "w2 = from_data w dd" by auto
  have "d_Header d = Some h" using Unpack_evolves [OF u] assms(3) by (simp add: d evolves_def identity_def to_data_def)
  from contract_task_world [OF assms(2,4-6) this assms(9)] have
    t: "contract_task srv ctx ''archive'' e w = Returns (w2\<lparr>w_sync := s1\<rparr>)" .
  have "archive_start_block (ab_opts b) (st_descriptor (w_sync v)) = hd_Number h"
    by (rule restart_start_block [OF assms(1,9,10,7,8,11,12)])
  then have "archive_run b visit v = Some (map_go (\<lambda>x. (None, b\<lparr>ab_status := StatusNotActive\<rparr>, x)) (\<lambda>x. (b\<lparr>ab_status := StatusNotActive\<rparr>, x))
         (visit_all visit [hd_Number h..sub_EndBlockNumber (ab_opts b)] (archive_touch (ab_opts b) v)))"
    using archive_loop_range [of "hd_Number h" "sub_EndBlockNumber (ab_opts b)" visit] assms(7,13)
    by (simp add: archive_run_def Let_def)
  with t d(2) show ?thesis by (simp add: from_data_def)
qed

theorem restart_skips_pending_witness:
  "\<exists>w' s v'. contract_task plain_service Background ''archive'' (creation_entry 17) (plain_world\<lparr>w_tasks := [(''archive'', creation_entry 16)]\<rparr>)
       = Returns w' \<and> w_tasks w' = [(''archive'', creation_entry 16)]
     \<and> state_Load plain_redis (state_New (st_server (w_sync w'))) = (None, s)
     \<and> archive_run resuming_archive (\<lambda>i x. Returns (x\<lparr>w_published := w_published x @ [([], big_Bytes i)]\<rparr>)) (plain_world\<lparr>w_sync := s\<rparr>)
       = Some (Returns (None, resuming_archive, v')) \<and> w_published v' = [([], [17]), ([], [18])]"
proof -
  let ?w = "plain_world\<lparr>w_tasks := [(''archive'', creation_entry 16)]\<rparr>" and ?h = "\<lparr>hd_Number = 17, hd_Hash = 3\<rparr>"
  let ?tx = "\<lparr>tx_Hash = 4, tx_To = None\<rparr>" and ?rc = "\<lparr>ContractAddress = 5\<rparr>"
  let ?visit = "\<lambda>i x. Returns (x\<lparr>w_published := w_published x @ [([], big_Bytes i)]\<rparr>)"
  let ?e = "(creation_entry 17)\<lparr>en_Receipt := Some ?rc, en_ContractAddr := ContractAddress ?rc\<rparr>"
  have cl: "GetClientByGroup (sv_chain plain_service) (ce_network_String (sv_chain plain_service) (en_Network (creation_entry 17))) = Some plain_client"
    "en_Header (creation_entry 17) = Some ?h" "en_Tx (creation_entry 17) = Some ?tx" "TransactionReceipt plain_client (tx_Hash ?tx) = Inr ?rc"
    by (simp_all add: plain_service_def plain_chain_def creation_entry_def plain_client_def)
  have rd: "ce_redis (sv_chain plain_service) = plain_redis" by (simp add: plain_service_def plain_chain_def)
  have run: "UnpackFromEntry plain_service Background ?e DiscoverState ?w
      = Returns ((Some (dt_descriptor example_result), None), ?e, from_data ?w example_result)"
    using example_creation [of ?w] by (simp add: plain_world_def)
  obtain s1 where s1: "state_Set plain_redis LatestInspectedArchiveBlock (Some 17) (w_sync (from_data ?w example_result)) = Returns (None, s1)"
    by (simp add: state_Set_def SetDescriptorKey_def cache_Write_def plain_redis_def key_defs)
  obtain s where s: "state_Load plain_redis (state_New (st_server s1)) = (None, s)"
    using plain_Load by (metis prod.collapse)
  have "\<exists>w'. contract_task plain_service Background ''archive'' (creation_entry 17) ?w = Returns w' \<and> w_tasks w' = w_tasks ?w \<and> w_sync w' = s1
     \<and> archive_run resuming_archive ?visit (plain_world\<lparr>w_sync := s\<rparr>)
       = Some (map_go (\<lambda>x. (None, resuming_archive\<lparr>ab_status := StatusNotActive\<rparr>, x)) (\<lambda>x. (resuming_archive\<lparr>ab_status := StatusNotActive\<rparr>, x))
         (visit_all ?visit [hd_Number ?h..sub_EndBlockNumber (ab_opts resuming_archive)] (archive_touch (ab_opts resuming_archive) (plain_world\<lparr>w_sync := s\<rparr>))))"
    by (rule restart_skips_pending [OF _ cl run, where contents = "\<lambda>s. s"])
       (simp_all add: rd plain_redis_documented s1 s, simp_all add: resuming_archive_def)
  moreover have "big_Bytes 17 = [17]" "big_Bytes 18 = [18]" by code_simp+
  ultimately show ?thesis
    using s by (auto simp: resuming_archive_def upto_rec1 archive_touch_def plain_world_def)
qed

end
