(* ===== verification/Interleaving.thy ===== *)
theory Interleaving
  imports Syncer
begin

text \<open>
  The goroutines that unpack contracts, step by step: those of contract creations and those of gRPC requests
  (src/services/syncer/interceptors.go, unpack.go and rpc.go, src/pkg/unpacker/unpack.go, src/pkg/machine). \<open>Syncer.contract_task\<close> is a goroutine that runs from its first to its last
  statement; here the goroutines of several creations take turns. A goroutine owns its machine and its descriptor and shares
  the contracts table, the cached sources, the clock and the synchronisation state with all the others, so between two
  iterations of its machine it may find them changed. A step of a goroutine is its launch up to the first iteration, one
  iteration of its machine, or the recording of its block at the end. A creation that panics ends the process, and then
  nothing steps any more; a request recovers from a panic. Each address of a request has a goroutine of its own here, which
  may start at any time: the addresses of one call, which the code takes one after the other, are among its schedules.
\<close>

section \<open>A goroutine\<close>

text \<open>Where a goroutine is: unpacking, with the machine between two iterations, for a creation of a direction or for a request
  (\<open>None\<close>); about to record the block of its descriptor; returned; panicked; blocked for ever.\<close>

datatype 'x goroutine =
    Unpacking "string option" "'x data StateMachine"
  | Recording string "'x Descriptor"
  | Ended
  | Crashed
  | Stuck

text \<open>\<open>UnpackFromEntry\<close> up to the call of the unpacker: the descriptor of the contract, or the error it returns.\<close>

definition entry_descriptor :: "('r, 'x) service \<Rightarrow> Entry \<Rightarrow> (error + 'x Descriptor, unit) go" where
  "entry_descriptor srv entry =
     (case NewContract srv (en_Network entry) (en_ContractAddr entry) of
        Inl err \<Rightarrow> Returns (Inl err)
      | Inr contract \<Rightarrow>
     (case (en_Header entry, en_Tx entry, en_Receipt entry) of
        (Some header, Some tx, Some receipt) \<Rightarrow>
          Returns (Inr (GetDescriptor (e_unpacker (sv_env srv)) (Some (SetChainInfo srv header tx receipt contract)) entry))
      | _ \<Rightarrow>
     (case ots_enabled srv of
        None \<Rightarrow> Panics ()
      | Some ots \<Rightarrow>
     (case DiscoverChainInfo srv ots contract of
        Panics _ \<Rightarrow> Panics ()
      | Blocks _ \<Rightarrow> Blocks ()
      | Returns (Some err, _) \<Rightarrow> Returns (Inl err)
      | Returns (None, c) \<Rightarrow>
          Returns (Inr (GetDescriptor (e_unpacker (sv_env srv)) (Some c)
            (entry\<lparr>en_Header := GetBlock srv c, en_Tx := GetContractTx srv c, en_Receipt := GetContractReceipt srv c\<rparr>)))))))"

text \<open>The goroutine up to the first iteration of the machine: the receipt, the descriptor, the handler table. A panic
  that \<open>UnpackFromEntry\<close> recovers leaves the goroutine with a nil descriptor, which it dereferences.\<close>

definition launch_goroutine :: "('r, 'x) service \<Rightarrow> gocontext \<Rightarrow> string \<Rightarrow> Entry \<Rightarrow> ('r, 'x) world \<Rightarrow> 'x goroutine" where
  "launch_goroutine srv ctx direction entry w =
     (case (GetClientByGroup (sv_chain srv) (ce_network_String (sv_chain srv) (en_Network entry)), en_Tx entry) of
        (Some client, Some tx) \<Rightarrow>
          (case TransactionReceipt client (tx_Hash tx) of
             Inl err \<Rightarrow> Ended
           | Inr receipt \<Rightarrow>
               (case entry_descriptor srv (entry\<lparr>en_Receipt := Some receipt, en_ContractAddr := ContractAddress receipt\<rparr>) of
                  Panics _ \<Rightarrow> Crashed
                | Blocks _ \<Rightarrow> Stuck
                | Returns (Inl err) \<Rightarrow> Ended
                | Returns (Inr desc) \<Rightarrow>
                    (case RegisterMachineStates (sv_env srv) (NewStateMachine ctx DiscoverState (to_data desc w)) of
                       Returns (None, sm) \<Rightarrow> Unpacking (Some direction) sm
                     | Returns (Some err, sm) \<Rightarrow> Ended
                     | Panics sm \<Rightarrow> Crashed
                     | Blocks sm \<Rightarrow> Stuck)))
      | _ \<Rightarrow> Crashed)"

text \<open>One address of a gRPC request up to the first iteration of the machine: the lookup of a stored contract, whose sources
  are read if it has any, and otherwise the descriptor of an entry that has only the address. A panic is recovered by the call.\<close>

definition answer_goroutine :: "('r, 'x) service \<Rightarrow> gocontext \<Rightarrow> Entry \<Rightarrow> ('r, 'x) world \<Rightarrow> 'x goroutine" where
  "answer_goroutine srv ctx entry w =
     (case entry_descriptor srv entry of
        Panics _ \<Rightarrow> Ended
      | Blocks _ \<Rightarrow> Stuck
      | Returns (Inl err) \<Rightarrow> Ended
      | Returns (Inr desc) \<Rightarrow>
          (case RegisterMachineStates (sv_env srv) (NewStateMachine ctx DiscoverState (to_data desc w)) of
             Returns (None, sm) \<Rightarrow> Unpacking None sm
           | Blocks sm \<Rightarrow> Stuck
           | _ \<Rightarrow> Ended))"

definition rpc_goroutine ::
  "('r, 'x) service \<Rightarrow> (row list \<Rightarrow> row list) \<Rightarrow> gocontext \<Rightarrow> int \<Rightarrow> string \<Rightarrow> ('r, 'x) world \<Rightarrow> 'x goroutine \<times> ('r, 'x) world" where
  "rpc_goroutine srv scan_order ctx networkId addrHex w =
     (let cd = e_codec (sv_env srv); sg = e_solgo (sv_env srv) in
      if \<not> IsHexAddress cd addrHex then (Ended, w)
      else (case GetNetworkFromID srv networkId of
        Inl err \<Rightarrow> (Ended, w)
      | Inr network \<Rightarrow>
          let entry = request_entry network networkId (HexToAddress cd addrHex) in
     (case GetContractByAddress cd scan_order (ToBig sg networkId) (HexToAddress cd addrHex) (w_db w) of
        (Inl err, t) \<Rightarrow>
          let w1 = w\<lparr>w_db := t\<rparr> in
          (if \<not> errors_Is err ErrNoRows then Ended else answer_goroutine srv ctx entry w1, w1)
      | (Inr c, t) \<Rightarrow>
          let w1 = w\<lparr>w_db := t\<rparr> in
          (case e_options (sv_env srv) of
             None \<Rightarrow> Ended
           | Some opts \<Rightarrow>
               (case NewSourcesFromPath sg (c_Name c) (filepath_Join [ContractsPath (opt_Storage opts),
                    helpers_GetStorageCachePath cd sg network (big_String (c_BlockNumber c)) (HexToAddress cd addrHex)]) (w_files w1) of
                  Inr sources \<Rightarrow> Ended
                | Inl _ \<Rightarrow> answer_goroutine srv ctx entry w1), w1))))"

text \<open>The machine of a goroutine sees the shared world as it is now.\<close>

definition load_world :: "('r, 'x) world \<Rightarrow> 'x data StateMachine \<Rightarrow> 'x data StateMachine" where
  "load_world w sm = sm\<lparr>sm_data := to_data (dt_descriptor (sm_data sm)) w\<rparr>"

text \<open>What the goroutine does with the result of the unpacker: on an error it returns, otherwise that of a creation goes on with
  the descriptor. The goroutine of a request makes the answer and returns, also after a panic.\<close>

definition unpacked ::
  "string option \<Rightarrow> (error option \<times> 'x data StateMachine, 'x data StateMachine) go \<Rightarrow> 'x goroutine \<times> 'x data" where
  "unpacked direction r =
     (case r of
        Returns (Some err, sm) \<Rightarrow> (Ended, sm_data sm)
      | Returns (None, sm) \<Rightarrow>
          ((case direction of None \<Rightarrow> Ended | Some dir \<Rightarrow> Recording dir (dt_descriptor (sm_data sm))), sm_data sm)
      | Panics sm \<Rightarrow> ((case direction of None \<Rightarrow> Ended | Some dir \<Rightarrow> Crashed), sm_data sm)
      | Blocks sm \<Rightarrow> (Stuck, sm_data sm))"

definition goroutine_step :: "('r, 'x) service \<Rightarrow> 'x goroutine \<Rightarrow> ('r, 'x) world \<Rightarrow> 'x goroutine \<times> ('r, 'x) world" where
  "goroutine_step srv g w =
     (case g of
        Unpacking direction sm \<Rightarrow>
          (case process_iter (load_world w sm) of
             Next sm' \<Rightarrow> (Unpacking direction sm', from_data w (sm_data sm'))
           | Stop r \<Rightarrow> map_prod id (from_data w) (unpacked direction r))
      | Recording direction desc \<Rightarrow>
          (case d_Header desc of
             None \<Rightarrow> (Crashed, w)
           | Some header \<Rightarrow>
               (case world_Set (ce_redis (sv_chain srv)) (fst (GetHeadBlockKeyByDirection direction)) (hd_Number header) w of
                  Returns (err, w') \<Rightarrow> (Ended, w')
                | Panics w' \<Rightarrow> (Crashed, w')
                | Blocks w' \<Rightarrow> (Stuck, w')))
      | _ \<Rightarrow> (g, w))"

fun active :: "'x goroutine \<Rightarrow> bool" where
  "active (Unpacking direction sm) = True"
| "active (Recording direction desc) = True"
| "active _ = False"

section \<open>The interleaved system\<close>

text \<open>The syncer process: the shared world and the goroutines launched so far. The Go scheduler picks any goroutine
  for the next step; blocks, requests on the broker and gRPC requests arrive at any time.\<close>

type_synonym ('r, 'x) process_state = "('r, 'x) world \<times> 'x goroutine list"

definition process_alive :: "'x goroutine list \<Rightarrow> bool" where
  "process_alive gs \<longleftrightarrow> \<not> list_ex (\<lambda>g. case g of Crashed \<Rightarrow> True | _ \<Rightarrow> False) gs"

inductive inter_step :: "('r, 'x) service \<Rightarrow> ('r, 'x) process_state \<Rightarrow> ('r, 'x) process_state \<Rightarrow> bool" for srv where
  launch: "process_alive gs \<Longrightarrow> w_tasks w = ts1 @ (dir, e) # ts2 \<Longrightarrow> w' = w\<lparr>w_tasks := ts1 @ ts2\<rparr>
    \<Longrightarrow> inter_step srv (w, gs) (w', gs @ [launch_goroutine srv ctx dir e w'])"
| advance: "process_alive gs \<Longrightarrow> i < length gs \<Longrightarrow> active (gs ! i) \<Longrightarrow> goroutine_step srv (gs ! i) w = (g, w')
    \<Longrightarrow> inter_step srv (w, gs) (w', gs[i := g])"
| block: "process_alive gs \<Longrightarrow> BlockInterceptor srv network networkId dir b w = Returns ((r, err), w')
    \<Longrightarrow> inter_step srv (w, gs) (w', gs)"
| request: "process_alive gs \<Longrightarrow> UnpackerInterceptor srv ctx ev w = Returns (err, ev', w')
    \<Longrightarrow> inter_step srv (w, gs) (w', gs)"
| rpc: "process_alive gs \<Longrightarrow> rpc_goroutine srv scan_order ctx networkId addrHex w = (g, w')
    \<Longrightarrow> inter_step srv (w, gs) (w', gs @ [g])"

inductive inter_reachable :: "('r, 'x) service \<Rightarrow> ('r, 'x) world \<Rightarrow> ('r, 'x) process_state \<Rightarrow> bool" for srv w0 where
  init: "inter_reachable srv w0 (w0, [])"
| step: "inter_reachable srv w0 s \<Longrightarrow> inter_step srv s s' \<Longrightarrow> inter_reachable srv w0 s'"

text \<open>A schedule: the goroutines that take the next steps, by number. \<open>None\<close> when one of them cannot step.\<close>

fun run_schedule :: "('r, 'x) service \<Rightarrow> nat list \<Rightarrow> ('r, 'x) process_state \<Rightarrow> ('r, 'x) process_state option" where
  "run_schedule srv [] s = Some s"
| "run_schedule srv (i # is) (w, gs) =
     (if process_alive gs \<and> i < length gs \<and> active (gs ! i)
      then (case goroutine_step srv (gs ! i) w of (g, w') \<Rightarrow> run_schedule srv is (w', gs[i := g]))
      else None)"

text \<open>A goroutine that is not interrupted.\<close>

partial_function (option) solo :: "('r, 'x) service \<Rightarrow> 'x goroutine \<Rightarrow> ('r, 'x) world \<Rightarrow> ('x goroutine \<times> ('r, 'x) world) option" where
  "solo srv g w =
     (if active g then (case goroutine_step srv g w of (g', w') \<Rightarrow> solo srv g' w') else Some (g, w))"

text \<open>How a goroutine that takes no more steps has ended.\<close>

definition outcome :: "'x goroutine \<Rightarrow> ('r, 'x) world \<Rightarrow> (('r, 'x) world, ('r, 'x) world) go" where
  "outcome g w = (case g of Crashed \<Rightarrow> Panics w | Stuck \<Rightarrow> Blocks w | _ \<Rightarrow> Returns w)"

section \<open>A goroutine that is not interrupted\<close>

text \<open>The steps are those of the sequential model \<open>contract_task\<close>: with nothing in between they give its world and outcome,
  \<open>solo_launch\<close>. What \<open>Syncer\<close> shows of a whole goroutine is so shown of its steps.\<close>

definition finish_task ::
  "('r, 'x) service \<Rightarrow> string \<Rightarrow> (error option \<times> 'x data, 'x data) go \<Rightarrow> ('r, 'x) world
   \<Rightarrow> (('r, 'x) world, ('r, 'x) world) go" where
  "finish_task srv direction r w =
     (case r of
        Returns (Some err, d) \<Rightarrow> Returns (from_data w d)
      | Returns (None, d) \<Rightarrow>
          (case d_Header (dt_descriptor d) of
             None \<Rightarrow> Panics (from_data w d)
           | Some header \<Rightarrow>
               map_go snd (\<lambda>w. w)
                 (world_Set (ce_redis (sv_chain srv)) (fst (GetHeadBlockKeyByDirection direction)) (hd_Number header) (from_data w d)))
      | Panics d \<Rightarrow> Panics (from_data w d)
      | Blocks d \<Rightarrow> Blocks (from_data w d))"

definition finish_call ::
  "('r, 'x) service \<Rightarrow> string \<Rightarrow> (('x Descriptor option \<times> error option) \<times> Entry \<times> ('r, 'x) world, Entry \<times> ('r, 'x) world) go
   \<Rightarrow> (('r, 'x) world, ('r, 'x) world) go" where
  "finish_call srv direction r =
     go_bind (map_go id snd r) (\<lambda>((desc, err), entry2, w2).
                     if err \<noteq> None then Returns w2
                     else (case Option.bind desc d_Header of
                             None \<Rightarrow> Panics w2
                           | Some header \<Rightarrow>
                               go_bind (world_Set (ce_redis (sv_chain srv))
                                   (fst (GetHeadBlockKeyByDirection direction)) (hd_Number header) w2)
                                 (\<lambda>(err, w3). Returns w3)))"

lemma go_bind_snd: "go_bind x (\<lambda>(err, w). Returns w) = map_go snd (\<lambda>w. w) x"
  by (cases x) auto

lemma finish_world_Unpack:
  assumes "Unpack (sv_env srv) ctx DiscoverState (to_data desc w) = Some r"
  shows "finish_call srv direction (case map_go (\<lambda>(r, w'). (r, e, w')) (\<lambda>w'. (e, w')) (world_Unpack srv ctx desc DiscoverState w) of
        Panics (e, w') \<Rightarrow> recover_entry e (None, None) w' | r \<Rightarrow> r) = finish_task srv direction r w"
proof (cases r)
  case (Returns p)
  with Returns assms show ?thesis
    by (cases p) (auto simp: finish_call_def finish_task_def world_Unpack_def go_bind_snd split: option.splits)
qed (use assms in \<open>auto simp: finish_call_def finish_task_def world_Unpack_def recover_entry_def\<close>)

lemma contract_task_descriptor:
  "contract_task srv ctx direction entry w =
     (case (GetClientByGroup (sv_chain srv) (ce_network_String (sv_chain srv) (en_Network entry)), en_Tx entry) of
        (Some client, Some tx) \<Rightarrow>
          (case TransactionReceipt client (tx_Hash tx) of
             Inl err \<Rightarrow> Returns w
           | Inr receipt \<Rightarrow>
               (case entry_descriptor srv (entry\<lparr>en_Receipt := Some receipt, en_ContractAddr := ContractAddress receipt\<rparr>) of
                  Panics _ \<Rightarrow> Panics w
                | Blocks _ \<Rightarrow> Blocks w
                | Returns (Inl err) \<Rightarrow> Returns w
                | Returns (Inr desc) \<Rightarrow> finish_task srv direction (the (Unpack (sv_env srv) ctx DiscoverState (to_data desc w))) w))
      | _ \<Rightarrow> Panics w)"
proof -
  have call: "finish_call srv direction (UnpackFromEntry srv ctx e DiscoverState w) =
     (case entry_descriptor srv e of
        Panics _ \<Rightarrow> Panics w
      | Blocks _ \<Rightarrow> Blocks w
      | Returns (Inl err) \<Rightarrow> Returns w
      | Returns (Inr desc) \<Rightarrow> finish_task srv direction (the (Unpack (sv_env srv) ctx DiscoverState (to_data desc w))) w)" for e
  proof -
    have u: "finish_call srv direction (case map_go (\<lambda>(r, w'). (r, e', w')) (\<lambda>w'. (e', w')) (world_Unpack srv ctx desc DiscoverState w) of
        Panics (e, w') \<Rightarrow> recover_entry e (None, None) w' | r \<Rightarrow> r)
      = finish_task srv direction (the (Unpack (sv_env srv) ctx DiscoverState (to_data desc w))) w" for e' desc
      using finish_world_Unpack [of srv ctx desc w _ direction e'] unpack_returns [of "sv_env srv" ctx DiscoverState "to_data desc w"] by auto
    have stop: "finish_call srv direction (Returns ((None, Some err), e, w)) = Returns w"
      "finish_call srv direction (recover_entry e (None, None) w) = Panics w" "finish_call srv direction (Blocks (e, w)) = Blocks w" for err
      by (simp_all add: finish_call_def recover_entry_def)
    show ?thesis
      by (auto simp: UnpackFromEntry_def entry_body_def entry_descriptor_def Let_def u stop split: sum.splits option.splits go.splits)
  qed
  then show ?thesis unfolding contract_task_def Let_def finish_call_def [symmetric] by (simp only: call)
qed

lemma solo_done: "\<not> active g \<Longrightarrow> solo srv g w = Some (g, w)"
  by (subst solo.simps) simp

lemma solo_step: "active g \<Longrightarrow> goroutine_step srv g w = (g', w') \<Longrightarrow> solo srv g w = solo srv g' w'"
  by (subst solo.simps) simp

lemma from_data_from_data [simp]: "from_data (from_data w d) d' = from_data w d'"
  by (simp add: from_data_def)

lemma to_data_from_data [simp]: "to_data (dt_descriptor d) (from_data w d) = d"
  by (simp add: to_data_def from_data_def)

lemma load_world_own [simp]: "load_world (from_data w (sm_data sm)) sm = sm"
  by (simp add: load_world_def)

lemma running_load [simp]: "running env (load_world w sm) = running env sm"
  by (simp add: running_def load_world_def)

text \<open>A goroutine that is not interrupted ends as the unpacker ends.\<close>

lemma solo_Unpacking:
  assumes "running (sv_env srv) sm" and "load_world w sm = sm" and "Process sm = Some r"
  shows "solo srv (Unpacking dir sm) w = (case unpacked dir r of (g, d) \<Rightarrow> solo srv g (from_data w d))"
  using assms
proof (induction "weight (currentState sm) (dt_descriptor (sm_data sm))" arbitrary: sm w rule: less_induct)
  case less
  show ?case
  proof (cases "process_iter sm")
    case (Next sm')
    then have step: "goroutine_step srv (Unpacking dir sm) w = (Unpacking dir sm', from_data w (sm_data sm'))"
      using less.prems(2) by (simp add: goroutine_step_def)
    have "Process sm' = Some r" using Next less.prems(3) by (simp add: Process_Next)
    with less.hyps [of sm' "from_data w (sm_data sm')"] weight_decreases [OF less.prems(1) Next] solo_step [OF _ step]
    show ?thesis by simp
  next
    case (Stop r')
    with less.prems(3) have "r' = r" by (simp add: Process_Stop)
    with Stop less.prems(2) have "goroutine_step srv (Unpacking dir sm) w = map_prod id (from_data w) (unpacked dir r)"
      by (simp add: goroutine_step_def)
    then show ?thesis using solo_step [of "Unpacking dir sm" srv w] by (auto split: prod.splits)
  qed
qed

lemma Recording_step:
  "\<exists>g' w'. goroutine_step srv (Recording dir x) w = (g', w') \<and> \<not> active g' \<and> w_db w' = w_db w
     \<and> (case d_Header x of None \<Rightarrow> Panics w
        | Some h \<Rightarrow> map_go snd (\<lambda>w. w) (world_Set (ce_redis (sv_chain srv)) (fst (GetHeadBlockKeyByDirection dir)) (hd_Number h) w))
       = outcome g' w'"
proof (cases "d_Header x")
  case (Some h)
  obtain err w' where "world_Set (ce_redis (sv_chain srv)) (fst (GetHeadBlockKeyByDirection dir)) (hd_Number h) w = Returns (err, w')"
    and "w_db w' = w_db w" using world_Set_returns by blast
  with Some show ?thesis by (simp add: goroutine_step_def outcome_def)
qed (simp add: goroutine_step_def outcome_def)

lemma solo_Recording:
  "\<exists>g w'. solo srv (Recording dir x) w = Some (g, w')
     \<and> (case d_Header x of None \<Rightarrow> Panics w
        | Some h \<Rightarrow> map_go snd (\<lambda>w. w) (world_Set (ce_redis (sv_chain srv)) (fst (GetHeadBlockKeyByDirection dir)) (hd_Number h) w))
       = outcome g w'"
  using Recording_step [of srv dir x w] solo_step [of "Recording dir x" srv w] solo_done by fastforce

lemma solo_unpacked:
  "\<exists>g w'. (case unpacked (Some dir) r of (g, d) \<Rightarrow> solo srv g (from_data w d)) = Some (g, w')
     \<and> finish_task srv dir (unpack_result r) w = outcome g w'"
proof (cases r)
  case (Returns p)
  obtain err sm where p: "p = (err, sm)" by force
  show ?thesis
  proof (cases err)
    case None
    with Returns p solo_Recording [of srv dir "dt_descriptor (sm_data sm)" "from_data w (sm_data sm)"] show ?thesis
      by (simp add: unpacked_def unpack_result_def finish_task_def)
  qed (simp add: Returns p unpacked_def unpack_result_def finish_task_def outcome_def solo_done)
qed (simp_all add: unpacked_def unpack_result_def finish_task_def outcome_def solo_done)

lemma solo_launch:
  "\<exists>g w'. solo srv (launch_goroutine srv ctx dir e w) w = Some (g, w') \<and> contract_task srv ctx dir e w = outcome g w'"
proof -
  have run: "\<exists>g w'. solo srv (Unpacking (Some dir) (unpack_machine (sv_env srv) ctx DiscoverState (to_data desc w))) w = Some (g, w')
      \<and> finish_task srv dir (the (Unpack (sv_env srv) ctx DiscoverState (to_data desc w))) w = outcome g w'" for desc
  proof -
    let ?sm = "unpack_machine (sv_env srv) ctx DiscoverState (to_data desc w)"
    obtain r where r: "Process ?sm = Some r" using unpack_returns [of "sv_env srv" ctx DiscoverState "to_data desc w"]
      by (auto simp: Unpack_eq)
    have "load_world w ?sm = ?sm" by (simp add: load_world_def unpack_machine_def NewStateMachine_def to_data_def)
    from solo_Unpacking [OF running_machine this r, where dir = "Some dir"] solo_unpacked [of srv w dir r] r show ?thesis
      by (simp add: Unpack_eq)
  qed
  have ended: "\<exists>g' w'. solo srv g w = Some (g', w') \<and> outcome g w = outcome g' w'" if "\<not> active g" for g
    using that by (auto simp: solo_done)
  show ?thesis
    using run ended [of Ended] ended [of Crashed] ended [of Stuck]
    by (auto simp: contract_task_descriptor launch_goroutine_def RegisterMachineStates_eq split: option.splits sum.splits go.splits)
       (auto simp: outcome_def)
qed

end
