(* ===== verification/Schedules.thy ===== *)
theory Schedules
  imports Interleaving
begin

text \<open>
  What holds of the interleaved goroutines of the syncer under every schedule: what the table, the goroutines and the stored
  contracts keep, who is stored in the end, how long a schedule can be, and that the orders of whole goroutines are among the
  schedules.
\<close>

section \<open>What every schedule keeps\<close>

text \<open>A goroutine between two iterations: its handler table is in place, its mutex is free, it lists no state twice, and the
  contract that it found stored is in the table \<open>t\<close>, under the id it found and under its own key.\<close>

fun goroutine_ok :: "'x env \<Rightarrow> contracts_db \<Rightarrow> 'x goroutine \<Rightarrow> bool" where
  "goroutine_ok env t (Unpacking direction sm) = (running env sm \<and> distinct (completedStates (dt_descriptor (sm_data sm)))
     \<and> distinct (failedStates (dt_descriptor (sm_data sm))) \<and> model_at env (dt_descriptor (sm_data sm)) t)"
| "goroutine_ok env t _ = True"

definition process_ok :: "('r, 'x) service \<Rightarrow> ('r, 'x) process_state \<Rightarrow> bool" where
  "process_ok srv s \<longleftrightarrow> db_wf (w_db (fst s)) \<and> list_all (goroutine_ok (sv_env srv) (w_db (fst s))) (snd s)"

lemma inactive_ok: "\<not> active g \<Longrightarrow> goroutine_ok env t g"
  by (cases g) auto

lemma goroutine_ok_mono: "goroutine_ok env t g \<Longrightarrow> row_ids t \<subseteq> row_ids t' \<Longrightarrow> goroutine_ok env t' g"
  by (cases g) (auto intro: model_at_mono)

text \<open>What a step of a goroutine does to the data: they evolve, and what was settled and landed stays so.\<close>

definition keeps :: "'x env \<Rightarrow> 'x data \<Rightarrow> 'x data \<Rightarrow> bool" where
  "keeps env d d' \<longleftrightarrow> evolves d d' \<and> lands env d d'"

lemma iteration_keeps:
  assumes "running env sm"
  shows "case process_iter sm of Next sm' \<Rightarrow> running env sm' \<and> keeps env (sm_data sm) (sm_data sm')
    | Stop r \<Rightarrow> keeps env (sm_data sm) (snd (unpacked dir r)) \<and> \<not> (\<exists>d sm'. fst (unpacked dir r) = Unpacking d sm')"
proof -
  have st: "states sm = Some (unpack_handlers env)" using assms by (simp add: running_def)
  show ?thesis
    using evolving.iteration_related [OF st] landing_run.iteration_related [OF st] weight_decreases [OF assms]
    by (cases "process_iter sm") (auto simp: keeps_def unpacked_def split: go.splits option.splits)
qed

lemma keeps_world:
  assumes "keeps env (to_data x w) d" and "db_wf (w_db w)" and "model_at env x (w_db w)"
  shows "db_wf (w_db (from_data w d)) \<and> row_ids (w_db w) \<subseteq> row_ids (w_db (from_data w d)) \<and> model_at env (dt_descriptor d) (w_db (from_data w d))"
  using assms by (simp add: keeps_def lands_def settles_def settled_def to_data_def from_data_def)

lemma keeps_distinct:
  assumes "keeps env (to_data x w) d" and "db_wf (w_db w)" and "distinct (completedStates x)" and "distinct (failedStates x)"
  shows "distinct (completedStates (dt_descriptor d)) \<and> distinct (failedStates (dt_descriptor d))"
  using assms by (simp add: keeps_def evolves_def data_ok_def to_data_def)

lemma goroutine_step_ok:
  assumes "goroutine_step srv g w = (g', w')" and "db_wf (w_db w)" and "goroutine_ok (sv_env srv) (w_db w) g"
  shows "db_wf (w_db w') \<and> row_ids (w_db w) \<subseteq> row_ids (w_db w') \<and> goroutine_ok (sv_env srv) (w_db w') g'"
proof (cases g)
  case (Unpacking dir sm)
  let ?sm = "load_world w sm" and ?x = "dt_descriptor (sm_data sm)"
  have data: "sm_data ?sm = to_data ?x w" by (simp add: load_world_def)
  have run: "running (sv_env srv) ?sm" and x: "model_at (sv_env srv) ?x (w_db w)" "distinct (completedStates ?x)" "distinct (failedStates ?x)"
    using assms(3) Unpacking by simp_all
  note world = keeps_world [OF _ assms(2) x(1)] and lists = keeps_distinct [OF _ assms(2) x(2,3)]
  show ?thesis
  proof (cases "process_iter ?sm")
    case (Next sm')
    with iteration_keeps [OF run] data have "running (sv_env srv) sm'" "keeps (sv_env srv) (to_data ?x w) (sm_data sm')" by simp_all
    with world lists assms(1) Unpacking Next show ?thesis by (auto simp: goroutine_step_def)
  next
    case (Stop r)
    with iteration_keeps [OF run, of dir] data have "keeps (sv_env srv) (to_data ?x w) (snd (unpacked dir r))"
      "goroutine_ok (sv_env srv) t (fst (unpacked dir r))" for t
      by (simp, cases "fst (unpacked dir r)") auto
    with world Stop assms(1) Unpacking show ?thesis by (cases "unpacked dir r") (auto simp: goroutine_step_def)
  qed
next
  case (Recording dir x)
  then show ?thesis using Recording_step [of srv dir x w] assms inactive_ok [of g'] by auto
qed (use assms in \<open>auto simp: goroutine_step_def\<close>)

lemma entry_descriptor_fresh:
  "entry_descriptor srv e = Returns (Inr d) \<Longrightarrow> completedStates d = [] \<and> failedStates d = [] \<and> d_nextState d = [] \<and> contractModel d = None"
  by (auto simp: entry_descriptor_def split: sum.splits option.splits go.splits)

text \<open>A goroutine that starts: at discovery, with a descriptor that lists no state, or ended already.\<close>

definition fresh_goroutine :: "('r, 'x) service \<Rightarrow> 'x goroutine \<Rightarrow> bool" where
  "fresh_goroutine srv g \<longleftrightarrow> \<not> active g \<or> (\<exists>dir ctx desc (w :: ('r, 'x) world). g = Unpacking dir (unpack_machine (sv_env srv) ctx DiscoverState (to_data desc w))
      \<and> completedStates desc = [] \<and> failedStates desc = [] \<and> d_nextState desc = [] \<and> contractModel desc = None)"

lemma fresh_cases:
  fixes srv :: "('r, 'x) service"
  assumes "fresh_goroutine srv g"
  obtains dir ctx desc and w :: "('r, 'x) world" where "g = Unpacking dir (unpack_machine (sv_env srv) ctx DiscoverState (to_data desc w))"
    "completedStates desc = []" "failedStates desc = []" "d_nextState desc = []" "contractModel desc = None"
  | "\<not> active g"
  using assms by (auto simp: fresh_goroutine_def)

lemma launch_fresh: "fresh_goroutine srv (launch_goroutine srv ctx dir e w)"
  unfolding fresh_goroutine_def
  by (auto simp: launch_goroutine_def RegisterMachineStates_eq split: option.splits sum.splits go.splits dest: entry_descriptor_fresh)

lemma answer_fresh: "fresh_goroutine srv (answer_goroutine srv ctx e w)"
  unfolding fresh_goroutine_def
  by (auto simp: answer_goroutine_def RegisterMachineStates_eq split: option.splits sum.splits go.splits dest: entry_descriptor_fresh)

lemma ended_fresh: "fresh_goroutine srv Ended"
  by (simp add: fresh_goroutine_def)

text \<open>A request reads the table and nothing more until its goroutine steps.\<close>

lemma rpc_start:
  assumes "rpc_goroutine srv so ctx n a w = (g, w')"
  shows "fresh_goroutine srv g \<and> (w' = w \<or> w' = w\<lparr>w_db := w_db w\<lparr>db_faults := advance (db_faults (w_db w))\<rparr>\<rparr>)"
proof -
  let ?q = "GetContractByAddress (e_codec (sv_env srv)) so (ToBig (e_solgo (sv_env srv)) n) (HexToAddress (e_codec (sv_env srv)) a) (w_db w)"
  have t: "snd ?q = w_db w\<lparr>db_faults := advance (db_faults (w_db w))\<rparr>" by (rule GetContractByAddress_db)
  show ?thesis
  proof (cases ?q)
    case (Pair r t')
    with t assms show ?thesis
      by (auto simp: rpc_goroutine_def Let_def ended_fresh answer_fresh split: if_splits sum.splits option.splits)
  qed
qed

lemma rpc_db:
  assumes "rpc_goroutine srv so ctx n a w = (g, w')"
  shows "row_ids (w_db w') = row_ids (w_db w) \<and> (db_wf (w_db w) \<longrightarrow> db_wf (w_db w')) \<and> (honest_faults (w_db w) \<longrightarrow> honest_faults (w_db w'))"
  using rpc_start [OF assms] by (auto simp: row_ids_def db_wf_def honest_advance)

lemma fresh_ok:
  assumes "fresh_goroutine srv g"
  shows "goroutine_ok (sv_env srv) t g"
  using assms
proof (cases rule: fresh_cases)
  case (1 dir ctx desc w)
  have "sm_data (unpack_machine (sv_env srv) ctx DiscoverState (to_data desc w)) = to_data desc w"
    by (simp add: unpack_machine_def NewStateMachine_def)
  with 1 show ?thesis by (simp add: to_data_def model_at_def)
qed (rule inactive_ok)

lemmas launch_ok = fresh_ok [OF launch_fresh]

lemma inter_step_ok:
  "inter_step srv s s' \<Longrightarrow> process_ok srv s \<Longrightarrow> process_ok srv s' \<and> row_ids (w_db (fst s)) \<subseteq> row_ids (w_db (fst s'))"
proof (induction rule: inter_step.induct)
  case (launch gs w ts1 dir e ts2 w' ctx)
  then show ?case by (auto simp: process_ok_def launch_ok)
next
  case (advance gs i w g w')
  then have ok: "db_wf (w_db w') \<and> row_ids (w_db w) \<subseteq> row_ids (w_db w') \<and> goroutine_ok (sv_env srv) (w_db w') g"
    by (intro goroutine_step_ok [OF advance(4)]) (auto simp: process_ok_def list_all_length)
  with advance show ?case
    by (auto simp: process_ok_def list_all_length nth_list_update intro: goroutine_ok_mono)
next
  case (block gs network networkId dir b w r err w')
  then show ?case using intercept_loop_db [of srv network networkId dir b "blk_Transactions b" w]
    by (auto simp: BlockInterceptor_def process_ok_def)
next
  case (request gs ctx ev w err ev' w')
  then show ?case using UnpackerInterceptor_keeps [OF request(2)]
    by (auto simp: db_kept_def process_ok_def list_all_iff intro: goroutine_ok_mono)
next
  case (rpc gs so ctx n a w g w')
  then show ?case using rpc_db [OF rpc(2)] rpc_start [OF rpc(2)]
    by (auto simp: process_ok_def list_all_iff fresh_ok intro: goroutine_ok_mono)
qed

lemma inter_reachable_ok: "inter_reachable srv w0 s \<Longrightarrow> db_wf (w_db w0) \<Longrightarrow> process_ok srv s"
  by (induction rule: inter_reachable.induct) (auto dest: inter_step_ok, simp add: process_ok_def)

lemma steps_keep_ids:
  assumes "(inter_step srv)\<^sup>*\<^sup>* s s'" and "process_ok srv s"
  shows "process_ok srv s' \<and> row_ids (w_db (fst s)) \<subseteq> row_ids (w_db (fst s'))"
  using assms(1)
proof (induction rule: rtranclp_induct)
  case (step s1 s2)
  then show ?case using inter_step_ok [of srv s1 s2] by auto
qed (simp add: assms(2))

section \<open>Who completes is stored\<close>

text \<open>A goroutine that is unpacking or about to record its block has a row for its contract if it completed the final state.\<close>

fun goroutine_landed :: "'x env \<Rightarrow> contracts_db \<Rightarrow> 'x goroutine \<Rightarrow> bool" where
  "goroutine_landed env t (Unpacking direction sm) = stored_if_final env (dt_descriptor (sm_data sm)) t"
| "goroutine_landed env t (Recording direction desc) = stored_if_final env desc t"
| "goroutine_landed env t _ = True"

definition process_landed :: "('r, 'x) service \<Rightarrow> ('r, 'x) process_state \<Rightarrow> bool" where
  "process_landed srv s \<longleftrightarrow> codec_documented (e_codec (sv_env srv)) \<and> honest_faults (w_db (fst s))
     \<and> list_all (goroutine_landed (sv_env srv) (w_db (fst s))) (snd s)"

lemma goroutine_landed_mono: "goroutine_landed env t g \<Longrightarrow> row_ids t \<subseteq> row_ids t' \<Longrightarrow> goroutine_landed env t' g"
  by (cases g) (auto intro: stored_if_final_mono)

lemma inactive_landed: "\<not> active g \<Longrightarrow> goroutine_landed env t g"
  by (cases g) auto

lemma fresh_landed:
  assumes "fresh_goroutine srv g"
  shows "goroutine_landed (sv_env srv) t g"
  using assms
proof (cases rule: fresh_cases)
  case (1 dir ctx desc w)
  then show ?thesis by (simp add: stored_if_final_def unpack_machine_def NewStateMachine_def to_data_def)
qed (rule inactive_landed)

lemmas launch_landed = fresh_landed [OF launch_fresh]

lemma keeps_landed:
  assumes "keeps env (to_data x w) d" and "db_wf (w_db w)" and "model_at env x (w_db w)"
    and "codec_documented (e_codec env)" and "honest_faults (w_db w)" and "stored_if_final env x (w_db w)"
  shows "honest_faults (w_db (from_data w d)) \<and> stored_if_final env (dt_descriptor d) (w_db (from_data w d))"
  using assms by (simp add: keeps_def lands_def landed_def settled_def to_data_def from_data_def)

lemma unpacked_landed:
  "stored_if_final env (dt_descriptor (snd (unpacked dir r))) t \<Longrightarrow> goroutine_landed env t (fst (unpacked dir r))"
  by (auto simp: unpacked_def split: go.splits option.splits)

lemma goroutine_step_landed:
  assumes "goroutine_step srv g w = (g', w')" and "db_wf (w_db w)" and "goroutine_ok (sv_env srv) (w_db w) g"
    and "codec_documented (e_codec (sv_env srv))" and "honest_faults (w_db w)" and "goroutine_landed (sv_env srv) (w_db w) g"
  shows "honest_faults (w_db w') \<and> goroutine_landed (sv_env srv) (w_db w') g'"
proof (cases g)
  case (Unpacking dir sm)
  let ?sm = "load_world w sm" and ?x = "dt_descriptor (sm_data sm)"
  have data: "sm_data ?sm = to_data ?x w" by (simp add: load_world_def)
  have run: "running (sv_env srv) ?sm" and x: "model_at (sv_env srv) ?x (w_db w)" "stored_if_final (sv_env srv) ?x (w_db w)"
    using assms(3,6) Unpacking by simp_all
  note world = keeps_landed [OF _ assms(2) x(1) assms(4,5) x(2)]
  show ?thesis
  proof (cases "process_iter ?sm")
    case (Next sm')
    with iteration_keeps [OF run] data have "keeps (sv_env srv) (to_data ?x w) (sm_data sm')" by simp
    with world assms(1) Unpacking Next show ?thesis by (auto simp: goroutine_step_def)
  next
    case (Stop r)
    with iteration_keeps [OF run, of dir] data have "keeps (sv_env srv) (to_data ?x w) (snd (unpacked dir r))" by simp
    from world [OF this] unpacked_landed [of "sv_env srv" dir r] Stop assms(1) Unpacking show ?thesis
      by (cases "unpacked dir r") (auto simp: goroutine_step_def)
  qed
next
  case (Recording dir x)
  then show ?thesis using Recording_step [of srv dir x w] assms inactive_landed [of g'] by auto
qed (use assms in \<open>auto simp: goroutine_step_def\<close>)

lemma inter_step_landed: "inter_step srv s s' \<Longrightarrow> process_ok srv s \<Longrightarrow> process_landed srv s \<Longrightarrow> process_landed srv s'"
proof (induction rule: inter_step.induct)
  case (launch gs w ts1 dir e ts2 w' ctx)
  then show ?case by (auto simp: process_landed_def launch_landed)
next
  case (advance gs i w g w')
  then have ok: "honest_faults (w_db w') \<and> goroutine_landed (sv_env srv) (w_db w') g"
    by (intro goroutine_step_landed [OF advance(4)]) (auto simp: process_ok_def process_landed_def list_all_length)
  have "row_ids (w_db w) \<subseteq> row_ids (w_db w')"
    using inter_step_ok [OF inter_step.advance [OF advance(1-4)] advance(5)] by simp
  with ok advance show ?case
    by (auto simp: process_landed_def list_all_length nth_list_update intro: goroutine_landed_mono)
next
  case (block gs network networkId dir b w r err w')
  then show ?case using intercept_loop_db [of srv network networkId dir b "blk_Transactions b" w]
    by (auto simp: BlockInterceptor_def process_landed_def)
next
  case (request gs ctx ev w err ev' w')
  then show ?case using UnpackerInterceptor_keeps [OF request(2)]
    by (auto simp: db_kept_def process_ok_def process_landed_def list_all_iff intro: goroutine_landed_mono)
next
  case (rpc gs so ctx n a w g w')
  then show ?case using rpc_db [OF rpc(2)] rpc_start [OF rpc(2)]
    by (auto simp: process_landed_def list_all_iff fresh_landed intro: goroutine_landed_mono)
qed

lemma inter_reachable_landed:
  assumes "inter_reachable srv w0 s" and "db_wf (w_db w0)" and "honest_faults (w_db w0)" and "codec_documented (e_codec (sv_env srv))"
  shows "process_landed srv s"
  using assms(1)
proof (induction rule: inter_reachable.induct)
  case (step s s')
  then show ?case using inter_step_landed inter_reachable_ok [OF step(1) assms(2)] by blast
qed (simp add: process_landed_def assms(3,4))

section \<open>How long a schedule can be\<close>

text \<open>A creation goes through the pipeline once: discovery first, and then every iteration moves on.\<close>

definition on_course :: "'x env \<Rightarrow> 'x data StateMachine \<Rightarrow> bool" where
  "on_course env sm \<longleftrightarrow> running env sm \<and> d_nextState (dt_descriptor (sm_data sm)) = [] \<and> 2 \<le> rank (currentState sm)
     \<and> (currentState sm = DiscoverState \<or> DiscoverState \<in> set (completedStates (dt_descriptor (sm_data sm))))"

fun steps_left :: "'x goroutine \<Rightarrow> nat" where
  "steps_left (Unpacking direction sm) = rank (currentState sm)"
| "steps_left (Recording direction desc) = 1"
| "steps_left _ = 0"

fun goroutine_course :: "'x env \<Rightarrow> 'x goroutine \<Rightarrow> bool" where
  "goroutine_course env (Unpacking direction sm) = on_course env sm"
| "goroutine_course env _ = True"

lemma rank_pipeline: "succ_of s = Some n \<Longrightarrow> n \<noteq> DoneState \<Longrightarrow> 2 \<le> rank n"
  by (auto simp: succ_of_def rank_def split: if_splits)

lemma on_course_Next:
  assumes "on_course env sm" and "process_iter sm = Next sm'"
  shows "on_course env sm' \<and> rank (currentState sm') < rank (currentState sm)"
proof -
  have run: "running env sm" "running env sm'" using assms weight_decreases by (auto simp: on_course_def)
  from unpack_iter_Next [OF run(1) assms(2)] obtain g n d where
    g: "process_of env (currentState sm) = Some g" and r: "g (sm_data sm) = Returns (n, d, None)"
    and n: "n \<noteq> DoneState" and sm': "sm' = entered n (after sm d)" by metis
  have "d_nextState (dt_descriptor d) = [] \<and> 2 \<le> rank n \<and> DiscoverState \<in> set (completedStates (dt_descriptor d))
    \<and> rank n < rank (currentState sm)"
    using g
  proof (cases rule: process_of_cases)
    case 1
    with r n route_discover [of "sm_data sm" env] assms(1) show ?thesis by (auto simp: discover_route_def on_course_def)
  next
    case 2
    with r n route_error [of "sm_data sm" env] show ?thesis by simp
  next
    case (3 m)
    with r have "route m (sm_data sm) (Returns (n, d, None))" by metis
    with 3(1) rank_succ [OF 3(1)] rank_pipeline [OF 3(1)] n assms(1) show ?thesis by (auto simp: route_def on_course_def evolves_def)
  qed
  then show ?thesis using run(2) by (simp add: sm' after_def on_course_def)
qed

lemma inactive_course: "\<not> active g \<Longrightarrow> goroutine_course env g \<and> steps_left g = 0"
  by (cases g) auto

lemma goroutine_step_course:
  assumes "goroutine_step srv g w = (g', w')" and "active g" and "goroutine_course (sv_env srv) g"
  shows "goroutine_course (sv_env srv) g' \<and> steps_left g' < steps_left g"
proof (cases g)
  case (Unpacking dir sm)
  have course: "on_course (sv_env srv) (load_world w sm)" "rank (currentState (load_world w sm)) = rank (currentState sm)"
    using assms(3) Unpacking by (simp_all add: on_course_def load_world_def running_def to_data_def)
  have un: "goroutine_course (sv_env srv) (fst (unpacked dir r)) \<and> steps_left (fst (unpacked dir r)) \<le> 1" for r
    by (auto simp: unpacked_def split: go.splits option.splits)
  show ?thesis
  proof (cases "process_iter (load_world w sm)")
    case (Next sm')
    with on_course_Next [OF course(1)] course(2) assms(1) Unpacking show ?thesis by (auto simp: goroutine_step_def)
  next
    case (Stop r)
    moreover have "2 \<le> rank (currentState sm)" using assms(3) Unpacking by (simp add: on_course_def)
    ultimately show ?thesis using un [of r] assms(1) Unpacking by (cases "unpacked dir r") (auto simp: goroutine_step_def)
  qed
next
  case (Recording dir x)
  then show ?thesis using Recording_step [of srv dir x w] assms inactive_course [of g'] by auto
qed (use assms in auto)

lemma fresh_course:
  assumes "fresh_goroutine srv g"
  shows "goroutine_course (sv_env srv) g"
  using assms
proof (cases rule: fresh_cases)
  case (1 dir ctx desc w)
  then show ?thesis
    using running_machine [of "sv_env srv" ctx DiscoverState "to_data desc w"]
    by (simp add: on_course_def to_data_def unpack_machine_def NewStateMachine_def)
qed (simp add: inactive_course)

lemmas launch_course = fresh_course [OF launch_fresh]

lemma steps_left_bound: "steps_left g \<le> 8"
  by (cases g) (simp_all add: rank_bounds)

lemma inter_reachable_course: "inter_reachable srv w0 s \<Longrightarrow> list_all (goroutine_course (sv_env srv)) (snd s)"
proof (induction rule: inter_reachable.induct)
  case (step s s')
  from step(2,3) show ?case
    by (cases rule: inter_step.cases)
       (auto simp: launch_course list_all_length nth_list_update nth_append less_Suc_eq dest: goroutine_step_course rpc_start fresh_course)
qed simp

definition all_steps_left :: "'x goroutine list \<Rightarrow> nat" where
  "all_steps_left gs = sum_list (map steps_left gs)"

lemma all_steps_left_bound: "all_steps_left gs \<le> 8 * length gs"
  using steps_left_bound by (induction gs) (auto simp: all_steps_left_def intro: add_le_mono)

lemma schedule_step:
  assumes "goroutine_step srv (gs ! i) w = (g, w')" and "i < length gs" and "active (gs ! i)"
    and "list_all (goroutine_course (sv_env srv)) gs"
  shows "list_all (goroutine_course (sv_env srv)) (gs[i := g]) \<and> all_steps_left (gs[i := g]) < all_steps_left gs"
proof -
  have "goroutine_course (sv_env srv) g \<and> steps_left g < steps_left (gs ! i)"
    using assms by (intro goroutine_step_course) (auto simp: list_all_length)
  moreover have "steps_left (gs ! i) \<le> all_steps_left gs"
    using assms(2) by (auto simp: all_steps_left_def intro: member_le_sum_list)
  ultimately show ?thesis using assms(2,4)
    by (auto simp: list_all_length nth_list_update all_steps_left_def map_update sum_list_update)
qed

lemma schedule_bounded:
  assumes "run_schedule srv sched (w, gs) = Some (w', gs')" and "list_all (goroutine_course (sv_env srv)) gs"
  shows "length sched + all_steps_left gs' \<le> all_steps_left gs \<and> list_all (goroutine_course (sv_env srv)) gs'"
  using assms
proof (induction sched arbitrary: w gs)
  case (Cons i sched)
  then show ?case
    using schedule_step [of srv gs i w] by (fastforce split: if_splits prod.splits)
qed simp

lemma schedule_extends:
  assumes "list_all (goroutine_course (sv_env srv)) gs"
  shows "\<exists>rest w' gs'. run_schedule srv rest (w, gs) = Some (w', gs') \<and> (process_alive gs' \<longrightarrow> list_all (\<lambda>g. \<not> active g) gs')"
  using assms
proof (induction "all_steps_left gs" arbitrary: w gs rule: less_induct)
  case less
  show ?case
  proof (cases "process_alive gs \<and> (\<exists>i < length gs. active (gs ! i))")
    case True
    then obtain i where i: "i < length gs" "active (gs ! i)" by blast
    obtain g w1 where g: "goroutine_step srv (gs ! i) w = (g, w1)" by force
    from schedule_step [OF g i less.prems] less.hyps [of "gs[i := g]" w1] obtain rest w' gs' where
      "run_schedule srv rest (w1, gs[i := g]) = Some (w', gs')" "process_alive gs' \<longrightarrow> list_all (\<lambda>g. \<not> active g) gs'" by blast
    with True i g show ?thesis by (intro exI [of _ "i # rest"] exI [of _ w'] exI [of _ gs']) simp
  next
    case False
    then show ?thesis by (intro exI [of _ "[]"]) (auto simp: list_all_length)
  qed
qed

lemma run_schedule_append: "run_schedule srv (xs @ ys) s = Option.bind (run_schedule srv xs s) (run_schedule srv ys)"
  by (induction srv xs s rule: run_schedule.induct) (auto split: prod.splits)

section \<open>Schedules are runs of the system\<close>

lemma run_schedule_steps: "run_schedule srv sched s = Some s' \<Longrightarrow> (inter_step srv)\<^sup>*\<^sup>* s s'"
proof (induction srv sched s rule: run_schedule.induct)
  case (2 srv i sched w gs)
  then show ?case by (auto split: if_splits prod.splits intro: converse_rtranclp_into_rtranclp inter_step.advance)
qed simp

lemma steps_reachable: "(inter_step srv)\<^sup>*\<^sup>* s s' \<Longrightarrow> inter_reachable srv w0 s \<Longrightarrow> inter_reachable srv w0 s'"
  by (induction rule: rtranclp_induct) (auto intro: inter_reachable.step)

lemmas run_schedule_reachable = steps_reachable [OF run_schedule_steps]

text \<open>A goroutine that is not interrupted while the others have ended.\<close>

lemma solo_reachable:
  assumes "solo srv g w = Some r" and "list_all (\<lambda>g. g = Ended) gs" and "inter_reachable srv w0 (w, gs @ [g])"
  shows "inter_reachable srv w0 (snd r, gs @ [fst r]) \<and> \<not> active (fst r)"
  using assms
proof (induction "steps_left g" arbitrary: g w rule: less_induct)
  case less
  show ?case
  proof (cases "active g")
    case True
    obtain g' w' where g': "goroutine_step srv g w = (g', w')" by force
    have "process_alive (gs @ [g])"
      using less.prems(2) True by (cases g) (auto simp: process_alive_def list_all_iff list_ex_iff)
    then have "inter_step srv (w, gs @ [g]) (w', (gs @ [g])[length gs := g'])"
      using True g' by (intro inter_step.advance) simp_all
    with less.prems(3) have "inter_reachable srv w0 (w', gs @ [g'])" using inter_reachable.step by fastforce
    moreover have "steps_left g' < steps_left g"
      using goroutine_step_course [OF g' True] inter_reachable_course [OF less.prems(3)] by simp
    ultimately show ?thesis using less.hyps [of g' w'] less.prems(1,2) solo_step [OF True g'] by simp
  qed (use less.prems in \<open>auto simp: solo_done\<close>)
qed

text \<open>The orders of whole goroutines of \<open>Syncer.sync_step\<close>, with the blocks and requests in between, are among the schedules.\<close>

lemma sync_inter_reachable: "sync_reachable srv w0 w \<Longrightarrow> \<exists>n. inter_reachable srv w0 (w, replicate n Ended)"
proof (induction rule: sync_reachable.induct)
  case init
  show ?case using inter_reachable.init [of srv w0] by (intro exI [of _ 0]) simp
next
  case (step w w')
  then obtain n where n: "inter_reachable srv w0 (w, replicate n Ended)" by blast
  have alive: "process_alive (replicate n Ended)" "list_all (\<lambda>g. g = Ended) (replicate n Ended)"
    by (simp_all add: process_alive_def list_ex_iff list_all_iff)
  from step(2) show ?case
  proof (cases rule: sync_step.cases)
    case (run ts1 dir e ts2 ctx)
    let ?v = "w\<lparr>w_tasks := ts1 @ ts2\<rparr>"
    let ?g = "launch_goroutine srv ctx dir e ?v"
    from inter_step.launch [OF alive(1) run(1) refl] n have "inter_reachable srv w0 (?v, replicate n Ended @ [?g])"
      by (blast intro: inter_reachable.step)
    moreover obtain g w2 where g: "solo srv ?g ?v = Some (g, w2)" "contract_task srv ctx dir e ?v = outcome g w2"
      using solo_launch by blast
    ultimately have "inter_reachable srv w0 (w2, replicate n Ended @ [g]) \<and> \<not> active g"
      using solo_reachable [OF g(1) alive(2)] by simp
    moreover have "w2 = w'" "\<not> active g \<Longrightarrow> g = Ended" using g(2) run(2) by (cases g; simp add: outcome_def)+
    ultimately show ?thesis by (intro exI [of _ "Suc n"]) (simp add: replicate_append_same)
  qed (use n alive(1) inter_step.block inter_step.request inter_reachable.step in \<open>fast intro: inter_reachable.step inter_step.block inter_step.request\<close>)+
qed

section \<open>An instance\<close>

text \<open>The creation in block 17 seen by both subscribers: two goroutines for the same contract, which take turns.\<close>

definition twin_goroutines :: "(string \<rightharpoonup> byte list, string) process_state" where
  "twin_goroutines = (plain_world, [launch_goroutine plain_service Background ''head'' (creation_entry 17) plain_world,
     launch_goroutine plain_service Background ''archive'' (creation_entry 17) plain_world])"

lemma launch_tasks [simp]: "launch_goroutine srv ctx dir e (w\<lparr>w_tasks := ts\<rparr>) = launch_goroutine srv ctx dir e w"
proof -
  have "to_data d (w\<lparr>w_tasks := ts\<rparr>) = to_data d w" for d by (simp add: to_data_def)
  then show ?thesis by (simp only: launch_goroutine_def)
qed

lemma plain_tasks: "w_tasks plain_world = []" "plain_world\<lparr>w_tasks := []\<rparr> = plain_world"
  by (simp_all add: plain_world_def)

definition block_17 :: Block where
  "block_17 = \<lparr>blk_Header = \<lparr>hd_Number = 17, hd_Hash = 3\<rparr>, blk_Transactions = [\<lparr>tx_Hash = 4, tx_To = None\<rparr>]\<rparr>"

lemma intercept_17:
  "BlockInterceptor plain_service ''ethereum'' 1 dir block_17 w
     = Returns ((Some block_17, None), w\<lparr>w_tasks := w_tasks w @ [(dir, creation_entry 17)]\<rparr>)"
  by (simp add: BlockInterceptor_def block_17_def plain_service_def plain_chain_def creation_entry_def)

lemma twin_alive: "process_alive []" "process_alive [launch_goroutine plain_service Background dir (creation_entry 17) plain_world]"
  by code_simp (simp add: process_alive_def launch_goroutine_def plain_service_def plain_chain_def creation_entry_def plain_client_def
    entry_descriptor_def RegisterMachineStates_eq)

lemma launch_reachable:
  assumes "inter_reachable srv w0 (w, gs)" and "process_alive gs" and "w_tasks w = (dir, e) # ts"
  shows "inter_reachable srv w0 (w\<lparr>w_tasks := ts\<rparr>, gs @ [launch_goroutine srv ctx dir e w])"
proof -
  have "inter_step srv (w, gs) (w\<lparr>w_tasks := ts\<rparr>, gs @ [launch_goroutine srv ctx dir e (w\<lparr>w_tasks := ts\<rparr>)])"
    using assms(2,3) by (intro inter_step.launch [where ?ts1.0 = "[]" and ?ts2.0 = ts]) simp_all
  with assms(1) show ?thesis by (simp add: inter_reachable.step)
qed

lemma block_17_reachable:
  assumes "inter_reachable plain_service w0 (w, gs)" and "process_alive gs"
  shows "inter_reachable plain_service w0 (w\<lparr>w_tasks := w_tasks w @ [(dir, creation_entry 17)]\<rparr>, gs)"
  using assms(1) inter_step.block [OF assms(2) intercept_17] by (rule inter_reachable.step)

lemma twin_reachable: "inter_reachable plain_service plain_world twin_goroutines"
proof -
  let ?g = "\<lambda>dir. launch_goroutine plain_service Background dir (creation_entry 17) plain_world"
  let ?w = "\<lambda>ts. plain_world\<lparr>w_tasks := ts\<rparr>"
  have "inter_reachable plain_service plain_world (?w [(''head'', creation_entry 17)], [])"
    using block_17_reachable [OF inter_reachable.init twin_alive(1), of plain_world "''head''"] by (simp add: plain_tasks)
  then have "inter_reachable plain_service plain_world (?w [(''head'', creation_entry 17), (''archive'', creation_entry 17)], [])"
    using block_17_reachable [OF _ twin_alive(1), of plain_world "?w [(''head'', creation_entry 17)]" "''archive''"] by simp
  from launch_reachable [OF this twin_alive(1), of _ _ _ Background]
  have "inter_reachable plain_service plain_world (?w [(''archive'', creation_entry 17)], [?g ''head''])" by simp
  from launch_reachable [OF this twin_alive(2), of _ _ _ Background]
  have "inter_reachable plain_service plain_world (?w [], [?g ''head'', ?g ''archive''])" by simp
  then show ?thesis by (simp add: twin_goroutines_def plain_tasks)
qed

text \<open>Three turns each: both goroutines have found no stored contract and are about to collect the sources.\<close>

fun at_state :: "State \<Rightarrow> 'x goroutine \<Rightarrow> bool" where
  "at_state s (Unpacking direction sm) = (currentState sm = s)"
| "at_state s _ = False"

definition both_at :: "State \<Rightarrow> (string \<rightharpoonup> byte list, string) process_state option \<Rightarrow> bool" where
  "both_at s r = (case r of Some (w, [g1, g2]) \<Rightarrow> at_state s g1 \<and> at_state s g2 | _ \<Rightarrow> False)"

lemma at_state_iff: "at_state s g \<longleftrightarrow> (\<exists>d sm. g = Unpacking d sm \<and> currentState sm = s)"
  by (cases g) auto

lemma both_at_iff: "both_at s r \<longleftrightarrow> (\<exists>w d1 sm1 d2 sm2. r = Some (w, [Unpacking d1 sm1, Unpacking d2 sm2]) \<and> currentState sm1 = s \<and> currentState sm2 = s)"
  by (auto simp: both_at_def at_state_iff split: option.splits prod.splits list.splits)

lemma twin_run: "both_at SourcesState (run_schedule plain_service [0, 1, 0, 1, 0, 1] twin_goroutines)"
  by code_simp

lemmas twin_run' = twin_run [unfolded both_at_iff]

text \<open>The goroutine of a creation that runs alone, up to the end of its unpacking.\<close>

lemma alone_unpacked:
  assumes "running (sv_env srv) sm" and "load_world w sm = sm" and "Process sm = Some r"
    and "inter_reachable srv w0 (w, [Unpacking dir sm])"
  shows "inter_reachable srv w0 (from_data w (snd (unpacked dir r)), [fst (unpacked dir r)])"
  using assms
proof (induction "weight (currentState sm) (dt_descriptor (sm_data sm))" arbitrary: sm w rule: less_induct)
  case less
  have advance: "inter_reachable srv w0 (w', [g'])" if "goroutine_step srv (Unpacking dir sm) w = (g', w')" for g' w'
  proof -
    have "inter_step srv (w, [Unpacking dir sm]) (w', [Unpacking dir sm][0 := g'])"
      using that by (intro inter_step.advance) (simp_all add: process_alive_def)
    with less.prems(4) show ?thesis using inter_reachable.step by fastforce
  qed
  show ?case
  proof (cases "process_iter sm")
    case (Next sm')
    with less.prems(2) have "inter_reachable srv w0 (from_data w (sm_data sm'), [Unpacking dir sm'])"
      by (intro advance) (simp add: goroutine_step_def)
    moreover have "Process sm' = Some r" using Next less.prems(3) by (simp add: Process_Next)
    ultimately show ?thesis
      using less.hyps [of sm' "from_data w (sm_data sm')"] weight_decreases [OF less.prems(1) Next] by simp
  next
    case (Stop r')
    with less.prems(3) have "r' = r" by (simp add: Process_Stop)
    with Stop less.prems(2) show ?thesis by (intro advance) (simp add: goroutine_step_def map_prod_def case_prod_unfold)
  qed
qed

lemma alone_recording: "\<exists>w. inter_reachable plain_service plain_world (w, [Recording ''head'' (dt_descriptor example_result)])"
proof -
  let ?sm = "unpack_machine example_env Background DiscoverState example_data"
  have env: "sv_env plain_service = example_env" by (simp add: plain_service_def)
  have "launch_goroutine plain_service Background ''head'' (creation_entry 17) plain_world = Unpacking (Some ''head'') ?sm"
    by (simp add: launch_goroutine_def plain_service_def plain_chain_def creation_entry_def plain_client_def entry_descriptor_def
        RegisterMachineStates_eq GetDescriptor_def SetContract_def example_data_def plain_contract_def example_env_def
        NewDescriptor_def to_data_def plain_world_def)
  with launch_reachable [OF block_17_reachable [OF inter_reachable.init twin_alive(1), of plain_world "''head''"] twin_alive(1), of "''head''" "creation_entry 17" "[]" Background]
  have start: "inter_reachable plain_service plain_world (plain_world, [Unpacking (Some ''head'') ?sm])" by (simp add: plain_tasks)
  obtain r where r: "Process ?sm = Some r" "unpack_result r = Returns (None, example_result)"
    using example_run by (auto simp: Unpack_eq)
  then obtain sm' where sm': "r = Returns (None, sm')" "sm_data sm' = example_result"
    by (cases r) (auto simp: unpack_result_def)
  have "load_world plain_world ?sm = ?sm"
    by (simp add: load_world_def unpack_machine_def NewStateMachine_def to_data_def plain_world_def example_data_def)
  from alone_unpacked [OF _ this r(1) start] env sm' show ?thesis by (auto simp: unpacked_def)
qed

text \<open>A creation that is seen again after it was stored.\<close>

definition stored_world :: plain_world where
  "stored_world = plain_world\<lparr>w_db := dt_db example_result\<rparr>"

definition stored_goroutine :: "string goroutine" where
  "stored_goroutine = launch_goroutine plain_service Background ''head'' (creation_entry 17) stored_world"

lemma stored_wf: "db_wf (w_db stored_world)"
  using Unpack_evolves [OF example_run]
  by (simp add: stored_world_def evolves_def data_ok_def example_data_def NewDescriptor_def)

lemma stored_tasks: "w_tasks stored_world = []" "stored_world\<lparr>w_tasks := []\<rparr> = stored_world"
  by (simp_all add: stored_world_def plain_world_def)

lemma stored_reachable: "inter_reachable plain_service stored_world (stored_world, [stored_goroutine])"
proof -
  have "inter_reachable plain_service stored_world (stored_world\<lparr>w_tasks := [(''head'', creation_entry 17)]\<rparr>, [])"
    using block_17_reachable [OF inter_reachable.init twin_alive(1), of stored_world "''head''"] by (simp add: stored_tasks)
  from launch_reachable [OF this twin_alive(1), of _ _ _ Background] show ?thesis
    by (simp add: stored_goroutine_def stored_tasks)
qed

definition one_ended :: "(string \<rightharpoonup> byte list, string) process_state option \<Rightarrow> bool" where
  "one_ended r = (case r of Some (w, [Ended]) \<Rightarrow> True | _ \<Rightarrow> False)"

lemma one_ended_iff: "one_ended r \<longleftrightarrow> (\<exists>w. r = Some (w, [Ended]))"
  by (auto simp: one_ended_def split: option.splits prod.splits list.splits goroutine.splits)

lemma stored_run: "one_ended (run_schedule plain_service [0, 0] (stored_world, [stored_goroutine]))"
  by code_simp

section \<open>Properties\<close>

text \<open>C7. However the goroutines that unpack contracts take turns, those of creations and those of gRPC requests, and whatever blocks and
  requests arrive in between, the
  contracts table keeps its constraints, and every goroutine that is unpacking has its handler table in place, holds no mutex,
  lists no completed and no failed state twice, and, if it found its contract stored, still has it in the table under the id it
  found, although the others may have changed the table since.\<close>

theorem interleaving_keeps_invariant:
  assumes "inter_reachable srv w0 (w, gs)" and "db_wf (w_db w0)"
  shows "db_wf (w_db w) \<and> list_all (goroutine_ok (sv_env srv) (w_db w)) gs"
  using inter_reachable_ok [OF assms] by (simp add: process_ok_def)

theorem interleaving_keeps_invariant_witness:
  "\<exists>w d1 sm1 d2 sm2. inter_reachable plain_service plain_world (w, [Unpacking d1 sm1, Unpacking d2 sm2]) \<and> db_wf (w_db w)
     \<and> currentState sm1 = SourcesState \<and> currentState sm2 = SourcesState \<and> distinct (completedStates (dt_descriptor (sm_data sm2)))"
proof -
  from twin_run' obtain w d1 sm1 d2 sm2 where run: "run_schedule plain_service [0, 1, 0, 1, 0, 1] twin_goroutines = Some (w, [Unpacking d1 sm1, Unpacking d2 sm2])"
    and at: "currentState sm1 = SourcesState" "currentState sm2 = SourcesState" by blast
  from run_schedule_reachable [OF run twin_reachable]
  have reach: "inter_reachable plain_service plain_world (w, [Unpacking d1 sm1, Unpacking d2 sm2])" .
  from interleaving_keeps_invariant [OF this] have
    "db_wf (w_db w) \<and> list_all (goroutine_ok (sv_env plain_service) (w_db w)) [Unpacking d1 sm1, Unpacking d2 sm2]"
    by (simp add: plain_world_def)
  then have "db_wf (w_db w)" "distinct (completedStates (dt_descriptor (sm_data sm2)))" by simp_all
  with reach at show ?thesis by blast
qed

text \<open>C8. A stored contract is never lost and never moves: whatever the goroutines, the blocks and the requests do from a
  reachable state on, every id of the table keeps its row, and the row keeps its network, block and address.\<close>

theorem stored_contracts_stay:
  assumes "inter_reachable srv w0 s" and "db_wf (w_db w0)" and "(inter_step srv)\<^sup>*\<^sup>* s s'"
  shows "\<forall>r \<in> set (db_rows (w_db (fst s))). \<exists>r' \<in> set (db_rows (w_db (fst s'))). r_id r' = r_id r \<and> row_key r' = row_key r"
  using steps_keep_ids [OF assms(3) inter_reachable_ok [OF assms(1,2)]] by (fastforce simp: row_ids_def)

theorem stored_contracts_stay_witness:
  "\<exists>s'. (inter_step plain_service)\<^sup>*\<^sup>* (stored_world, [stored_goroutine]) s' \<and> snd s' = [Ended]
     \<and> (\<forall>r \<in> set (db_rows (w_db stored_world)). \<exists>r' \<in> set (db_rows (w_db (fst s'))). r_id r' = r_id r \<and> row_key r' = row_key r)"
proof -
  from stored_run obtain w where run: "run_schedule plain_service [0, 0] (stored_world, [stored_goroutine]) = Some (w, [Ended])"
    unfolding one_ended_iff by blast
  from stored_contracts_stay [OF stored_reachable _ run_schedule_steps [OF run]] run_schedule_steps [OF run] show ?thesis
    by (intro exI [of _ "(w, [Ended])"]) (simp add: stored_wf)
qed

text \<open>C9. Who completes is stored, for good: when a goroutine comes to record its block after completing the final state, the
  table has a row under the network, the block and the address of its contract, and has one ever after, under every schedule
  and whichever goroutine wrote it, provided that the encodings behave as documented and no failure of the engine reads like a violated constraint.\<close>

theorem completed_contracts_are_stored:
  assumes "inter_reachable srv w0 (w, gs)" and "db_wf (w_db w0)" and "honest_faults (w_db w0)" and "codec_documented (e_codec (sv_env srv))"
    and "Recording dir x \<in> set gs" and "HasCompletedState x FinalState" and "(inter_step srv)\<^sup>*\<^sup>* (w, gs) (w', gs')"
  shows "\<exists>r \<in> set (db_rows (w_db w')). descriptor_key (sv_env srv) x = Some (row_key r)"
proof -
  have "stored_if_final (sv_env srv) x (w_db w)"
    using inter_reachable_landed [OF assms(1-4)] assms(5) by (fastforce simp: process_landed_def list_all_iff)
  moreover have "row_ids (w_db w) \<subseteq> row_ids (w_db w')"
    using steps_keep_ids [OF assms(7) inter_reachable_ok [OF assms(1,2)]] by simp
  ultimately show ?thesis using assms(6) by (fastforce simp: stored_if_final_def HasCompletedState_iff row_ids_def)
qed

theorem completed_contracts_are_stored_witness:
  "\<exists>w x. inter_reachable plain_service plain_world (w, [Recording ''head'' x]) \<and> HasCompletedState x FinalState
     \<and> (\<exists>r \<in> set (db_rows (w_db w)). descriptor_key example_env x = Some (row_key r))"
proof -
  obtain w x where r: "inter_reachable plain_service plain_world (w, [Recording ''head'' x])" and x: "x = dt_descriptor example_result"
    using alone_recording by blast
  have fin: "HasCompletedState x FinalState" by (simp add: x HasCompletedState_iff example_facts)
  have "sv_env plain_service = example_env" "e_codec example_env = plain_codec" by (simp_all add: plain_service_def example_env_def)
  with completed_contracts_are_stored [OF r, of "''head''" x w "[Recording ''head'' x]"] fin plain_codec_documented
  have "\<exists>r \<in> set (db_rows (w_db w)). descriptor_key example_env x = Some (row_key r)"
    by (simp add: plain_world_def) (simp add: honest_faults_def empty_db_def Background_def)
  with r fin show ?thesis by blast
qed

text \<open>C10. The goroutines of the system always come to an end, under every scheduler: from a reachable state no schedule is
  longer than eight steps per goroutine, and every schedule can be continued until the process has crashed or no goroutine can
  step any more.\<close>

theorem schedules_end:
  assumes "inter_reachable srv w0 (w, gs)" and "run_schedule srv sched (w, gs) = Some (w', gs')"
  shows "length sched \<le> 8 * length gs
     \<and> (\<exists>rest v hs. run_schedule srv (sched @ rest) (w, gs) = Some (v, hs) \<and> (process_alive hs \<longrightarrow> list_all (\<lambda>g. \<not> active g) hs))"
proof -
  have "list_all (goroutine_course (sv_env srv)) gs" using inter_reachable_course [OF assms(1)] by simp
  from schedule_bounded [OF assms(2) this] all_steps_left_bound [of gs] schedule_extends [of srv gs' w'] show ?thesis
    by (auto simp: run_schedule_append assms(2))
qed

theorem schedules_end_witness:
  "length [0, 1, 0, 1, 0, 1 :: nat] \<le> 8 * length (snd twin_goroutines)
     \<and> (\<exists>rest v hs. run_schedule plain_service ([0, 1, 0, 1, 0, 1] @ rest) twin_goroutines = Some (v, hs)
          \<and> (process_alive hs \<longrightarrow> list_all (\<lambda>g. \<not> active g) hs))"
proof -
  obtain w gs where s: "twin_goroutines = (w, gs)" by force
  obtain w' gs' where run: "run_schedule plain_service [0, 1, 0, 1, 0, 1] (w, gs) = Some (w', gs')" using twin_run' s by auto
  from schedules_end [OF twin_reachable [unfolded s] run] show ?thesis by (simp add: s)
qed

end
