(* ===== verification/Failures.thy ===== *)
theory Failures
  imports Interleaving
begin

text \<open>
  What the syncer makes of a creation that could not be unpacked (src/services/syncer/interceptors.go, src/pkg/unpacker/discover.go,
  src/pkg/machine/machine.go): the machine swallows the error, so the goroutine takes the run for a success.
\<close>

section \<open>Lemmas\<close>

text \<open>An error of discovery ends the run without an error.\<close>

lemma discovery_error_swallowed:
  assumes "discover_Process env d = Returns (n, d', Some err)" and "poll ctx = None"
  shows "Unpack env ctx DiscoverState d = Some (Returns (None, d'))"
proof -
  let ?sm = "unpack_machine env ctx DiscoverState d"
  have sm: "sm_ctx ?sm = ctx" "sm_data ?sm = d" "currentState ?sm = DiscoverState"
    by (simp_all add: unpack_machine_def NewStateMachine_def)
  have "map_option unpack_result (Process ?sm) = Some (Returns (None, d'))"
    using run_step [OF running_machine, of env ctx DiscoverState d "discover_Process env"] assms sm
    by (simp add: process_of_def)
  then show ?thesis by (simp add: Unpack_eq)
qed

text \<open>A lookup that the engine fails is an error of discovery.\<close>

lemma lookup_failure:
  assumes "d_Header (dt_descriptor d) = Some h" and "d_Tx (dt_descriptor d) = Some tx" and "d_Receipt (dt_descriptor d) = Some rc"
    and "d_contract (dt_descriptor d) = Some c" and "IsValid (e_solgo env) c = Returns (v, c')" and "ct_descriptor c' = Some cdesc"
    and "u_db (e_unpacker env) = Some conn" and "poll (db_faults (dt_db d)) = Some err" and "\<not> errors_Is err ErrNoRows"
  shows "\<exists>d' e. discover_Process env d = Returns (ErrorState, d', Some e) \<and> db_rows (dt_db d') = db_rows (dt_db d)
    \<and> dt_files d' = dt_files d \<and> d_Header (dt_descriptor d') = Some h"
proof -
  have no: "errors_Is (query_error err) ErrNoRows = False" "errors_Is (query_error uint64_arg_error) ErrNoRows = False"
    using assms(9) by (simp_all add: query_error_def uint64_arg_error_def ErrNoRows_def)
  show ?thesis
    using assms no
    by (auto simp: discover_Process_def discover_validate_def call_contract_def discover_lookup_def Let_def
        GetContractByUniqueIndex_def db_poll_def log_provider_def log_block_def cdescriptor_of_def SetContract_def split: if_splits)
qed

lemma world_Set_records:
  "\<exists>err w'. world_Set rc LatestInspectedArchiveBlock n w = Returns (err, w') \<and> w_db w' = w_db w \<and> w_files w' = w_files w
     \<and> sd_LatestInspectedArchiveBlock (st_descriptor (w_sync w')) = Some n"
  by (auto simp: world_Set_def state_Set_def SetDescriptorKey_def key_defs split: prod.splits)

section \<open>An instance\<close>

text \<open>An engine that fails the next statement.\<close>

definition failing_world :: plain_world where
  "failing_world = plain_world\<lparr>w_db := empty_db\<lparr>db_faults := (\<lambda>i. Some (Errorf ''database is locked''))\<rparr>\<rparr>"

section \<open>Properties\<close>

text \<open>C27. A creation that could not be unpacked is recorded as inspected: when the engine fails the lookup of discovery, for
  instance because the database is locked, the machine swallows the error, the unpacker returns the descriptor as if it had
  succeeded, and the goroutine records the block of the creation as the last inspected archive block. No row and no source is
  stored, and nothing says that the creation was missed.\<close>

theorem failed_creation_is_recorded:
  assumes "GetClientByGroup (sv_chain srv) (ce_network_String (sv_chain srv) (en_Network en)) = Some client"
    and "en_Header en = Some h" and "en_Tx en = Some tx" and "TransactionReceipt client (tx_Hash tx) = Inr rc"
    and "NewContract srv (en_Network en) (ContractAddress rc) = Inr c" and "poll ctx = None"
    and "IsValid (e_solgo (sv_env srv)) (SetChainInfo srv h tx rc c) = Returns (v, c')" and "ct_descriptor c' = Some cdesc"
    and "u_db (e_unpacker (sv_env srv)) = Some conn"
    and "poll (db_faults (w_db w)) = Some err" and "\<not> errors_Is err ErrNoRows"
  shows "\<exists>w'. contract_task srv ctx ''archive'' en w = Returns w' \<and> db_rows (w_db w') = db_rows (w_db w) \<and> w_files w' = w_files w
     \<and> sd_LatestInspectedArchiveBlock (st_descriptor (w_sync w')) = Some (hd_Number h)"
proof -
  let ?en = "en\<lparr>en_Receipt := Some rc, en_ContractAddr := ContractAddress rc\<rparr>"
  let ?desc = "GetDescriptor (e_unpacker (sv_env srv)) (Some (SetChainInfo srv h tx rc c)) ?en"
  let ?d = "to_data ?desc w"
  have entry: "entry_descriptor srv ?en = Returns (Inr ?desc)" using assms(2,3,5) by (simp add: entry_descriptor_def)
  have contract: "d_contract ?desc = Some (SetChainInfo srv h tx rc c)" by (simp add: GetDescriptor_def SetContract_def)
  have "\<exists>d' e. discover_Process (sv_env srv) ?d = Returns (ErrorState, d', Some e) \<and> db_rows (dt_db d') = db_rows (dt_db ?d)
    \<and> dt_files d' = dt_files ?d \<and> d_Header (dt_descriptor d') = Some h"
    using assms(2,3) contract by (intro lookup_failure [OF _ _ _ _ assms(7,8,9) _ assms(11)]) (simp_all add: to_data_def assms(10))
  then obtain d' e where d': "discover_Process (sv_env srv) ?d = Returns (ErrorState, d', Some e)" "db_rows (dt_db d') = db_rows (w_db w)"
    "dt_files d' = w_files w" "d_Header (dt_descriptor d') = Some h" by (auto simp: to_data_def)
  from discovery_error_swallowed [OF d'(1) assms(6)] have
    "contract_task srv ctx ''archive'' en w = finish_task srv ''archive'' (Returns (None, d')) w"
    using assms(1,3,4) entry by (simp add: contract_task_descriptor)
  with world_Set_records [of "ce_redis (sv_chain srv)" "hd_Number h" "from_data w d'"] d'(2-4) show ?thesis
    by (auto simp: finish_task_def GetHeadBlockKeyByDirection_def from_data_def)
qed

theorem failed_creation_is_recorded_witness:
  "\<exists>w'. contract_task plain_service Background ''archive'' (creation_entry 17) failing_world = Returns w' \<and> db_rows (w_db w') = []
     \<and> sd_LatestInspectedArchiveBlock (st_descriptor (w_sync w')) = Some 17"
proof -
  have "\<exists>w'. contract_task plain_service Background ''archive'' (creation_entry 17) failing_world = Returns w'
     \<and> db_rows (w_db w') = db_rows (w_db failing_world) \<and> w_files w' = w_files failing_world
     \<and> sd_LatestInspectedArchiveBlock (st_descriptor (w_sync w')) = Some (hd_Number \<lparr>hd_Number = 17, hd_Hash = 3\<rparr>)"
    by (rule failed_creation_is_recorded [where client = plain_client and tx = "\<lparr>tx_Hash = 4, tx_To = None\<rparr>" and rc = "\<lparr>ContractAddress = 5\<rparr>"
        and c = plain_contract and v = True and c' = plain_contract and cdesc = plain_cdescriptor and conn = "the (u_db (e_unpacker example_env))"
        and err = "Errorf ''database is locked''"])
       (simp_all add: plain_service_def plain_chain_def creation_entry_def plain_client_def plain_contract_def example_env_def
          plain_solgo_def failing_world_def poll_def Background_def ErrNoRows_def plain_unpacker_def)
  then obtain w' where "contract_task plain_service Background ''archive'' (creation_entry 17) failing_world = Returns w'"
    "db_rows (w_db w') = []" "sd_LatestInspectedArchiveBlock (st_descriptor (w_sync w')) = Some 17"
    by (auto simp: failing_world_def empty_db_def)
  then show ?thesis by blast
qed

end
