(* ===== verification/Races.thy ===== *)
theory Races
  imports Schedules
begin

text \<open>
  Two goroutines of the syncer that unpack the same new contract at the same time (src/services/syncer, src/pkg/unpacker/discover.go and
  final.go, src/pkg/models/contracts.go): a block seen by both subscribers, or a creation and a request. Both found no entry in
  discovery; the second one to store learns nothing of the first.
\<close>

section \<open>Lemmas\<close>

text \<open>A step of a goroutine keeps the identity of its contract.\<close>

lemma goroutine_step_key:
  assumes "goroutine_step srv (Unpacking dir sm) w = (Recording dir' x, w')" and "running (sv_env srv) sm"
  shows "descriptor_key (sv_env srv) x = descriptor_key (sv_env srv) (dt_descriptor (sm_data sm))"
proof -
  have run: "running (sv_env srv) (load_world w sm)" using assms(2) by simp
  obtain r where r: "process_iter (load_world w sm) = Stop r" and x: "unpacked dir r = (Recording dir' x, snd (unpacked dir r))"
    using assms(1) by (cases "process_iter (load_world w sm)"; cases "unpacked dir (case process_iter (load_world w sm) of Stop r \<Rightarrow> r)")
      (auto simp: goroutine_step_def)
  have "x = dt_descriptor (snd (unpacked dir r))"
    using x by (auto simp: unpacked_def split: go.splits option.splits)
  moreover have "identity (dt_descriptor (snd (unpacked dir r))) = identity (dt_descriptor (sm_data sm))"
    using iteration_keeps [OF run, of dir] r by (simp add: keeps_def evolves_def load_world_def to_data_def)
  ultimately show ?thesis using descriptor_key_identity by metis
qed

text \<open>A goroutine at the final state that finds the key of its contract taken.\<close>

lemma final_step_lost:
  assumes "running (sv_env srv) sm" and "currentState sm = FinalState" and "poll (sm_ctx sm) = None"
    and "x = dt_descriptor (sm_data sm)" and "HasCompletedState x DiscoverState" and "\<not> HasFailedState x FinalState" and "contractModel x = None"
    and "sources_written (sv_env srv) x (w_files w)" and "u_db (e_unpacker (sv_env srv)) \<noteq> None" and "codec_documented (e_codec (sv_env srv))"
    and "db_wf (w_db w)" and "\<forall>k < 4. db_faults (w_db w) k = None"
    and "GetContractEntry (e_solgo (sv_env srv)) (w_clock w) (x\<lparr>d_Processed := True\<rparr>) = Some (entry, t)" and "contract_args_ok entry"
    and "contract_key (e_codec (sv_env srv)) entry \<in> row_key ` set (db_rows (w_db w))"
  shows "\<exists>x' w'. goroutine_step srv (Unpacking (Some dir) sm) w = (Recording dir x', w') \<and> HasCompletedState x' FinalState
     \<and> db_rows (w_db w') = db_rows (w_db w)"
proof -
  let ?sm = "load_world w sm"
  have data: "sm_data ?sm = to_data x w" by (simp add: load_world_def assms(4))
  from final_lost [of "to_data x w" "sv_env srv"] assms obtain d' where
    d': "final_Process (sv_env srv) (to_data x w) = Returns (DoneState, d', None)" "HasCompletedState (dt_descriptor d') FinalState"
      "db_rows (dt_db d') = db_rows (w_db w)" by (auto simp: to_data_def)
  have "process_of (sv_env srv) (currentState ?sm) = Some (final_Process (sv_env srv))"
    using assms(2) by (simp add: load_world_def process_of_def state_defs)
  from unpack_iter [OF _ this] assms(1,3) d'(1) data have
    "process_iter ?sm = Stop (Returns (None, entered DoneState (after ?sm d')))" by (simp add: load_world_def running_def)
  then show ?thesis
    using d' by (simp add: goroutine_step_def unpacked_def after_def from_data_def)
qed

lemma recorded_stored:
  assumes "inter_reachable srv w0 (w, gs)" and "db_wf (w_db w0)" and "honest_faults (w_db w0)" and "codec_documented (e_codec (sv_env srv))"
    and "Recording dir x \<in> set gs" and "HasCompletedState x FinalState" and "descriptor_key (sv_env srv) x = Some k"
  shows "k \<in> row_key ` set (db_rows (w_db w))"
proof -
  have "stored_if_final (sv_env srv) x (w_db w)"
    using inter_reachable_landed [OF assms(1-4)] assms(5) by (fastforce simp: process_landed_def list_all_iff)
  with assms(6,7) show ?thesis by (force simp: stored_if_final_def HasCompletedState_iff row_ids_def)
qed

lemma keys_stay:
  assumes "inter_reachable srv w0 s" and "db_wf (w_db w0)" and "(inter_step srv)\<^sup>*\<^sup>* s s'"
  shows "row_key ` set (db_rows (w_db (fst s))) \<subseteq> row_key ` set (db_rows (w_db (fst s')))"
  using steps_keep_ids [OF assms(3) inter_reachable_ok [OF assms(1,2)]] by (fastforce simp: row_ids_def)

section \<open>A goroutine that takes several turns\<close>

text \<open>The handlers of a list of states, each of which moves to the next one.\<close>

fun walk :: "'x env \<Rightarrow> State \<Rightarrow> State list \<Rightarrow> 'x data \<Rightarrow> 'x data option" where
  "walk env s [] d = Some d"
| "walk env s (n # ns) d =
     (case process_of env s of
        None \<Rightarrow> None
      | Some g \<Rightarrow>
          (case g d of
             Returns (n', d', None) \<Rightarrow> if n' = n \<and> n \<noteq> DoneState \<and> process_of env n \<noteq> None then walk env n ns d' else None
           | _ \<Rightarrow> None))"

definition walker :: "'x env \<Rightarrow> State \<Rightarrow> 'x Descriptor \<Rightarrow> 'x data StateMachine \<Rightarrow> bool" where
  "walker env s x sm \<longleftrightarrow> running env sm \<and> sm_ctx sm = Background \<and> currentState sm = s \<and> dt_descriptor (sm_data sm) = x"

lemma walk_reachable:
  assumes "walk (sv_env srv) s ns (to_data x w) = Some d" and "walker (sv_env srv) s x sm" and "i < length gs" and "process_alive (gs[i := Unpacking dir sm])"
    and "inter_reachable srv w0 (w, gs[i := Unpacking dir sm])"
  shows "\<exists>sm'. walker (sv_env srv) (last (s # ns)) (dt_descriptor d) sm' \<and> inter_reachable srv w0 (from_data w d, gs[i := Unpacking dir sm'])"
  using assms
proof (induction ns arbitrary: s x w sm)
  case (Cons n ns)
  let ?sm = "load_world w sm"
  from Cons.prems(1) obtain g d1 where g: "process_of (sv_env srv) s = Some g" "g (to_data x w) = Returns (n, d1, None)" "n \<noteq> DoneState"
    "process_of (sv_env srv) n \<noteq> None" and rest: "walk (sv_env srv) n ns d1 = Some d"
    by (auto split: option.splits go.splits if_splits)
  have sm: "running (sv_env srv) ?sm" "process_of (sv_env srv) (currentState ?sm) = Some g" "poll (sm_ctx ?sm) = None" "sm_data ?sm = to_data x w"
    using Cons.prems(2) g(1) by (simp_all add: walker_def load_world_def running_def poll_def Background_def)
  let ?sm' = "entered n (after ?sm d1)"
  have "process_iter ?sm = Next ?sm'" using unpack_iter [OF sm(1-3)] sm(4) g by simp
  then have step: "goroutine_step srv (Unpacking dir sm) w = (Unpacking dir ?sm', from_data w d1)"
    by (simp add: goroutine_step_def after_def)
  have next': "walker (sv_env srv) n (dt_descriptor d1) ?sm'"
    using Cons.prems(2) by (simp add: walker_def after_def load_world_def advance_def Background_def)
  have "inter_step srv (w, gs[i := Unpacking dir sm]) (from_data w d1, gs[i := Unpacking dir sm, i := Unpacking dir ?sm'])"
    using Cons.prems(3,4) step by (intro inter_step.advance) simp_all
  then have reach: "inter_reachable srv w0 (from_data w d1, gs[i := Unpacking dir ?sm'])"
    using Cons.prems(5) inter_reachable.step by fastforce
  have alive: "process_alive (gs[i := Unpacking dir ?sm'])"
    using Cons.prems(3,4) by (auto simp: process_alive_def list_ex_length nth_list_update split: if_splits)
  have data: "to_data (dt_descriptor d1) (from_data w d1) = d1" by (simp add: to_data_def from_data_def)
  from Cons.IH [of n "dt_descriptor d1" "from_data w d1" ?sm'] rest data next' Cons.prems(3) alive reach
  show ?case by auto
next
  case Nil
  have "dt_descriptor (to_data x w) = x" by (simp add: to_data_def)
  with Nil show ?case by (intro exI [of _ sm]) auto
qed

text \<open>The final step of a goroutine in terms of its handler.\<close>

lemma final_step:
  assumes "walker (sv_env srv) FinalState x sm" and "final_Process (sv_env srv) (to_data x w) = Returns (DoneState, d, None)"
  shows "goroutine_step srv (Unpacking (Some dir) sm) w = (Recording dir (dt_descriptor d), from_data w d)"
proof -
  let ?sm = "load_world w sm"
  have "running (sv_env srv) ?sm" "process_of (sv_env srv) (currentState ?sm) = Some (final_Process (sv_env srv))" "poll (sm_ctx ?sm) = None"
    "sm_data ?sm = to_data x w"
    using assms(1) by (simp_all add: walker_def load_world_def running_def poll_def Background_def process_of_def state_defs)
  from unpack_iter [OF this(1-3)] this(4) assms(2) have "process_iter ?sm = Stop (Returns (None, entered DoneState (after ?sm d)))" by simp
  then show ?thesis by (simp add: goroutine_step_def unpacked_def after_def)
qed

section \<open>An instance\<close>

text \<open>The twins of \<open>Schedules\<close>: the goroutines walk to the final state, one after the other, and the first one stores.\<close>

definition to_final :: "string data \<Rightarrow> string data option" where
  "to_final = walk example_env DiscoverState [MetadataState, SourceProvidersState, SourcesState, ParserState, ConstructorState, FinalState]"

definition with_descriptor :: "string Descriptor \<Rightarrow> string data \<Rightarrow> string data" where
  "with_descriptor x d = d\<lparr>dt_descriptor := x\<rparr>"

definition first_done :: "(State \<times> string data \<times> error option, string data) go \<Rightarrow> string data option" where
  "first_done r = (case r of Returns (n, d, None) \<Rightarrow> if n = DoneState then Some d else None | _ \<Rightarrow> None)"

definition twins :: "(string data \<times> string data \<times> string data) option" where
  "twins = Option.bind (to_final example_data) (\<lambda>d1.
     Option.bind (to_final (with_descriptor (dt_descriptor example_data) d1)) (\<lambda>d2.
     Option.bind (first_done (final_Process example_env (with_descriptor (dt_descriptor d1) d2))) (\<lambda>d3. Some (d1, d2, d3))))"

definition second_ready :: "string data \<Rightarrow> string data \<Rightarrow> string data \<Rightarrow> bool" where
  "second_ready d1 d2 d3 \<longleftrightarrow>
     (let x2 = dt_descriptor d2 in
      contractModel x2 = None \<and> \<not> HasFailedState x2 FinalState \<and> descriptor_key example_env (dt_descriptor d1) = descriptor_key example_env x2
      \<and> HasCompletedState (dt_descriptor d3) FinalState \<and> sources_written example_env x2 (dt_files d3)
      \<and> list_all (\<lambda>k. db_faults (dt_db d3) k = None) [0, 1, 2, 3]
      \<and> (case GetContractEntry (e_solgo example_env) (dt_clock d3) (x2\<lparr>d_Processed := True\<rparr>) of
           None \<Rightarrow> False | Some (entry, t) \<Rightarrow> contract_args_ok entry))"

lemma twins_ready: "case twins of None \<Rightarrow> False | Some (d1, d2, d3) \<Rightarrow> second_ready d1 d2 d3"
  by code_simp

lemma twins_start:
  "twin_goroutines = (plain_world, [Unpacking (Some ''head'') (unpack_machine example_env Background DiscoverState example_data),
     Unpacking (Some ''archive'') (unpack_machine example_env Background DiscoverState example_data)])"
  by (simp add: twin_goroutines_def launch_goroutine_def plain_service_def plain_chain_def creation_entry_def plain_client_def entry_descriptor_def
      RegisterMachineStates_eq GetDescriptor_def SetContract_def example_data_def plain_contract_def example_env_def
      NewDescriptor_def to_data_def plain_world_def)

text \<open>Both twins at the final state.\<close>

lemma twins_reachable:
  assumes "twins = Some (d1, d2, d3)"
  shows "\<exists>w sm1 sm2. inter_reachable plain_service plain_world (w, [Unpacking (Some ''head'') sm1, Unpacking (Some ''archive'') sm2])
    \<and> walker example_env FinalState (dt_descriptor d1) sm1 \<and> walker example_env FinalState (dt_descriptor d2) sm2
    \<and> w = from_data plain_world d2 \<and> final_Process example_env (to_data (dt_descriptor d1) w) = Returns (DoneState, d3, None)"
proof -
  let ?x = "dt_descriptor example_data" and ?sm = "unpack_machine example_env Background DiscoverState example_data"
  let ?gs = "\<lambda>sm1 sm2. [Unpacking (Some ''head'') sm1, Unpacking (Some ''archive'') sm2]"
  have env: "sv_env plain_service = example_env" by (simp add: plain_service_def)
  have d: "to_final example_data = Some d1" "to_final (with_descriptor ?x d1) = Some d2"
    "final_Process example_env (with_descriptor (dt_descriptor d1) d2) = Returns (DoneState, d3, None)"
    using assms by (auto simp: twins_def first_done_def bind_eq_Some_conv split: go.splits option.splits if_splits)
  have start: "walker example_env DiscoverState ?x ?sm" "inter_reachable plain_service plain_world (plain_world, ?gs ?sm ?sm)"
    using twin_reachable by (simp_all add: walker_def twins_start) (simp_all add: unpack_machine_def NewStateMachine_def)
  have alive: "process_alive (?gs sm1 sm2)" for sm1 sm2 by (simp add: process_alive_def)
  have data: "to_data ?x plain_world = example_data" by (simp add: to_data_def plain_world_def example_data_def)
  obtain sm1 where sm1: "walker example_env FinalState (dt_descriptor d1) sm1"
    and r1: "inter_reachable plain_service plain_world (from_data plain_world d1, ?gs sm1 ?sm)"
    using walk_reachable [of plain_service DiscoverState "[MetadataState, SourceProvidersState, SourcesState, ParserState, ConstructorState, FinalState]" ?x plain_world d1 ?sm
        0 "?gs ?sm ?sm" "Some ''head''" plain_world] d(1) start alive data env by (auto simp: to_final_def)
  have data2: "to_data ?x (from_data plain_world d1) = with_descriptor ?x d1" by (simp add: to_data_def from_data_def with_descriptor_def)
  obtain sm2 where sm2: "walker example_env FinalState (dt_descriptor d2) sm2"
    and r2: "inter_reachable plain_service plain_world (from_data (from_data plain_world d1) d2, ?gs sm1 sm2)"
    using walk_reachable [of plain_service DiscoverState "[MetadataState, SourceProvidersState, SourcesState, ParserState, ConstructorState, FinalState]" ?x "from_data plain_world d1" d2 ?sm
        1 "?gs sm1 ?sm" "Some ''archive''" plain_world] d(2) start(1) r1 alive data2 env by (auto simp: to_final_def)
  have "to_data (dt_descriptor d1) (from_data plain_world d2) = with_descriptor (dt_descriptor d1) d2"
    by (simp add: to_data_def from_data_def with_descriptor_def)
  with sm1 sm2 r2 d(3) show ?thesis by auto
qed

section \<open>Properties\<close>

text \<open>C28. Two concurrent runs of the same new contract: both goroutines looked it up in discovery before either of them stored it, one of
  them (\<open>j\<close>) completes its final state first, and anything may happen before the other one, the goroutine \<open>i\<close> of a creation,
  takes its step at the final state. If its entry can be built and its statements are not failed by the engine, the step
  changes no row of the table: the insert violates the unique index and the update it falls back to carries no id. Nobody is told: the
  goroutine goes on to record its block with the final state completed, whether it had sources, which it has
  then written again, or none.\<close>

theorem lost_race_is_silent:
  assumes reach: "inter_reachable srv w0 (w, gs)" and start: "db_wf (w_db w0)" "honest_faults (w_db w0)" "codec_documented (e_codec (sv_env srv))"
    and i: "i < length gs" "gs ! i = Unpacking (Some dir) sm" "currentState sm = FinalState" "poll (sm_ctx sm) = None"
    and x: "x = dt_descriptor (sm_data sm)" "contractModel x = None" "\<not> HasFailedState x FinalState"
    and j: "j < length gs" "gs ! j = Unpacking dir2 sm2" "descriptor_key (sv_env srv) (dt_descriptor (sm_data sm2)) = descriptor_key (sv_env srv) x"
    and first: "process_alive gs" "goroutine_step srv (gs ! j) w = (Recording dir3 y, w1)" "HasCompletedState y FinalState"
    and between: "(inter_step srv)\<^sup>*\<^sup>* (w1, gs[j := Recording dir3 y]) (w2, gs2)" "gs2 ! i = gs ! i"
    and env: "u_db (e_unpacker (sv_env srv)) \<noteq> None" "sources_written (sv_env srv) x (w_files w2)" "\<forall>k < 4. db_faults (w_db w2) k = None"
    and entry: "GetContractEntry (e_solgo (sv_env srv)) (w_clock w2) (x\<lparr>d_Processed := True\<rparr>) = Some (entry, t)" "contract_args_ok entry"
  shows "\<exists>z w3. goroutine_step srv (gs2 ! i) w2 = (Recording dir z, w3) \<and> HasCompletedState z FinalState
     \<and> db_rows (w_db w3) = db_rows (w_db w2) \<and> contract_key (e_codec (sv_env srv)) entry \<in> row_key ` set (db_rows (w_db w3))"
proof -
  have ok: "goroutine_ok (sv_env srv) (w_db w) (gs ! k)" "goroutine_course (sv_env srv) (gs ! k)" if "k < length gs" for k
    using inter_reachable_ok [OF reach start(1)] inter_reachable_course [OF reach] that by (simp_all add: process_ok_def list_all_length)
  have run: "running (sv_env srv) sm" "running (sv_env srv) sm2" "on_course (sv_env srv) sm" using ok [OF i(1)] ok [OF j(1)] i(2) j(2) by simp_all
  have key: "descriptor_key (sv_env srv) x = Some (contract_key (e_codec (sv_env srv)) entry)"
    using GetContractEntry_entry_of [OF entry(1)] descriptor_key_identity [of "x\<lparr>d_Processed := True\<rparr>" x "sv_env srv"]
    by (simp add: entry_of_def identity_def)
  have ykey: "descriptor_key (sv_env srv) y = descriptor_key (sv_env srv) x"
    using goroutine_step_key [of srv dir2 sm2 w dir3 y w1] first(2) j(2,3) run(2) by simp
  have r1: "inter_reachable srv w0 (w1, gs[j := Recording dir3 y])"
    using reach inter_step.advance [OF first(1) j(1) _ first(2)] j(2) by (auto intro: inter_reachable.step)
  have "Recording dir3 y \<in> set (gs[j := Recording dir3 y])" using j(1) by (simp add: set_update_memI)
  from recorded_stored [OF r1 start this first(3)] keys_stay [OF r1 start(1) between(1)] ykey key
  have stored: "contract_key (e_codec (sv_env srv)) entry \<in> row_key ` set (db_rows (w_db w2))" by auto
  have wf: "db_wf (w_db w2)" using steps_keep_ids [OF between(1) inter_reachable_ok [OF r1 start(1)]] by (simp add: process_ok_def)
  have disc: "HasCompletedState x DiscoverState"
    using run(3) i(3) x(1) by (auto simp: on_course_def HasCompletedState_iff state_defs)
  from final_step_lost [OF run(1) i(3,4) x(1) disc x(3,2) env(2,1) start(3) wf env(3) entry stored, of dir] stored
  show ?thesis using between(2) i(2) by auto
qed

theorem lost_race_is_silent_witness:
  "\<exists>w d1 sm1 d2 sm2 d3 y w1 z w3. inter_reachable plain_service plain_world (w, [Unpacking (Some d1) sm1, Unpacking (Some d2) sm2])
     \<and> goroutine_step plain_service (Unpacking (Some d1) sm1) w = (Recording d3 y, w1) \<and> HasCompletedState y FinalState
     \<and> goroutine_step plain_service (Unpacking (Some d2) sm2) w1 = (Recording d2 z, w3) \<and> HasCompletedState z FinalState
     \<and> db_rows (w_db w3) = db_rows (w_db w1)"
proof -
  obtain e1 e2 e3 where twins: "twins = Some (e1, e2, e3)" and two: "second_ready e1 e2 e3"
    using twins_ready by (auto split: option.splits)
  from twins_reachable [OF twins] obtain w sm1 sm2 where
    reach: "inter_reachable plain_service plain_world (w, [Unpacking (Some ''head'') sm1, Unpacking (Some ''archive'') sm2])" and
    sm: "walker example_env FinalState (dt_descriptor e1) sm1" "walker example_env FinalState (dt_descriptor e2) sm2" and
    fin: "final_Process example_env (to_data (dt_descriptor e1) w) = Returns (DoneState, e3, None)" by blast
  let ?x = "dt_descriptor (sm_data sm2)" and ?w1 = "from_data w e3" and ?y = "dt_descriptor e3"
  have env: "sv_env plain_service = example_env" "u_db (e_unpacker example_env) \<noteq> None" "codec_documented (e_codec example_env)"
    using plain_codec_documented by (simp_all add: plain_service_def example_env_def plain_unpacker_def)
  have step: "goroutine_step plain_service (Unpacking (Some ''head'') sm1) w = (Recording ''head'' ?y, ?w1)"
    using final_step [of plain_service "dt_descriptor e1" sm1 w e3] sm(1) fin env(1) by simp
  have w1: "w_files ?w1 = dt_files e3" "w_db ?w1 = dt_db e3" "w_clock ?w1 = dt_clock e3" by (simp_all add: from_data_def)
  have ready: "HasCompletedState ?y FinalState" "currentState sm2 = FinalState" "poll (sm_ctx sm2) = None" "contractModel ?x = None"
      "\<not> HasFailedState ?x FinalState" "descriptor_key example_env (dt_descriptor (sm_data sm1)) = descriptor_key example_env ?x"
      "sources_written example_env ?x (w_files ?w1)" and quiet: "list_all (\<lambda>k. db_faults (w_db ?w1) k = None) [0, 1, 2, 3]"
    and entry: "case GetContractEntry (e_solgo example_env) (w_clock ?w1) (?x\<lparr>d_Processed := True\<rparr>) of None \<Rightarrow> False | Some (e, t) \<Rightarrow> contract_args_ok e"
    using two sm w1 by (simp_all add: second_ready_def Let_def walker_def poll_def Background_def)
  from entry obtain e t where e: "GetContractEntry (e_solgo example_env) (w_clock ?w1) (?x\<lparr>d_Processed := True\<rparr>) = Some (e, t)" "contract_args_ok e"
    by (auto split: option.splits)
  have faults: "\<forall>k < 4. db_faults (w_db ?w1) k = None" using quiet by (auto simp: less_Suc_eq numeral_eq_Suc)
  have start: "db_wf (w_db plain_world)" "honest_faults (w_db plain_world)"
    by (simp_all add: plain_world_def) (simp add: honest_faults_def empty_db_def Background_def)
  have "\<exists>z w3. goroutine_step plain_service ([Recording ''head'' ?y, Unpacking (Some ''archive'') sm2] ! 1) ?w1 = (Recording ''archive'' z, w3)
     \<and> HasCompletedState z FinalState
     \<and> db_rows (w_db w3) = db_rows (w_db ?w1) \<and> contract_key (e_codec (sv_env plain_service)) e \<in> row_key ` set (db_rows (w_db w3))"
    by (rule lost_race_is_silent [OF reach start, where i = 1 and j = 0 and sm = sm2 and ?sm2.0 = sm1 and x = ?x and ?dir2.0 = "Some ''head''"
          and ?dir3.0 = "''head''" and y = ?y and ?w1.0 = ?w1])
       (use env step ready e faults in \<open>simp_all add: process_alive_def\<close>)
  then obtain z w3 where "goroutine_step plain_service (Unpacking (Some ''archive'') sm2) ?w1 = (Recording ''archive'' z, w3)"
    "HasCompletedState z FinalState" "db_rows (w_db w3) = db_rows (w_db ?w1)" by auto
  with reach step ready(1) show ?thesis by blast
qed

end
