(* ===== verification/Requests.thy ===== *)
theory Requests
  imports Syncer Graph
begin

text \<open>
  The query service in front of the syncer: the unpack mutation (src/pkg/graph/unpack.go) publishes a request on the message broker, the
  syncer's message handler (src/pkg/subscribers/unpacker.go) runs the interceptor of src/services/syncer/interceptors.go, which
  answers on the subject of the request. The broker is a parameter. Of it only this is supposed, \<open>broker_documented\<close>: whoever
  waits for a message of a subject gets one that was published on it, and while a request is published or awaited the syncer may
  handle requests, any number of them and late, twice or never, and go on with its other work.
\<close>

section \<open>Requests and answers\<close>

definition unpack_response_subject :: "ContractUnpackRequest \<Rightarrow> string" where
  "unpack_response_subject req = ''unpack.response.'' @ big_String (req_NetworkID req) @ ''.'' @ req_Address req"

text \<open>The event that the mutation publishes for a request.\<close>

definition request_event :: "graph_env \<Rightarrow> ContractUnpackRequest \<Rightarrow> Unpack_event" where
  "request_event ge req =
     \<lparr>CorrelationID = unpack_response_subject req, ev_NetworkId = req_NetworkID req,
      ev_Address = HexToAddress (gr_codec ge) (req_Address req), Resolved = False\<rparr>"

text \<open>The documented behaviour of the JSON encoding: an event is decoded to what was encoded.\<close>

definition json_documented :: "json \<Rightarrow> bool" where
  "json_documented js \<longleftrightarrow> (\<forall>e. \<exists>b. MarshalUnpack js e = Inr b \<and> json_Unmarshal js b = Inr e)"

text \<open>The contract of a request is not in the table.\<close>

definition not_stored :: "graph_env \<Rightarrow> ContractUnpackRequest \<Rightarrow> contracts_db \<Rightarrow> bool" where
  "not_stored ge req t \<longleftrightarrow> (\<forall>r \<in> set (db_rows t).
     \<not> (r_network_id r = req_NetworkID req \<and> r_address r = addr_Hex (gr_codec ge) (HexToAddress (gr_codec ge) (req_Address req))))"

text \<open>Every message on the subject of a request is about the contract of that request.\<close>

definition answers_match :: "json \<Rightarrow> graph_env \<Rightarrow> (string \<times> byte list) list \<Rightarrow> bool" where
  "answers_match js ge msgs \<longleftrightarrow> (\<forall>(subject, msg) \<in> set msgs. \<forall>req ev. subject = unpack_response_subject req \<longrightarrow> json_Unmarshal js msg = Inr ev
     \<longrightarrow> ev_NetworkId ev = req_NetworkID req \<and> ev_Address ev = HexToAddress (gr_codec ge) (req_Address req))"

section \<open>The broker\<close>

text \<open>What may happen while a request \<open>req\<close> is published or awaited: the syncer handles the message of a request, this one or
  another, to whatever end; or it does anything else that neither stores the contract of \<open>req\<close> nor publishes.\<close>

inductive meanwhile :: "('r, 'x) service \<Rightarrow> graph_env \<Rightarrow> ContractUnpackRequest \<Rightarrow> ('r, 'x) world \<Rightarrow> ('r, 'x) world \<Rightarrow> bool" for srv ge req where
  handled: "MarshalUnpack (sv_json srv) (request_event ge req') = Inr b
    \<Longrightarrow> unpacker_message (sv_json srv) [UnpackerInterceptor srv ctx] b w = Returns w' \<Longrightarrow> meanwhile srv ge req w w'"
| died: "MarshalUnpack (sv_json srv) (request_event ge req') = Inr b
    \<Longrightarrow> unpacker_message (sv_json srv) [UnpackerInterceptor srv ctx] b w = Panics w' \<Longrightarrow> meanwhile srv ge req w w'"
| stuck: "MarshalUnpack (sv_json srv) (request_event ge req') = Inr b
    \<Longrightarrow> unpacker_message (sv_json srv) [UnpackerInterceptor srv ctx] b w = Blocks w' \<Longrightarrow> meanwhile srv ge req w w'"
| other: "not_stored ge req (w_db w') \<Longrightarrow> w_published w' = w_published w \<Longrightarrow> meanwhile srv ge req w w'"

definition broker_documented :: "('r, 'x) service \<Rightarrow> graph_env \<Rightarrow> ContractUnpackRequest \<Rightarrow> ('r, 'x) world broker \<Rightarrow> bool" where
  "broker_documented srv ge req nt \<longleftrightarrow>
     (\<forall>b w err w'. MarshalUnpack (sv_json srv) (request_event ge req) = Inr b \<longrightarrow> nats_Publish nt ''contracts:unpack'' b w = (err, w')
        \<longrightarrow> (meanwhile srv ge req)\<^sup>*\<^sup>* w w')
     \<and> (\<forall>subject w r w'. NextMsg nt subject w = (r, w') \<longrightarrow> (meanwhile srv ge req)\<^sup>*\<^sup>* w w' \<and> (\<forall>msg. r = Inr msg \<longrightarrow> (subject, msg) \<in> set (w_published w')))"

section \<open>Lemmas\<close>

subsection \<open>The subject of a request names its contract\<close>

lemma no_dot: "CHR ''.'' \<notin> set (big_String n)"
  by (auto simp: big_String_def dest: nat_digits_chars)

lemma unpack_response_subject_inj: "unpack_response_subject req = unpack_response_subject req' \<Longrightarrow> req = req'"
proof -
  assume "unpack_response_subject req = unpack_response_subject req'"
  then have eq: "big_String (req_NetworkID req) @ ''.'' @ req_Address req = big_String (req_NetworkID req') @ ''.'' @ req_Address req'"
    by (simp add: unpack_response_subject_def)
  have "takeWhile (\<lambda>c. c \<noteq> CHR ''.'') (big_String n @ ''.'' @ a) = big_String n" for n a
    using no_dot [of n] by (subst takeWhile_append2) auto
  with eq have n: "big_String (req_NetworkID req) = big_String (req_NetworkID req')" by metis
  then have "req_NetworkID req = req_NetworkID req'" using big_SetString_String by (metis option.inject)
  with eq n show ?thesis by simp
qed

subsection \<open>Handling a request\<close>

text \<open>The descriptor of a request has no block, so whatever the context says the run ends at once and changes nothing.\<close>

lemma request_not_unpacked:
  assumes "en_Header e = None"
  shows "\<exists>r. world_Unpack srv ctx (GetDescriptor u c e) DiscoverState w = Returns (r, w)"
proof (cases "poll ctx")
  case None
  with world_Unpack_no_chain_info [OF assms] show ?thesis by blast
next
  case (Some err)
  let ?sm = "unpack_machine (sv_env srv) ctx DiscoverState (to_data (GetDescriptor u c e) w)"
  have "unpack_handlers (sv_env srv) DiscoverState \<noteq> None" by (simp add: unpack_handlers_def)
  with Some have "process_iter ?sm = Stop (Returns (Some err, ?sm\<lparr>sm_ctx := advance ctx\<rparr>))"
    by (auto simp: process_iter_def unpack_machine_def NewStateMachine_def Let_def state_defs)
  then show ?thesis
    by (simp add: world_Unpack_def Unpack_eq Process_Stop unpack_result_def) (simp add: unpack_machine_def NewStateMachine_def)
qed

lemma request_Unpack_same:
  "go_all (\<lambda>(err, e', w'). w' = w) (\<lambda>(e', w'). w' = w) (request_Unpack srv ctx (request_entry network n a) w)"
proof -
  have "\<exists>r. world_Unpack srv ctx (GetDescriptor u c (request_entry network n a)) DiscoverState w = Returns (r, w)" for u c
    by (rule request_not_unpacked) (simp add: request_entry_def)
  then show ?thesis
    unfolding request_Unpack_def
    by (auto split: sum.splits option.splits go.splits prod.splits) (metis go.inject(1) go.distinct(1,3) prod.inject)+
qed

text \<open>The handler of a message: it may add the answer to the messages, and changes nothing else.\<close>

lemma handler_answers:
  assumes "json_documented (sv_json srv)" and "MarshalUnpack (sv_json srv) (request_event ge req) = Inr b"
  shows "\<exists>w' \<in> {w} \<union> {w\<lparr>w_published := w_published w @ [(unpack_response_subject req, msg)]\<rparr> |msg.
        MarshalUnpack (sv_json srv) (request_event ge req\<lparr>Resolved := True\<rparr>) = Inr msg}.
      unpacker_message (sv_json srv) [UnpackerInterceptor srv ctx] b w \<in> {Returns w', Panics w', Blocks w'}"
proof -
  let ?ev = "request_event ge req"
  let ?r = "request_Unpack srv ctx (request_entry (ToNetwork srv (ev_NetworkId ?ev)) (ev_NetworkId ?ev) (ev_Address ?ev)) w"
  have dec: "json_Unmarshal (sv_json srv) b = Inr ?ev" using assms unfolding json_documented_def by (metis sum.inject(2))
  have same: "go_all (\<lambda>(err, e', w'). w' = w) (\<lambda>(e', w'). w' = w) ?r" by (rule request_Unpack_same)
  have id: "CorrelationID ?ev = unpack_response_subject req" by (simp add: request_event_def)
  show ?thesis
  proof (cases ?r)
    case (Returns p)
    obtain err e' w1 where p: "p = (err, e', w1)" by (cases p)
    with same Returns have "w1 = w" by simp
    with Returns p dec id show ?thesis
      by (auto simp: unpacker_message_def UnmarshalUnpack_def UnpackerInterceptor_def Let_def MarshalBinary_def split: sum.splits option.splits)
  qed (use same dec in \<open>auto simp: unpacker_message_def UnmarshalUnpack_def UnpackerInterceptor_def Let_def\<close>)
qed

text \<open>A request that is not stored stays so, and the messages keep to their subjects.\<close>

definition safe :: "('r, 'x) service \<Rightarrow> graph_env \<Rightarrow> ContractUnpackRequest \<Rightarrow> ('r, 'x) world \<Rightarrow> bool" where
  "safe srv ge req w \<longleftrightarrow> not_stored ge req (w_db w) \<and> answers_match (sv_json srv) ge (w_published w)"

lemma answer_matches:
  assumes "json_documented (sv_json srv)" and "answers_match (sv_json srv) ge msgs"
    and "MarshalUnpack (sv_json srv) (request_event ge req\<lparr>Resolved := True\<rparr>) = Inr m"
  shows "answers_match (sv_json srv) ge (msgs @ [(unpack_response_subject req, m)])"
proof -
  have "json_Unmarshal (sv_json srv) m = Inr (request_event ge req\<lparr>Resolved := True\<rparr>)"
    using assms(1,3) unfolding json_documented_def by (metis sum.inject(2))
  with assms(2) show ?thesis
    by (auto simp: answers_match_def request_event_def dest: unpack_response_subject_inj)
qed

lemma handler_safe:
  assumes "json_documented (sv_json srv)" and "safe srv ge req w" and "MarshalUnpack (sv_json srv) (request_event ge req') = Inr b"
    and "unpacker_message (sv_json srv) [UnpackerInterceptor srv ctx] b w \<in> {Returns w', Panics w', Blocks w'}"
  shows "safe srv ge req w'"
  using handler_answers [OF assms(1,3), of w ctx] answer_matches [OF assms(1), of ge "w_published w" req'] assms(2,4)
  by (auto simp: safe_def)

lemma meanwhile_safe:
  assumes "(meanwhile srv ge req)\<^sup>*\<^sup>* w w'" and "json_documented (sv_json srv)" and "safe srv ge req w"
  shows "safe srv ge req w'"
  using assms(1,3)
proof (induction rule: rtranclp_induct)
  case (step y z)
  from step(2) step(3) [OF step(4)] show ?case
  proof (cases rule: meanwhile.cases)
    case other
    with step(3) [OF step(4)] show ?thesis by (simp add: safe_def)
  qed (auto intro: handler_safe [OF assms(2)])
qed

subsection \<open>The mutation\<close>

lemma resolve_not_stored:
  assumes "not_stored ge req (w_db w)" and "\<forall>rs. set (gr_scan_order ge rs) = set rs"
  shows "\<exists>err t. world_resolveContract ge (req_NetworkID req) (HexToAddress (gr_codec ge) (req_Address req)) w = Returns (Inl err, w\<lparr>w_db := t\<rparr>)
    \<and> db_rows t = db_rows (w_db w)"
proof -
  have "List.find (\<lambda>r. r_network_id r = req_NetworkID req \<and> r_address r = addr_Hex (gr_codec ge) (HexToAddress (gr_codec ge) (req_Address req)))
      (gr_scan_order ge (db_rows (w_db w))) = None"
    using assms by (auto simp: find_None_iff not_stored_def)
  note find = this
  show ?thesis
  proof (cases "ToSQL ge None")
    case (Inl err)
    then show ?thesis
      by (intro exI [of _ "Wrapf ''error preparing query: '' err"] exI [of _ "w_db w"])
         (simp add: world_resolveContract_def resolveContract_def)
  next
    case (Inr x)
    let ?err = "case poll (db_faults (w_db w)) of Some err \<Rightarrow> Wrapf ''error executing query: '' err | None \<Rightarrow> ErrNoRows"
    from Inr find show ?thesis
      by (intro exI [of _ ?err] exI [of _ "snd (db_poll (w_db w))"])
         (simp add: world_resolveContract_def resolveContract_def db_poll_def split: option.splits)
  qed
qed

lemma safe_rows: "safe srv ge req w \<Longrightarrow> db_rows t = db_rows (w_db w) \<Longrightarrow> safe srv ge req (w\<lparr>w_db := t\<rparr>)"
  by (simp add: safe_def not_stored_def)

lemma request_fails:
  assumes "json_documented (sv_json srv)" and "\<forall>rs. set (gr_scan_order ge rs) = set rs" and "broker_documented srv ge req nt" and "safe srv ge req w"
  shows "\<exists>err w'. unpack_request (sv_json srv) ge nt req (request_event ge req) w = Returns (Inl err, w') \<and> safe srv ge req w'"
proof -
  obtain b where b: "MarshalUnpack (sv_json srv) (request_event ge req) = Inr b" using assms(1) unfolding json_documented_def by blast
  obtain err w1 where pub: "nats_Publish nt ''contracts:unpack'' b w = (err, w1)" by force
  obtain r w2 where msg: "NextMsg nt (unpack_response_subject req) w1 = (r, w2)" by force
  have w1: "safe srv ge req w1" using assms(3) b pub meanwhile_safe [OF _ assms(1,4)] unfolding broker_documented_def by blast
  have w2: "safe srv ge req w2" and own: "\<And>m. r = Inr m \<Longrightarrow> (unpack_response_subject req, m) \<in> set (w_published w2)"
    using assms(3) msg meanwhile_safe [OF _ assms(1) w1] unfolding broker_documented_def by blast+
  have id: "CorrelationID (request_event ge req) = unpack_response_subject req" by (simp add: request_event_def)
  show ?thesis
  proof (cases r)
    case (Inl e)
    with b pub msg w1 w2 id assms(4) show ?thesis
      by (auto simp: unpack_request_def MarshalBinary_def Let_def split: option.splits)
  next
    case (Inr m)
    obtain err3 t where res: "world_resolveContract ge (req_NetworkID req) (HexToAddress (gr_codec ge) (req_Address req)) w2 = Returns (Inl err3, w2\<lparr>w_db := t\<rparr>)"
      "db_rows t = db_rows (w_db w2)" using resolve_not_stored [OF _ assms(2)] w2 unfolding safe_def by blast
    have "ev_NetworkId ev = req_NetworkID req \<and> ev_Address ev = HexToAddress (gr_codec ge) (req_Address req)" if "json_Unmarshal (sv_json srv) m = Inr ev" for ev
      using own [OF Inr] w2 that by (auto simp: safe_def answers_match_def)
    with b pub msg w1 w2 id assms(4) Inr res safe_rows [OF w2 res(2)] show ?thesis
      by (auto simp: unpack_request_def MarshalBinary_def UnmarshalUnpack_def Let_def split: option.splits sum.splits)
  qed
qed

section \<open>An instance\<close>

text \<open>A broker that delivers at once: a request runs the syncer's handler, a wait finds the last message of the subject.\<close>

definition prompt_broker :: "('r, 'x) service \<Rightarrow> gocontext \<Rightarrow> ('r, 'x) world broker" where
  "prompt_broker srv ctx =
     \<lparr>SubscribeSync = (\<lambda>subject. None),
      nats_Publish = (\<lambda>subject data w.
        (None, if subject = ''contracts:unpack''
               then (case unpacker_message (sv_json srv) [UnpackerInterceptor srv ctx] data w of
                       Returns w' \<Rightarrow> w' | Panics w' \<Rightarrow> w' | Blocks w' \<Rightarrow> w')
               else w)),
      NextMsg = (\<lambda>subject w.
        (case rev (filter (\<lambda>p. fst p = subject) (w_published w)) of
           [] \<Rightarrow> Inl (Sentinel ''nats: timeout'')
         | p # ps \<Rightarrow> Inr (snd p), w))\<rparr>"

lemma prompt_broker_documented: "broker_documented srv ge req (prompt_broker srv ctx)"
proof -
  have "(meanwhile srv ge req)\<^sup>*\<^sup>* w w'"
    if "MarshalUnpack (sv_json srv) (request_event ge req) = Inr b" "nats_Publish (prompt_broker srv ctx) ''contracts:unpack'' b w = (err, w')" for b w err w'
    using that by (auto simp: prompt_broker_def split: go.splits intro: meanwhile.intros)
  moreover have "w' = w \<and> (\<forall>msg. r = Inr msg \<longrightarrow> (subject, msg) \<in> set (w_published w'))" if "NextMsg (prompt_broker srv ctx) subject w = (r, w')" for subject w r w'
  proof (cases "rev (filter (\<lambda>p. fst p = subject) (w_published w))")
    case (Cons p ps)
    then have "p \<in> set (filter (\<lambda>p. fst p = subject) (w_published w))" by (metis list.set_intros(1) set_rev)
    then have "fst p = subject \<and> p \<in> set (w_published w)" by simp
    then have "(subject, snd p) \<in> set (w_published w)" by (metis prod.collapse)
    with Cons that show ?thesis by (auto simp: prompt_broker_def)
  qed (use that in \<open>auto simp: prompt_broker_def\<close>)
  ultimately show ?thesis unfolding broker_documented_def by blast
qed

text \<open>A broker that loses every message.\<close>

definition lossy_broker :: "'w broker" where
  "lossy_broker = \<lparr>SubscribeSync = (\<lambda>subject. None), nats_Publish = (\<lambda>subject data w. (None, w)),
     NextMsg = (\<lambda>subject w. (Inl (Sentinel ''nats: timeout''), w))\<rparr>"

lemma lossy_broker_documented: "broker_documented srv ge req lossy_broker"
  by (simp add: broker_documented_def lossy_broker_def)

definition marked_json :: json where
  "marked_json =
     \<lparr>MarshalUnpack = (\<lambda>e. Inr (map (\<lambda>c. word_of_nat (of_char c)) (mark_encode
        [CorrelationID e, big_String (ev_NetworkId e), big_String (uint (ev_Address e)), if Resolved e then ''t'' else []]))),
      json_Unmarshal = (\<lambda>b. case mark_decode [] (map (\<lambda>x. char_of (unat x)) b) of
        [c, n, a, r] \<Rightarrow> Inr \<lparr>CorrelationID = c, ev_NetworkId = plain_number n,
                              ev_Address = word_of_int (plain_number a), Resolved = (r \<noteq> [])\<rparr>
      | _ \<Rightarrow> Inl (Errorf ''unexpected end of JSON input''))\<rparr>"

lemma char_byte [simp]: "char_of (unat (word_of_nat (of_char c) :: byte)) = c"
  using nat_of_char_less_256 [of c] by (simp add: unat_of_nat take_bit_nat_def)

lemma json_documented_marked: "json_documented marked_json"
  by (simp add: json_documented_def marked_json_def plain_number_def o_def del: mark_encode.simps)

section \<open>Properties\<close>

text \<open>C19. The unpack mutation fails for every contract that is not stored yet: whatever the broker does with the request and
  the answer - delivers them, late, twice or never - and however the syncer handles the request, the mutation returns an error,
  and the contract is not in the table afterwards either. Serving the request never unpacks or stores the contract, so that
  even an answer that the request is resolved leads to a lookup that finds nothing. It is supposed that nothing else
  stores the contract meanwhile and that the messages so far are answers to the requests of their subjects.\<close>

theorem unpack_mutation_of_new_contract_fails:
  assumes "json_documented (sv_json srv)" and "\<forall>rs. set (gr_scan_order ge rs) = set rs" and "broker_documented srv ge req nt"
    and "not_stored ge req (w_db w)" and "answers_match (sv_json srv) ge (w_published w)"
  shows "\<exists>err w'. mutation_unpack (sv_json srv) ge nt req w = Returns (Inl err, w') \<and> not_stored ge req (w_db w')"
proof -
  have safe: "safe srv ge req w" using assms(4,5) by (simp add: safe_def)
  obtain err t where res: "world_resolveContract ge (req_NetworkID req) (HexToAddress (gr_codec ge) (req_Address req)) w = Returns (Inl err, w\<lparr>w_db := t\<rparr>)"
    "db_rows t = db_rows (w_db w)" using resolve_not_stored [OF assms(4,2)] by blast
  have ev: "request_event ge req = \<lparr>CorrelationID = ''unpack.response.'' @ big_String (req_NetworkID req) @ ''.'' @ req_Address req,
      ev_NetworkId = req_NetworkID req, ev_Address = HexToAddress (gr_codec ge) (req_Address req), Resolved = False\<rparr>"
    by (simp only: request_event_def unpack_response_subject_def)
  from request_fails [OF assms(1-3) safe_rows [OF safe res(2)]] res(1) show ?thesis
    unfolding mutation_unpack_def Let_def ev [symmetric] by (auto simp: request_event_def safe_def)
qed

theorem unpack_mutation_of_new_contract_fails_witness:
  "\<exists>e1 w1 e2 w2. mutation_unpack marked_json plain_graph (prompt_broker (plain_service\<lparr>sv_json := marked_json\<rparr>) Background)
       \<lparr>req_Address = ''5'', req_NetworkID = 1\<rparr> plain_world = Returns (Inl e1, w1)
     \<and> mutation_unpack marked_json plain_graph lossy_broker \<lparr>req_Address = ''5'', req_NetworkID = 1\<rparr> plain_world = Returns (Inl e2, w2)"
proof -
  let ?srv = "plain_service\<lparr>sv_json := marked_json\<rparr>" and ?req = "\<lparr>req_Address = ''5'', req_NetworkID = 1\<rparr>"
  have "json_documented (sv_json ?srv)" "\<forall>rs. set (gr_scan_order plain_graph rs) = set rs"
    "not_stored plain_graph ?req (w_db plain_world)" "answers_match (sv_json ?srv) plain_graph (w_published plain_world)"
    by (simp_all add: json_documented_marked plain_graph_def plain_world_def empty_db_def not_stored_def answers_match_def)
  note fails = unpack_mutation_of_new_contract_fails [OF this(1,2) _ this(3,4)]
  from fails [OF prompt_broker_documented [of ?srv plain_graph ?req Background]] fails [OF lossy_broker_documented]
  show ?thesis by (simp, blast)
qed

end
