(* ===== verification/Migrations.thy ===== *)
theory Migrations
  imports Models
begin

text \<open>
  The tables that the migrations create and drop (src/migrations/sqlite3), and the SQL statements of
  src/pkg/models/contracts.go as text: their column lists and the values they bind or scan, position by position.
  \<open>Models\<close> works on whole rows; here it is shown that a row is what the statements make of a contract, column by column.
  The library that runs the migrations decides their order; what is shown holds for every order.
\<close>

section \<open>Tables\<close>

datatype column_type = INTEGER | TEXT | BOOLEAN | TIMESTAMP

datatype default_value = FALSE | CURRENT_TIMESTAMP

record column =
  col_name :: string
  col_type :: column_type
  col_not_null :: bool
  col_default :: "default_value option"
  col_autoincrement :: bool

record table =
  tbl_name :: string
  tbl_columns :: "column list"
  tbl_unique :: "string list"

text \<open>The kinds of columns the migrations use.\<close>

definition id_column :: column where
  "id_column = \<lparr>col_name = ''id'', col_type = INTEGER, col_not_null = False, col_default = None, col_autoincrement = True\<rparr>"

definition required :: "string \<Rightarrow> column_type \<Rightarrow> column" where
  "required n t = \<lparr>col_name = n, col_type = t, col_not_null = True, col_default = None, col_autoincrement = False\<rparr>"

definition defaulted :: "string \<Rightarrow> column_type \<Rightarrow> default_value \<Rightarrow> column" where
  "defaulted n t d = \<lparr>col_name = n, col_type = t, col_not_null = True, col_default = Some d, col_autoincrement = False\<rparr>"

definition nullable :: "string \<Rightarrow> column_type \<Rightarrow> column" where
  "nullable n t = \<lparr>col_name = n, col_type = t, col_not_null = False, col_default = None, col_autoincrement = False\<rparr>"

definition contracts_table :: table where
  "contracts_table = \<lparr>tbl_name = ''contracts'', tbl_columns =
     [id_column, required ''network_id'' INTEGER, required ''block_number'' INTEGER, required ''block_hash'' TEXT,
      required ''transaction_hash'' TEXT, required ''address'' TEXT, required ''name'' TEXT, required ''standards'' TEXT,
      defaulted ''proxy'' BOOLEAN FALSE, required ''license'' TEXT, required ''compiler_version'' TEXT,
      required ''solgo_version'' TEXT, required ''optimized'' BOOLEAN, required ''optimization_runs'' INTEGER,
      required ''evm_version'' TEXT, required ''abi'' TEXT, defaulted ''verified'' BOOLEAN FALSE,
      nullable ''sources_provider'' TEXT, nullable ''verification_provider'' TEXT, nullable ''execution_bytecode'' TEXT,
      nullable ''bytecode'' TEXT, defaulted ''source_available'' BOOLEAN FALSE, required ''safety_state'' TEXT,
      defaulted ''self_destructed'' BOOLEAN FALSE, nullable ''proxy_implementations'' TEXT, nullable ''completed_states'' TEXT,
      nullable ''failed_states'' TEXT, defaulted ''processed'' BOOLEAN FALSE, defaulted ''partial'' BOOLEAN FALSE,
      defaulted ''created_at'' TIMESTAMP CURRENT_TIMESTAMP, defaulted ''updated_at'' TIMESTAMP CURRENT_TIMESTAMP],
     tbl_unique = [''network_id'', ''block_number'', ''address'']\<rparr>"

definition part_columns :: "column list" where
  "part_columns = [id_column, required ''network_id'' INTEGER, required ''contract_id'' INTEGER,
     defaulted ''created_at'' TIMESTAMP CURRENT_TIMESTAMP, defaulted ''updated_at'' TIMESTAMP CURRENT_TIMESTAMP]"

definition constructors_table :: table where
  "constructors_table = \<lparr>tbl_name = ''contracts_constructor'', tbl_columns = part_columns, tbl_unique = [''network_id'', ''contract_id'']\<rparr>"

definition events_table :: table where
  "events_table = \<lparr>tbl_name = ''events'', tbl_columns = part_columns, tbl_unique = [''network_id'', ''contract_id'']\<rparr>"

definition functions_table :: table where
  "functions_table = \<lparr>tbl_name = ''functions'', tbl_columns = part_columns, tbl_unique = [''network_id'', ''contract_id'']\<rparr>"

section \<open>Migrations\<close>

datatype ddl = CREATE_TABLE table | DROP_TABLE string

type_synonym db_schema = "string \<rightharpoonup> table"

fun exec_ddl :: "ddl \<Rightarrow> db_schema \<Rightarrow> error + db_schema" where
  "exec_ddl (CREATE_TABLE t) s =
     (if s (tbl_name t) \<noteq> None then Inl (Errorf (''table '' @ tbl_name t @ '' already exists'')) else Inr (s(tbl_name t \<mapsto> t)))"
| "exec_ddl (DROP_TABLE n) s = (if s n = None then Inl (Errorf (''no such table: '' @ n)) else Inr (s(n := None)))"

fun exec_all_ddl :: "ddl list \<Rightarrow> db_schema \<Rightarrow> error + db_schema" where
  "exec_all_ddl [] s = Inr s"
| "exec_all_ddl (d # ds) s = (case exec_ddl d s of Inl err \<Rightarrow> Inl err | Inr s' \<Rightarrow> exec_all_ddl ds s')"

text \<open>A file of the directory, with its Up and its Down part.\<close>

record migration =
  mg_file :: string
  mg_Up :: ddl
  mg_Down :: ddl

definition constructors_sql :: migration where
  "constructors_sql = \<lparr>mg_file = ''constructors.sql'', mg_Up = CREATE_TABLE constructors_table, mg_Down = DROP_TABLE ''contracts_constructor''\<rparr>"

definition contracts_sql :: migration where
  "contracts_sql = \<lparr>mg_file = ''contracts.sql'', mg_Up = CREATE_TABLE contracts_table, mg_Down = DROP_TABLE ''contracts''\<rparr>"

definition events_sql :: migration where
  "events_sql = \<lparr>mg_file = ''events.sql'', mg_Up = CREATE_TABLE events_table, mg_Down = DROP_TABLE ''events''\<rparr>"

definition functions_sql :: migration where
  "functions_sql = \<lparr>mg_file = ''functions.sql'', mg_Up = CREATE_TABLE functions_table, mg_Down = DROP_TABLE ''functions''\<rparr>"

definition migration_files :: "migration list" where
  "migration_files = [constructors_sql, contracts_sql, events_sql, functions_sql]"

section \<open>The statements\<close>

definition select_columns :: "string list" where
  "select_columns =
     [''id'', ''network_id'', ''block_number'', ''block_hash'', ''transaction_hash'', ''address'', ''name'',
      ''standards'', ''proxy'', ''license'', ''compiler_version'', ''solgo_version'', ''optimized'', ''optimization_runs'',
      ''evm_version'', ''abi'', ''verified'', ''sources_provider'', ''verification_provider'',
      ''execution_bytecode'', ''bytecode'', ''source_available'', ''safety_state'', ''self_destructed'',
      ''proxy_implementations'', ''completed_states'', ''failed_states'', ''processed'', ''partial'', ''created_at'', ''updated_at'']"

definition insert_columns :: "string list" where
  "insert_columns =
     [''network_id'', ''block_number'', ''block_hash'', ''transaction_hash'', ''address'', ''name'',
      ''standards'', ''proxy'', ''license'', ''compiler_version'', ''solgo_version'', ''optimized'', ''optimization_runs'',
      ''evm_version'', ''abi'', ''verified'', ''sources_provider'', ''verification_provider'',
      ''execution_bytecode'', ''bytecode'', ''source_available'', ''safety_state'', ''self_destructed'', ''proxy_implementations'',
      ''completed_states'', ''failed_states'', ''processed'', ''partial'', ''created_at'', ''updated_at'']"

text \<open>The number of question marks in the VALUES of the INSERT.\<close>

definition insert_placeholders :: nat where
  "insert_placeholders = 30"

text \<open>The placeholders of the UPDATE, the last one in its WHERE clause.\<close>

definition update_columns :: "string list" where
  "update_columns =
     [''network_id'', ''block_number'', ''block_hash'', ''transaction_hash'', ''address'', ''name'', ''standards'', ''proxy'',
      ''license'', ''compiler_version'', ''solgo_version'', ''optimized'', ''optimization_runs'', ''evm_version'', ''abi'',
      ''verified'', ''sources_provider'', ''verification_provider'', ''execution_bytecode'', ''bytecode'', ''source_available'',
      ''safety_state'', ''self_destructed'', ''proxy_implementations'', ''completed_states'', ''failed_states'', ''processed'',
      ''partial'', ''updated_at'']"

definition update_where :: string where
  "update_where = ''id''"

text \<open>The arguments of \<open>stmt.Exec\<close> in \<open>SaveContract\<close>, as the program passes them: some integers are unsigned.\<close>

definition insert_args :: "codec \<Rightarrow> Contract \<Rightarrow> string \<Rightarrow> sqlval list" where
  "insert_args cd c failedStates =
     [VUint64 (big_Uint64 (c_NetworkId c)), VUint64 (big_Uint64 (c_BlockNumber c)), VString (hash_Hex cd (c_BlockHash c)),
      VString (hash_Hex cd (c_TransactionHash c)), VString (addr_Hex cd (c_Address c)), VString (c_Name c),
      VString (json_or_empty (ToJSON_strings cd (c_Standards c))), VBool (c_Proxy c), VString (c_License c),
      VString (c_CompilerVersion c), VString (c_SolgoVersion c), VBool (c_Optimized c), VUint64 (c_OptimizationRuns c),
      VString (c_EVMVersion c), VString (c_ABI c), VBool (c_Verified c), VString (c_SourcesProvider c),
      VString (c_VerificationProvider c), VString (Bytes2Hex cd (c_ExecutionBytecode c)), VString (Bytes2Hex cd (c_Bytecode c)),
      VBool (c_SourceAvailable c), VString (c_SafetyState c), VBool (c_SelfDestructed c),
      VString (json_or_empty (ToJSON_addresses cd (c_ProxyImplementations c))),
      VString (json_or_empty (ToJSON_strings cd (c_CompletedStates c))), VString failedStates, VBool (c_Processed c),
      VBool (c_Partial c), VTime (c_CreatedAt c), VTime (c_UpdatedAt c)]"

text \<open>The arguments of \<open>stmt.Exec\<close> in \<open>UpdateContract\<close>.\<close>

definition update_args :: "codec \<Rightarrow> Contract \<Rightarrow> string \<Rightarrow> sqlval list" where
  "update_args cd c failedStates =
     [VUint64 (big_Uint64 (c_NetworkId c)), VUint64 (big_Uint64 (c_BlockNumber c)), VString (hash_Hex cd (c_BlockHash c)),
      VString (hash_Hex cd (c_TransactionHash c)), VString (addr_Hex cd (c_Address c)), VString (c_Name c),
      VString (json_or_empty (ToJSON_strings cd (c_Standards c))), VBool (c_Proxy c), VString (c_License c),
      VString (c_CompilerVersion c), VString (c_SolgoVersion c), VBool (c_Optimized c), VUint64 (c_OptimizationRuns c),
      VString (c_EVMVersion c), VString (c_ABI c), VBool (c_Verified c), VString (c_SourcesProvider c),
      VString (c_VerificationProvider c), VString (Bytes2Hex cd (c_ExecutionBytecode c)), VString (Bytes2Hex cd (c_Bytecode c)),
      VBool (c_SourceAvailable c), VString (c_SafetyState c), VBool (c_SelfDestructed c),
      VString (json_or_empty (ToJSON_addresses cd (c_ProxyImplementations c))),
      VString (json_or_empty (ToJSON_strings cd (c_CompletedStates c))), VString failedStates, VBool (c_Processed c),
      VBool (c_Partial c), VTime (c_UpdatedAt c), VInt64 (c_Id c)]"

text \<open>What \<open>database/sql\<close> makes of the arguments before the engine sees them: an unsigned integer is passed on as a signed
  one, and one with the high bit set is refused, with the whole statement.\<close>

fun bind_arg :: "sqlval \<Rightarrow> error + sqlval" where
  "bind_arg (VUint64 x) = (if x < 2 ^ 63 then Inr (VInt64 x) else Inl uint64_arg_error)"
| "bind_arg v = Inr v"

fun bind_args :: "sqlval list \<Rightarrow> error + sqlval list" where
  "bind_args [] = Inr []"
| "bind_args (v # vs) =
     (case bind_arg v of
        Inl err \<Rightarrow> Inl err
      | Inr x \<Rightarrow> (case bind_args vs of Inl err \<Rightarrow> Inl err | Inr xs \<Rightarrow> Inr (x # xs)))"

text \<open>The destinations of \<open>row.Scan\<close>, position by position: the number, text, flag and time that the driver puts there.\<close>

fun as_int :: "sqlval \<Rightarrow> int" where
  "as_int (VInt64 x) = x"
| "as_int _ = 0"

fun as_string :: "sqlval \<Rightarrow> string" where
  "as_string (VString s) = s"
| "as_string _ = []"

fun as_bool :: "sqlval \<Rightarrow> bool" where
  "as_bool (VBool b) = b"
| "as_bool _ = False"

fun as_time :: "sqlval \<Rightarrow> gotime" where
  "as_time (VTime t) = t"
| "as_time _ = 0"

definition scanned_row :: "sqlval list \<Rightarrow> row" where
  "scanned_row v =
     \<lparr>r_id = as_int (v ! 0), r_network_id = as_int (v ! 1), r_block_number = as_int (v ! 2), r_block_hash = as_string (v ! 3),
      r_transaction_hash = as_string (v ! 4), r_address = as_string (v ! 5), r_name = as_string (v ! 6),
      r_standards = as_string (v ! 7), r_proxy = as_bool (v ! 8), r_license = as_string (v ! 9),
      r_compiler_version = as_string (v ! 10), r_solgo_version = as_string (v ! 11), r_optimized = as_bool (v ! 12),
      r_optimization_runs = as_int (v ! 13), r_evm_version = as_string (v ! 14), r_abi = as_string (v ! 15),
      r_verified = as_bool (v ! 16), r_sources_provider = as_string (v ! 17), r_verification_provider = as_string (v ! 18),
      r_execution_bytecode = as_string (v ! 19), r_bytecode = as_string (v ! 20), r_source_available = as_bool (v ! 21),
      r_safety_state = as_string (v ! 22), r_self_destructed = as_bool (v ! 23), r_proxy_implementations = as_string (v ! 24),
      r_completed_states = as_string (v ! 25), r_failed_states = as_string (v ! 26), r_processed = as_bool (v ! 27),
      r_partial = as_bool (v ! 28), r_created_at = as_time (v ! 29), r_updated_at = as_time (v ! 30)\<rparr>"

section \<open>Statements and rows\<close>

text \<open>The value of a column in a row.\<close>

definition row_columns :: "row \<Rightarrow> (string \<times> sqlval) list" where
  "row_columns r =
     [(''id'', VInt64 (r_id r)), (''network_id'', VInt64 (r_network_id r)), (''block_number'', VInt64 (r_block_number r)),
      (''block_hash'', VString (r_block_hash r)), (''transaction_hash'', VString (r_transaction_hash r)),
      (''address'', VString (r_address r)), (''name'', VString (r_name r)), (''standards'', VString (r_standards r)),
      (''proxy'', VBool (r_proxy r)), (''license'', VString (r_license r)), (''compiler_version'', VString (r_compiler_version r)),
      (''solgo_version'', VString (r_solgo_version r)), (''optimized'', VBool (r_optimized r)),
      (''optimization_runs'', VInt64 (r_optimization_runs r)), (''evm_version'', VString (r_evm_version r)), (''abi'', VString (r_abi r)),
      (''verified'', VBool (r_verified r)), (''sources_provider'', VString (r_sources_provider r)),
      (''verification_provider'', VString (r_verification_provider r)), (''execution_bytecode'', VString (r_execution_bytecode r)),
      (''bytecode'', VString (r_bytecode r)), (''source_available'', VBool (r_source_available r)),
      (''safety_state'', VString (r_safety_state r)), (''self_destructed'', VBool (r_self_destructed r)),
      (''proxy_implementations'', VString (r_proxy_implementations r)), (''completed_states'', VString (r_completed_states r)),
      (''failed_states'', VString (r_failed_states r)), (''processed'', VBool (r_processed r)), (''partial'', VBool (r_partial r)),
      (''created_at'', VTime (r_created_at r)), (''updated_at'', VTime (r_updated_at r))]"

definition select_row :: "string list \<Rightarrow> row \<Rightarrow> sqlval list" where
  "select_row cols r = map (\<lambda>k. the (map_of (row_columns r) k)) cols"

text \<open>What a table accepts: known columns, each at most once, values of the column's type.\<close>

fun fits_type :: "column_type \<Rightarrow> sqlval \<Rightarrow> bool" where
  "fits_type INTEGER (VInt64 x) = True"
| "fits_type TEXT (VString s) = True"
| "fits_type BOOLEAN (VBool b) = True"
| "fits_type TIMESTAMP (VTime t) = True"
| "fits_type _ _ = False"

definition find_column :: "table \<Rightarrow> string \<Rightarrow> column option" where
  "find_column t n = List.find (\<lambda>c. col_name c = n) (tbl_columns t)"

definition accepts_set :: "table \<Rightarrow> string list \<Rightarrow> sqlval list \<Rightarrow> bool" where
  "accepts_set t cols vs \<longleftrightarrow> distinct cols \<and> list_all2 (\<lambda>k v. case find_column t k of None \<Rightarrow> False | Some c \<Rightarrow> fits_type (col_type c) v) cols vs"

definition accepts_insert :: "table \<Rightarrow> string list \<Rightarrow> sqlval list \<Rightarrow> bool" where
  "accepts_insert t cols vs \<longleftrightarrow> accepts_set t cols vs
     \<and> list_all (\<lambda>c. col_not_null c \<and> col_default c = None \<longrightarrow> col_name c \<in> set cols) (tbl_columns t)"

text \<open>The values that reach the engine when no argument is refused: those of the contract's row.\<close>

definition insert_values :: "row \<Rightarrow> sqlval list" where
  "insert_values r = map (\<lambda>k. the (map_of (row_columns r) k)) insert_columns"

definition update_values :: "row \<Rightarrow> int \<Rightarrow> sqlval list" where
  "update_values r i = map (\<lambda>k. the (map_of (row_columns r) k)) update_columns @ [VInt64 i]"

lemma insert_bound: "bind_args (insert_args cd c fs)
    = (if contract_args_ok c then Inr (insert_values (contract_row cd c fs)) else Inl uint64_arg_error)"
  by (simp add: insert_args_def insert_values_def insert_columns_def row_columns_def contract_row_def contract_args_ok_def uint64_args_ok_def)

lemma update_bound: "bind_args (update_args cd c fs)
    = (if contract_args_ok c then Inr (update_values (contract_row cd c fs) (c_Id c)) else Inl uint64_arg_error)"
  by (simp add: update_args_def update_values_def update_columns_def row_columns_def contract_row_def contract_args_ok_def uint64_args_ok_def)

lemma insert_accepted: "accepts_insert contracts_table insert_columns (insert_values r) \<and> length (insert_values r) = insert_placeholders"
  by (simp add: accepts_insert_def accepts_set_def find_column_def contracts_table_def id_column_def required_def defaulted_def
      nullable_def insert_columns_def insert_values_def row_columns_def insert_placeholders_def)

lemma update_accepted: "accepts_set contracts_table (update_columns @ [update_where]) (update_values r i)"
  by (simp add: accepts_set_def find_column_def contracts_table_def id_column_def required_def defaulted_def
      nullable_def update_columns_def update_values_def row_columns_def update_where_def)

lemma select_known: "select_columns = map col_name (tbl_columns contracts_table)"
  by (simp add: contracts_table_def id_column_def required_def defaulted_def nullable_def select_columns_def)

lemma insert_sets: "(''id'', VInt64 (r_id r)) # zip insert_columns (insert_values r) = row_columns r"
  by (simp add: insert_columns_def insert_values_def row_columns_def)

lemma update_sets:
  "zip (update_columns @ [update_where]) (update_values r i)
     = filter (\<lambda>p. fst p \<noteq> ''id'' \<and> fst p \<noteq> ''created_at'') (row_columns r) @ [(''id'', VInt64 i)]"
  by (simp add: update_columns_def update_values_def update_where_def row_columns_def)

lemma select_scans: "scanned_row (select_row select_columns r) = r"
  by (simp add: scanned_row_def select_row_def select_columns_def row_columns_def)

section \<open>Up and down\<close>

lemma exec_all_ddl_append:
  "exec_all_ddl (xs @ ys) s = (case exec_all_ddl xs s of Inl err \<Rightarrow> Inl err | Inr s' \<Rightarrow> exec_all_ddl ys s')"
  by (induction xs arbitrary: s) (auto split: sum.splits)

lemma create_all:
  assumes "distinct (map tbl_name ts)" and "\<forall>t \<in> set ts. s (tbl_name t) = None"
  shows "exec_all_ddl (map CREATE_TABLE ts) s = Inr (\<lambda>n. case map_of (map (\<lambda>t. (tbl_name t, t)) ts) n of None \<Rightarrow> s n | Some t \<Rightarrow> Some t)"
  using assms
proof (induction ts arbitrary: s)
  case (Cons t ts)
  then have "\<forall>u \<in> set ts. (s(tbl_name t \<mapsto> t)) (tbl_name u) = None" by (auto simp: image_iff)
  with Cons have "exec_all_ddl (map CREATE_TABLE ts) (s(tbl_name t \<mapsto> t))
      = Inr (\<lambda>n. case map_of (map (\<lambda>t. (tbl_name t, t)) ts) n of None \<Rightarrow> (s(tbl_name t \<mapsto> t)) n | Some t \<Rightarrow> Some t)" by simp
  moreover have "map_of (map (\<lambda>t. (tbl_name t, t)) ts) (tbl_name t) = None"
    using Cons.prems(1) by (auto simp: map_of_eq_None_iff)
  ultimately show ?case using Cons.prems(2) by (auto simp: fun_eq_iff split: option.splits)
qed (simp add: fun_eq_iff)

lemma drop_all:
  assumes "distinct ns" and "\<forall>n \<in> set ns. s n \<noteq> None"
  shows "exec_all_ddl (map DROP_TABLE ns) s = Inr (\<lambda>n. if n \<in> set ns then None else s n)"
  using assms
proof (induction ns arbitrary: s)
  case (Cons n ns)
  then have "\<forall>k \<in> set ns. (s(n := None)) k \<noteq> None" by auto
  with Cons have "exec_all_ddl (map DROP_TABLE ns) (s(n := None)) = Inr (\<lambda>k. if k \<in> set ns then None else (s(n := None)) k)" by simp
  with Cons.prems show ?case by (auto simp: fun_eq_iff)
qed simp

text \<open>The table of a migration: its Down part drops what its Up part creates.\<close>

definition migration_table :: "migration \<Rightarrow> table" where
  "migration_table m = (case mg_Up m of CREATE_TABLE t \<Rightarrow> t | _ \<Rightarrow> contracts_table)"

lemmas migration_defs = migration_files_def constructors_sql_def contracts_sql_def events_sql_def functions_sql_def migration_table_def
  constructors_table_def contracts_table_def events_table_def functions_table_def

lemma migration_parts:
  "m \<in> set migration_files \<Longrightarrow> mg_Up m = CREATE_TABLE (migration_table m) \<and> mg_Down m = DROP_TABLE (tbl_name (migration_table m))"
  by (auto simp: migration_defs)

lemma migration_names_inj: "inj_on (\<lambda>m. tbl_name (migration_table m)) (set migration_files)"
  by (simp add: inj_on_def migration_defs)

text \<open>All of them, in the order \<open>ms\<close>.\<close>

definition all_migrations :: "migration list \<Rightarrow> bool" where
  "all_migrations ms \<longleftrightarrow> distinct ms \<and> set ms = set migration_files"

lemma all_names_distinct: "all_migrations ms \<Longrightarrow> distinct (map (\<lambda>m. tbl_name (migration_table m)) ms)"
  using migration_names_inj by (simp add: all_migrations_def distinct_map)

lemma up_then_down:
  assumes up: "all_migrations ups" and down: "all_migrations downs"
    and free: "\<forall>m \<in> set migration_files. s (tbl_name (migration_table m)) = None"
  shows "\<exists>s'. exec_all_ddl (map mg_Up ups) s = Inr s' \<and> (\<forall>m \<in> set migration_files. s' (tbl_name (migration_table m)) = Some (migration_table m))
    \<and> exec_all_ddl (map mg_Down downs) s' = Inr s"
proof -
  let ?ts = "map migration_table ups" and ?ns = "map (\<lambda>m. tbl_name (migration_table m)) downs"
  let ?names = "map_of (map (\<lambda>t. (tbl_name t, t)) ?ts)"
  let ?s' = "\<lambda>n. case ?names n of None \<Rightarrow> s n | Some t \<Rightarrow> Some t"
  have ups: "map mg_Up ups = map CREATE_TABLE ?ts" and downs: "map mg_Down downs = map DROP_TABLE ?ns"
    using up down migration_parts by (auto simp: all_migrations_def)
  have dist: "distinct (map tbl_name ?ts)" using all_names_distinct [OF up] by (simp add: comp_def)
  have "exec_all_ddl (map mg_Up ups) s = Inr ?s'"
    unfolding ups using dist free up by (intro create_all) (auto simp: all_migrations_def)
  moreover have tables: "?s' (tbl_name (migration_table m)) = Some (migration_table m)" if "m \<in> set migration_files" for m
  proof -
    have "(tbl_name (migration_table m), migration_table m) \<in> set (map (\<lambda>t. (tbl_name t, t)) ?ts)"
      using that up by (auto simp: all_migrations_def)
    then have "?names (tbl_name (migration_table m)) = Some (migration_table m)"
      using dist by (intro map_of_is_SomeI) (simp_all add: comp_def)
    then show ?thesis by simp
  qed
  moreover have "exec_all_ddl (map mg_Down downs) ?s' = Inr s"
  proof -
    have "\<forall>n \<in> set ?ns. ?s' n \<noteq> None" using tables down by (auto simp: all_migrations_def)
    then have "exec_all_ddl (map mg_Down downs) ?s' = Inr (\<lambda>n. if n \<in> set ?ns then None else ?s' n)"
      unfolding downs using all_names_distinct [OF down] by (intro drop_all) auto
    moreover have "(if n \<in> set ?ns then None else ?s' n) = s n" for n
    proof (cases "n \<in> set ?ns")
      case False
      then have "n \<notin> fst ` set (map (\<lambda>t. (tbl_name t, t)) ?ts)" using up down by (auto simp: all_migrations_def)
      then have "?names n = None" unfolding map_of_eq_None_iff .
      with False show ?thesis by simp
    qed (use free down in \<open>auto simp: all_migrations_def\<close>)
    ultimately show ?thesis by (simp add: fun_eq_iff)
  qed
  ultimately show ?thesis by blast
qed

section \<open>Properties\<close>

text \<open>C23. The statements of the program fit the table that the migration creates, and bind and read every column at its own
  position. An INSERT whose unsigned arguments fit is accepted and sets every column to the value of the contract's row; an UPDATE
  sets every column but the creation time, in the row with the contract's id; with an argument that does not fit both
  are refused as a whole, which is what \<open>SaveContract\<close> and \<open>UpdateContract\<close> of \<open>Models\<close> do. A SELECT scans a row to itself.\<close>

theorem statements_fit_table:
  "(case bind_args (insert_args cd c fs) of
      Inl err \<Rightarrow> \<not> contract_args_ok c \<and> err = uint64_arg_error
    | Inr vs \<Rightarrow> contract_args_ok c \<and> accepts_insert contracts_table insert_columns vs \<and> length vs = insert_placeholders
        \<and> (''id'', VInt64 0) # zip insert_columns vs = row_columns (contract_row cd c fs))
   \<and> (case bind_args (update_args cd c fs) of
      Inl err \<Rightarrow> \<not> contract_args_ok c \<and> err = uint64_arg_error
    | Inr vs \<Rightarrow> contract_args_ok c \<and> accepts_set contracts_table (update_columns @ [update_where]) vs
        \<and> zip (update_columns @ [update_where]) vs
            = filter (\<lambda>p. fst p \<noteq> ''id'' \<and> fst p \<noteq> ''created_at'') (row_columns (contract_row cd c fs)) @ [(''id'', VInt64 (c_Id c))])
   \<and> select_columns = map col_name (tbl_columns contracts_table) \<and> scanned_row (select_row select_columns r) = r"
proof -
  have "r_id (contract_row cd c fs) = 0" by (simp add: contract_row_def)
  then show ?thesis
    using insert_sets [of "contract_row cd c fs"] insert_accepted [of "contract_row cd c fs"]
    by (simp add: insert_bound update_bound update_accepted update_sets select_known select_scans [unfolded select_known])
qed

text \<open>C24. Migrating up and down again gives the schema there was before, in whatever orders the library runs the files, when
  none of the tables existed; in between every table is there as its file defines it.\<close>

theorem migrations_round_trip:
  assumes "all_migrations ups" and "all_migrations downs"
    and "\<forall>m \<in> set migration_files. s (tbl_name (migration_table m)) = None"
  shows "\<exists>s'. exec_all_ddl (map mg_Up ups) s = Inr s' \<and> (\<forall>m \<in> set migration_files. s' (tbl_name (migration_table m)) = Some (migration_table m))
    \<and> exec_all_ddl (map mg_Down downs) s' = Inr s"
  by (rule up_then_down [OF assms])

theorem migrations_round_trip_witness:
  "\<exists>s'. exec_all_ddl (map mg_Up migration_files) Map.empty = Inr s' \<and> s' ''contracts'' = Some contracts_table
    \<and> exec_all_ddl (map mg_Down (rev migration_files)) s' = Inr Map.empty"
proof -
  have all: "all_migrations migration_files" "all_migrations (rev migration_files)"
    by (simp_all add: all_migrations_def) (simp_all add: migration_defs)
  have "contracts_sql \<in> set migration_files" "tbl_name (migration_table contracts_sql) = ''contracts''" "migration_table contracts_sql = contracts_table"
    by (simp_all add: migration_defs)
  with migrations_round_trip [OF all, of Map.empty] show ?thesis by fastforce
qed

end
