(* ===== verification/Spec2Isabelle.thy ===== *)
theory Spec2Isabelle
  imports Operations Concurrency Commands Progress Resumption Schedules Failures Races Requests Migrations
begin

text \<open>
  A verification development for the contract inspector (Go, under src/).

  \<^bold>\<open>The program.\<close> The inspector watches an Ethereum chain, finds contract creations, unpacks every new
  contract (metadata, source code, parsing, constructor) and keeps the result in a SQLite table and in a
  directory of source files. The syncer service (src/services/syncer) subscribes to archive blocks, to new
  heads and to unpacking requests on a message broker; its interceptors turn creations and requests into
  runs of the unpacker (src/pkg/unpacker), which is a set of handlers on a small state machine
  (src/pkg/machine). The progress of the synchronisation is kept in Redis (src/pkg/state, src/pkg/cache).
  The query service (src/services/query, src/pkg/graph) answers GraphQL queries from the table and forwards
  unpacking requests to the syncer over the broker; the execution of a query is generated code
  (src/pkg/graph/generated.go) between the GraphQL library and the resolvers. One binary (src/main.go, src/cmd,
  src/pkg/app) starts the services.

  \<^bold>\<open>The theories\<close>, in the order of their dependencies.

  \<^item> \<open>Prelude\<close>: error values, the three outcomes of a call (\<open>Returns\<close>, \<open>Panics\<close>, \<open>Blocks\<close>),
    contexts as schedules of poll results, 64-bit conversions, the string functions of the standard library.
  \<^item> \<open>Machine\<close> (src/pkg/machine): the \<open>StateMachine\<close> with its mutex, \<open>Trigger\<close>, the loop of
    \<open>Process\<close> as a \<open>partial_function\<close> over \<open>process_iter\<close>, and the relation \<open>sm_step\<close> of
    what the exported methods, called by other goroutines in any order, do in between. The locale \<open>handler_table\<close> says what a table of handlers
    guarantees about a whole run; the unpacker interprets it.
  \<^item> \<open>Go_Std\<close>: big integers (decimal, bytes, gob), URL-safe base64, file paths.
  \<^item> \<open>Models\<close> (src/pkg/models, src/migrations): column types, the contract model, the contracts table
    with its constraints and a schedule of engine failures, the four SQL operations. \<open>Migrations\<close> (src/migrations/sqlite3):
    the tables as the migrations define them, Up and Down, and the SQL statements column by column.
  \<^item> \<open>Store\<close>: the abstract store the table implements, a map from network, block and address to contracts;
    locale \<open>data_refinement\<close> between an implementation and a specification given as a step relation.
  \<^item> \<open>Options\<close> (src/pkg/options): configuration records and lookups; locale \<open>first_match\<close>.
  \<^item> \<open>Descriptor\<close> (src/pkg/unpacker: states.go, unpacker.go, descriptor.go, storage.go): states,
    functional options, the descriptor carried through the machine; locales \<open>state_set\<close> and
    \<open>removable_set\<close> for its two lists of states.
  \<^item> \<open>Handlers\<close> (src/pkg/unpacker: discover.go, metadata.go, providers.go, sources.go, parser.go,
    constructor.go, final.go, error.go): one definition per handler method, with the stages of the longer
    ones as definitions of their own; locale \<open>stage_relation\<close> for what every stage keeps.
  \<^item> \<open>Unpack\<close> (machine.go, unpack.go): the handler table and \<open>Unpack\<close>; locale \<open>run_relation\<close> for what a run and each
    of its iterations keep when every handler keeps it. \<open>Persistence\<close>: what a run leaves in place of the rows of others.
  \<^item> \<open>Sync_State\<close> (src/pkg/cache, src/pkg/state, src/pkg/db): Redis and Badger wrappers, the progress
    state; locale \<open>state_field\<close> for its five numbers. \<open>Progress\<close>: the abstract progress store that the state manager
    implements, another use of \<open>data_refinement\<close>.
  \<^item> \<open>Subscribers\<close> (src/pkg/subscribers, src/pkg/events, src/pkg/entries): the three subscribers, the
    manager with its lock sections as separate steps; locale \<open>registry\<close>.
  \<^item> \<open>Syncer\<close> (src/services/syncer, src/pkg/helpers): interceptors, the goroutine of one creation,
    unpacking from the command line and over RPC, injection of the subscribers; \<open>sync_step\<close> runs any
    pending goroutine, so its traces are all orders of completion. \<open>Interleaving\<close>: the same goroutines step by step, \<open>inter_step\<close> lets any of
    them take the next step, the goroutines of creations and those of the gRPC server alike. \<open>Schedules\<close>: what every schedule
    keeps. \<open>Races\<close>: two goroutines that unpack the same contract. \<open>Failures\<close>: a creation that could not be unpacked. \<open>Resumption\<close>: a restart while goroutines are pending.
  \<^item> \<open>Services\<close> (src/services: service.go and entrypoint.go of both services): construction from the
    libraries, the group of goroutines of \<open>Start\<close>, \<open>Run\<close>.
  \<^item> \<open>Graph\<close> (src/pkg/graph): preloads, the networks and contracts queries, the unpack mutation, the
    persisted-query cache. \<open>Requests\<close>: the mutation in front of the syncer, for every documented broker between them.
  \<^item> \<open>Executor\<close> (generated.go): the monad of a field's execution (errors recorded at a path, panics recovered),
    arguments, marshallers, and per schema type the field contexts, the field functions and the object
    function. \<open>Introspection\<close>: the same for the introspection types, their field contexts in
    \<open>Introspection_Contexts\<close>. \<open>Execution\<close>: the schema as tables, the root
    fields and root objects, \<open>Exec\<close>, \<open>Complexity\<close>, and the resolvers of src/pkg/graph/schema.resolvers.go.
  \<^item> \<open>Conformance\<close>: selections that are valid for the schema, responses that conform to it, and that the executor
    produces only such responses. \<open>Concurrency\<close>: the goroutines that marshal the elements of a list, in any order.
    \<open>Rendering\<close>: the reference rendering of a selection, and that the executor agrees with it. \<open>Operations\<close>: what holds of whole operations and of introspection, and that the contexts of the
    introspection types agree with the object functions.
  \<^item> \<open>Commands\<close> (src/main.go, src/cmd, src/pkg/app, src/pkg/logger, src/pkg/pprof, src/pkg/rpc, src/client,
    src/schemas, src/services/query/graphql.go, the gRPC listener of src/services/syncer/rpc.go): process start,
    commands, loggers, listeners, and the assembly of the schema.
  \<^item> this theory: a contract from its creation on the chain to the response of a query.

  \<^bold>\<open>How the code is rendered.\<close> A struct is a record, a pointer an option, an error a value of \<open>error\<close>;
  a handler method returns \<open>Returns\<close> with its results, or \<open>Panics\<close> or \<open>Blocks\<close> with the state it
  leaves behind, so that nil dereferences, also those in the arguments of log calls, and deadlocks are
  visible. Mutated objects are passed as state. The libraries solgo, go-ethereum, NATS, Redis, Badger, goqu
  and gqlgen's runtime are parameters: records of the functions the code calls. What a property needs of them is a
  named hypothesis (\<open>codec_documented\<close>, \<open>redis_documented\<close>, \<open>limit_documented\<close>,
  \<open>json_documented\<close>, \<open>broker_documented\<close>, \<open>gqlgen_documented\<close>), and every such property has a witness on concrete functions. Log
  entries appear where a property is about them, in theory \<open>Commands\<close>.

  \<^bold>\<open>What is shown.\<close> The unpacker terminates, is the pipeline of its handlers, keeps the table's constraints
  however it ends, stores what it completed and does nothing the second time. The table's operations keep
  unique ids and keys and round-trip contracts and cursors. The syncer launches one goroutine per creation.
  The goroutines may take turns at every iteration of their machines, with blocks and requests in between: no schedule breaks
  the table, loses a stored contract or moves it, a goroutine that completes has its contract stored for good, and every schedule
  comes to an end. Two lemmas tie the granularities together: without interruptions the steps are the sequential goroutine, so
  that every order of completion is one of the schedules. The statements of the program fit the
  table that the migrations create, which can be migrated up and down. The archive loop inspects its range once and in order, the
  manager behaves as a registry, the state round-trips through Redis. Pages follow the cursor and together
  give every matching contract exactly once. The table implements the abstract store for every sequence of
  operations and every failure of the engine, and the state manager the abstract progress store, across restarts, and a call of it fails only when the server
  failed. The executor answers data of the schema's types or null with an
  error, whatever the resolvers do, agrees with the reference rendering, and carries a page of contracts from the
  table to the response unchanged; the order in which the elements of a list are marshalled does not matter;
  introspection ends, and its two generated tables agree. A contract whose unpacking completes in the syncer is served
  by the query service. The process starts with every command. The remaining
  properties establish behaviour that a maintainer should know: swallowed errors, the deadlock of \<open>Trigger\<close>, lost races, progress that moves backwards,
  creations that a restart forgets, creations that fail and count as inspected,
  requests that are acknowledged and not served, an address filter that matches nothing, a field that makes a
  response null, an inverted test on the error of a listener.

  \<^bold>\<open>Bounds.\<close> \<open>Process\<close>, the archive loop and the garbage collection are partial functions into \<open>option\<close>,
  where \<open>None\<close> is a run that never ends, and termination is proved where it holds: for \<open>Unpack\<close> with a rank on
  states and the pending next state, for the archive loop for every end below \<open>2 ^ 63 - 1\<close>. A schedule of the
  goroutines of the syncer is at most eight steps per goroutine, seven iterations and the recording of the block. \<open>fetch_all\<close>, the
  client of the pagination property, takes a number of queries; one more than the matching rows is shown to be
  enough. The execution of introspection follows types that refer to each other, so \<open>ec___Type\<close> takes fuel; more
  fuel than the depth of the selection is shown to be enough. \<open>child___Type\<close> builds the contexts of types, which
  contain each other, down to a depth, and the property about it holds at every depth.

  \<^bold>\<open>Not modelled.\<close> The empty packages src/pkg/metrics and src/pkg/p2p. The tables that gqlgen embeds as data: the text
  of the schema in generated.go, of which the field tables of \<open>Execution\<close> are the part the executor depends on. A
  goroutine that marshals an element runs to its end before another one does; the order of the goroutines is arbitrary.
  The durations of timeouts are outside the model: a context is done when its schedule says so.
  An iteration of an unpacking machine is one step of its goroutine, and so is each of the calls before the first and after the
  last iteration: the statements that one handler sends to the database are not interleaved with those of another handler.
  In \<open>inter_step\<close> every address of a gRPC request is a goroutine of its own that may arrive at any time; the server takes the
  addresses of one request one after the other, so that its runs are among those of the model.
  The library sql-migrate keeps a table of the migrations it has run; only the effect of the files on the schema is modelled.
\<close>

section \<open>An unpacked creation\<close>

text \<open>The goroutine of a contract creation in block 17, and a query for the contracts of that block.\<close>

definition new_block :: "(string \<times> raw_arg) list" where
  "new_block = [(''limit'', Raw_int 10), (''networkIds'', Raw_list [Raw_int 1]), (''blockNumbers'', Raw_list [Raw_int 17])]"

definition block_query :: "CollectedField list" where
  "block_query = node_query [CollectedField ''address'' ''address'' [] [], CollectedField ''states'' ''completedStates'' [] []]"

definition new_block_args :: contracts_args where
  "new_block_args = first_page_args\<lparr>ca_networkIds := Some [1], ca_blockNumbers := Some [17], ca_limit := Some 10\<rparr>"

lemma new_block_facts:
  "field_Query_contracts_args plain_gqlgen [PName ''new''] new_block = Inr new_block_args"
  "valid_sel ''Query'' [CollectedField ''new'' ''contracts'' new_block block_query]"
  "servable plain_graph block_query (dt_db example_result)" "times_set block_query (dt_db example_result)"
  "length (db_rows (dt_db example_result)) = 1"
proof -
  show "field_Query_contracts_args plain_gqlgen [PName ''new''] new_block = Inr new_block_args" by code_simp
  show "valid_sel ''Query'' [CollectedField ''new'' ''contracts'' new_block block_query]"
    by (simp add: block_query_def node_query_def schema_simps)
  show "servable plain_graph block_query (dt_db example_result)" by code_simp
  show "times_set block_query (dt_db example_result)" by code_simp
  show "length (db_rows (dt_db example_result)) = 1" by code_simp
qed

section \<open>Properties\<close>

text \<open>C2. From the chain to the response: when the goroutine of a contract creation has run the unpacker to its final state,
  the goroutine returns, and the contracts query for the network and the block of the creation answers, without an error,
  with a page that contains the contract: its address and block, marked as completed, with the failed states of the run and
  all completed states but the final one. The rows of the table must be servable for the selection, the limit must
  admit them all, and the table of the syncer and the resolvers use the same encodings.\<close>

theorem creation_becomes_queryable:
  assumes "GetClientByGroup (sv_chain srv) (ce_network_String (sv_chain srv) (en_Network en)) = Some client"
    and "en_Header en = Some h" and "en_Tx en = Some tx" and "TransactionReceipt client (tx_Hash tx) = Inr rc"
    and "codec_documented (e_codec (sv_env srv))" and "db_wf (w_db w)" and "readable (e_codec (sv_env srv)) (w_db w)"
    and "db_faults (w_db w) = Background" and "\<forall>i < 7. ctx i = None"
    and "ToBig (e_solgo (sv_env srv)) (en_NetworkID en) = n" and "0 \<le> n" and "n < 2 ^ 63"
    and num: "0 \<le> hd_Number h" "hd_Number h < 2 ^ 63"
    and "UnpackFromEntry srv ctx (en\<lparr>en_Receipt := Some rc, en_ContractAddr := ContractAddress rc\<rparr>) DiscoverState w
      = Returns ((Some d, None), e2, w2)" and "HasCompletedState d FinalState"
    and ge: "gqlgen_documented rt" "limit_documented ge" "gr_codec ge = e_codec (sv_env srv)" "servable ge sel (w_db w2)"
    and sel: "times_set sel (w_db w2)" "valid_sel ''Query'' [CollectedField al ''contracts'' args sel]"
    and args: "field_Query_contracts_args rt [PName al] args = Inr a" "ca_limit a = Some l" "0 < l" "l < 2 ^ 63" "ca_after a = None"
      "int (length (db_rows (w_db w2))) \<le> l"
    and filters: "n \<in> set (slice_of (ca_networkIds a))" "hd_Number h \<in> set (slice_of (ca_blockNumbers a))"
      "slice_of (ca_blockHashes a) = []" "slice_of (ca_transactionHashes a) = []" "slice_of (ca_addresses a) = []"
  shows "\<exists>w' es x. contract_task srv ctx dir en w = Returns w'
     \<and> ec_Query rt ix (Resolver js ge nt) [] [CollectedField al ''contracts'' args sel] (e, w')
       = Returns (GObject [(al, render_ContractConnection sel \<lparr>Edges = es, page_Info = page_info l es\<rparr>)], e, w')
     \<and> x \<in> set es \<and> gc_Address (edge_Node x) = addr_Hex (gr_codec ge) (ContractAddress rc)
     \<and> gc_BlockNumber (edge_Node x) = hd_Number h \<and> gc_Completed (edge_Node x) \<and> gc_FailedStates (edge_Node x) = failedStates d
     \<and> gc_CompletedStates (edge_Node x) @ [FinalState] = completedStates d"
proof -
  obtain w' r c where t: "contract_task srv ctx dir en w = Returns w'" and w': "w_db w' = w_db w2" and
    db: "db_wf (w_db w')" "db_faults (w_db w') = Background" and
    r: "r \<in> set (db_rows (w_db w'))" "scan_row (gr_codec ge) r = Inr c" "r_network_id r = n" "r_block_number r = hd_Number h" and
    c: "c_BlockNumber c = hd_Number h" "c_Address c = ContractAddress rc" "c_Processed c" "c_FailedStates c = failedStates d"
      "c_CompletedStates c @ [FinalState] = completedStates d"
    using creation_stored [OF assms(1-16)] ge(3) by metis
  from stored_row_queryable [OF ge(1,2) db(2) _ _ sel(2) args(1-5) _ db(1) r(1,2) _ _ filters(3-5), of ix js nt e]
    ge(4) sel(1) args(6) filters(1,2) r(3,4) w' obtain es x n where
    q: "ec_Query rt ix (Resolver js ge nt) [] [CollectedField al ''contracts'' args sel] (e, w')
       = Returns (GObject [(al, render_ContractConnection sel \<lparr>Edges = es, page_Info = page_info l es\<rparr>)], e, w')"
    and x: "x \<in> set es" "edge_Node x = to_gql_Contract ge n c" by auto
  have "go_int64 (big_Uint64 (hd_Number h)) = hd_Number h" using num by (simp add: big_Uint64_id go_int64_id)
  with t q x c show ?thesis
    by (intro exI [of _ w'] exI [of _ es] exI [of _ x]) (simp add: to_gql_Contract_def Let_def States_StringArray_def)
qed

theorem creation_becomes_queryable_witness:
  "\<exists>w' es x. contract_task plain_service Background ''archive'' (creation_entry 17) plain_world = Returns w'
     \<and> ec_Query plain_gqlgen no_introspection (Resolver no_json plain_graph no_broker) []
         [CollectedField ''new'' ''contracts'' new_block block_query] ([], w')
       = Returns (GObject [(''new'', render_ContractConnection block_query \<lparr>Edges = es, page_Info = page_info 10 es\<rparr>)], [], w')
     \<and> x \<in> set es \<and> gc_Address (edge_Node x) = addr_Hex plain_codec 5"
proof -
  let ?h = "\<lparr>hd_Number = 17, hd_Hash = 3\<rparr>" and ?tx = "\<lparr>tx_Hash = 4, tx_To = None\<rparr>" and ?rc = "\<lparr>ContractAddress = 5\<rparr>"
  let ?e = "(creation_entry 17)\<lparr>en_Receipt := Some ?rc, en_ContractAddr := ContractAddress ?rc\<rparr>"
  have cl: "GetClientByGroup (sv_chain plain_service) (ce_network_String (sv_chain plain_service) (en_Network (creation_entry 17))) = Some plain_client"
    "en_Header (creation_entry 17) = Some ?h" "en_Tx (creation_entry 17) = Some ?tx" "TransactionReceipt plain_client (tx_Hash ?tx) = Inr ?rc"
    by (simp_all add: plain_service_def plain_chain_def creation_entry_def plain_client_def)
  have env: "sv_env plain_service = example_env" "en_NetworkID (creation_entry 17) = 1" by (simp_all add: plain_service_def creation_entry_def)
  have run: "UnpackFromEntry plain_service Background ?e DiscoverState plain_world
      = Returns ((Some (dt_descriptor example_result), None), ?e, from_data plain_world example_result)"
    using example_creation [of plain_world] by (simp add: plain_world_def)
  have w2: "w_db (from_data plain_world example_result) = dt_db example_result" by (simp add: from_data_def)
  have fin: "HasCompletedState (dt_descriptor example_result) FinalState" by (simp add: HasCompletedState_iff example_facts)
  have pw: "db_wf (w_db plain_world)" "readable cd (w_db plain_world)" "db_faults (w_db plain_world) = Background" for cd
    by (simp_all add: plain_world_def readable_def) (simp_all add: empty_db_def)
  have bg: "\<forall>i < 7. Background i = None" by (simp add: Background_def)
  have gc: "gr_codec plain_graph = plain_codec" by (simp add: plain_graph_def)
  note creation_becomes_queryable [OF cl _ pw(1,2,3) bg _ _ _ _ _ run fin plain_gqlgen_documented limit_documented_plain _ _ _
      new_block_facts(2,1), of 1 10 "''archive''" no_introspection no_json no_broker "[]"]
  then show ?thesis
    by (simp add: env w2 gc new_block_facts(3-5) new_block_args_def first_page_args_def slice_of_def) blast
qed

end
